(* ===== verification/Prelude.thy ===== *)
theory Prelude
  imports Main "HOL-Library.Word"
begin

text \<open>
  Vocabulary shared by every component: the result of polling a Rust future, panics as
  values, I/O errors, the dictionary of a \<open>tower::Service\<close> and of an asynchronous byte
  stream, and the executor loop that polls a future until it is ready.

  Every effect is written as explicit state passing: an operation takes the state of the
  object it is called on and a world \<open>'w\<close> (everything outside the object: sockets, clock,
  other tasks) and returns its result with both updated.
\<close>

section \<open>Collections of facts\<close>

named_theorems forward_simps \<open>equations that push a poll or a call through a wrapper\<close>
named_theorems api_simps \<open>equations of the concrete instances used as examples\<close>

text \<open>The first element of a list for which something holds.\<close>

lemma first_such_Cons:
  "(\<exists>pre x post. h # hs = pre @ x # post \<and> P x \<and> (\<forall>y\<in>set pre. Q y)) \<longleftrightarrow>
     P h \<or> Q h \<and> (\<exists>pre x post. hs = pre @ x # post \<and> P x \<and> (\<forall>y\<in>set pre. Q y))"
proof
  assume "\<exists>pre x post. h # hs = pre @ x # post \<and> P x \<and> (\<forall>y\<in>set pre. Q y)"
  then show "P h \<or> Q h \<and> (\<exists>pre x post. hs = pre @ x # post \<and> P x \<and> (\<forall>y\<in>set pre. Q y))"
  proof (elim exE conjE)
    fix pre x post
    assume e: "h # hs = pre @ x # post" "P x" "\<forall>y\<in>set pre. Q y"
    show ?thesis
    proof (cases pre)
      case Nil
      with e show ?thesis by simp
    next
      case (Cons a pre')
      with e have "hs = pre' @ x # post" "Q h" "\<forall>y\<in>set pre'. Q y" by auto
      with e(2) show ?thesis by blast
    qed
  qed
next
  assume "P h \<or> Q h \<and> (\<exists>pre x post. hs = pre @ x # post \<and> P x \<and> (\<forall>y\<in>set pre. Q y))"
  then show "\<exists>pre x post. h # hs = pre @ x # post \<and> P x \<and> (\<forall>y\<in>set pre. Q y)"
  proof (elim disjE conjE exE)
    assume "P h"
    then show ?thesis by (intro exI [of _ "[]"] exI [of _ h] exI [of _ hs]) simp
  next
    fix pre x post
    assume "Q h" "hs = pre @ x # post" "P x" "\<forall>y\<in>set pre. Q y"
    then show ?thesis by (intro exI [of _ "h # pre"] exI [of _ x] exI [of _ post]) simp
  qed
qed

section \<open>Poll results, panics, I/O errors\<close>

type_synonym byte = "8 word"
type_synonym duration = nat
type_synonym instant = nat

text \<open>A string of the source as bytes: no two characters are the same byte.\<close>

lemma of_char_byte_inj: "inj (of_char :: char \<Rightarrow> byte)"
proof (rule injI)
  fix c d :: char
  assume "(of_char c :: byte) = of_char d"
  then have "(of_nat (of_char c) :: byte) = of_nat (of_char d)" by (simp only: of_nat_of_char)
  then have "(of_char c :: nat) mod 256 = of_char d mod 256"
    by (simp add: word_of_nat_eq_iff take_bit_eq_mod)
  then show "c = d" by (simp only: of_char_mod_256 of_char_eq_iff)
qed

text \<open>
  \<open>std::task::Poll\<close>, with a third value for a poll that panics (an \<open>unwrap\<close>,
  \<open>expect\<close>, \<open>panic!\<close> or \<open>unreachable!\<close> of the source).
\<close>

datatype 'o polled = Pending | Ready 'o | Panicked

text \<open>The result of a function that is not a poll but may panic.\<close>

datatype 'a outcome = Ret 'a | Panic

datatype io_error_kind =
  Interrupted | InvalidData | AddrNotAvailable | OtherKind | OsKind nat

datatype io_error = IoError io_error_kind string

text \<open>A boxed \<open>dyn Error\<close>, of which only the message can be observed.\<close>

datatype box_error = BoxError string

abbreviation map_err :: "('e \<Rightarrow> 'e2) \<Rightarrow> 'e + 'a \<Rightarrow> 'e2 + 'a" where
  "map_err f \<equiv> map_sum f id"

abbreviation map_ok :: "('a \<Rightarrow> 'b) \<Rightarrow> 'e + 'a \<Rightarrow> 'e + 'b" where
  "map_ok f \<equiv> map_sum id f"

lemma map_polled_simps [simp]:
  "map_polled f r = Pending \<longleftrightarrow> r = Pending"
  "Pending = map_polled f r \<longleftrightarrow> r = Pending"
  "map_polled f r = Panicked \<longleftrightarrow> r = Panicked"
  "Panicked = map_polled f r \<longleftrightarrow> r = Panicked"
  "map_polled f r = Ready y \<longleftrightarrow> (\<exists>x. r = Ready x \<and> y = f x)"
  by (cases r; auto)+

lemma map_outcome_simps [simp]:
  "map_outcome f r = Panic \<longleftrightarrow> r = Panic"
  "map_outcome f r = Ret y \<longleftrightarrow> (\<exists>x. r = Ret x \<and> y = f x)"
  by (cases r; auto)+

lemma map_polled_ident [simp]: "map_polled (\<lambda>x. x) r = r" "map_polled id r = r"
  by (cases r; simp)+

section \<open>Polling a future\<close>

type_synonym ('f, 'o, 'w) pollf = "'f \<Rightarrow> 'w \<Rightarrow> 'o polled \<times> 'f \<times> 'w"

text \<open>
  The executor: poll at most \<open>n\<close> times, stop at the first poll that is not pending.
\<close>

fun run_polls :: "('f, 'o, 'w) pollf \<Rightarrow> nat \<Rightarrow> 'f \<Rightarrow> 'w \<Rightarrow> 'o polled \<times> 'f \<times> 'w" where
  "run_polls p 0 f w = (Pending, f, w)"
| "run_polls p (Suc n) f w =
     (case p f w of
        (Pending, f', w') \<Rightarrow> run_polls p n f' w'
      | (r, f', w') \<Rightarrow> (r, f', w'))"

lemma run_polls_first:
  "p f w = (r, f', w') \<Longrightarrow> r \<noteq> Pending \<Longrightarrow> run_polls p (Suc n) f w = (r, f', w')"
  by (cases r) auto

section \<open>Services and byte streams as dictionaries of operations\<close>

text \<open>
  The operations of a \<open>tower::Service\<close> on a state \<open>'s\<close>: \<open>poll_ready\<close>, \<open>call\<close> (which
  may panic) and the \<open>poll\<close> of the future that \<open>call\<close> returns.
\<close>

record ('s, 'r, 'f, 'e, 'a, 'w) service =
  poll_ready :: "'s \<Rightarrow> 'w \<Rightarrow> ('e + unit) polled \<times> 's \<times> 'w"
  call :: "'s \<Rightarrow> 'r \<Rightarrow> 'w \<Rightarrow> 'f outcome \<times> 's \<times> 'w"
  poll_fut :: "('f, 'e + 'a, 'w) pollf"

text \<open>
  The operations of an asynchronous byte stream. A read is given the room left in the
  caller's buffer and returns the bytes it put there.
\<close>

record ('i, 'w) io_ops =
  io_read :: "'i \<Rightarrow> nat \<Rightarrow> 'w \<Rightarrow> (io_error + byte list) polled \<times> 'i \<times> 'w"
  io_write :: "'i \<Rightarrow> byte list \<Rightarrow> 'w \<Rightarrow> (io_error + nat) polled \<times> 'i \<times> 'w"
  io_write_vectored :: "'i \<Rightarrow> byte list list \<Rightarrow> 'w \<Rightarrow> (io_error + nat) polled \<times> 'i \<times> 'w"
  io_flush :: "'i \<Rightarrow> 'w \<Rightarrow> (io_error + unit) polled \<times> 'i \<times> 'w"
  io_shutdown :: "'i \<Rightarrow> 'w \<Rightarrow> (io_error + unit) polled \<times> 'i \<times> 'w"
  io_is_write_vectored :: "'i \<Rightarrow> bool"

text \<open>
  Replace the state in a result: \<open>lift_res g x\<close> is what a wrapper that keeps its inner
  object in a field does after forwarding a call.
\<close>

definition lift_res :: "('i \<Rightarrow> 'j) \<Rightarrow> 'a \<times> 'i \<times> 'w \<Rightarrow> 'a \<times> 'j \<times> 'w" where
  "lift_res g x = (case x of (r, i, w) \<Rightarrow> (r, g i, w))"

definition map_res :: "('a \<Rightarrow> 'b) \<Rightarrow> 'a \<times> 'i \<times> 'w \<Rightarrow> 'b \<times> 'i \<times> 'w" where
  "map_res h x = (case x of (r, i, w) \<Rightarrow> (h r, i, w))"

lemma lift_res_simps [simp]:
  "lift_res g (r, i, w) = (r, g i, w)" "map_res h (r, i, w) = (h r, i, w)"
  by (simp_all add: lift_res_def map_res_def)

lemma lift_res_eq_iff:
  "lift_res g x = (r, j, w) \<longleftrightarrow> (\<exists>i. x = (r, i, w) \<and> j = g i)"
  by (cases x) auto

lemma map_res_eq_iff:
  "map_res h x = (r, j, w) \<longleftrightarrow> (\<exists>r0. x = (r0, j, w) \<and> r = h r0)"
  by (cases x) auto

lemma lift_res_comp: "lift_res g (lift_res f x) = lift_res (g \<circ> f) x"
  by (cases x) simp

lemma lift_res_ident [simp]: "lift_res (\<lambda>i. i) x = x" "lift_res id x = x"
  by (cases x; simp)+

lemma map_res_id [simp]: "map_res (map_polled id) x = x" "map_res (\<lambda>r. r) y = y"
  by (cases x, simp) (cases y, simp)

lemma map_res_map_err_id [simp]: "map_res (map_polled (map_err id)) x = x"
  by (cases x) (simp add: sum.map_id0)

lemma map_res_comp: "map_res g (map_res f x) = map_res (g \<circ> f) x"
  by (cases x) simp

lemma map_lift_res: "lift_res g (map_res f x) = map_res f (lift_res g x)"
  by (cases x) simp

lemma fst_lift_res [simp]: "fst (lift_res g x) = fst x"
  by (cases x) simp

lemma fst_map_res [simp]: "fst (map_res h x) = h (fst x)"
  by (cases x) simp

section \<open>Awaiting one future after another\<close>

text \<open>What a run gives, without the future that is left over.\<close>

definition out_res :: "'a \<times> 'i \<times> 'w \<Rightarrow> 'a \<times> 'w" where
  "out_res x = (case x of (r, i, w) \<Rightarrow> (r, w))"

lemma out_res_simps [simp]:
  "out_res (r, i, w) = (r, w)" "out_res (lift_res g x) = out_res x"
  "out_res (map_res h x) = map_prod h id (out_res x)"
  by (simp_all add: out_res_def lift_res_def map_res_def split: prod.split)

lemma out_res_eq_iff: "out_res x = (r, w) \<longleftrightarrow> (\<exists>i. x = (r, i, w))"
  by (cases x) auto

text \<open>
  \<open>let x = p.await; k(x)\<close> as a reference: \<open>p\<close> is polled until it is ready, and what
  follows is polled for the first time in the same poll, so it gets the polls that are
  left, this one included. A panic ends the block.
\<close>

fun run_then ::
  "('f, 'o, 'w) pollf \<Rightarrow> nat \<Rightarrow> 'f \<Rightarrow> 'w \<Rightarrow> ('o \<Rightarrow> 'f \<Rightarrow> nat \<Rightarrow> 'w \<Rightarrow> 'p polled \<times> 'w) \<Rightarrow> 'p polled \<times> 'w" where
  "run_then p 0 f w k = (Pending, w)"
| "run_then p (Suc n) f w k =
     (case p f w of
        (Pending, f', w') \<Rightarrow> run_then p n f' w' k
      | (Panicked, f', w') \<Rightarrow> (Panicked, w')
      | (Ready x, f', w') \<Rightarrow> k x f' (Suc n) w')"

text \<open>The rest of a run, given the result of its first poll.\<close>

definition continue_polls :: "('f, 'o, 'w) pollf \<Rightarrow> nat \<Rightarrow> 'o polled \<times> 'f \<times> 'w \<Rightarrow> 'o polled \<times> 'f \<times> 'w" where
  "continue_polls p n x = (case x of (Pending, f, w) \<Rightarrow> run_polls p n f w | _ \<Rightarrow> x)"

lemma run_polls_continue: "run_polls p (Suc n) f w = continue_polls p n (p f w)"
  by (auto simp: continue_polls_def split: prod.split polled.split)

lemma continue_polls_simps [simp]:
  "continue_polls p n (Pending, f, w) = run_polls p n f w"
  "continue_polls p n (Ready x, f, w) = (Ready x, f, w)"
  "continue_polls p n (Panicked, f, w) = (Panicked, f, w)"
  by (simp_all add: continue_polls_def)

text \<open>When the first future resolves in the given polls, the rest is what counts.\<close>

lemma run_then_resolved:
  "run_polls p n f w = (Ready x, f', w') \<Longrightarrow>
     \<exists>m. 0 < m \<and> m \<le> n \<and> run_then p n f w k = k x f' m w'"
proof (induction n arbitrary: f w)
  case 0
  then show ?case by simp
next
  case (Suc n)
  obtain r f1 w1 where r: "p f w = (r, f1, w1)" by (cases "p f w") auto
  show ?case
  proof (cases r)
    case Pending
    with Suc r obtain m where "0 < m" "m \<le> n" "run_then p n f1 w1 k = k x f' m w'" by auto
    with Pending r show ?thesis by (intro exI [of _ m]) simp
  qed (use Suc.prems r in \<open>auto intro: exI [of _ "Suc n"]\<close>)
qed

lemma run_then_pending:
  "run_polls p n f w = (Pending, f', w') \<Longrightarrow> run_then p n f w k = (Pending, w')"
  by (induction n arbitrary: f w) (auto split: prod.splits polled.splits)

lemma run_then_panicked:
  "run_polls p n f w = (Panicked, f', w') \<Longrightarrow> run_then p n f w k = (Panicked, w')"
  by (induction n arbitrary: f w) (auto split: prod.splits polled.splits)

lemma run_then_cong:
  "(\<And>x f' m w'. 0 < m \<Longrightarrow> m \<le> n \<Longrightarrow> k x f' m w' = k' x f' m w') \<Longrightarrow>
     run_then p n f w k = run_then p n f w k'"
  by (induction n arbitrary: f w) (auto split: prod.splits polled.splits)

text \<open>A conversion of the result at the end.\<close>

lemma run_then_pure:
  "run_then p n f w (\<lambda>x f' m w'. (Ready (g x), w')) = map_prod (map_polled g) id (out_res (run_polls p n f w))"
  by (induction n arbitrary: f w) (auto split: prod.splits polled.splits)

text \<open>A conversion of what follows, and a first future that wraps another one.\<close>

lemma run_then_post:
  "map_prod (map_polled g) id (run_then p n f w k) =
     run_then p n f w (\<lambda>x f' m w'. map_prod (map_polled g) id (k x f' m w'))"
  by (induction n arbitrary: f w) (auto split: prod.splits polled.splits)

lemma run_then_map:
  assumes "\<And>f w. p' (wrap f) w = map_res (map_polled h) (lift_res wrap (p f w))"
  shows "run_then p' n (wrap f) w k = run_then p n f w (\<lambda>x f' m w'. k (h x) (wrap f') m w')"
proof (induction n arbitrary: f w)
  case 0
  then show ?case by simp
next
  case (Suc n)
  obtain r f' w' where "p f w = (r, f', w')" by (cases "p f w") auto
  with Suc.IH show ?case by (cases r) (simp_all add: assms)
qed

end
