(* ===== verification/Wrappers.thy ===== *)
theory Wrappers
  imports Prelude
begin

text \<open>
  The interfaces the crate's adapters share, as locales. Almost every type of the crate
  wraps another one: a future around a future, a byte stream around a byte stream, a
  service around a service. Each locale states what such a wrapper promises for one
  operation; its lemmas lift the promise to whole executions. The components interpret
  the locales on their own definitions.
\<close>

section \<open>Futures that forward to an inner future\<close>

text \<open>
  \<open>wrap\<close> puts the inner future into the outer one and \<open>post\<close> is applied to its output
  (\<open>map\<close>, \<open>map_err\<close>, \<open>map_ok\<close> of the source).
\<close>

locale future_wrapper =
  fixes inner :: "('f, 'o, 'w) pollf"
    and outer :: "('g, 'p, 'w) pollf"
    and wrap :: "'f \<Rightarrow> 'g"
    and post :: "'o \<Rightarrow> 'p"
  assumes outer_wrap: "outer (wrap f) w = map_res (map_polled post) (lift_res wrap (inner f w))"
begin

lemma run_wrap:
  "run_polls outer n (wrap f) w = map_res (map_polled post) (lift_res wrap (run_polls inner n f w))"
proof (induction n arbitrary: f w)
  case 0
  then show ?case by simp
next
  case (Suc n)
  obtain r f' w' where i: "inner f w = (r, f', w')" by (cases "inner f w") auto
  then show ?case by (cases r) (simp_all add: outer_wrap Suc.IH)
qed

lemma output_iff:
  "fst (run_polls outer n (wrap f) w) = Ready y \<longleftrightarrow>
     (\<exists>x. fst (run_polls inner n f w) = Ready x \<and> y = post x)"
  by (simp add: run_wrap)

end

section \<open>Futures that await another future\<close>

text \<open>
  An async block at an \<open>await\<close>: the outer future in state \<open>wait f\<close> polls \<open>f\<close>, and goes on
  with \<open>cont\<close> in the same poll when it is ready.
\<close>

locale future_await =
  fixes inner :: "('f, 'o, 'w) pollf"
    and outer :: "('g, 'p, 'w) pollf"
    and wait :: "'f \<Rightarrow> 'g"
    and cont :: "'o \<Rightarrow> 'f \<Rightarrow> 'w \<Rightarrow> 'p polled \<times> 'g \<times> 'w"
  assumes await_pending: "inner f w = (Pending, f', w') \<Longrightarrow> outer (wait f) w = (Pending, wait f', w')"
    and await_panicked: "inner f w = (Panicked, f', w') \<Longrightarrow> out_res (outer (wait f) w) = (Panicked, w')"
    and await_ready: "inner f w = (Ready x, f', w') \<Longrightarrow> outer (wait f) w = cont x f' w'"
begin

lemma run_await:
  "out_res (run_polls outer n (wait f) w) =
     run_then inner n f w (\<lambda>x f' m w'. out_res (continue_polls outer (m - 1) (cont x f' w')))"
proof (induction n arbitrary: f w)
  case 0
  then show ?case by simp
next
  case (Suc n)
  obtain r f' w' where i: "inner f w = (r, f', w')" by (cases "inner f w") auto
  show ?case
  proof (cases r)
    case Pending
    then show ?thesis using Suc.IH i by (simp add: await_pending)
  next
    case (Ready x)
    then show ?thesis using i by (simp add: run_polls_continue await_ready del: run_polls.simps)
  next
    case Panicked
    then have "out_res (outer (wait f) w) = (Panicked, w')" using await_panicked i by simp
    then obtain g where "outer (wait f) w = (Panicked, g, w')" unfolding out_res_eq_iff ..
    then show ?thesis using i Panicked by simp
  qed
qed

end

section \<open>Futures that hold an error and yield it once\<close>

text \<open>
  The pattern \<open>error.take().expect(...)\<close>: the state holds an \<open>Option\<close>, the first poll
  takes the error out, a second poll panics.
\<close>

locale error_once =
  fixes pollg :: "('g, 'e + 'a, 'w) pollf"
    and err_state :: "'x option \<Rightarrow> 'g"
    and inj :: "'x \<Rightarrow> 'e"
  assumes poll_some: "pollg (err_state (Some x)) w = (Ready (Inl (inj x)), err_state None, w)"
    and poll_none: "fst (pollg (err_state None) w) = Panicked"
begin

lemma resolves_at_first_poll:
  "run_polls pollg (Suc n) (err_state (Some x)) w = (Ready (Inl (inj x)), err_state None, w)"
  by (simp add: poll_some)

lemma polled_again_panics:
  "pollg (err_state (Some x)) w = (r, g', w') \<Longrightarrow> fst (pollg g' w') = Panicked"
  using poll_none by (auto simp: poll_some)

end

section \<open>Byte streams that forward to an inner byte stream\<close>

datatype io_cmd =
  CmdRead nat | CmdWrite "byte list" | CmdWriteVectored "byte list list" | CmdFlush | CmdShutdown

datatype io_out =
  OutBytes "(io_error + byte list) polled" | OutCount "(io_error + nat) polled" | OutUnit "(io_error + unit) polled"

fun io_exec :: "('i, 'w) io_ops \<Rightarrow> io_cmd \<Rightarrow> 'i \<Rightarrow> 'w \<Rightarrow> io_out \<times> 'i \<times> 'w" where
  "io_exec I (CmdRead n) i w = map_res OutBytes (io_read I i n w)"
| "io_exec I (CmdWrite bs) i w = map_res OutCount (io_write I i bs w)"
| "io_exec I (CmdWriteVectored bss) i w = map_res OutCount (io_write_vectored I i bss w)"
| "io_exec I CmdFlush i w = map_res OutUnit (io_flush I i w)"
| "io_exec I CmdShutdown i w = map_res OutUnit (io_shutdown I i w)"

text \<open>A session: the outputs of a sequence of calls on one stream.\<close>

fun io_session :: "('i, 'w) io_ops \<Rightarrow> io_cmd list \<Rightarrow> 'i \<Rightarrow> 'w \<Rightarrow> io_out list \<times> 'i \<times> 'w" where
  "io_session I [] i w = ([], i, w)"
| "io_session I (c # cs) i w =
     (case io_exec I c i w of (out, i', w') \<Rightarrow> map_res (Cons out) (io_session I cs i' w'))"

locale io_forwarder =
  fixes inner :: "('i, 'w) io_ops"
    and outer :: "('j, 'w) io_ops"
    and wrap :: "'i \<Rightarrow> 'j"
  assumes fwd_read: "io_read outer (wrap i) n w = lift_res wrap (io_read inner i n w)"
    and fwd_write: "io_write outer (wrap i) bs w = lift_res wrap (io_write inner i bs w)"
    and fwd_write_vectored:
      "io_write_vectored outer (wrap i) bss w = lift_res wrap (io_write_vectored inner i bss w)"
    and fwd_flush: "io_flush outer (wrap i) w = lift_res wrap (io_flush inner i w)"
    and fwd_shutdown: "io_shutdown outer (wrap i) w = lift_res wrap (io_shutdown inner i w)"
    and fwd_vectored: "io_is_write_vectored outer (wrap i) = io_is_write_vectored inner i"
begin

lemma exec_wrap: "io_exec outer c (wrap i) w = lift_res wrap (io_exec inner c i w)"
  by (cases c)
    (auto simp: fwd_read fwd_write fwd_write_vectored fwd_flush fwd_shutdown
      lift_res_def map_res_def split: prod.splits)

lemma session_wrap: "io_session outer cs (wrap i) w = lift_res wrap (io_session inner cs i w)"
proof (induction cs arbitrary: i w)
  case Nil
  then show ?case by simp
next
  case (Cons c cs)
  obtain out i' w' where e: "io_exec inner c i w = (out, i', w')"
    by (cases "io_exec inner c i w") auto
  obtain outs i'' w'' where s: "io_session inner cs i' w' = (outs, i'', w'')"
    by (cases "io_session inner cs i' w'") auto
  show ?case using Cons.IH [of i' w'] by (simp add: exec_wrap e s)
qed

lemma session_outputs: "fst (io_session outer cs (wrap i) w) = fst (io_session inner cs i w)"
  by (simp add: session_wrap)

end

text \<open>Two forwarding layers are one forwarding layer.\<close>

locale io_forwarder2 =
  a: io_forwarder inner middle wrap + b: io_forwarder middle outer wrap2
  for inner :: "('i, 'w) io_ops" and middle :: "('j, 'w) io_ops" and outer :: "('k, 'w) io_ops"
    and wrap :: "'i \<Rightarrow> 'j" and wrap2 :: "'j \<Rightarrow> 'k"
begin

sublocale both: io_forwarder inner outer "\<lambda>i. wrap2 (wrap i)"
  by unfold_locales
    (simp_all add: a.fwd_read a.fwd_write a.fwd_write_vectored a.fwd_flush a.fwd_shutdown
      a.fwd_vectored b.fwd_read b.fwd_write b.fwd_write_vectored b.fwd_flush b.fwd_shutdown
      b.fwd_vectored lift_res_comp comp_def)

end

text \<open>
  What is documented of a byte stream that can be read: a read that succeeds returns at
  most as many bytes as there is room for, and they are the next bytes of what the peer
  sends (\<open>rest\<close>); a pending or failed read consumes nothing.
\<close>

definition reads_from ::
  "('i \<Rightarrow> nat \<Rightarrow> 'w \<Rightarrow> (io_error + byte list) polled \<times> 'i \<times> 'w) \<Rightarrow> ('i \<Rightarrow> 'w \<Rightarrow> byte list) \<Rightarrow> bool" where
  "reads_from rd rest \<longleftrightarrow>
     (\<forall>i n w r i' w'. rd i n w = (r, i', w') \<longrightarrow>
        (case r of
           Ready (Inr bs) \<Rightarrow> length bs \<le> n \<and> rest i w = bs @ rest i' w'
         | _ \<Rightarrow> rest i' w' = rest i w))"

lemma reads_fromD_data:
  "reads_from rd rest \<Longrightarrow> rd i n w = (Ready (Inr bs), i', w') \<Longrightarrow>
     length bs \<le> n \<and> rest i w = bs @ rest i' w'"
  unfolding reads_from_def by fastforce

lemma reads_fromD_other:
  "reads_from rd rest \<Longrightarrow> rd i n w = (r, i', w') \<Longrightarrow> \<not> (\<exists>bs. r = Ready (Inr bs)) \<Longrightarrow>
     rest i' w' = rest i w"
  unfolding reads_from_def by (fastforce split: polled.splits sum.splits)

text \<open>A wrapper that keeps the stream in a field and forwards reads keeps the law.\<close>

lemma reads_from_field:
  assumes "reads_from rd rest"
    and "\<And>j n w. rd' j n w = lift_res (put j) (rd (sel j) n w)" and "\<And>j i. sel (put j i) = i"
  shows "reads_from rd' (\<lambda>j. rest (sel j))"
  unfolding reads_from_def
proof (intro allI impI)
  fix j n w r j' w'
  assume "rd' j n w = (r, j', w')"
  then obtain i' where rd: "rd (sel j) n w = (r, i', w')" and j': "j' = put j i'"
    unfolding assms(2) by (auto simp: lift_res_eq_iff)
  have "sel j' = i'" by (simp add: j' assms(3))
  with reads_fromD_data [OF assms(1), of "sel j" n w] reads_fromD_other [OF assms(1) rd] rd
  show "case r of Ready (Inr bs) \<Rightarrow> length bs \<le> n \<and> rest (sel j) w = bs @ rest (sel j') w'
    | _ \<Rightarrow> rest (sel j') w' = rest (sel j) w"
    by (auto split: polled.split sum.split)
qed

section \<open>Services that check or rewrite a request before an inner service\<close>

text \<open>One request through a service: \<open>call\<close>, then at most \<open>n\<close> polls of its future.\<close>

definition run_call ::
  "('s, 'r, 'f, 'e, 'a, 'w) service \<Rightarrow> nat \<Rightarrow> 's \<Rightarrow> 'r \<Rightarrow> 'w \<Rightarrow> ('e + 'a) polled \<times> 's \<times> 'w" where
  "run_call S n s r w =
     (case call S s r w of
        (Panic, s', w') \<Rightarrow> (Panicked, s', w')
      | (Ret f, s', w') \<Rightarrow> (case run_polls (poll_fut S) n f w' of (p, f', w'') \<Rightarrow> (p, s', w'')))"

text \<open>
  A request through a service that is first waited for until it is ready, what
  \<open>tower::ServiceExt::oneshot\<close> is documented to do: an error of \<open>poll_ready\<close> ends it, and the
  call is made, and its future polled, in the poll in which the service becomes ready.
\<close>

definition oneshot_run ::
  "('s, 'r, 'f, 'e, 'a, 'w) service \<Rightarrow> nat \<Rightarrow> 's \<Rightarrow> 'r \<Rightarrow> 'w \<Rightarrow> ('e + 'a) polled \<times> 'w" where
  "oneshot_run S n s r w =
     run_then (poll_ready S) n s w
       (\<lambda>res s' m w'. case res of
          Inl e \<Rightarrow> (Ready (Inl e), w')
        | Inr u \<Rightarrow> out_res (run_call S m s' r w'))"

definition oneshot_law ::
  "('s, 'r, 'f, 'e, 'a, 'w) service \<Rightarrow> ('s \<Rightarrow> 'r \<Rightarrow> 'o) \<Rightarrow> ('o, 'e + 'a, 'w) pollf \<Rightarrow> bool" where
  "oneshot_law S oneshot p \<longleftrightarrow>
     (\<forall>n s r w. out_res (run_polls p n (oneshot s r) w) = oneshot_run S n s r w)"

text \<open>A service around a service: readiness is forwarded, the future wraps the inner one.\<close>

locale service_wrapper =
  fut: future_wrapper "poll_fut inner" "poll_fut outer" fwrap "map_sum inj postv"
  for inner :: "('s, 'r2, 'f, 'e, 'a, 'w) service"
    and outer :: "('t, 'r, 'g, 'e2, 'b, 'w) service"
    and fwrap :: "'f \<Rightarrow> 'g" and inj :: "'e \<Rightarrow> 'e2" and postv :: "'a \<Rightarrow> 'b" +
  fixes wrap :: "'s \<Rightarrow> 't"
  assumes fwd_ready:
    "poll_ready outer (wrap s) w =
       map_res (map_polled (map_err inj)) (lift_res wrap (poll_ready inner s w))"
begin

lemma oneshot_forwarded:
  assumes "\<And>m s w. out_res (run_call outer m (wrap s) r w) =
      map_prod (map_polled (map_sum inj postv)) id (out_res (run_call inner m s r' w))"
  shows "oneshot_run outer n (wrap s) r w =
    map_prod (map_polled (map_sum inj postv)) id (oneshot_run inner n s r' w)"
  unfolding oneshot_run_def run_then_post
  by (subst run_then_map [where p = "poll_ready inner" and h = "map_err inj"])
    (auto simp: fwd_ready assms intro!: run_then_cong split: sum.split)

lemma run_forwarded:
  assumes "call outer (wrap s) r w = map_res (map_outcome fwrap) (lift_res wrap (call inner s r' w))"
  shows "run_call outer n (wrap s) r w =
    map_res (map_polled (map_sum inj postv)) (lift_res wrap (run_call inner n s r' w))"
proof -
  obtain c s' w' where c: "call inner s r' w = (c, s', w')" by (cases "call inner s r' w") auto
  show ?thesis
  proof (cases c)
    case Panic
    with assms c show ?thesis by (simp add: run_call_def)
  next
    case (Ret f)
    obtain p f' w'' where "run_polls (poll_fut inner) n f w' = (p, f', w'')"
      by (cases "run_polls (poll_fut inner) n f w'") auto
    with assms c Ret show ?thesis by (simp add: run_call_def fut.run_wrap)
  qed
qed

end

text \<open>A service that rewrites every request (or panics on it) and passes it on.\<close>

locale request_map = service_wrapper inner outer fwrap inj postv wrap
  for inner :: "('s, 'r2, 'f, 'e, 'a, 'w) service"
    and outer :: "('t, 'r, 'g, 'e2, 'b, 'w) service"
    and fwrap :: "'f \<Rightarrow> 'g" and inj :: "'e \<Rightarrow> 'e2" and postv :: "'a \<Rightarrow> 'b"
    and wrap :: "'s \<Rightarrow> 't" +
  fixes mapr :: "'r \<Rightarrow> 'r2 outcome"
  assumes map_panic: "mapr r = Panic \<Longrightarrow> call outer (wrap s) r w = (Panic, wrap s, w)"
    and map_pass:
      "mapr r = Ret r' \<Longrightarrow>
         call outer (wrap s) r w = map_res (map_outcome fwrap) (lift_res wrap (call inner s r' w))"
begin

lemma run_map:
  "run_call outer n (wrap s) r w =
     (case mapr r of
        Panic \<Rightarrow> (Panicked, wrap s, w)
      | Ret r' \<Rightarrow> map_res (map_polled (map_sum inj postv)) (lift_res wrap (run_call inner n s r' w)))"
  by (cases "mapr r") (simp_all add: run_forwarded map_pass, simp add: run_call_def map_panic)

lemma oneshot_map:
  "mapr r = Ret r' \<Longrightarrow> oneshot_run outer n (wrap s) r w =
     map_prod (map_polled (map_sum inj postv)) id (oneshot_run inner n s r' w)"
  by (rule oneshot_forwarded) (simp add: run_map)

end

text \<open>
  A service that checks requests: \<open>pre\<close> rejects a request with an error, in which case
  the inner service is not called, or passes a request on.
\<close>

locale request_gate = service_wrapper inner outer fwrap inj postv wrap
  for inner :: "('s, 'r2, 'f, 'e, 'a, 'w) service"
    and outer :: "('t, 'r, 'g, 'e2, 'b, 'w) service"
    and fwrap :: "'f \<Rightarrow> 'g" and inj :: "'e \<Rightarrow> 'e2" and postv :: "'a \<Rightarrow> 'b"
    and wrap :: "'s \<Rightarrow> 't" +
  fixes pre :: "'r \<Rightarrow> 'e2 + 'r2"
    and efut :: "'e2 \<Rightarrow> 'g"
  assumes gate_reject: "pre r = Inl e \<Longrightarrow> call outer (wrap s) r w = (Ret (efut e), wrap s, w)"
    and gate_pass:
      "pre r = Inr r' \<Longrightarrow>
         call outer (wrap s) r w = map_res (map_outcome fwrap) (lift_res wrap (call inner s r' w))"
    and gate_error: "\<exists>g. poll_fut outer (efut e) w = (Ready (Inl e), g, w)"
begin

lemma run_reject:
  assumes "pre r = Inl e"
  shows "run_call outer (Suc n) (wrap s) r w = (Ready (Inl e), wrap s, w)"
proof -
  obtain g where "poll_fut outer (efut e) w = (Ready (Inl e), g, w)" using gate_error by blast
  with assms show ?thesis by (simp add: run_call_def gate_reject)
qed

text \<open>The behaviour of the gate over a whole request, on every branch.\<close>

lemma run_gate:
  "run_call outer (Suc n) (wrap s) r w =
     (case pre r of
        Inl e \<Rightarrow> (Ready (Inl e), wrap s, w)
      | Inr r' \<Rightarrow>
          map_res (map_polled (map_sum inj postv)) (lift_res wrap (run_call inner (Suc n) s r' w)))"
  by (cases "pre r") (simp_all add: run_reject run_forwarded gate_pass)

end

end
