(* ===== verification/Byte_Io.thy ===== *)
theory Byte_Io
  imports Wrappers
begin

text \<open>
  Byte streams between the runtimes: \<open>TokioIo\<close> of \<open>src/bridge/io.rs\<close>, which converts
  between the I/O traits of tokio and hyper in both directions, and \<open>Rewind\<close> of
  \<open>src/rewind.rs\<close>, which puts bytes already read in front of a stream. The inner stream
  is a parameter (an \<open>io_ops\<close> dictionary). The main results: \<open>TokioIo\<close> forwards every
  call, and reading through \<open>Rewind\<close> is reading the prefix followed by the inner stream.
\<close>

section \<open>A stream in memory, used in examples\<close>

text \<open>
  The peer's bytes as a list of chunks, \<open>None\<close> standing for a moment at which nothing has
  arrived; at the end of the list the stream is at its end.
\<close>

fun chunk_read ::
  "byte list option list \<Rightarrow> nat \<Rightarrow> 'w \<Rightarrow> (io_error + byte list) polled \<times> byte list option list \<times> 'w" where
  "chunk_read [] n w = (Ready (Inr []), [], w)"
| "chunk_read (None # cs) n w = (Pending, cs, w)"
| "chunk_read (Some c # cs) n w =
     (Ready (Inr (take n c)), (if n < length c then Some (drop n c) # cs else cs), w)"

definition chunk_rest :: "byte list option list \<Rightarrow> 'w \<Rightarrow> byte list" where
  "chunk_rest cs w = concat (map (case_option [] id) cs)"

definition chunk_ops :: "(byte list option list, 'w) io_ops" where
  "chunk_ops =
     \<lparr>io_read = chunk_read, io_write = (\<lambda>i bs w. (Ready (Inr (length bs)), i, w)),
      io_write_vectored = (\<lambda>i bss w. (Ready (Inr (length (concat bss))), i, w)),
      io_flush = (\<lambda>i w. (Ready (Inr ()), i, w)), io_shutdown = (\<lambda>i w. (Ready (Inr ()), i, w)),
      io_is_write_vectored = (\<lambda>i. False)\<rparr>"

lemma chunk_ops_read [simp]: "io_read chunk_ops = chunk_read"
  by (simp add: chunk_ops_def)

lemma chunk_reads_from: "reads_from chunk_read chunk_rest"
  unfolding reads_from_def
proof (intro allI impI)
  fix i :: "byte list option list" and n :: nat and w :: 'w and r i' w'
  assume "chunk_read i n w = (r, i', w')"
  then show "case r of Ready (Inr bs) \<Rightarrow> length bs \<le> n \<and> chunk_rest i w = bs @ chunk_rest i' w'
    | _ \<Rightarrow> chunk_rest i' w' = chunk_rest i w"
    by (induction i n w rule: chunk_read.induct) (auto simp: chunk_rest_def)
qed

lemma chunk_read_no_panic: "fst (chunk_read i n w) \<noteq> Panicked"
  by (induction i n w rule: chunk_read.induct) simp_all

section \<open>TokioIo\<close>

record 'i tokio_io = tio_inner :: 'i

definition tokio_io_new :: "'i \<Rightarrow> 'i tokio_io" where
  "tokio_io_new inner = \<lparr>tio_inner = inner\<rparr>"

definition tokio_io_into_inner :: "'i tokio_io \<Rightarrow> 'i" where
  "tokio_io_into_inner self = tio_inner self"

definition tokio_io_deref :: "'i tokio_io \<Rightarrow> 'i" where
  "tokio_io_deref self = tio_inner self"

definition tokio_io_deref_mut :: "('i \<Rightarrow> 'i) \<Rightarrow> 'i tokio_io \<Rightarrow> 'i tokio_io" where
  "tokio_io_deref_mut f self = self\<lparr>tio_inner := f (tio_inner self)\<rparr>"

text \<open>\<open>Read for TokioIo<T: AsyncRead>\<close>: the bytes the inner read filled, then \<open>advance\<close>.\<close>

definition tokio_hyper_poll_read ::
  "('i, 'w) io_ops \<Rightarrow> 'i tokio_io \<Rightarrow> nat \<Rightarrow> 'w \<Rightarrow> (io_error + byte list) polled \<times> 'i tokio_io \<times> 'w" where
  "tokio_hyper_poll_read T self room w =
     (case io_read T (tio_inner self) room w of
        (Ready (Inr tbuf), i', w') \<Rightarrow> (Ready (Inr tbuf), self\<lparr>tio_inner := i'\<rparr>, w')
      | (other, i', w') \<Rightarrow> (other, self\<lparr>tio_inner := i'\<rparr>, w'))"

definition tokio_poll_write ::
  "('i, 'w) io_ops \<Rightarrow> 'i tokio_io \<Rightarrow> byte list \<Rightarrow> 'w \<Rightarrow> (io_error + nat) polled \<times> 'i tokio_io \<times> 'w" where
  "tokio_poll_write T self buf w =
     lift_res (\<lambda>i. self\<lparr>tio_inner := i\<rparr>) (io_write T (tio_inner self) buf w)"

definition tokio_poll_write_vectored ::
  "('i, 'w) io_ops \<Rightarrow> 'i tokio_io \<Rightarrow> byte list list \<Rightarrow> 'w \<Rightarrow> (io_error + nat) polled \<times> 'i tokio_io \<times> 'w" where
  "tokio_poll_write_vectored T self bufs w =
     lift_res (\<lambda>i. self\<lparr>tio_inner := i\<rparr>) (io_write_vectored T (tio_inner self) bufs w)"

definition tokio_poll_flush ::
  "('i, 'w) io_ops \<Rightarrow> 'i tokio_io \<Rightarrow> 'w \<Rightarrow> (io_error + unit) polled \<times> 'i tokio_io \<times> 'w" where
  "tokio_poll_flush T self w = lift_res (\<lambda>i. self\<lparr>tio_inner := i\<rparr>) (io_flush T (tio_inner self) w)"

definition tokio_poll_shutdown ::
  "('i, 'w) io_ops \<Rightarrow> 'i tokio_io \<Rightarrow> 'w \<Rightarrow> (io_error + unit) polled \<times> 'i tokio_io \<times> 'w" where
  "tokio_poll_shutdown T self w =
     lift_res (\<lambda>i. self\<lparr>tio_inner := i\<rparr>) (io_shutdown T (tio_inner self) w)"

text \<open>A tokio stream, seen by hyper.\<close>

definition tokio_hyper_ops :: "('i, 'w) io_ops \<Rightarrow> ('i tokio_io, 'w) io_ops" where
  "tokio_hyper_ops T =
     \<lparr>io_read = tokio_hyper_poll_read T, io_write = tokio_poll_write T,
      io_write_vectored = tokio_poll_write_vectored T, io_flush = tokio_poll_flush T,
      io_shutdown = tokio_poll_shutdown T,
      io_is_write_vectored = (\<lambda>self. io_is_write_vectored T (tio_inner self))\<rparr>"

text \<open>
  \<open>AsyncRead for TokioIo<T: Read>\<close>: the caller's buffer may already hold bytes, so the
  filled length is the old one plus what the inner read filled.
\<close>

record read_buf =
  rb_capacity :: nat
  rb_filled :: "byte list"

definition tokio_async_poll_read ::
  "('i, 'w) io_ops \<Rightarrow> 'i tokio_io \<Rightarrow> read_buf \<Rightarrow> 'w \<Rightarrow>
     (io_error + unit) polled \<times> read_buf \<times> 'i tokio_io \<times> 'w" where
  "tokio_async_poll_read H self tbuf w =
     (let filled = length (rb_filled tbuf)
      in case io_read H (tio_inner self) (rb_capacity tbuf - filled) w of
           (Ready (Inr buf), i', w') \<Rightarrow>
             (let sub_filled = length buf; n_filled = filled + sub_filled
              in (Ready (Inr ()),
                  tbuf\<lparr>rb_filled := take n_filled (rb_filled tbuf @ buf)\<rparr>,
                  self\<lparr>tio_inner := i'\<rparr>, w'))
         | (Ready (Inl e), i', w') \<Rightarrow> (Ready (Inl e), tbuf, self\<lparr>tio_inner := i'\<rparr>, w')
         | (Pending, i', w') \<Rightarrow> (Pending, tbuf, self\<lparr>tio_inner := i'\<rparr>, w')
         | (Panicked, i', w') \<Rightarrow> (Panicked, tbuf, self\<lparr>tio_inner := i'\<rparr>, w'))"

text \<open>A hyper stream, seen by tokio: a read of \<open>n\<close> bytes offers an empty buffer.\<close>

definition tokio_async_ops :: "('i, 'w) io_ops \<Rightarrow> ('i tokio_io, 'w) io_ops" where
  "tokio_async_ops H =
     \<lparr>io_read = (\<lambda>self n w.
        case tokio_async_poll_read H self \<lparr>rb_capacity = n, rb_filled = []\<rparr> w of
          (Ready (Inr u), b, s', w') \<Rightarrow> (Ready (Inr (rb_filled b)), s', w')
        | (Ready (Inl e), b, s', w') \<Rightarrow> (Ready (Inl e), s', w')
        | (Pending, b, s', w') \<Rightarrow> (Pending, s', w')
        | (Panicked, b, s', w') \<Rightarrow> (Panicked, s', w')),
      io_write = tokio_poll_write H,
      io_write_vectored = tokio_poll_write_vectored H, io_flush = tokio_poll_flush H,
      io_shutdown = tokio_poll_shutdown H,
      io_is_write_vectored = (\<lambda>self. io_is_write_vectored H (tio_inner self))\<rparr>"

lemmas tokio_io_defs =
  tokio_hyper_poll_read_def tokio_poll_write_def tokio_poll_write_vectored_def
  tokio_poll_flush_def tokio_poll_shutdown_def tokio_hyper_ops_def tokio_async_ops_def
  tokio_async_poll_read_def tokio_io_new_def

interpretation tokio_hyper: io_forwarder T "tokio_hyper_ops T" tokio_io_new for T
  by unfold_locales
    (auto simp: tokio_io_defs lift_res_def split: prod.splits polled.splits sum.splits)

interpretation tokio_async: io_forwarder H "tokio_async_ops H" tokio_io_new for H
  by unfold_locales
    (auto simp: tokio_io_defs lift_res_def Let_def split: prod.splits polled.splits sum.splits)

text \<open>Wrapping a tokio stream for hyper and the result for tokio again changes nothing.\<close>

interpretation tokio_twice:
  io_forwarder2 T "tokio_hyper_ops T" "tokio_async_ops (tokio_hyper_ops T)" tokio_io_new tokio_io_new
  for T
  by unfold_locales


text \<open>
  A read through the tokio side of \<open>TokioIo\<close> into a partly filled buffer keeps the
  bytes already there, appends exactly the bytes the inner stream delivered, and never
  fills more than the capacity.
\<close>

theorem tokio_async_read_appends:
  assumes "reads_from (io_read H) rest"
    and "length (rb_filled b) \<le> rb_capacity b"
    and "tokio_async_poll_read H io b w = (Ready (Inr ()), b', io', w')"
  shows "\<exists>bs. rb_filled b' = rb_filled b @ bs
    \<and> rest (tio_inner io) w = bs @ rest (tio_inner io') w'
    \<and> length (rb_filled b') \<le> rb_capacity b'"
  using assms(2,3)
  by (auto simp: tokio_async_poll_read_def Let_def split: prod.splits polled.splits sum.splits
      dest!: reads_fromD_data [OF assms(1)])

theorem tokio_async_read_appends_witness:
  "\<exists>b' io'.
     tokio_async_poll_read chunk_ops (tokio_io_new [Some [2, 3, 4, 5]])
       \<lparr>rb_capacity = 4, rb_filled = [1]\<rparr> () = (Ready (Inr ()), b', io', ())
     \<and> (\<exists>bs. rb_filled b' = [1] @ bs \<and> [2, 3, 4, 5] = bs @ chunk_rest (tio_inner io') ()
          \<and> length (rb_filled b') \<le> 4)"
proof -
  have run: "tokio_async_poll_read chunk_ops (tokio_io_new [Some [2, 3, 4, 5]])
       \<lparr>rb_capacity = 4, rb_filled = [1]\<rparr> () =
     (Ready (Inr ()), \<lparr>rb_capacity = 4, rb_filled = [1, 2, 3, 4]\<rparr>, \<lparr>tio_inner = [Some [5]]\<rparr>, ())"
    by (simp add: tokio_async_poll_read_def tokio_io_new_def Let_def)
  have law: "reads_from (io_read chunk_ops) chunk_rest" by (simp add: chunk_reads_from)
  show ?thesis
    using tokio_async_read_appends [OF law _ run] run
    by (simp add: chunk_rest_def tokio_io_new_def)
qed

section \<open>Rewind\<close>

record 'i rewind =
  rw_inner :: 'i
  rw_prefix :: "byte list option"

definition rewind_new :: "'i \<Rightarrow> byte list \<Rightarrow> 'i rewind" where
  "rewind_new inner prefix = \<lparr>rw_inner = inner, rw_prefix = Some prefix\<rparr>"

definition rewind_into_parts :: "'i rewind \<Rightarrow> 'i \<times> byte list option" where
  "rewind_into_parts self = (rw_inner self, rw_prefix self)"

definition rewind_poll_read ::
  "('i \<Rightarrow> nat \<Rightarrow> 'w \<Rightarrow> (io_error + byte list) polled \<times> 'i \<times> 'w) \<Rightarrow>
     'i rewind \<Rightarrow> nat \<Rightarrow> 'w \<Rightarrow> (io_error + byte list) polled \<times> 'i rewind \<times> 'w" where
  "rewind_poll_read rd self room w =
     (let taken = self\<lparr>rw_prefix := None\<rparr>;
          forward = lift_res (\<lambda>i. taken\<lparr>rw_inner := i\<rparr>) (rd (rw_inner self) room w)
      in case rw_prefix self of
           Some prefix \<Rightarrow>
             if prefix \<noteq> [] then
               (let n = min (length prefix) room; prefix' = drop n prefix
                in (Ready (Inr (take n prefix)),
                    (if prefix' \<noteq> [] then taken\<lparr>rw_prefix := Some prefix'\<rparr> else taken), w))
             else forward
         | None \<Rightarrow> forward)"

definition rewind_ops :: "('i, 'w) io_ops \<Rightarrow> ('i rewind, 'w) io_ops" where
  "rewind_ops I =
     \<lparr>io_read = rewind_poll_read (io_read I),
      io_write = (\<lambda>self buf w. lift_res (\<lambda>i. self\<lparr>rw_inner := i\<rparr>) (io_write I (rw_inner self) buf w)),
      io_write_vectored = (\<lambda>self bufs w.
        lift_res (\<lambda>i. self\<lparr>rw_inner := i\<rparr>) (io_write_vectored I (rw_inner self) bufs w)),
      io_flush = (\<lambda>self w. lift_res (\<lambda>i. self\<lparr>rw_inner := i\<rparr>) (io_flush I (rw_inner self) w)),
      io_shutdown = (\<lambda>self w. lift_res (\<lambda>i. self\<lparr>rw_inner := i\<rparr>) (io_shutdown I (rw_inner self) w)),
      io_is_write_vectored = (\<lambda>self. io_is_write_vectored I (rw_inner self))\<rparr>"

text \<open>What is still to be read through a \<open>Rewind\<close>: the prefix, then the inner stream.\<close>

definition rewind_rest :: "('i \<Rightarrow> 'w \<Rightarrow> byte list) \<Rightarrow> 'i rewind \<Rightarrow> 'w \<Rightarrow> byte list" where
  "rewind_rest rest self w =
     (case rw_prefix self of None \<Rightarrow> [] | Some p \<Rightarrow> p) @ rest (rw_inner self) w"

lemma rewind_rest_new [simp]: "rewind_rest rest (rewind_new i p) w = p @ rest i w"
  by (simp add: rewind_rest_def rewind_new_def)

interpretation drained_rewind:
  io_forwarder I "rewind_ops I" "\<lambda>i. \<lparr>rw_inner = i, rw_prefix = None\<rparr>" for I
  by unfold_locales (auto simp: rewind_ops_def rewind_poll_read_def Let_def)

lemma rewind_read_prefix:
  "rw_prefix r = Some p \<Longrightarrow> p \<noteq> [] \<Longrightarrow>
     rewind_poll_read rd r room w =
       (Ready (Inr (take room p)),
        r\<lparr>rw_prefix := (if room < length p then Some (drop room p) else None)\<rparr>, w)"
  by (auto simp: rewind_poll_read_def Let_def min_def)

lemma rewind_read_inner:
  "rw_prefix r = None \<or> rw_prefix r = Some [] \<Longrightarrow>
     rewind_poll_read rd r room w =
       lift_res (\<lambda>i. \<lparr>rw_inner = i, rw_prefix = None\<rparr>) (rd (rw_inner r) room w)"
  by (cases r; cases "rw_prefix r") (auto simp: rewind_poll_read_def Let_def lift_res_def split: prod.splits)

lemma rewind_reads_from:
  assumes "reads_from rd rest"
  shows "reads_from (rewind_poll_read rd) (rewind_rest rest)"
  unfolding reads_from_def
proof (intro allI impI)
  fix r n w res r' w'
  assume e: "rewind_poll_read rd r n w = (res, r', w')"
  show "case res of Ready (Inr bs) \<Rightarrow> length bs \<le> n \<and> rewind_rest rest r w = bs @ rewind_rest rest r' w'
    | _ \<Rightarrow> rewind_rest rest r' w' = rewind_rest rest r w"
  proof (cases "rw_prefix r = None \<or> rw_prefix r = Some []")
    case True
    then obtain i' where i: "rd (rw_inner r) n w = (res, i', w')"
      and r': "r' = \<lparr>rw_inner = i', rw_prefix = None\<rparr>"
      using e by (auto simp: rewind_read_inner lift_res_eq_iff)
    have "rewind_rest rest r w = rest (rw_inner r) w" "rewind_rest rest r' w' = rest i' w'"
      using True r' by (auto simp: rewind_rest_def)
    then show ?thesis
      using reads_fromD_data [OF assms] reads_fromD_other [OF assms] i
      by (auto split: polled.splits sum.splits)
  next
    case False
    then obtain p where "rw_prefix r = Some p" "p \<noteq> []" by auto
    then show ?thesis
      using e by (auto simp: rewind_read_prefix rewind_rest_def append_take_drop_id
          simp flip: append_assoc)
  qed
qed

text \<open>A sequence of reads: the bytes delivered, in order, until a read fails or is pending.\<close>

fun drain ::
  "('i \<Rightarrow> nat \<Rightarrow> 'w \<Rightarrow> (io_error + byte list) polled \<times> 'i \<times> 'w) \<Rightarrow> nat list \<Rightarrow> 'i \<Rightarrow> 'w \<Rightarrow>
     byte list \<times> 'i \<times> 'w" where
  "drain rd [] i w = ([], i, w)"
| "drain rd (n # ns) i w =
     (case rd i n w of
        (Ready (Inr bs), i', w') \<Rightarrow> map_res (\<lambda>cs. bs @ cs) (drain rd ns i' w')
      | (_, i', w') \<Rightarrow> drain rd ns i' w')"

lemma drain_reads_from:
  assumes "reads_from rd rest"
  shows "drain rd ns i w = (bs, i', w') \<Longrightarrow> rest i w = bs @ rest i' w'"
proof (induction ns arbitrary: i w bs)
  case Nil
  then show ?case by simp
next
  case (Cons n ns)
  obtain r i1 w1 where r: "rd i n w = (r, i1, w1)" by (cases "rd i n w") auto
  show ?case
  proof (cases "\<exists>cs. r = Ready (Inr cs)")
    case True
    then obtain cs where cs: "r = Ready (Inr cs)" ..
    with Cons.prems r obtain ds where "drain rd ns i1 w1 = (ds, i', w')" "bs = cs @ ds"
      by (auto simp: map_res_eq_iff)
    then show ?thesis
      using Cons.IH reads_fromD_data [OF assms r [unfolded cs]] by auto
  next
    case False
    then have "drain rd ns i1 w1 = (bs, i', w')"
      using Cons.prems r by (auto split: polled.splits sum.splits)
    then show ?thesis using Cons.IH reads_fromD_other [OF assms r False] by auto
  qed
qed

text \<open>
  C18: Reading through \<open>Rewind::new(inner, prefix)\<close> is reading the prefix followed by the
  inner stream, for every sequence of read sizes: what has been delivered together with
  what is left is always the prefix followed by the stream, no byte lost, repeated or
  reordered.
\<close>

theorem rewind_stream_refinement:
  assumes "reads_from rd rest"
    and "drain (rewind_poll_read rd) ns (rewind_new i p) w = (bs, r', w')"
  shows "p @ rest i w = bs @ rewind_rest rest r' w'"
  using drain_reads_from [OF rewind_reads_from [OF assms(1)] assms(2)] by simp

theorem rewind_stream_refinement_witness:
  "\<exists>bs r'. drain (rewind_poll_read chunk_read) [2, 8, 3] (rewind_new [None, Some [4, 5, 6]] [1, 2, 3]) ()
        = (bs, r', ())
     \<and> [1, 2, 3] @ [4, 5, 6] = bs @ rewind_rest chunk_rest r' () \<and> bs \<noteq> []"
proof -
  have run: "drain (rewind_poll_read chunk_read) [2, 8, 3] (rewind_new [None, Some [4, 5, 6]] [1, 2, 3]) ()
        = ([1, 2, 3], \<lparr>rw_inner = [Some [4, 5, 6]], rw_prefix = None\<rparr>, ())"
    by (simp add: rewind_poll_read_def rewind_new_def Let_def)
  show ?thesis
    using rewind_stream_refinement [OF chunk_reads_from run] run by (simp add: chunk_rest_def)
qed

text \<open>
  While the prefix is not used up, a read with room in the buffer returns at least one
  byte of it at once and does not touch the inner stream or the world.
\<close>

theorem rewind_prefix_first:
  assumes "rw_prefix r = Some p" and "p \<noteq> []" and "0 < room"
  shows "\<exists>bs r'. rewind_poll_read rd r room w = (Ready (Inr bs), r', w)
    \<and> bs \<noteq> [] \<and> rw_inner r' = rw_inner r"
  using assms by (auto simp: rewind_read_prefix)

theorem rewind_prefix_first_witness:
  "\<exists>bs r'. rewind_poll_read chunk_read (rewind_new [Some [9]] [1, 2]) 1 () = (Ready (Inr bs), r', ())
     \<and> bs \<noteq> [] \<and> rw_inner r' = [Some [9]]"
  using rewind_prefix_first [of "rewind_new [Some [9]] [1, 2]" "[1, 2]" 1 chunk_read "()"]
  by (simp add: rewind_new_def)

end
