(* ===== verification/Http_Types.thy ===== *)
theory Http_Types
  imports Prelude
begin

text \<open>
  HTTP data: protocol versions and identifiers and addresses of \<open>src/info/mod.rs\<close>, the
  request and response records, and the interface of the \<open>http\<close> crate (\<open>Uri\<close>,
  \<open>Authority\<close>, \<open>HeaderMap\<close>, \<open>HeaderValue\<close>). That crate is not part of the repository:
  its types are type variables and its operations the fields of \<open>http_api\<close>, a
  parameter of every definition that uses them. What the crate documents of them is
  stated once, in \<open>header_laws\<close> and \<open>uri_laws\<close>, and named as a hypothesis where used.
\<close>

section \<open>Versions and protocols\<close>

text \<open>The constants of \<open>http::Version\<close>, in their documented order.\<close>

datatype http_version = HTTP_09 | HTTP_10 | HTTP_11 | HTTP_2 | HTTP_3

fun version_index :: "http_version \<Rightarrow> nat" where
  "version_index HTTP_09 = 0"
| "version_index HTTP_10 = 1"
| "version_index HTTP_11 = 2"
| "version_index HTTP_2 = 3"
| "version_index HTTP_3 = 4"

lemma version_index_inject: "version_index a = version_index b \<longleftrightarrow> a = b"
  by (cases a; cases b) simp_all

instantiation http_version :: linorder
begin

definition less_eq_http_version :: "http_version \<Rightarrow> http_version \<Rightarrow> bool" where
  "less_eq_http_version a b \<longleftrightarrow> version_index a \<le> version_index b"

definition less_http_version :: "http_version \<Rightarrow> http_version \<Rightarrow> bool" where
  "less_http_version a b \<longleftrightarrow> version_index a < version_index b"

instance
  by standard
    (auto simp: less_eq_http_version_def less_http_version_def version_index_inject)

end

lemmas version_order_defs = less_eq_http_version_def less_http_version_def

lemma below_HTTP_2: "v < HTTP_2 \<longleftrightarrow> v = HTTP_09 \<or> v = HTTP_10 \<or> v = HTTP_11"
  by (cases v) (simp_all add: version_order_defs)

datatype http_protocol = Http1 | Http2 | Http3

definition protocol_multiplex :: "http_protocol \<Rightarrow> bool" where
  "protocol_multiplex self = (case self of Http2 \<Rightarrow> True | _ \<Rightarrow> False)"

fun protocol_version :: "http_protocol \<Rightarrow> http_version" where
  "protocol_version Http1 = HTTP_11"
| "protocol_version Http2 = HTTP_2"
| "protocol_version Http3 = HTTP_3"

fun protocol_debug :: "http_protocol \<Rightarrow> string" where
  "protocol_debug Http1 = ''HTTP/1''"
| "protocol_debug Http2 = ''HTTP/2''"
| "protocol_debug Http3 = ''HTTP/3''"

datatype unsupported_protocol = UnsupportedProtocol http_version

fun protocol_try_from :: "http_version \<Rightarrow> unsupported_protocol + http_protocol" where
  "protocol_try_from HTTP_11 = Inr Http1"
| "protocol_try_from HTTP_10 = Inr Http1"
| "protocol_try_from HTTP_2 = Inr Http2"
| "protocol_try_from ver = Inl (UnsupportedProtocol ver)"

text \<open>
  The conversions between \<open>HttpProtocol\<close> and \<open>http::Version\<close> agree on HTTP/1.1 and
  HTTP/2 (a version obtained from a protocol converts back), every version that converts
  does so to a protocol whose own version is at least as new, and exactly HTTP/0.9 and
  HTTP/3 are rejected, so \<open>Http3\<close> does not convert back.
\<close>

theorem protocol_version_roundtrip:
  "(protocol_try_from (protocol_version p) = Inr p \<longleftrightarrow> p \<noteq> Http3)
   \<and> (protocol_try_from v = Inl (UnsupportedProtocol v) \<longleftrightarrow> v = HTTP_09 \<or> v = HTTP_3)
   \<and> (case protocol_try_from v of Inl e \<Rightarrow> e = UnsupportedProtocol v
      | Inr q \<Rightarrow> v \<le> protocol_version q \<and> q \<noteq> Http3)"
  by (cases p; cases v) (simp_all add: version_order_defs)

text \<open>The transport protocol identifier of a connection.\<close>

datatype info_protocol =
  Proto_Http http_version | Proto_Grpc | Proto_WebSocket | Proto_Other string

definition info_protocol_http :: "http_version \<Rightarrow> info_protocol" where
  "info_protocol_http version = Proto_Http version"

definition info_protocol_grpc :: info_protocol where
  "info_protocol_grpc = Proto_Grpc"

definition info_protocol_web_socket :: info_protocol where
  "info_protocol_web_socket = Proto_WebSocket"

definition info_protocol_from_version :: "http_version \<Rightarrow> info_protocol" where
  "info_protocol_from_version version = Proto_Http version"

text \<open>\<open>dbg\<close> is the debug format of \<open>http::Version\<close>, which is not part of the repository.\<close>

fun info_protocol_display :: "(http_version \<Rightarrow> string) \<Rightarrow> info_protocol \<Rightarrow> string" where
  "info_protocol_display dbg (Proto_Http version) = dbg version"
| "info_protocol_display dbg Proto_Grpc = ''gRPC''"
| "info_protocol_display dbg Proto_WebSocket = ''WebSocket''"
| "info_protocol_display dbg (Proto_Other s) = s"

definition info_protocol_from_str :: "string \<Rightarrow> info_protocol" where
  "info_protocol_from_str s =
     (if s = ''http/0.9'' then Proto_Http HTTP_09
      else if s = ''http/1.0'' then Proto_Http HTTP_10
      else if s = ''http/1.1'' then Proto_Http HTTP_11
      else if s = ''h2'' then Proto_Http HTTP_2
      else if s = ''h3'' then Proto_Http HTTP_3
      else if s = ''gRPC'' then Proto_Grpc
      else if s = ''WebSocket'' then Proto_WebSocket
      else Proto_Other s)"

text \<open>The protocols parsing can return: \<open>Other\<close> never carries one of the known names.\<close>

definition parsed_protocol :: "info_protocol \<Rightarrow> bool" where
  "parsed_protocol p \<longleftrightarrow>
     (case p of
        Proto_Other s \<Rightarrow>
          s \<notin> {''http/0.9'', ''http/1.0'', ''http/1.1'', ''h2'', ''h3'', ''gRPC'', ''WebSocket''}
      | _ \<Rightarrow> True)"

lemma info_protocol_from_str_parsed: "parsed_protocol (info_protocol_from_str s)"
  by (simp add: info_protocol_from_str_def parsed_protocol_def)

text \<open>
  Printing and parsing a protocol identifier. Every identifier that parsing can
  return, other than the HTTP versions, prints to a string that parses back to it. For
  the HTTP versions this fails with the debug strings the \<open>http\<close> crate uses (the ones the
  repository's test lists): printing gives the upper-case name, which parses as \<open>Other\<close>.
\<close>

theorem info_protocol_display_parse:
  assumes "parsed_protocol p"
    and "dbg = (\<lambda>v. case v of HTTP_09 \<Rightarrow> ''HTTP/0.9'' | HTTP_10 \<Rightarrow> ''HTTP/1.0''
          | HTTP_11 \<Rightarrow> ''HTTP/1.1'' | HTTP_2 \<Rightarrow> ''HTTP/2.0'' | HTTP_3 \<Rightarrow> ''HTTP/3.0'')"
  shows "info_protocol_from_str (info_protocol_display dbg p) =
    (case p of Proto_Http v \<Rightarrow> Proto_Other (dbg v) | q \<Rightarrow> q)"
  using assms
  by (cases p)
    (auto simp: info_protocol_from_str_def parsed_protocol_def split: http_version.split)

theorem info_protocol_display_parse_witness:
  "let dbg = (\<lambda>v. case v of HTTP_09 \<Rightarrow> ''HTTP/0.9'' | HTTP_10 \<Rightarrow> ''HTTP/1.0''
          | HTTP_11 \<Rightarrow> ''HTTP/1.1'' | HTTP_2 \<Rightarrow> ''HTTP/2.0'' | HTTP_3 \<Rightarrow> ''HTTP/3.0'')
   in info_protocol_from_str (info_protocol_display dbg (Proto_Http HTTP_11)) =
        Proto_Other ''HTTP/1.1''
      \<and> info_protocol_from_str (info_protocol_display dbg (Proto_Other ''foo'')) = Proto_Other ''foo''"
  using info_protocol_display_parse [OF _ refl, of "Proto_Http HTTP_11"]
    info_protocol_display_parse [OF _ refl, of "Proto_Other ''foo''"]
  by (simp add: parsed_protocol_def)

section \<open>Addresses\<close>

text \<open>
  \<open>'sa\<close> is \<open>std::net::SocketAddr\<close>, \<open>'da\<close> and \<open>'ua\<close> are chateau's duplex and Unix addresses.
\<close>

datatype ('sa, 'da, 'ua) braid_addr = Addr_Tcp 'sa | Addr_Duplex 'da | Addr_Unix 'ua

definition braid_addr_tcp :: "('sa, 'da, 'ua) braid_addr \<Rightarrow> 'sa option" where
  "braid_addr_tcp self = (case self of Addr_Tcp addr \<Rightarrow> Some addr | _ \<Rightarrow> None)"

definition braid_addr_path :: "('ua \<Rightarrow> 'p option) \<Rightarrow> ('p \<Rightarrow> 'utf8 option) \<Rightarrow>
    ('sa, 'da, 'ua) braid_addr \<Rightarrow> 'utf8 option" where
  "braid_addr_path unix_path utf8_from_path self =
     (case self of Addr_Unix addr \<Rightarrow> Option.bind (unix_path addr) utf8_from_path | _ \<Rightarrow> None)"

definition braid_addr_canonical :: "('sa, 'da, 'ua) braid_addr \<Rightarrow> ('sa, 'da, 'ua) braid_addr" where
  "braid_addr_canonical self = (case self of Addr_Tcp addr \<Rightarrow> Addr_Tcp addr | _ \<Rightarrow> self)"

definition braid_addr_display ::
  "('sa \<Rightarrow> string) \<Rightarrow> ('ua \<Rightarrow> string) \<Rightarrow> ('sa, 'da, 'ua) braid_addr \<Rightarrow> string" where
  "braid_addr_display show_tcp show_unix self =
     (case self of Addr_Tcp addr \<Rightarrow> show_tcp addr | Addr_Duplex _ \<Rightarrow> ''<duplex>''
      | Addr_Unix path \<Rightarrow> show_unix path)"

text \<open>The address of a TCP, duplex or Unix socket and its conversions into \<open>BraidAddr\<close>.\<close>

definition braid_addr_from_ip_port :: "('ip \<Rightarrow> 16 word \<Rightarrow> 'sa) \<Rightarrow> 'ip \<times> 16 word \<Rightarrow> ('sa, 'da, 'ua) braid_addr" where
  "braid_addr_from_ip_port socket_addr addr = Addr_Tcp (socket_addr (fst addr) (snd addr))"

definition braid_addr_try_from_unix :: "('s \<Rightarrow> io_error + 'ua) \<Rightarrow> 's \<Rightarrow> io_error + ('sa, 'da, 'ua) braid_addr" where
  "braid_addr_try_from_unix try_into addr = map_ok Addr_Unix (try_into addr)"

definition braid_addr_from_socket :: "'sa \<Rightarrow> ('sa, 'da, 'ua) braid_addr" where
  "braid_addr_from_socket addr = Addr_Tcp addr"

definition braid_addr_from_pathbuf :: "('path \<Rightarrow> 'ua) \<Rightarrow> 'path \<Rightarrow> ('sa, 'da, 'ua) braid_addr" where
  "braid_addr_from_pathbuf from_pathbuf addr = Addr_Unix (from_pathbuf addr)"

definition braid_addr_from_unix :: "'ua \<Rightarrow> ('sa, 'da, 'ua) braid_addr" where
  "braid_addr_from_unix addr = Addr_Unix addr"

definition braid_addr_from_duplex :: "'da \<Rightarrow> ('sa, 'da, 'ua) braid_addr" where
  "braid_addr_from_duplex addr = Addr_Duplex addr"

text \<open>The address inside, as the \<open>dyn Address\<close> that \<open>dt\<close>, \<open>dd\<close> or \<open>du\<close> makes of it.\<close>

definition braid_addr_inner ::
  "('sa \<Rightarrow> 'dyn) \<Rightarrow> ('da \<Rightarrow> 'dyn) \<Rightarrow> ('ua \<Rightarrow> 'dyn) \<Rightarrow> ('sa, 'da, 'ua) braid_addr \<Rightarrow> 'dyn option" where
  "braid_addr_inner dt dd du self =
     (case self of
        Addr_Tcp socket_addr \<Rightarrow> Some (dt socket_addr)
      | Addr_Duplex duplex \<Rightarrow> Some (dd duplex)
      | Addr_Unix unix_addr \<Rightarrow> Some (du unix_addr))"

lemma braid_addr_canonical_id [simp]: "braid_addr_canonical a = a"
  by (simp add: braid_addr_canonical_def split: braid_addr.split)

section \<open>Requests and responses\<close>

datatype http_method = CONNECT | GET | Method string

text \<open>
  \<open>http::Extensions\<close> is a map keyed by type; the crate stores three types in it: the
  connection info, the TLS connection info and a Unix address.
\<close>

record ('ci, 'tls, 'ua) extensions =
  ext_connection_info :: "'ci option"
  ext_tls :: "'tls option"
  ext_unix_addr :: "'ua option"

definition no_extensions :: "('ci, 'tls, 'ua) extensions" where
  "no_extensions = \<lparr>ext_connection_info = None, ext_tls = None, ext_unix_addr = None\<rparr>"

record ('u, 'h, 'x, 'b) request =
  rq_method :: http_method
  rq_uri :: 'u
  rq_version :: http_version
  rq_headers :: 'h
  rq_ext :: 'x
  rq_body :: 'b

record ('p, 'b) response =
  rs_parts :: 'p
  rs_body :: 'b

definition map_request_body :: "('b \<Rightarrow> 'c) \<Rightarrow> ('u, 'h, 'x, 'b) request \<Rightarrow> ('u, 'h, 'x, 'c) request" where
  "map_request_body f r =
     \<lparr>rq_method = rq_method r, rq_uri = rq_uri r, rq_version = rq_version r,
      rq_headers = rq_headers r, rq_ext = rq_ext r, rq_body = f (rq_body r)\<rparr>"

definition map_response_body :: "('b \<Rightarrow> 'c) \<Rightarrow> ('p, 'b) response \<Rightarrow> ('p, 'c) response" where
  "map_response_body f r = \<lparr>rs_parts = rs_parts r, rs_body = f (rs_body r)\<rparr>"

lemma map_request_body_simps [simp]:
  "rq_method (map_request_body f r) = rq_method r"
  "rq_uri (map_request_body f r) = rq_uri r"
  "rq_version (map_request_body f r) = rq_version r"
  "rq_headers (map_request_body f r) = rq_headers r"
  "rq_ext (map_request_body f r) = rq_ext r"
  "rq_body (map_request_body f r) = f (rq_body r)"
  by (simp_all add: map_request_body_def)

lemma map_response_body_simps [simp]:
  "rs_parts (map_response_body f r) = rs_parts r"
  "rs_body (map_response_body f r) = f (rs_body r)"
  by (simp_all add: map_response_body_def)

section \<open>The interface of the http crate\<close>

record ('u, 'au, 'h, 'v) http_api =
  uri_scheme :: "'u \<Rightarrow> string option"
  uri_authority :: "'u \<Rightarrow> 'au option"
  uri_host :: "'u \<Rightarrow> string option"
  uri_port :: "'u \<Rightarrow> (string \<times> 16 word) option"
  uri_path_and_query :: "'u \<Rightarrow> string option"
  uri_from_parts :: "string option \<Rightarrow> 'au option \<Rightarrow> string option \<Rightarrow> 'u option"
  uri_default :: 'u
  uri_from_str :: "string \<Rightarrow> 'u option"
  authority_from_str :: "string \<Rightarrow> 'au option"
  authority_host :: "'au \<Rightarrow> string"
  authority_str :: "'au \<Rightarrow> string"
  hdr_get :: "'h \<Rightarrow> string \<Rightarrow> 'v option"
  hdr_insert :: "'h \<Rightarrow> string \<Rightarrow> 'v \<Rightarrow> 'h"
  hdr_remove :: "'h \<Rightarrow> string \<Rightarrow> 'h"
  hv_from_str :: "string \<Rightarrow> 'v option"
  hv_to_str :: "'v \<Rightarrow> string option"

text \<open>\<open>HeaderMap\<close>: what a lookup returns after an insert or a remove.\<close>

definition header_laws :: "('u, 'au, 'h, 'v) http_api \<Rightarrow> bool" where
  "header_laws A \<longleftrightarrow>
     (\<forall>h k v k'. hdr_get A (hdr_insert A h k v) k' = (if k' = k then Some v else hdr_get A h k')) \<and>
     (\<forall>h k k'. hdr_get A (hdr_remove A h k) k' = (if k' = k then None else hdr_get A h k'))"

text \<open>
  \<open>Uri\<close>: a URI has a host exactly when it has an authority; \<open>from_parts\<close> accepts a lone
  authority and a lone path and keeps them; the default URI is \<open>/\<close>.
\<close>

definition uri_laws :: "('u, 'au, 'h, 'v) http_api \<Rightarrow> bool" where
  "uri_laws A \<longleftrightarrow>
     (\<forall>u. uri_host A u = map_option (authority_host A) (uri_authority A u)) \<and>
     (\<forall>a. \<exists>u. uri_from_parts A None (Some a) None = Some u \<and> uri_scheme A u = None \<and>
        uri_authority A u = Some a \<and> uri_path_and_query A u = None) \<and>
     (\<forall>u p. uri_path_and_query A u = Some p \<longrightarrow>
        (\<exists>u'. uri_from_parts A None None (Some p) = Some u' \<and> uri_scheme A u' = None \<and>
          uri_authority A u' = None \<and> uri_path_and_query A u' = Some p)) \<and>
     uri_scheme A (uri_default A) = None \<and> uri_authority A (uri_default A) = None \<and>
     uri_path_and_query A (uri_default A) = Some ''/''"

lemma header_lawsD:
  assumes "header_laws A"
  shows "hdr_get A (hdr_insert A h k v) k' = (if k' = k then Some v else hdr_get A h k')"
    and "hdr_get A (hdr_remove A h k) k' = (if k' = k then None else hdr_get A h k')"
  using assms by (simp_all add: header_laws_def)

lemma uri_laws_host: "uri_laws A \<Longrightarrow> uri_host A u = map_option (authority_host A) (uri_authority A u)"
  by (simp add: uri_laws_def)

lemma uri_laws_authority:
  assumes "uri_laws A"
  obtains u where "uri_from_parts A None (Some a) None = Some u" "uri_scheme A u = None"
    "uri_authority A u = Some a" "uri_path_and_query A u = None"
  using assms unfolding uri_laws_def by blast

lemma uri_laws_path:
  assumes "uri_laws A" and "uri_path_and_query A u = Some p"
  obtains u' where "uri_from_parts A None None (Some p) = Some u'" "uri_scheme A u' = None"
    "uri_authority A u' = None" "uri_path_and_query A u' = Some p"
  using assms unfolding uri_laws_def by blast

lemma uri_laws_default:
  assumes "uri_laws A"
  shows "uri_scheme A (uri_default A) = None" "uri_authority A (uri_default A) = None"
    "uri_path_and_query A (uri_default A) = Some ''/''"
  using assms by (simp_all add: uri_laws_def)

text \<open>The interface of chateau's \<open>TlsConnectionInfo\<close>.\<close>

record 'tls tls_api =
  tls_server_name :: "'tls \<Rightarrow> string option"
  tls_alpn :: "'tls \<Rightarrow> string option"
  tls_validated :: "'tls \<Rightarrow> 'tls"

section \<open>An instance used in examples\<close>

text \<open>
  URIs as records of their parts, headers as association lists: an instance of
  \<open>http_api\<close> that satisfies the laws, on which witnesses evaluate.
\<close>

record plain_authority =
  pa_host :: string
  pa_port :: "(string \<times> 16 word) option"

record plain_uri =
  pu_scheme :: "string option"
  pu_authority :: "plain_authority option"
  pu_path :: "string option"

definition plain_api :: "(plain_uri, plain_authority, (string \<times> string) list, string) http_api" where
  "plain_api =
     \<lparr>uri_scheme = pu_scheme, uri_authority = pu_authority,
      uri_host = (\<lambda>u. map_option pa_host (pu_authority u)),
      uri_port = (\<lambda>u. Option.bind (pu_authority u) pa_port),
      uri_path_and_query = pu_path,
      uri_from_parts = (\<lambda>s a p. Some \<lparr>pu_scheme = s, pu_authority = a, pu_path = p\<rparr>),
      uri_default = \<lparr>pu_scheme = None, pu_authority = None, pu_path = Some ''/''\<rparr>,
      uri_from_str = (\<lambda>s. None),
      authority_from_str = (\<lambda>s. Some \<lparr>pa_host = s, pa_port = None\<rparr>),
      authority_host = pa_host,
      authority_str = (\<lambda>a. pa_host a @ (case pa_port a of None \<Rightarrow> [] | Some (s, n) \<Rightarrow> '':'' @ s)),
      hdr_get = map_of,
      hdr_insert = (\<lambda>h k v. (k, v) # h),
      hdr_remove = (\<lambda>h k. filter (\<lambda>kv. fst kv \<noteq> k) h),
      hv_from_str = Some, hv_to_str = Some\<rparr>"

lemma plain_api_sel [api_simps]:
  "uri_scheme plain_api = pu_scheme" "uri_authority plain_api = pu_authority"
  "uri_host plain_api u = map_option pa_host (pu_authority u)"
  "uri_port plain_api u = Option.bind (pu_authority u) pa_port"
  "uri_path_and_query plain_api = pu_path"
  "uri_from_parts plain_api s a p = Some \<lparr>pu_scheme = s, pu_authority = a, pu_path = p\<rparr>"
  "uri_default plain_api = \<lparr>pu_scheme = None, pu_authority = None, pu_path = Some ''/''\<rparr>"
  "authority_from_str plain_api x = Some \<lparr>pa_host = x, pa_port = None\<rparr>"
  "authority_host plain_api = pa_host"
  "authority_str plain_api b = pa_host b @ (case pa_port b of None \<Rightarrow> [] | Some (s, n) \<Rightarrow> '':'' @ s)"
  "hdr_get plain_api = map_of" "hdr_insert plain_api h k v = (k, v) # h"
  "hdr_remove plain_api h k = filter (\<lambda>kv. fst kv \<noteq> k) h"
  "hv_from_str plain_api x = Some x" "hv_to_str plain_api x = Some x"
  by (simp_all add: plain_api_def)

lemma plain_header_laws: "header_laws plain_api"
proof -
  have "map_of (filter (\<lambda>kv. fst kv \<noteq> k) h) k' = (if k' = k then None else map_of h k')"
    for h :: "(string \<times> string) list" and k k' :: string
    by (induction h) auto
  then show ?thesis by (simp add: header_laws_def api_simps)
qed

lemma plain_uri_laws: "uri_laws plain_api"
  by (auto simp: uri_laws_def api_simps)

end
