(* ===== verification/Service_Layers.thy ===== *)
theory Service_Layers
  imports Wrappers Http_Types
begin

text \<open>
  The generic tower middleware of \<open>src/service\<close> and \<open>src/bridge/service.rs\<close>: optional
  layers (\<open>option.rs\<close>), preprocessing (\<open>error.rs\<close>), timeouts (\<open>timeout.rs\<close>), body
  adapters (\<open>incoming.rs\<close>) and the tower-to-hyper bridge. Each middleware is a state, its
  \<open>poll_ready\<close>, \<open>call\<close> and future \<open>poll\<close>, and the dictionary that packs them; the inner
  service is a parameter. The interpretations show that each is a wrapper in the sense of
  \<open>Wrappers\<close>.
\<close>

section \<open>Optional layers\<close>

datatype ('m, 's) option_service = Opt_Middleware 'm | Opt_Service 's

datatype ('fm, 'fs) option_future = OptFut_Middleware 'fm | OptFut_Service 'fs

text \<open>A layer is a function from the inner service to the outer one.\<close>

definition option_layer :: "('s \<Rightarrow> 'm) option \<Rightarrow> 's \<Rightarrow> ('m, 's) option_service" where
  "option_layer middleware inner =
     (case middleware of
        Some layer \<Rightarrow> Opt_Middleware (layer inner)
      | None \<Rightarrow> Opt_Service inner)"

text \<open>\<open>optional\<close> of a service builder, which is the function that applies its layers.\<close>

definition builder_optional ::
  "('s \<Rightarrow> 'm) option \<Rightarrow> (('m, 's) option_service \<Rightarrow> 'c) \<Rightarrow> 's \<Rightarrow> 'c" where
  "builder_optional middleware self = (\<lambda>s. self (option_layer middleware s))"

definition option_poll_ready ::
  "('m, 'r, 'fm, 'em, 'a, 'w) service \<Rightarrow> ('s, 'r, 'fs, 'e, 'a, 'w) service \<Rightarrow> ('em \<Rightarrow> 'e) \<Rightarrow>
     ('m, 's) option_service \<Rightarrow> 'w \<Rightarrow> ('e + unit) polled \<times> ('m, 's) option_service \<times> 'w" where
  "option_poll_ready M S into self w =
     (case self of
        Opt_Middleware m \<Rightarrow>
          map_res (map_polled (map_err into)) (lift_res Opt_Middleware (poll_ready M m w))
      | Opt_Service s \<Rightarrow> lift_res Opt_Service (poll_ready S s w))"

definition option_call ::
  "('m, 'r, 'fm, 'em, 'a, 'w) service \<Rightarrow> ('s, 'r, 'fs, 'e, 'a, 'w) service \<Rightarrow>
     ('m, 's) option_service \<Rightarrow> 'r \<Rightarrow> 'w \<Rightarrow>
     ('fm, 'fs) option_future outcome \<times> ('m, 's) option_service \<times> 'w" where
  "option_call M S self req w =
     (case self of
        Opt_Middleware m \<Rightarrow>
          map_res (map_outcome OptFut_Middleware) (lift_res Opt_Middleware (call M m req w))
      | Opt_Service s \<Rightarrow> map_res (map_outcome OptFut_Service) (lift_res Opt_Service (call S s req w)))"

definition option_future_poll ::
  "('fm, 'em + 'a, 'w) pollf \<Rightarrow> ('fs, 'e + 'a, 'w) pollf \<Rightarrow> ('em \<Rightarrow> 'e) \<Rightarrow>
     (('fm, 'fs) option_future, 'e + 'a, 'w) pollf" where
  "option_future_poll pm ps into self w =
     (case self of
        OptFut_Middleware f \<Rightarrow>
          map_res (map_polled (map_err into)) (lift_res OptFut_Middleware (pm f w))
      | OptFut_Service f \<Rightarrow> lift_res OptFut_Service (ps f w))"

definition option_service_ops ::
  "('m, 'r, 'fm, 'em, 'a, 'w) service \<Rightarrow> ('s, 'r, 'fs, 'e, 'a, 'w) service \<Rightarrow> ('em \<Rightarrow> 'e) \<Rightarrow>
     (('m, 's) option_service, 'r, ('fm, 'fs) option_future, 'e, 'a, 'w) service" where
  "option_service_ops M S into =
     \<lparr>poll_ready = option_poll_ready M S into, call = option_call M S,
      poll_fut = option_future_poll (poll_fut M) (poll_fut S) into\<rparr>"

lemmas option_defs =
  option_service_ops_def option_poll_ready_def option_call_def option_future_poll_def

interpretation option_mw: request_map M "option_service_ops M S into" OptFut_Middleware into id Opt_Middleware Ret
  for M S into
  by unfold_locales (simp_all add: option_defs)

interpretation option_plain: request_map S "option_service_ops M S into" OptFut_Service id id Opt_Service Ret
  for M S into
  by unfold_locales (simp_all add: option_defs)

section \<open>Preprocessing\<close>

record ('s, 'p) preprocess =
  pp_inner :: 's
  pp_preprocessor :: 'p

datatype ('f, 'e) maybe_error_future = Me_Inner 'f | Me_Error "'e option"

definition preprocess_poll_ready ::
  "('s, 'r, 'f, 'e, 'a, 'w) service \<Rightarrow> ('s, 'r \<Rightarrow> 'e + 'r) preprocess \<Rightarrow> 'w \<Rightarrow>
     ('e + unit) polled \<times> ('s, 'r \<Rightarrow> 'e + 'r) preprocess \<times> 'w" where
  "preprocess_poll_ready S self w = lift_res (\<lambda>s. self\<lparr>pp_inner := s\<rparr>) (poll_ready S (pp_inner self) w)"

definition preprocess_call ::
  "('s, 'r, 'f, 'e, 'a, 'w) service \<Rightarrow> ('s, 'r \<Rightarrow> 'e + 'r) preprocess \<Rightarrow> 'r \<Rightarrow> 'w \<Rightarrow>
     ('f, 'e) maybe_error_future outcome \<times> ('s, 'r \<Rightarrow> 'e + 'r) preprocess \<times> 'w" where
  "preprocess_call S self req w =
     (case pp_preprocessor self req of
        Inr req' \<Rightarrow>
          map_res (map_outcome Me_Inner)
            (lift_res (\<lambda>s. self\<lparr>pp_inner := s\<rparr>) (call S (pp_inner self) req' w))
      | Inl error \<Rightarrow> (Ret (Me_Error (Some error)), self, w))"

definition maybe_error_future_poll ::
  "('f, 'e + 'a, 'w) pollf \<Rightarrow> (('f, 'e) maybe_error_future, 'e + 'a, 'w) pollf" where
  "maybe_error_future_poll p self w =
     (case self of
        Me_Inner f \<Rightarrow> lift_res Me_Inner (p f w)
      | Me_Error (Some e) \<Rightarrow> (Ready (Inl e), Me_Error None, w)
      | Me_Error None \<Rightarrow> (Panicked, Me_Error None, w))"

definition preprocess_service ::
  "('s, 'r, 'f, 'e, 'a, 'w) service \<Rightarrow>
     (('s, 'r \<Rightarrow> 'e + 'r) preprocess, 'r, ('f, 'e) maybe_error_future, 'e, 'a, 'w) service" where
  "preprocess_service S =
     \<lparr>poll_ready = preprocess_poll_ready S, call = preprocess_call S,
      poll_fut = maybe_error_future_poll (poll_fut S)\<rparr>"

definition preprocess_layer :: "'p \<Rightarrow> 's \<Rightarrow> ('s, 'p) preprocess" where
  "preprocess_layer preprocessor inner = \<lparr>pp_inner = inner, pp_preprocessor = preprocessor\<rparr>"

lemma preprocess_layer_eta:
  "preprocess_layer pre = (\<lambda>s. \<lparr>pp_inner = s, pp_preprocessor = pre\<rparr>)"
  by (rule ext) (simp add: preprocess_layer_def)

lemmas preprocess_defs =
  preprocess_service_def preprocess_poll_ready_def preprocess_call_def maybe_error_future_poll_def
  preprocess_layer_eta

interpretation maybe_error: error_once "maybe_error_future_poll p" Me_Error id for p
  by unfold_locales (simp_all add: maybe_error_future_poll_def)

interpretation preprocess:
  request_gate S "preprocess_service S" Me_Inner id id "preprocess_layer pre" pre "\<lambda>e. Me_Error (Some e)"
  for S pre
  by unfold_locales (simp_all add: preprocess_defs)

text \<open>
  A request through \<open>PreprocessService\<close>: when the preprocessor accepts it the outcome
  is that of the inner service on the preprocessed request, polled as often; when it
  returns an error, that error is the outcome and the inner service and the world are
  untouched.
\<close>

theorem preprocess_request:
  "run_call (preprocess_service S) (Suc n) (preprocess_layer pre s) r w =
     (case pre r of
        Inl e \<Rightarrow> (Ready (Inl e), preprocess_layer pre s, w)
      | Inr r' \<Rightarrow> lift_res (preprocess_layer pre) (run_call S (Suc n) s r' w))"
  by (simp add: preprocess.run_gate split: sum.split)

section \<open>Timeouts\<close>

text \<open>
  \<open>tokio::time::sleep\<close> is a parameter. Documented of it: a timer made with duration \<open>d\<close>
  has the deadline \<open>d\<close> after the present, and is ready from its deadline on, not before.
\<close>

record ('sl, 'w) sleep_api =
  sleep_new :: "duration \<Rightarrow> 'w \<Rightarrow> 'sl"
  sleep_poll :: "('sl, unit, 'w) pollf"

definition sleep_laws :: "('sl, 'w) sleep_api \<Rightarrow> ('w \<Rightarrow> instant) \<Rightarrow> ('sl \<Rightarrow> instant) \<Rightarrow> bool" where
  "sleep_laws Z now deadline \<longleftrightarrow>
     (\<forall>d w. deadline (sleep_new Z d w) = now w + d) \<and>
     (\<forall>sl w. \<exists>sl'. sleep_poll Z sl w = (if deadline sl \<le> now w then Ready () else Pending, sl', w)
        \<and> deadline sl' = deadline sl)"

record ('s, 'e) timeout_svc =
  ts_inner :: 's
  ts_timeout :: duration
  ts_error :: "unit \<Rightarrow> 'e"

record ('f, 'e, 'sl) timeout_future =
  tf_inner :: 'f
  tf_error :: "unit \<Rightarrow> 'e"
  tf_timeout :: 'sl

definition timeout_new :: "'s \<Rightarrow> duration \<Rightarrow> (unit \<Rightarrow> 'e) \<Rightarrow> ('s, 'e) timeout_svc" where
  "timeout_new inner timeout error = \<lparr>ts_inner = inner, ts_timeout = timeout, ts_error = error\<rparr>"

definition timeout_layer :: "(unit \<Rightarrow> 'e) \<Rightarrow> duration \<Rightarrow> 's \<Rightarrow> ('s, 'e) timeout_svc" where
  "timeout_layer error timeout inner = timeout_new inner timeout error"

definition timeout_clone :: "('s \<Rightarrow> 's) \<Rightarrow> ((unit \<Rightarrow> 'e) \<Rightarrow> unit \<Rightarrow> 'e) \<Rightarrow> ('s, 'e) timeout_svc \<Rightarrow> ('s, 'e) timeout_svc" where
  "timeout_clone clone clone_error self =
     \<lparr>ts_inner = clone (ts_inner self), ts_timeout = ts_timeout self, ts_error = clone_error (ts_error self)\<rparr>"

definition timeout_future_new ::
  "('sl, 'w) sleep_api \<Rightarrow> 'f \<Rightarrow> (unit \<Rightarrow> 'e) \<Rightarrow> duration \<Rightarrow> 'w \<Rightarrow> ('f, 'e, 'sl) timeout_future" where
  "timeout_future_new Z inner error timeout w =
     \<lparr>tf_inner = inner, tf_error = error, tf_timeout = sleep_new Z timeout w\<rparr>"

definition timeout_poll_ready ::
  "('s, 'r, 'f, 'e, 'a, 'w) service \<Rightarrow> ('s, 'e) timeout_svc \<Rightarrow> 'w \<Rightarrow>
     ('e + unit) polled \<times> ('s, 'e) timeout_svc \<times> 'w" where
  "timeout_poll_ready S self w = lift_res (\<lambda>s. self\<lparr>ts_inner := s\<rparr>) (poll_ready S (ts_inner self) w)"

definition timeout_call ::
  "('sl, 'w) sleep_api \<Rightarrow> ('s, 'r, 'f, 'e, 'a, 'w) service \<Rightarrow> ('s, 'e) timeout_svc \<Rightarrow> 'r \<Rightarrow> 'w \<Rightarrow>
     ('f, 'e, 'sl) timeout_future outcome \<times> ('s, 'e) timeout_svc \<times> 'w" where
  "timeout_call Z S self req w =
     (case call S (ts_inner self) req w of
        (Ret f, s', w') \<Rightarrow>
          (Ret (timeout_future_new Z f (ts_error self) (ts_timeout self) w'), self\<lparr>ts_inner := s'\<rparr>, w')
      | (Panic, s', w') \<Rightarrow> (Panic, self\<lparr>ts_inner := s'\<rparr>, w'))"

definition timeout_future_poll ::
  "('sl, 'w) sleep_api \<Rightarrow> ('f, 'e + 'a, 'w) pollf \<Rightarrow> (('f, 'e, 'sl) timeout_future, 'e + 'a, 'w) pollf" where
  "timeout_future_poll Z p self w =
     (case p (tf_inner self) w of
        (Ready response, f', w') \<Rightarrow> (Ready response, self\<lparr>tf_inner := f'\<rparr>, w')
      | (Panicked, f', w') \<Rightarrow> (Panicked, self\<lparr>tf_inner := f'\<rparr>, w')
      | (Pending, f', w') \<Rightarrow>
          (case sleep_poll Z (tf_timeout self) w' of
             (Ready u, sl', w'') \<Rightarrow>
               (Ready (Inl (tf_error self ())), self\<lparr>tf_inner := f', tf_timeout := sl'\<rparr>, w'')
           | (Pending, sl', w'') \<Rightarrow> (Pending, self\<lparr>tf_inner := f', tf_timeout := sl'\<rparr>, w'')
           | (Panicked, sl', w'') \<Rightarrow> (Panicked, self\<lparr>tf_inner := f', tf_timeout := sl'\<rparr>, w'')))"

definition timeout_service ::
  "('sl, 'w) sleep_api \<Rightarrow> ('s, 'r, 'f, 'e, 'a, 'w) service \<Rightarrow>
     (('s, 'e) timeout_svc, 'r, ('f, 'e, 'sl) timeout_future, 'e, 'a, 'w) service" where
  "timeout_service Z S =
     \<lparr>poll_ready = timeout_poll_ready S, call = timeout_call Z S,
      poll_fut = timeout_future_poll Z (poll_fut S)\<rparr>"

lemma timeout_future_step:
  assumes "sleep_laws Z now deadline" and "p (tf_inner t) w = (r, f', w')"
  obtains sl' where
    "timeout_future_poll Z p t w =
       ((case r of
           Pending \<Rightarrow> (if deadline (tf_timeout t) \<le> now w' then Ready (Inl (tf_error t ())) else Pending)
         | _ \<Rightarrow> r),
        t\<lparr>tf_inner := f', tf_timeout := sl'\<rparr>, w')"
    and "deadline sl' = deadline (tf_timeout t)"
proof -
  obtain sl' where sl: "sleep_poll Z (tf_timeout t) w' =
      (if deadline (tf_timeout t) \<le> now w' then Ready () else Pending, sl', w')"
    "deadline sl' = deadline (tf_timeout t)"
    using assms(1) unfolding sleep_laws_def by meson
  show ?thesis
  proof (cases r)
    case Pending
    with assms(2) sl show ?thesis by (intro that [of sl']) (auto simp: timeout_future_poll_def)
  next
    case (Ready x)
    with assms(2) show ?thesis by (intro that [of "tf_timeout t"]) (auto simp: timeout_future_poll_def)
  next
    case Panicked
    with assms(2) show ?thesis by (intro that [of "tf_timeout t"]) (auto simp: timeout_future_poll_def)
  qed
qed

text \<open>
  Over a whole run: the timeout future gives what its inner future gives, until the first
  poll at which the inner future is pending and the deadline has passed.
\<close>

fun inner_run_until ::
  "('w \<Rightarrow> instant) \<Rightarrow> instant \<Rightarrow> 'o \<Rightarrow> ('f, 'o, 'w) pollf \<Rightarrow> nat \<Rightarrow> 'f \<Rightarrow> 'w \<Rightarrow> 'o polled \<times> 'w" where
  "inner_run_until now dl err p 0 f w = (Pending, w)"
| "inner_run_until now dl err p (Suc n) f w =
     (case p f w of
        (Pending, f', w') \<Rightarrow>
          if dl \<le> now w' then (Ready err, w') else inner_run_until now dl err p n f' w'
      | (r, f', w') \<Rightarrow> (r, w'))"

lemma timeout_run:
  assumes "sleep_laws Z now deadline"
  shows "run_polls (timeout_future_poll Z p) n t w = (r, t', w') \<Longrightarrow>
    inner_run_until now (deadline (tf_timeout t)) (Inl (tf_error t ())) p n (tf_inner t) w = (r, w')"
proof (induction n arbitrary: t w)
  case 0
  then show ?case by simp
next
  case (Suc n)
  obtain q f' w1 where q: "p (tf_inner t) w = (q, f', w1)" by (cases "p (tf_inner t) w") auto
  obtain sl' where step: "timeout_future_poll Z p t w =
       ((case q of
           Pending \<Rightarrow> (if deadline (tf_timeout t) \<le> now w1 then Ready (Inl (tf_error t ())) else Pending)
         | _ \<Rightarrow> q), t\<lparr>tf_inner := f', tf_timeout := sl'\<rparr>, w1)"
    and dl: "deadline sl' = deadline (tf_timeout t)"
    using timeout_future_step [where p = p and t = t and w = w, OF assms q] by blast
  show ?case
    using Suc.prems Suc.IH [of "t\<lparr>tf_inner := f', tf_timeout := sl'\<rparr>" w1]
    by (cases q) (auto simp: q step dl split: if_splits)
qed

text \<open>
  An instance used in examples: the world is the clock, a timer is its deadline, and a
  request \<open>r\<close> to the slow service is answered at the poll after \<open>r\<close> polls of one time unit.
\<close>

definition clock_sleep :: "(instant, instant) sleep_api" where
  "clock_sleep =
     \<lparr>sleep_new = (\<lambda>d w. w + d), sleep_poll = (\<lambda>sl w. (if sl \<le> w then Ready () else Pending, sl, w))\<rparr>"

lemma clock_sleep_laws: "sleep_laws clock_sleep id id"
  by (simp add: sleep_laws_def clock_sleep_def)

definition slow_poll :: "(nat, string + nat, instant) pollf" where
  "slow_poll f w = (if f = 0 then Ready (Inr 200) else Pending, f - 1, Suc w)"

definition slow_service :: "(unit, nat, nat, string, nat, instant) service" where
  "slow_service =
     \<lparr>poll_ready = (\<lambda>s w. (Ready (Inr ()), s, w)), call = (\<lambda>s r w. (Ret r, s, w)),
      poll_fut = slow_poll\<rparr>"

text \<open>
  A request through the timeout middleware, with \<open>d\<close> the configured duration and
  \<open>t0\<close> the time of the call. The response of the inner service wins whenever it is ready,
  even at or after the deadline; the configured error is returned exactly at the first
  poll at which the inner future is pending and the time is at least \<open>t0 + d\<close>.
\<close>

theorem timeout_request:
  assumes "sleep_laws Z now deadline"
    and "call S (ts_inner self) r w = (Ret f, s', w1)"
    and "run_call (timeout_service Z S) n self r w = (res, self', w')"
  shows "(res, w') =
      inner_run_until now (now w1 + ts_timeout self) (Inl (ts_error self ())) (poll_fut S) n f w1
    \<and> self' = self\<lparr>ts_inner := s'\<rparr>"
proof -
  let ?t = "timeout_future_new Z f (ts_error self) (ts_timeout self) w1"
  obtain t' where run: "run_polls (timeout_future_poll Z (poll_fut S)) n ?t w1 = (res, t', w')"
    and self': "self' = self\<lparr>ts_inner := s'\<rparr>"
    using assms(2,3)
    by (auto simp: run_call_def timeout_service_def timeout_call_def split: prod.splits)
  have "deadline (tf_timeout ?t) = now w1 + ts_timeout self"
    using assms(1) by (simp add: sleep_laws_def timeout_future_new_def)
  then show ?thesis
    using timeout_run [OF assms(1) run] self' by (simp add: timeout_future_new_def)
qed

theorem timeout_request_witness:
  "run_call (timeout_service clock_sleep slow_service) 9 (timeout_new () 3 (\<lambda>u. ''timeout'')) 7 10
     = (Ready (Inl ''timeout''), timeout_new () 3 (\<lambda>u. ''timeout''), 13)
   \<and> (Ready (Inl ''timeout''), 13) =
     inner_run_until id (id 10 + 3) (Inl ''timeout'') slow_poll 9 7 10"
proof -
  let ?svc = "timeout_new () 3 (\<lambda>u. ''timeout'')"
  have run: "run_call (timeout_service clock_sleep slow_service) 9 ?svc 7 10
     = (Ready (Inl ''timeout''), ?svc, 13)"
    by (simp add: run_call_def timeout_service_def timeout_call_def timeout_future_new_def
        timeout_new_def slow_service_def clock_sleep_def timeout_future_poll_def slow_poll_def
        eval_nat_numeral)
  have call: "call slow_service (ts_inner ?svc) 7 10 = (Ret 7, (), 10)"
    by (simp add: slow_service_def)
  show ?thesis
    using timeout_request [OF clock_sleep_laws call run] run
    by (simp add: timeout_new_def slow_service_def)
qed

text \<open>
  A poll of the timeout future at or after its deadline never stays pending (unless
  the inner poll panics it returns a result), so a request cannot outlive its timeout.
\<close>

theorem timeout_resolves_at_deadline:
  assumes "sleep_laws Z now deadline"
    and "timeout_future_poll Z p t w = (r, t', w')"
    and "deadline (tf_timeout t) \<le> now w'"
  shows "r \<noteq> Pending"
proof -
  obtain q f' w1 where q: "p (tf_inner t) w = (q, f', w1)" by (cases "p (tf_inner t) w") auto
  obtain sl' where "timeout_future_poll Z p t w =
       ((case q of
           Pending \<Rightarrow> (if deadline (tf_timeout t) \<le> now w1 then Ready (Inl (tf_error t ())) else Pending)
         | _ \<Rightarrow> q), t\<lparr>tf_inner := f', tf_timeout := sl'\<rparr>, w1)"
    using timeout_future_step [where p = p and t = t and w = w, OF assms(1) q] by blast
  then show ?thesis using assms(2,3) by (cases q) auto
qed

theorem timeout_resolves_at_deadline_witness:
  "fst (timeout_future_poll clock_sleep slow_poll
     (timeout_future_new clock_sleep 5 (\<lambda>u. ''timeout'') 2 (0::instant)) 4) \<noteq> Pending"
proof -
  let ?t = "timeout_future_new clock_sleep 5 (\<lambda>u. ''timeout'') 2 (0::instant)"
  have run: "timeout_future_poll clock_sleep slow_poll ?t 4 =
      (Ready (Inl ''timeout''), ?t\<lparr>tf_inner := 4\<rparr>, 5)"
    by (simp add: timeout_future_poll_def timeout_future_new_def slow_poll_def clock_sleep_def)
  have due: "id (tf_timeout ?t) \<le> id (5::instant)"
    by (simp add: timeout_future_new_def clock_sleep_def)
  show ?thesis using timeout_resolves_at_deadline [OF clock_sleep_laws run due] run by simp
qed

lemma inner_run_until_due:
  "inner_run_until now dl err p n f w = (Pending, w') \<Longrightarrow> n = 0 \<or> now w' < dl"
proof (induction n arbitrary: f w)
  case 0
  then show ?case by simp
next
  case (Suc n)
  obtain q f' w1 where q: "p f w = (q, f', w1)" by (cases "p f w") auto
  with Suc.prems have "q = Pending" by (cases q) auto
  with Suc q show ?case by (cases n) (auto split: if_splits)
qed

text \<open>
  C29: A request cannot outlive its timeout. However the inner service behaves, a request
  that was polled at all is not pending any more once the clock has reached the time of the
  call plus the configured duration at the last poll.
\<close>

theorem timeout_never_late:
  assumes "sleep_laws Z now deadline"
    and "call S (ts_inner self) r w = (Ret f, s', w1)"
    and "run_call (timeout_service Z S) (Suc n) self r w = (res, self', w')"
    and "now w1 + ts_timeout self \<le> now w'"
  shows "res \<noteq> Pending"
proof
  assume pending: "res = Pending"
  let ?t = "timeout_future_new Z f (ts_error self) (ts_timeout self) w1"
  obtain t' where run: "run_polls (timeout_future_poll Z (poll_fut S)) (Suc n) ?t w1 = (res, t', w')"
    using assms(2,3)
    by (auto simp: run_call_def timeout_service_def timeout_call_def split: prod.splits)
  have "deadline (tf_timeout ?t) = now w1 + ts_timeout self"
    using assms(1) by (simp add: sleep_laws_def timeout_future_new_def)
  with inner_run_until_due [OF timeout_run [OF assms(1) run, unfolded pending]] assms(4)
  show False by simp
qed

lemma timeout_never_late_witness:
  "fst (run_call (timeout_service clock_sleep slow_service) 3 (timeout_new () 3 (\<lambda>u. ''timeout'')) 7 10) \<noteq> Pending"
proof -
  let ?svc = "timeout_new () 3 (\<lambda>u. ''timeout'')"
  have run: "run_call (timeout_service clock_sleep slow_service) (Suc 2) ?svc 7 10
     = (Ready (Inl ''timeout''), ?svc, 13)"
    by (simp add: run_call_def timeout_service_def timeout_call_def timeout_future_new_def
        timeout_new_def slow_service_def clock_sleep_def timeout_future_poll_def slow_poll_def
        eval_nat_numeral)
  have call: "call slow_service (ts_inner ?svc) 7 10 = (Ret 7, (), 10)"
    by (simp add: slow_service_def)
  have due: "id (10 :: instant) + ts_timeout ?svc \<le> id 13" by (simp add: timeout_new_def)
  show ?thesis using timeout_never_late [OF clock_sleep_laws call run due] run by (simp add: eval_nat_numeral)
qed

section \<open>Body adapters\<close>

text \<open>\<open>conv\<close> is \<open>BIn::from\<close> or \<open>BOut::from\<close>, the conversion out of hyper's \<open>Incoming\<close>.\<close>

record 's incoming_request = ir_inner :: 's

record 's incoming_response = is_inner :: 's

record 'f incoming_response_future = if_future :: 'f

definition incoming_request_new :: "'s \<Rightarrow> 's incoming_request" where
  "incoming_request_new inner = \<lparr>ir_inner = inner\<rparr>"

definition incoming_request_layer :: "'s \<Rightarrow> 's incoming_request" where
  "incoming_request_layer inner = \<lparr>ir_inner = inner\<rparr>"

definition incoming_request_clone :: "('s \<Rightarrow> 's) \<Rightarrow> 's incoming_request \<Rightarrow> 's incoming_request" where
  "incoming_request_clone clone self = \<lparr>ir_inner = clone (ir_inner self)\<rparr>"

definition incoming_request_default :: "'s \<Rightarrow> 's incoming_request" where
  "incoming_request_default inner_default = \<lparr>ir_inner = inner_default\<rparr>"

definition incoming_request_service ::
  "('i \<Rightarrow> 'b) \<Rightarrow> ('s, ('u, 'h, 'x, 'b) request, 'f, 'e, 'a, 'w) service \<Rightarrow>
     ('s incoming_request, ('u, 'h, 'x, 'i) request, 'f, 'e, 'a, 'w) service" where
  "incoming_request_service conv S =
     \<lparr>poll_ready = (\<lambda>self w. lift_res (\<lambda>s. self\<lparr>ir_inner := s\<rparr>) (poll_ready S (ir_inner self) w)),
      call = (\<lambda>self req w.
        lift_res (\<lambda>s. self\<lparr>ir_inner := s\<rparr>) (call S (ir_inner self) (map_request_body conv req) w)),
      poll_fut = poll_fut S\<rparr>"

definition incoming_response_new :: "'s \<Rightarrow> 's incoming_response" where
  "incoming_response_new inner = \<lparr>is_inner = inner\<rparr>"

definition incoming_response_layer :: "'s \<Rightarrow> 's incoming_response" where
  "incoming_response_layer inner = \<lparr>is_inner = inner\<rparr>"

definition incoming_response_clone :: "('s \<Rightarrow> 's) \<Rightarrow> 's incoming_response \<Rightarrow> 's incoming_response" where
  "incoming_response_clone clone self = \<lparr>is_inner = clone (is_inner self)\<rparr>"

definition incoming_response_default :: "'s \<Rightarrow> 's incoming_response" where
  "incoming_response_default inner_default = \<lparr>is_inner = inner_default\<rparr>"

definition incoming_response_future_poll ::
  "('i \<Rightarrow> 'b) \<Rightarrow> ('f, 'e + ('p, 'i) response, 'w) pollf \<Rightarrow>
     ('f incoming_response_future, 'e + ('p, 'b) response, 'w) pollf" where
  "incoming_response_future_poll conv p self w =
     (case p (if_future self) w of
        (Ready res, f', w') \<Rightarrow> (Ready (map_ok (map_response_body conv) res), self\<lparr>if_future := f'\<rparr>, w')
      | (Pending, f', w') \<Rightarrow> (Pending, self\<lparr>if_future := f'\<rparr>, w')
      | (Panicked, f', w') \<Rightarrow> (Panicked, self\<lparr>if_future := f'\<rparr>, w'))"

definition incoming_response_service ::
  "('i \<Rightarrow> 'b) \<Rightarrow> ('s, 'r, 'f, 'e, ('p, 'i) response, 'w) service \<Rightarrow>
     ('s incoming_response, 'r, 'f incoming_response_future, 'e, ('p, 'b) response, 'w) service" where
  "incoming_response_service conv S =
     \<lparr>poll_ready = (\<lambda>self w. lift_res (\<lambda>s. self\<lparr>is_inner := s\<rparr>) (poll_ready S (is_inner self) w)),
      call = (\<lambda>self req w.
        map_res (map_outcome (\<lambda>f. \<lparr>if_future = f\<rparr>))
          (lift_res (\<lambda>s. self\<lparr>is_inner := s\<rparr>) (call S (is_inner self) req w))),
      poll_fut = incoming_response_future_poll conv (poll_fut S)\<rparr>"

lemmas incoming_defs =
  incoming_request_new_def incoming_request_layer_def incoming_request_service_def
  incoming_response_new_def incoming_response_layer_def incoming_response_future_poll_def
  incoming_response_service_def

interpretation incoming_request:
  request_map S "incoming_request_service conv S" "\<lambda>f. f" id id incoming_request_layer
    "\<lambda>r. Ret (map_request_body conv r)" for S conv
  by unfold_locales (simp_all add: incoming_defs sum.map_id0 map_res_def lift_res_def outcome.map_ident split: prod.splits)

interpretation incoming_response:
  request_map S "incoming_response_service conv S" "\<lambda>f. \<lparr>if_future = f\<rparr>" id "map_response_body conv"
    incoming_response_layer Ret for S conv
  by unfold_locales
    (auto simp: incoming_defs sum.map_id0 map_res_def lift_res_def split: prod.splits polled.splits)

text \<open>
  The two body adapters around a service, together: the inner service is called once
  with the same request head and the converted body, and the outcome is the inner outcome
  with the response body converted and errors unchanged.
\<close>

theorem incoming_adapters_request:
  "run_call (incoming_response_service conv2 (incoming_request_service conv1 S)) n
      (incoming_response_layer (incoming_request_layer s)) r w =
     map_res (map_polled (map_ok (map_response_body conv2)))
       (lift_res (\<lambda>s'. incoming_response_layer (incoming_request_layer s'))
         (run_call S n s (map_request_body conv1 r) w))"
  by (simp add: incoming_response.run_map incoming_request.run_map lift_res_comp comp_def)

section \<open>The tower to hyper bridge\<close>

text \<open>
  \<open>tower::util::Oneshot\<close> is a parameter: \<open>oneshot\<close> builds it from a service and a
  request. Hyper calls the service by shared reference; the service is cloned for every
  request.
\<close>

record 's tower_hyper = th_service :: 's

record 'o tower_hyper_future = thf_future :: 'o

definition tower_hyper_new :: "'s \<Rightarrow> 's tower_hyper" where
  "tower_hyper_new inner = \<lparr>th_service = inner\<rparr>"

definition tower_hyper_call ::
  "('s \<Rightarrow> 's) \<Rightarrow> ('s \<Rightarrow> 'r \<Rightarrow> 'o) \<Rightarrow> 's tower_hyper \<Rightarrow> 'r \<Rightarrow> 'o tower_hyper_future" where
  "tower_hyper_call clone oneshot self req =
     \<lparr>thf_future = oneshot (clone (th_service self)) req\<rparr>"

definition tower_hyper_future_poll ::
  "('o, 'p, 'w) pollf \<Rightarrow> ('o tower_hyper_future, 'p, 'w) pollf" where
  "tower_hyper_future_poll p self w = lift_res (\<lambda>f. self\<lparr>thf_future := f\<rparr>) (p (thf_future self) w)"

interpretation tower_hyper_fut:
  future_wrapper p "tower_hyper_future_poll p" "\<lambda>f. \<lparr>thf_future = f\<rparr>" id for p
  by unfold_locales (simp add: tower_hyper_future_poll_def)

end
