(* ===== verification/Server_Conn.thy ===== *)
theory Server_Conn
  imports Byte_Io Service_Layers
begin

text \<open>
  The single-protocol server connections of \<open>src/server/conn/mod.rs\<close>: the HTTP/1 and
  HTTP/2 builders, the connections they return and the connection error. Hyper's server
  is a parameter: the record \<open>hyper_server\<close> holds what the crate calls of it.
\<close>

datatype 'h connection_error = CE_Hyper 'h | CE_Service box_error | CE_Protocol io_error

text \<open>
  Hyper's connection builder \<open>'b\<close> and connection \<open>'c\<close> for one protocol:
  \<open>serve_connection\<close> (for HTTP/1 followed by \<open>with_upgrades\<close>), the poll of the connection
  and its graceful shutdown.
\<close>

record ('b, 'io, 'svc, 'c, 'h, 'w) hyper_server =
  hs_builder_new :: 'b
  hs_serve_connection :: "'b \<Rightarrow> 'io \<Rightarrow> 'svc \<Rightarrow> 'c"
  hs_with_upgrades :: "'c \<Rightarrow> 'c"
  hs_poll :: "('c, 'h + unit, 'w) pollf"
  hs_graceful_shutdown :: "'c \<Rightarrow> 'c"

text \<open>An instance used in examples: a connection that ends at its first poll.\<close>

definition idle_hyper :: "(unit, 'io, 'svc, 'io \<times> 'svc \<times> bool, string, unit) hyper_server" where
  "idle_hyper =
     \<lparr>hs_builder_new = (), hs_serve_connection = (\<lambda>b io svc. (io, svc, False)),
      hs_with_upgrades = (\<lambda>(io, svc, up). (io, svc, True)),
      hs_poll = (\<lambda>c w. (Ready (Inr ()), c, w)), hs_graceful_shutdown = id\<rparr>"

type_synonym 's adapted_service = "'s incoming_request tower_hyper"

definition adapted :: "'s \<Rightarrow> 's adapted_service" where
  "adapted service = tower_hyper_new (incoming_request_new service)"

section \<open>HTTP/1\<close>

record 'c http1_connection = h1c_conn :: 'c

record 'b http1_builder = h1b_builder :: 'b

definition http1_connection_graceful_shutdown ::
  "('b, 'io, 'svc, 'c, 'h, 'w) hyper_server \<Rightarrow> 'c http1_connection \<Rightarrow> 'c http1_connection" where
  "http1_connection_graceful_shutdown H self =
     self\<lparr>h1c_conn := hs_graceful_shutdown H (h1c_conn self)\<rparr>"

definition http1_connection_poll ::
  "('b, 'io, 'svc, 'c, 'h, 'w) hyper_server \<Rightarrow> ('c http1_connection, 'h + unit, 'w) pollf" where
  "http1_connection_poll H self w = lift_res (\<lambda>c. self\<lparr>h1c_conn := c\<rparr>) (hs_poll H (h1c_conn self) w)"

definition http1_builder_new :: "('b, 'io, 'svc, 'c, 'h, 'w) hyper_server \<Rightarrow> 'b http1_builder" where
  "http1_builder_new H = \<lparr>h1b_builder = hs_builder_new H\<rparr>"

definition http1_builder_default :: "('b, 'io, 'svc, 'c, 'h, 'w) hyper_server \<Rightarrow> 'b http1_builder" where
  "http1_builder_default H = http1_builder_new H"

definition http1_builder_from :: "'b \<Rightarrow> 'b http1_builder" where
  "http1_builder_from builder = \<lparr>h1b_builder = builder\<rparr>"

definition http1_serve_connection ::
  "('b, 'i tokio_io, 's adapted_service, 'c, 'h, 'w) hyper_server \<Rightarrow> 'b http1_builder \<Rightarrow> 'i \<Rightarrow> 's \<Rightarrow>
     'c http1_connection" where
  "http1_serve_connection H self stream service =
     \<lparr>h1c_conn = hs_with_upgrades H
        (hs_serve_connection H (h1b_builder self) (tokio_io_new stream) (adapted service))\<rparr>"

interpretation http1_connection:
  future_wrapper "hs_poll H" "http1_connection_poll H" "\<lambda>c. \<lparr>h1c_conn = c\<rparr>" id for H
  by unfold_locales (simp add: http1_connection_poll_def)

section \<open>HTTP/2\<close>

record 'c http2_connection = h2c_conn :: 'c

record 'b http2_builder = h2b_builder :: 'b

definition http2_connection_graceful_shutdown ::
  "('b, 'io, 'svc, 'c, 'h, 'w) hyper_server \<Rightarrow> 'c http2_connection \<Rightarrow> 'c http2_connection" where
  "http2_connection_graceful_shutdown H self =
     self\<lparr>h2c_conn := hs_graceful_shutdown H (h2c_conn self)\<rparr>"

definition http2_connection_poll ::
  "('b, 'io, 'svc, 'c, 'h, 'w) hyper_server \<Rightarrow> ('c http2_connection, 'h + unit, 'w) pollf" where
  "http2_connection_poll H self w = lift_res (\<lambda>c. self\<lparr>h2c_conn := c\<rparr>) (hs_poll H (h2c_conn self) w)"

definition http2_builder_new :: "('ex \<Rightarrow> 'b) \<Rightarrow> 'ex \<Rightarrow> 'b http2_builder" where
  "http2_builder_new builder_new executor = \<lparr>h2b_builder = builder_new executor\<rparr>"

definition http2_builder_from :: "'b \<Rightarrow> 'b http2_builder" where
  "http2_builder_from builder = \<lparr>h2b_builder = builder\<rparr>"

definition http2_serve_connection ::
  "('b, 'i tokio_io, 's adapted_service, 'c, 'h, 'w) hyper_server \<Rightarrow> 'b http2_builder \<Rightarrow> 'i \<Rightarrow> 's \<Rightarrow>
     'c http2_connection" where
  "http2_serve_connection H self stream service =
     \<lparr>h2c_conn = hs_serve_connection H (h2b_builder self) (tokio_io_new stream) (adapted service)\<rparr>"

interpretation http2_connection:
  future_wrapper "hs_poll H" "http2_connection_poll H" "\<lambda>c. \<lparr>h2c_conn = c\<rparr>" id for H
  by unfold_locales (simp add: http2_connection_poll_def)

text \<open>
  A connection served over a single protocol behaves, for any number of polls, as
  hyper's own connection started on the given stream (behind \<open>TokioIo\<close>) and the given
  service (behind the body adapter and the tower bridge): with upgrades for HTTP/1, without
  for HTTP/2.
\<close>

theorem single_protocol_connection_polls:
  "run_polls (http1_connection_poll H) n (http1_serve_connection H b1 stream svc) w =
     lift_res (\<lambda>c. \<lparr>h1c_conn = c\<rparr>)
       (run_polls (hs_poll H) n
          (hs_with_upgrades H
            (hs_serve_connection H (h1b_builder b1) (tokio_io_new stream) (adapted svc))) w)
   \<and> run_polls (http2_connection_poll H) n (http2_serve_connection H b2 stream svc) w =
     lift_res (\<lambda>c. \<lparr>h2c_conn = c\<rparr>)
       (run_polls (hs_poll H) n
          (hs_serve_connection H (h2b_builder b2) (tokio_io_new stream) (adapted svc)) w)"
  by (simp add: http1_serve_connection_def http2_serve_connection_def
      http1_connection.run_wrap http2_connection.run_wrap)

end
