(* ===== verification/Server_Auto.thy ===== *)
theory Server_Auto
  imports Server_Conn
begin

text \<open>
  Automatic protocol detection of the server: \<open>src/server/conn/auto.rs\<close> (\<open>ReadVersion\<close>,
  \<open>UpgradableConnection\<close>) and \<open>src/server/conn/connecting.rs\<close>. \<open>ReadVersion\<close> reads up to 24
  bytes, compares them with the HTTP/2 preface and hands the stream on behind \<open>Rewind\<close>.
  The lemmas show that no byte is lost, when the connection is taken for HTTP/2, and that
  the state machine of the connection never panics and never goes back.
\<close>

section \<open>Reading the protocol version\<close>

datatype auto_protocol = Auto_Http1 | Auto_Http2

definition crlf :: string where
  "crlf = [CHR 0x0D, CHR 0x0A]"

definition HTTP2_PREFIX :: "byte list" where
  "HTTP2_PREFIX =
     map of_char (''PRI * HTTP/2.0'' @ crlf @ crlf @ ''SM'' @ crlf @ crlf)"

lemma length_HTTP2_PREFIX [simp]: "length HTTP2_PREFIX = 24"
  by (simp add: HTTP2_PREFIX_def crlf_def)

lemma HTTP2_PREFIX_nonempty [simp]: "HTTP2_PREFIX \<noteq> []"
  using length_HTTP2_PREFIX by (metis list.size(3) zero_neq_numeral)

text \<open>\<open>rv_buf\<close> holds the initialised part of the 24-byte buffer.\<close>

record 'i read_version =
  rv_io :: "'i option"
  rv_buf :: "byte list"
  rv_filled :: nat
  rv_version :: auto_protocol
  rv_cancelled :: bool

type_synonym ('i, 'w) reader = "'i \<Rightarrow> nat \<Rightarrow> 'w \<Rightarrow> (io_error + byte list) polled \<times> 'i \<times> 'w"

definition read_version_new :: "'i \<Rightarrow> 'i read_version" where
  "read_version_new io =
     \<lparr>rv_io = Some io, rv_buf = [], rv_filled = 0, rv_version = Auto_Http2, rv_cancelled = False\<rparr>"

definition read_version_cancel :: "'i read_version \<Rightarrow> 'i read_version" where
  "read_version_cancel self = self\<lparr>rv_cancelled := True\<rparr>"

text \<open>
  The \<open>while\<close> loop of \<open>poll\<close>: \<open>filled\<close> is the filled part of the buffer, \<open>ver\<close> the version
  field. The comparison is the source's: the bytes just read against the whole rest of the
  preface.
\<close>

function read_version_loop ::
  "('i, 'w) reader \<Rightarrow> 'i \<Rightarrow> byte list \<Rightarrow> auto_protocol \<Rightarrow> 'w \<Rightarrow>
     (io_error + unit) polled \<times> byte list \<times> auto_protocol \<times> 'i \<times> 'w" where
  "read_version_loop rd io filled ver w =
     (if length filled < length HTTP2_PREFIX then
        let len = length filled in
        case rd io (length HTTP2_PREFIX - len) w of
          (Pending, io', w') \<Rightarrow> (Pending, filled, ver, io', w')
        | (Panicked, io', w') \<Rightarrow> (Panicked, filled, ver, io', w')
        | (Ready (Inl e), io', w') \<Rightarrow> (Ready (Inl e), filled, ver, io', w')
        | (Ready (Inr bs), io', w') \<Rightarrow>
            let filled' = filled @ take (length HTTP2_PREFIX - len) bs in
            if length filled' = len \<or> drop len filled' \<noteq> drop len HTTP2_PREFIX
            then (Ready (Inr ()), filled', Auto_Http1, io', w')
            else read_version_loop rd io' filled' ver w'
      else (Ready (Inr ()), filled, ver, io, w))"
  by pat_completeness auto
termination
  by (relation "measure (\<lambda>(rd, io, filled, ver, w). length HTTP2_PREFIX - length filled)") auto

declare read_version_loop.simps [simp del]

definition read_version_poll ::
  "('i, 'w) reader \<Rightarrow> ('i read_version, io_error + auto_protocol \<times> 'i rewind, 'w) pollf" where
  "read_version_poll rd self w =
     (if rv_cancelled self then (Ready (Inl (IoError Interrupted [])), self, w)
      else case rv_io self of
        None \<Rightarrow> (Panicked, self, w)
      | Some io \<Rightarrow>
          (case read_version_loop rd io (take (rv_filled self) (rv_buf self)) (rv_version self) w of
             (r, filled, ver, io', w') \<Rightarrow>
               let self' = self\<lparr>rv_io := Some io', rv_buf := filled, rv_filled := length filled,
                                rv_version := ver\<rparr>
               in case r of
                    Pending \<Rightarrow> (Pending, self', w')
                  | Panicked \<Rightarrow> (Panicked, self', w')
                  | Ready (Inl e) \<Rightarrow> (Ready (Inl e), self', w')
                  | Ready (Inr u) \<Rightarrow>
                      (Ready (Inr (ver, rewind_new io' filled)), self'\<lparr>rv_io := None\<rparr>, w')))"

text \<open>
  The loop body runs at most once: either the bytes read complete the preface, so that the
  buffer is full, or the connection is taken for HTTP/1.
\<close>

lemma read_version_loop_step:
  assumes "rd io (24 - length filled) w = (r, io', w')" and "length filled < 24"
  shows "read_version_loop rd io filled ver w =
    (case r of
       Ready (Inr bs) \<Rightarrow>
         (Ready (Inr ()), filled @ take (24 - length filled) bs,
          if take (24 - length filled) bs = drop (length filled) HTTP2_PREFIX
          then ver else Auto_Http1, io', w')
     | Ready (Inl e) \<Rightarrow> (Ready (Inl e), filled, ver, io', w')
     | Pending \<Rightarrow> (Pending, filled, ver, io', w')
     | Panicked \<Rightarrow> (Panicked, filled, ver, io', w'))"
proof (cases "\<exists>bs. r = Ready (Inr bs)")
  case False
  with assms show ?thesis
    by (subst read_version_loop.simps) (auto simp: Let_def split: polled.split sum.split)
next
  case True
  then obtain bs where r: "r = Ready (Inr bs)" ..
  let ?got = "take (24 - length filled) bs"
  show ?thesis
  proof (cases "?got = drop (length filled) HTTP2_PREFIX")
    case False
    with assms r show ?thesis by (subst read_version_loop.simps) (simp add: Let_def)
  next
    case got: True
    then have len: "length ?got = 24 - length filled" by (simp only: length_drop length_HTTP2_PREFIX)
    have "read_version_loop rd io' (filled @ ?got) ver w' = (Ready (Inr ()), filled @ ?got, ver, io', w')"
      using len assms(2) by (subst read_version_loop.simps) simp
    moreover have "?got \<noteq> []" using len assms(2) by auto
    ultimately show ?thesis
      using assms r got by (subst read_version_loop.simps) (simp add: Let_def)
  qed
qed

lemma read_version_loop_full:
  "24 \<le> length filled \<Longrightarrow> read_version_loop rd io filled ver w = (Ready (Inr ()), filled, ver, io, w)"
  by (subst read_version_loop.simps) simp

text \<open>
  A poll of a reader that has not finished yet, whose buffer is still empty: the form of
  every state the executor can see before the result.
\<close>

definition rv_waiting :: "'i read_version \<Rightarrow> 'i \<Rightarrow> bool" where
  "rv_waiting rv io \<longleftrightarrow>
     rv_io rv = Some io \<and> rv_filled rv = 0 \<and> rv_version rv = Auto_Http2 \<and> \<not> rv_cancelled rv"

lemma rv_waiting_new [simp]: "rv_waiting (read_version_new io) io"
  by (simp add: rv_waiting_def read_version_new_def)

lemma read_version_poll_waiting:
  assumes "rv_waiting rv io" and "rd io 24 w = (r, io', w')"
  obtains rv' where
    "read_version_poll rd rv w =
       ((case r of
           Ready (Inr bs) \<Rightarrow>
             Ready (Inr (if take 24 bs = HTTP2_PREFIX then Auto_Http2 else Auto_Http1,
                         rewind_new io' (take 24 bs)))
         | Ready (Inl e) \<Rightarrow> Ready (Inl e)
         | Pending \<Rightarrow> Pending
         | Panicked \<Rightarrow> Panicked), rv', w')"
    and "(\<exists>bs. r = Ready (Inr bs)) \<or> rv_waiting rv' io'"
proof (cases "\<exists>bs. r = Ready (Inr bs)")
  case True
  with assms show ?thesis
    by (intro that [of "fst (snd (read_version_poll rd rv w))"])
      (auto simp: read_version_poll_def rv_waiting_def read_version_loop_step Let_def)
next
  case False
  with assms show ?thesis
    by (intro that [of "fst (snd (read_version_poll rd rv w))"])
      (auto simp: read_version_poll_def rv_waiting_def read_version_loop_step Let_def
        split: polled.split sum.split)
qed

text \<open>
  Over a run: the result is decided by the first read that delivers bytes.
\<close>

lemma read_version_run:
  "rv_waiting rv io \<Longrightarrow> run_polls (read_version_poll rd) n rv w = (Ready (Inr (v, rw)), rv', w') \<Longrightarrow>
     \<exists>m bs io2.
       run_polls (\<lambda>i w. rd i 24 w) m io w = (Ready (Inr bs), io2, w') \<and> m \<le> n
       \<and> v = (if take 24 bs = HTTP2_PREFIX then Auto_Http2 else Auto_Http1)
       \<and> rw = rewind_new io2 (take 24 bs)"
proof (induction n arbitrary: rv io w)
  case 0
  then show ?case by simp
next
  case (Suc n)
  obtain r io' w1 where rd: "rd io 24 w = (r, io', w1)" by (cases "rd io 24 w") auto
  obtain rv1 where poll: "read_version_poll rd rv w =
       ((case r of
           Ready (Inr bs) \<Rightarrow>
             Ready (Inr (if take 24 bs = HTTP2_PREFIX then Auto_Http2 else Auto_Http1,
                         rewind_new io' (take 24 bs)))
         | Ready (Inl e) \<Rightarrow> Ready (Inl e)
         | Pending \<Rightarrow> Pending
         | Panicked \<Rightarrow> Panicked), rv1, w1)"
    and wait: "(\<exists>bs. r = Ready (Inr bs)) \<or> rv_waiting rv1 io'"
    using read_version_poll_waiting [where rd = rd, OF Suc.prems(1) rd] by blast
  show ?case
  proof (cases r)
    case Pending
    with wait have "rv_waiting rv1 io'" by simp
    moreover have "run_polls (read_version_poll rd) n rv1 w1 = (Ready (Inr (v, rw)), rv', w')"
      using Suc.prems(2) Pending by (simp add: poll)
    ultimately obtain m bs io2 where "run_polls (\<lambda>i w. rd i 24 w) m io' w1 = (Ready (Inr bs), io2, w')"
      "m \<le> n" "v = (if take 24 bs = HTTP2_PREFIX then Auto_Http2 else Auto_Http1)"
      "rw = rewind_new io2 (take 24 bs)"
      using Suc.IH by blast
    with rd Pending show ?thesis by (intro exI [of _ "Suc m"]) auto
  next
    case (Ready x)
    with Suc.prems(2) poll rd show ?thesis
      by (intro exI [of _ "Suc 0"]) (auto split: sum.splits)
  next
    case Panicked
    with Suc.prems(2) poll show ?thesis by simp
  qed
qed

lemma reads_from_run:
  assumes "reads_from rd rest"
  shows "run_polls (\<lambda>i w. rd i k w) m io w = (Ready (Inr bs), io', w') \<Longrightarrow>
    rest io w = bs @ rest io' w' \<and> length bs \<le> k"
proof (induction m arbitrary: io w)
  case 0
  then show ?case by simp
next
  case (Suc m)
  obtain r io1 w1 where rd: "rd io k w = (r, io1, w1)" by (cases "rd io k w") auto
  show ?case
  proof (cases r)
    case Pending
    then show ?thesis
      using Suc reads_fromD_other [OF assms rd] by (auto simp: rd)
  next
    case (Ready x)
    then show ?thesis using Suc.prems reads_fromD_data [OF assms, of io k w bs io' w'] by (simp add: rd)
  next
    case Panicked
    then show ?thesis using Suc.prems by (simp add: rd)
  qed
qed

text \<open>
  C1: Protocol detection loses nothing. When \<open>ReadVersion\<close> on a stream resolves, the
  stream it hands on (the inner stream behind \<open>Rewind\<close>) reads exactly the bytes the peer
  sent from the beginning, and at most 24 of them were taken off the inner stream.
\<close>

theorem read_version_transparent:
  assumes "reads_from rd rest"
    and "run_polls (read_version_poll rd) n (read_version_new io) w = (Ready (Inr (v, rw)), rv', w')"
  shows "rewind_rest rest rw w' = rest io w
    \<and> (\<exists>p. rw_prefix rw = Some p \<and> length p \<le> 24)"
proof -
  obtain m bs io2 where "run_polls (\<lambda>i w. rd i 24 w) m io w = (Ready (Inr bs), io2, w')"
    and rw: "rw = rewind_new io2 (take 24 bs)"
    using read_version_run [OF rv_waiting_new assms(2)] by blast
  then have "rest io w = bs @ rest io2 w' \<and> length bs \<le> 24"
    using reads_from_run [OF assms(1)] by blast
  with rw show ?thesis by (simp add: rewind_new_def rewind_rest_def)
qed

definition preface_stream :: "byte list option list" where
  "preface_stream = [None, Some (HTTP2_PREFIX @ [1, 2])]"

lemma read_version_preface_stream:
  "\<exists>rv'. run_polls (read_version_poll chunk_read) 2 (read_version_new preface_stream) () =
     (Ready (Inr (Auto_Http2, rewind_new [Some [1, 2]] HTTP2_PREFIX)), rv', ())"
proof -
  have wait: "chunk_read preface_stream 24 () = (Pending, [Some (HTTP2_PREFIX @ [1, 2])], ())"
    by (simp add: preface_stream_def)
  have data: "chunk_read [Some (HTTP2_PREFIX @ [1, 2])] 24 () =
      (Ready (Inr HTTP2_PREFIX), [Some [1, 2]], ())"
    by simp
  obtain rv1 where 1: "read_version_poll chunk_read (read_version_new preface_stream) () = (Pending, rv1, ())"
    and w: "rv_waiting rv1 [Some (HTTP2_PREFIX @ [1, 2])]"
    using read_version_poll_waiting [where rd = chunk_read, OF rv_waiting_new wait]
    by auto
  obtain rv2 where "read_version_poll chunk_read rv1 () =
      (Ready (Inr (Auto_Http2, rewind_new [Some [1, 2]] HTTP2_PREFIX)), rv2, ())"
    using read_version_poll_waiting [where rd = chunk_read, OF w data] by auto
  with 1 show ?thesis by (simp add: eval_nat_numeral)
qed

theorem read_version_transparent_witness:
  "\<exists>v rw rv'. run_polls (read_version_poll chunk_read) 2 (read_version_new preface_stream) () =
       (Ready (Inr (v, rw)), rv', ())
     \<and> rewind_rest chunk_rest rw () = HTTP2_PREFIX @ [1, 2]"
proof -
  obtain rv' where run: "run_polls (read_version_poll chunk_read) 2 (read_version_new preface_stream) () =
     (Ready (Inr (Auto_Http2, rewind_new [Some [1, 2]] HTTP2_PREFIX)), rv', ())"
    using read_version_preface_stream by blast
  show ?thesis
    using read_version_transparent [OF chunk_reads_from run] run
    by (auto simp: chunk_rest_def preface_stream_def)
qed

text \<open>
  When a connection is taken for HTTP/2: exactly when the first read that delivers
  data (a read of at most 24 bytes) returns the complete 24-byte preface.
\<close>

theorem read_version_decision:
  assumes "run_polls (read_version_poll rd) n (read_version_new io) w = (Ready (Inr (v, rw)), rv', w')"
  shows "\<exists>m bs io2. run_polls (\<lambda>i w. rd i 24 w) m io w = (Ready (Inr bs), io2, w')
    \<and> (v = Auto_Http2 \<longleftrightarrow> take 24 bs = HTTP2_PREFIX) \<and> rw = rewind_new io2 (take 24 bs)"
  using read_version_run [OF rv_waiting_new assms] by (metis auto_protocol.distinct(1))

theorem read_version_decision_witness:
  "\<exists>m bs io2. run_polls (\<lambda>i w. chunk_read i 24 w) m preface_stream () = (Ready (Inr bs), io2, ())
     \<and> take 24 bs = HTTP2_PREFIX"
proof -
  obtain rv' where run: "run_polls (read_version_poll chunk_read) 2 (read_version_new preface_stream) () =
     (Ready (Inr (Auto_Http2, rewind_new [Some [1, 2]] HTTP2_PREFIX)), rv', ())"
    using read_version_preface_stream by blast
  show ?thesis using read_version_decision [OF run] by auto
qed

text \<open>
  C3: Protocol detection as one read. For any number of polls, \<open>ReadVersion\<close> gives exactly
  what one read of at most 24 bytes gives: it is pending as long as the read is, fails with
  its error, and resolves at the same poll, with HTTP/2 if the bytes are the complete
  preface and HTTP/1 otherwise, and with those bytes in front of the rest of the stream.
\<close>

theorem read_version_runs:
  "out_res (run_polls (read_version_poll rd) n (read_version_new io) w) =
     (case run_polls (\<lambda>i w. rd i 24 w) n io w of
        (r, io2, w') \<Rightarrow>
          (map_polled (map_ok (\<lambda>bs. (if take 24 bs = HTTP2_PREFIX then Auto_Http2 else Auto_Http1,
             rewind_new io2 (take 24 bs)))) r, w'))"
proof -
  have "out_res (run_polls (read_version_poll rd) n rv w) =
     (case run_polls (\<lambda>i w. rd i 24 w) n io w of
        (r, io2, w') \<Rightarrow>
          (map_polled (map_ok (\<lambda>bs. (if take 24 bs = HTTP2_PREFIX then Auto_Http2 else Auto_Http1,
             rewind_new io2 (take 24 bs)))) r, w'))" if "rv_waiting rv io" for rv
    using that
  proof (induction n arbitrary: rv io w)
    case 0
    then show ?case by simp
  next
    case (Suc n)
    obtain r io' w1 where rd: "rd io 24 w = (r, io', w1)" by (cases "rd io 24 w") auto
    from read_version_poll_waiting [where rd = rd, OF Suc.prems rd] obtain rv1 where
      "read_version_poll rd rv w =
        ((case r of
            Ready (Inr bs) \<Rightarrow>
              Ready (Inr (if take 24 bs = HTTP2_PREFIX then Auto_Http2 else Auto_Http1,
                          rewind_new io' (take 24 bs)))
          | Ready (Inl e) \<Rightarrow> Ready (Inl e)
          | Pending \<Rightarrow> Pending
          | Panicked \<Rightarrow> Panicked), rv1, w1)"
      and "(\<exists>bs. r = Ready (Inr bs)) \<or> rv_waiting rv1 io'"
      by blast
    with rd Suc.IH [of rv1 io' w1] show ?case
      by (cases r) (auto split: sum.splits)
  qed
  then show ?thesis by simp
qed

text \<open>
  A fragmented preface is not recognised: when the first read delivers fewer than 24
  bytes, the connection is handed to HTTP/1, even if those bytes are the beginning of the
  HTTP/2 preface and the rest of it follows.
\<close>

theorem read_version_fragmented_preface:
  assumes "rd io 24 w = (Ready (Inr bs), io', w')" and "length bs < 24"
  shows "fst (read_version_poll rd (read_version_new io) w) =
    Ready (Inr (Auto_Http1, rewind_new io' bs))"
proof -
  have "take 24 bs \<noteq> HTTP2_PREFIX" using assms(2) length_HTTP2_PREFIX by fastforce
  moreover obtain rv' where "read_version_poll rd (read_version_new io) w =
      (Ready (Inr (if take 24 bs = HTTP2_PREFIX then Auto_Http2 else Auto_Http1,
                   rewind_new io' (take 24 bs))), rv', w')"
    using read_version_poll_waiting [where rd = rd, OF rv_waiting_new assms(1)] by auto
  ultimately show ?thesis using assms(2) by simp
qed

theorem read_version_fragmented_preface_witness:
  "fst (read_version_poll chunk_read
      (read_version_new [Some (take 10 HTTP2_PREFIX), Some (drop 10 HTTP2_PREFIX)]) ()) =
     Ready (Inr (Auto_Http1, rewind_new [Some (drop 10 HTTP2_PREFIX)] (take 10 HTTP2_PREFIX)))"
  by (rule read_version_fragmented_preface) simp_all

text \<open>A cancelled reader fails at once, without reading.\<close>

lemma read_version_cancelled:
  "read_version_poll rd (read_version_cancel rv) w =
     (Ready (Inl (IoError Interrupted [])), read_version_cancel rv, w)"
  by (simp add: read_version_poll_def read_version_cancel_def)

text \<open>
  The form of a reader at any time: before it has resolved it holds its stream, untouched,
  and an empty buffer; afterwards its buffer is the beginning of the peer's bytes, and its
  version says whether that is the preface. \<open>bytes\<close> is what the peer sends.
\<close>

definition rv_wf :: "byte list \<Rightarrow> ('i \<Rightarrow> 'w \<Rightarrow> byte list) \<Rightarrow> 'i read_version \<Rightarrow> 'w \<Rightarrow> bool" where
  "rv_wf bytes rest rv w \<longleftrightarrow>
     rv_filled rv = length (rv_buf rv) \<and> rv_filled rv \<le> length HTTP2_PREFIX
   \<and> (case rv_io rv of
        Some io \<Rightarrow> rv_filled rv = 0 \<and> rv_version rv = Auto_Http2 \<and> rest io w = bytes
      | None \<Rightarrow> rv_buf rv = take (rv_filled rv) bytes
          \<and> (rv_version rv = Auto_Http2 \<longleftrightarrow> rv_buf rv = HTTP2_PREFIX))"

abbreviation resolved :: "('e + 'a) polled \<Rightarrow> bool" where
  "resolved r \<equiv> \<exists>x. r = Ready (Inr x)"

lemma rv_wf_poll:
  assumes "reads_from rd rest" and "rv_wf bytes rest rv w"
    and "read_version_poll rd rv w = (r, rv', w')"
  shows "rv_wf bytes rest rv' w'" and "resolved r \<longleftrightarrow> rv_io rv \<noteq> None \<and> rv_io rv' = None"
    and "rv_io rv = None \<Longrightarrow> rv_io rv' = None"
proof -
  have "rv_wf bytes rest rv' w' \<and> (resolved r \<longleftrightarrow> rv_io rv \<noteq> None \<and> rv_io rv' = None)
      \<and> (rv_io rv = None \<longrightarrow> rv_io rv' = None)"
  proof (cases "rv_cancelled rv \<or> rv_io rv = None")
    case True
    with assms(2,3) show ?thesis by (auto simp: read_version_poll_def split: if_splits)
  next
    case False
    then obtain io where io: "rv_io rv = Some io" "\<not> rv_cancelled rv" by auto
    with assms(2) have empty: "rv_filled rv = 0" "rv_version rv = Auto_Http2" "rest io w = bytes"
      by (auto simp: rv_wf_def)
    obtain q io' w1 where rd: "rd io 24 w = (q, io', w1)" by (cases "rd io 24 w") auto
    note loop = read_version_loop_step [where rd = rd and filled = "[]", simplified, OF rd]
    show ?thesis
    proof (cases "resolved q")
      case True
      then obtain bs where bs: "q = Ready (Inr bs)" by blast
      have "length bs \<le> 24" "bytes = bs @ rest io' w1"
        using reads_fromD_data [OF assms(1) rd [unfolded bs]] empty(3) by auto
      with assms(3) io empty show ?thesis
        by (auto simp: read_version_poll_def loop bs Let_def rv_wf_def)
    next
      case False
      then have "rest io' w1 = bytes"
        using reads_fromD_other [OF assms(1) rd] empty(3) by auto
      with assms(3) io empty False show ?thesis
        by (cases q) (auto simp: read_version_poll_def loop Let_def rv_wf_def split: sum.splits)
    qed
  qed
  then show "rv_wf bytes rest rv' w'" and "resolved r \<longleftrightarrow> rv_io rv \<noteq> None \<and> rv_io rv' = None"
    and "rv_io rv = None \<Longrightarrow> rv_io rv' = None" by blast+
qed

lemma rv_wf_cancel: "rv_wf bytes rest (read_version_cancel rv) w = rv_wf bytes rest rv w"
  by (simp add: rv_wf_def read_version_cancel_def split: option.split)

text \<open>Polls and cancellations in any order, and the results of the polls.\<close>

datatype rv_cmd = Rv_Poll | Rv_Cancel

fun rv_session ::
  "('i, 'w) reader \<Rightarrow> rv_cmd list \<Rightarrow> 'i read_version \<Rightarrow> 'w \<Rightarrow>
     (io_error + auto_protocol \<times> 'i rewind) polled list \<times> 'i read_version \<times> 'w" where
  "rv_session rd [] rv w = ([], rv, w)"
| "rv_session rd (Rv_Cancel # cs) rv w = rv_session rd cs (read_version_cancel rv) w"
| "rv_session rd (Rv_Poll # cs) rv w =
     (case read_version_poll rd rv w of
        (r, rv', w') \<Rightarrow> map_res (\<lambda>rs. r # rs) (rv_session rd cs rv' w'))"

lemma rv_session_wf:
  assumes "reads_from rd rest"
  shows "rv_wf bytes rest rv w \<Longrightarrow> rv_session rd cs rv w = (rs, rv', w') \<Longrightarrow>
    rv_wf bytes rest rv' w' \<and> (rv_io rv = None \<longrightarrow> rv_io rv' = None)
    \<and> length (filter resolved rs) = (if rv_io rv \<noteq> None \<and> rv_io rv' = None then 1 else 0)"
proof (induction cs arbitrary: rv w rs)
  case Nil
  then show ?case by auto
next
  case (Cons c cs)
  show ?case
  proof (cases c)
    case Rv_Cancel
    have io: "rv_io (read_version_cancel rv) = rv_io rv" by (simp add: read_version_cancel_def)
    from Rv_Cancel Cons.prems have "rv_session rd cs (read_version_cancel rv) w = (rs, rv', w')"
      "rv_wf bytes rest (read_version_cancel rv) w" by (simp_all add: rv_wf_cancel)
    from Cons.IH [OF this(2,1)] show ?thesis unfolding io .
  next
    case Rv_Poll
    obtain r rv1 w1 where poll: "read_version_poll rd rv w = (r, rv1, w1)"
      by (cases "read_version_poll rd rv w") auto
    with Cons.prems(2) Rv_Poll obtain rs1 where
      rest: "rv_session rd cs rv1 w1 = (rs1, rv', w')" "rs = r # rs1"
      by (auto simp: map_res_eq_iff)
    from Cons.IH [OF _ rest(1)] rv_wf_poll [OF assms Cons.prems(1) poll] show ?thesis
      by (auto simp: rest(2))
  qed
qed

text \<open>
  C12: A reader is well formed at all times. Whatever polls and cancellations it goes
  through, in any order, it holds its stream with nothing taken from it and an empty buffer
  until it resolves, and afterwards it has no stream, its buffer is the beginning of what
  the peer sent, at most 24 bytes, and its version is HTTP/2 exactly when that is the
  preface. It resolves at most once.
\<close>

theorem read_version_wellformed:
  assumes "reads_from rd rest"
    and "rv_session rd cs (read_version_new io) w = (rs, rv', w')"
  shows "rv_wf (rest io w) rest rv' w'
    \<and> length (filter resolved rs) = (if rv_io rv' = None then 1 else 0)"
proof -
  have "rv_wf (rest io w) rest (read_version_new io) w" "rv_io (read_version_new io) \<noteq> None"
    by (simp_all add: rv_wf_def read_version_new_def)
  with rv_session_wf [OF assms(1) _ assms(2)] show ?thesis by auto
qed

text \<open>A reader that is polled once more after it resolved, and then cancelled.\<close>

lemma read_version_wellformed_witness:
  "\<exists>rs rv'. rv_session chunk_read [Rv_Poll, Rv_Poll, Rv_Poll, Rv_Cancel, Rv_Poll] (read_version_new preface_stream) ()
      = (rs, rv', ())
    \<and> rv_wf (HTTP2_PREFIX @ [1, 2]) chunk_rest rv' () \<and> length (filter resolved rs) \<le> 1"
proof -
  obtain rs rv' where run: "rv_session chunk_read [Rv_Poll, Rv_Poll, Rv_Poll, Rv_Cancel, Rv_Poll]
      (read_version_new preface_stream) () = (rs, rv', ())"
    by (cases "rv_session chunk_read [Rv_Poll, Rv_Poll, Rv_Poll, Rv_Cancel, Rv_Poll]
      (read_version_new preface_stream) ()") auto
  moreover have "chunk_rest preface_stream () = HTTP2_PREFIX @ [1, 2]"
    by (simp add: chunk_rest_def preface_stream_def)
  ultimately show ?thesis
    using read_version_wellformed [OF chunk_reads_from run] by (auto split: if_splits)
qed

section \<open>The upgradable connection\<close>

record ('b1, 'b2) auto_builder =
  ab_http1 :: 'b1
  ab_http2 :: 'b2

definition auto_builder_new :: "'b1 \<Rightarrow> ('ex \<Rightarrow> 'b2) \<Rightarrow> 'ex \<Rightarrow> ('b1, 'b2) auto_builder" where
  "auto_builder_new http1_new http2_new executor =
     \<lparr>ab_http1 = http1_new, ab_http2 = http2_new executor\<rparr>"

text \<open>The configuration of one protocol, changed by \<open>f\<close> through the reference handed out.\<close>

definition auto_builder_http1 :: "('b1 \<Rightarrow> 'b1) \<Rightarrow> ('b1, 'b2) auto_builder \<Rightarrow> ('b1, 'b2) auto_builder" where
  "auto_builder_http1 f self = self\<lparr>ab_http1 := f (ab_http1 self)\<rparr>"

definition auto_builder_http2 :: "('b2 \<Rightarrow> 'b2) \<Rightarrow> ('b1, 'b2) auto_builder \<Rightarrow> ('b1, 'b2) auto_builder" where
  "auto_builder_http2 f self = self\<lparr>ab_http2 := f (ab_http2 self)\<rparr>"

datatype ('i, 'b1, 'b2, 'svc, 'c1, 'c2) connection_state =
  Conn_ReadVersion "'i read_version" "('b1, 'b2) auto_builder" "'svc option"
| Conn_Http1 'c1
| Conn_Http2 'c2

definition serve_connection_with_upgrades ::
  "('b1, 'b2) auto_builder \<Rightarrow> 'i \<Rightarrow> 'svc \<Rightarrow> ('i, 'b1, 'b2, 'svc, 'c1, 'c2) connection_state" where
  "serve_connection_with_upgrades builder io service =
     Conn_ReadVersion (read_version_new io) builder (Some service)"

definition start_connection ::
  "('b1, 'i rewind, 'svc, 'c1, 'h, 'w) hyper_server \<Rightarrow> ('b2, 'i rewind, 'svc, 'c2, 'h, 'w) hyper_server \<Rightarrow>
     ('b1, 'b2) auto_builder \<Rightarrow> auto_protocol \<Rightarrow> 'i rewind \<Rightarrow> 'svc \<Rightarrow>
     ('i, 'b1, 'b2, 'svc, 'c1, 'c2) connection_state" where
  "start_connection H1 H2 builder version rewind service =
     (case version of
        Auto_Http1 \<Rightarrow>
          Conn_Http1 (hs_with_upgrades H1 (hs_serve_connection H1 (ab_http1 builder) rewind service))
      | Auto_Http2 \<Rightarrow> Conn_Http2 (hs_serve_connection H2 (ab_http2 builder) rewind service))"

text \<open>The \<open>loop\<close> of \<open>UpgradableConnection::poll\<close>.\<close>

function upgradable_poll ::
  "('b1, 'i rewind, 'svc, 'c1, 'h, 'w) hyper_server \<Rightarrow> ('b2, 'i rewind, 'svc, 'c2, 'h, 'w) hyper_server \<Rightarrow>
     ('i, 'w) reader \<Rightarrow> ('i, 'b1, 'b2, 'svc, 'c1, 'c2) connection_state \<Rightarrow> 'w \<Rightarrow>
     ('h connection_error + unit) polled
       \<times> ('i, 'b1, 'b2, 'svc, 'c1, 'c2) connection_state \<times> 'w" where
  "upgradable_poll H1 H2 rd (Conn_ReadVersion rv builder service) w =
     (case read_version_poll rd rv w of
        (Pending, rv', w') \<Rightarrow> (Pending, Conn_ReadVersion rv' builder service, w')
      | (Panicked, rv', w') \<Rightarrow> (Panicked, Conn_ReadVersion rv' builder service, w')
      | (Ready (Inl e), rv', w') \<Rightarrow>
          (Ready (Inl (CE_Protocol e)), Conn_ReadVersion rv' builder service, w')
      | (Ready (Inr (version, rewind)), rv', w') \<Rightarrow>
          (case service of
             None \<Rightarrow> (Panicked, Conn_ReadVersion rv' builder None, w')
           | Some svc \<Rightarrow>
               upgradable_poll H1 H2 rd (start_connection H1 H2 builder version rewind svc) w'))"
| "upgradable_poll H1 H2 rd (Conn_Http1 conn) w =
     map_res (map_polled (map_err CE_Hyper)) (lift_res Conn_Http1 (hs_poll H1 conn w))"
| "upgradable_poll H1 H2 rd (Conn_Http2 conn) w =
     map_res (map_polled (map_err CE_Hyper)) (lift_res Conn_Http2 (hs_poll H2 conn w))"
  by pat_completeness auto
termination
  by (relation "measure (\<lambda>(H1, H2, rd, st, w). case st of Conn_ReadVersion _ _ _ \<Rightarrow> 1 | _ \<Rightarrow> 0)")
    (auto simp: start_connection_def split: auto_protocol.split)

definition upgradable_graceful_shutdown ::
  "('b1, 'i rewind, 'svc, 'c1, 'h, 'w) hyper_server \<Rightarrow> ('b2, 'i rewind, 'svc, 'c2, 'h, 'w) hyper_server \<Rightarrow>
     ('i, 'b1, 'b2, 'svc, 'c1, 'c2) connection_state \<Rightarrow>
     ('i, 'b1, 'b2, 'svc, 'c1, 'c2) connection_state" where
  "upgradable_graceful_shutdown H1 H2 self =
     (case self of
        Conn_Http1 conn \<Rightarrow> Conn_Http1 (hs_graceful_shutdown H1 conn)
      | Conn_Http2 conn \<Rightarrow> Conn_Http2 (hs_graceful_shutdown H2 conn)
      | Conn_ReadVersion rv builder service \<Rightarrow>
          Conn_ReadVersion (read_version_cancel rv) builder service)"

interpretation upgradable_http1:
  future_wrapper "hs_poll H1" "upgradable_poll H1 H2 rd" Conn_Http1 "map_err CE_Hyper" for H1 H2 rd
  by unfold_locales simp

interpretation upgradable_http2:
  future_wrapper "hs_poll H2" "upgradable_poll H1 H2 rd" Conn_Http2 "map_err CE_Hyper" for H1 H2 rd
  by unfold_locales simp

text \<open>What hyper does with a connection of its own: polls and shutdown requests, in any order.\<close>

inductive hyper_evolves :: "('b, 'io, 'svc, 'c, 'h, 'w) hyper_server \<Rightarrow> 'c \<Rightarrow> 'c \<Rightarrow> bool"
  for H :: "('b, 'io, 'svc, 'c, 'h, 'w) hyper_server" and c0 :: 'c where
  evolves_start: "hyper_evolves H c0 c0"
| evolves_poll: "hyper_evolves H c0 c \<Longrightarrow> hs_poll H c w = (r, c', w') \<Longrightarrow> hyper_evolves H c0 c'"
| evolves_shutdown: "hyper_evolves H c0 c \<Longrightarrow> hyper_evolves H c0 (hs_graceful_shutdown H c)"

text \<open>
  The executions of a connection: polls, graceful shutdown at any moment, and steps \<open>env\<close>
  of the rest of the program between them.
\<close>

inductive upgradable_reach ::
  "('b1, 'i rewind, 'svc, 'c1, 'h, 'w) hyper_server \<Rightarrow> ('b2, 'i rewind, 'svc, 'c2, 'h, 'w) hyper_server \<Rightarrow>
     ('i, 'w) reader \<Rightarrow> ('w \<Rightarrow> 'w \<Rightarrow> bool) \<Rightarrow>
     ('i, 'b1, 'b2, 'svc, 'c1, 'c2) connection_state \<Rightarrow> 'w \<Rightarrow>
     ('i, 'b1, 'b2, 'svc, 'c1, 'c2) connection_state \<Rightarrow> 'w \<Rightarrow> bool"
  for H1 H2 rd env s0 w0 where
  reach_start: "upgradable_reach H1 H2 rd env s0 w0 s0 w0"
| reach_poll: "upgradable_reach H1 H2 rd env s0 w0 s w \<Longrightarrow>
     upgradable_poll H1 H2 rd s w = (r, s', w') \<Longrightarrow> upgradable_reach H1 H2 rd env s0 w0 s' w'"
| reach_shutdown: "upgradable_reach H1 H2 rd env s0 w0 s w \<Longrightarrow>
     upgradable_reach H1 H2 rd env s0 w0 (upgradable_graceful_shutdown H1 H2 s) w"
| reach_env: "upgradable_reach H1 H2 rd env s0 w0 s w \<Longrightarrow> env w w' \<Longrightarrow>
     upgradable_reach H1 H2 rd env s0 w0 s w'"

text \<open>Other tasks do not read from this stream.\<close>

definition env_keeps_rest :: "('w \<Rightarrow> 'w \<Rightarrow> bool) \<Rightarrow> ('i \<Rightarrow> 'w \<Rightarrow> byte list) \<Rightarrow> bool" where
  "env_keeps_rest env rest \<longleftrightarrow> (\<forall>w w' i. env w w' \<longrightarrow> rest i w' = rest i w)"

definition rv_idle :: "'i read_version \<Rightarrow> 'i \<Rightarrow> bool" where
  "rv_idle rv io \<longleftrightarrow> rv_io rv = Some io \<and> rv_filled rv = 0 \<and> rv_version rv = Auto_Http2"

lemma rv_idle_iff: "rv_waiting rv io \<longleftrightarrow> rv_idle rv io \<and> \<not> rv_cancelled rv"
  by (auto simp: rv_waiting_def rv_idle_def)

lemma rv_idle_cancel [simp]: "rv_idle (read_version_cancel rv) io = rv_idle rv io"
  by (simp add: rv_idle_def read_version_cancel_def)

lemma rv_idle_new [simp]: "rv_idle (read_version_new io) io"
  by (simp add: rv_idle_def read_version_new_def)

text \<open>The invariant, for a connection started with \<open>builder\<close> and \<open>svc\<close> on a stream that
  carries \<open>bytes\<close>.\<close>

fun upgradable_inv ::
  "('b1, 'i rewind, 'svc, 'c1, 'h, 'w) hyper_server \<Rightarrow> ('b2, 'i rewind, 'svc, 'c2, 'h, 'w) hyper_server \<Rightarrow>
     ('i \<Rightarrow> 'w \<Rightarrow> byte list) \<Rightarrow> ('b1, 'b2) auto_builder \<Rightarrow> 'svc \<Rightarrow> byte list \<Rightarrow>
     ('i, 'b1, 'b2, 'svc, 'c1, 'c2) connection_state \<Rightarrow> 'w \<Rightarrow> bool" where
  "upgradable_inv H1 H2 rest builder svc bytes (Conn_ReadVersion rv b s) w \<longleftrightarrow>
     b = builder \<and> s = Some svc \<and> (\<exists>io. rv_idle rv io \<and> rest io w = bytes)"
| "upgradable_inv H1 H2 rest builder svc bytes (Conn_Http1 c) w \<longleftrightarrow>
     (\<exists>rw w1 p. rewind_rest rest rw w1 = bytes \<and> rw_prefix rw = Some p \<and> p \<noteq> HTTP2_PREFIX \<and>
        hyper_evolves H1 (hs_with_upgrades H1 (hs_serve_connection H1 (ab_http1 builder) rw svc)) c)"
| "upgradable_inv H1 H2 rest builder svc bytes (Conn_Http2 c) w \<longleftrightarrow>
     (\<exists>rw w1. rewind_rest rest rw w1 = bytes \<and> rw_prefix rw = Some HTTP2_PREFIX \<and>
        hyper_evolves H2 (hs_serve_connection H2 (ab_http2 builder) rw svc) c)"

lemma upgradable_poll_idle:
  assumes idle: "rv_idle rv io"
    and poll: "upgradable_poll H1 H2 rd (Conn_ReadVersion rv b (Some svc)) w = (r, s', w')"
  shows "(\<exists>rv' io'. s' = Conn_ReadVersion rv' b (Some svc) \<and> rv_idle rv' io'
        \<and> (r = Panicked \<longrightarrow> fst (rd io 24 w) = Panicked)
        \<and> (io' = io \<and> w' = w
           \<or> (\<exists>q. rd io 24 w = (q, io', w') \<and> \<not> (\<exists>bs. q = Ready (Inr bs)))))
    \<or> (\<exists>bs io1 w1. rd io 24 w = (Ready (Inr bs), io1, w1)
        \<and> (let rw = rewind_new io1 (take 24 bs);
               v = (if take 24 bs = HTTP2_PREFIX then Auto_Http2 else Auto_Http1)
           in upgradable_poll H1 H2 rd (start_connection H1 H2 b v rw svc) w1 = (r, s', w')))"
proof (cases "rv_cancelled rv")
  case True
  with idle poll show ?thesis by (auto simp: read_version_poll_def)
next
  case False
  with idle have wait: "rv_waiting rv io" by (simp add: rv_idle_iff)
  obtain q io1 w1 where rd: "rd io 24 w = (q, io1, w1)" by (cases "rd io 24 w") auto
  obtain rv1 where step: "read_version_poll rd rv w =
       ((case q of
           Ready (Inr bs) \<Rightarrow>
             Ready (Inr (if take 24 bs = HTTP2_PREFIX then Auto_Http2 else Auto_Http1,
                         rewind_new io1 (take 24 bs)))
         | Ready (Inl e) \<Rightarrow> Ready (Inl e)
         | Pending \<Rightarrow> Pending
         | Panicked \<Rightarrow> Panicked), rv1, w1)"
    and wait0: "(\<exists>bs. q = Ready (Inr bs)) \<or> rv_waiting rv1 io1"
    by (rule read_version_poll_waiting [where rd = rd, OF wait rd])
  have wait1: "(\<exists>bs. q = Ready (Inr bs)) \<or> rv_idle rv1 io1" using wait0 by (auto simp: rv_idle_iff)
  show ?thesis
  proof (cases "\<exists>bs. q = Ready (Inr bs)")
    case True
    with step poll rd show ?thesis by (auto simp: Let_def)
  next
    case False
    with step wait1 poll rd show ?thesis by (auto split: polled.splits sum.splits)
  qed
qed

lemma upgradable_inv_start_connection:
  assumes "rewind_rest rest rw w1 = bytes" and "rw_prefix rw = Some p"
    and "v = Auto_Http2 \<longleftrightarrow> p = HTTP2_PREFIX"
    and "upgradable_poll H1 H2 rd (start_connection H1 H2 b v rw svc) w = (r, s', w')"
  shows "upgradable_inv H1 H2 rest b svc bytes s' w''"
  using assms
  by (cases v)
    (auto simp: start_connection_def map_res_eq_iff lift_res_eq_iff,
      (blast intro: evolves_start evolves_poll)+)

lemma upgradable_inv_poll:
  assumes law: "reads_from rd rest"
    and inv: "upgradable_inv H1 H2 rest builder svc bytes s w"
    and poll: "upgradable_poll H1 H2 rd s w = (r, s', w')"
  shows "upgradable_inv H1 H2 rest builder svc bytes s' w'"
proof (cases s)
  case (Conn_ReadVersion rv b so)
  with inv obtain io where idle: "rv_idle rv io" "rest io w = bytes" and b: "b = builder" "so = Some svc"
    by auto
  with poll Conn_ReadVersion have poll': "upgradable_poll H1 H2 rd (Conn_ReadVersion rv builder (Some svc)) w = (r, s', w')"
    by simp
  from upgradable_poll_idle [OF idle(1) poll'] show ?thesis
  proof (elim disjE exE conjE)
    fix rv' io'
    assume "s' = Conn_ReadVersion rv' builder (Some svc)" "rv_idle rv' io'" "io' = io" "w' = w"
    with idle show ?thesis by auto
  next
    fix rv' io' q
    assume "s' = Conn_ReadVersion rv' builder (Some svc)" "rv_idle rv' io'"
      "rd io 24 w = (q, io', w')" "\<not> (\<exists>bs. q = Ready (Inr bs))"
    with idle reads_fromD_other [OF law] show ?thesis by auto
  next
    fix bs io1 w1
    assume rd: "rd io 24 w = (Ready (Inr bs), io1, w1)"
      and go: "let rw = rewind_new io1 (take 24 bs);
               v = (if take 24 bs = HTTP2_PREFIX then Auto_Http2 else Auto_Http1)
           in upgradable_poll H1 H2 rd (start_connection H1 H2 builder v rw svc) w1 = (r, s', w')"
    have "rewind_rest rest (rewind_new io1 (take 24 bs)) w1 = bytes"
      using reads_fromD_data [OF law rd] idle(2) by simp
    then show ?thesis
      by (rule upgradable_inv_start_connection [OF _ _ _ go [unfolded Let_def]])
        (auto simp: rewind_new_def)
  qed
next
  case (Conn_Http1 c)
  with inv poll show ?thesis
    by (auto simp: map_res_eq_iff lift_res_eq_iff, blast intro: evolves_poll)
next
  case (Conn_Http2 c)
  with inv poll show ?thesis
    by (auto simp: map_res_eq_iff lift_res_eq_iff, blast intro: evolves_poll)
qed

lemma upgradable_inv_shutdown:
  "upgradable_inv H1 H2 rest builder svc bytes s w \<Longrightarrow>
     upgradable_inv H1 H2 rest builder svc bytes (upgradable_graceful_shutdown H1 H2 s) w"
  by (cases s) (auto simp: upgradable_graceful_shutdown_def, (blast intro: evolves_shutdown)+)

lemma upgradable_inv_env:
  "env_keeps_rest env rest \<Longrightarrow> env w w' \<Longrightarrow> upgradable_inv H1 H2 rest builder svc bytes s w \<Longrightarrow>
     upgradable_inv H1 H2 rest builder svc bytes s w'"
  by (cases s) (auto simp: env_keeps_rest_def)

lemma upgradable_reach_inv:
  assumes law: "reads_from rd rest" and env: "env_keeps_rest env rest"
    and "upgradable_reach H1 H2 rd env (serve_connection_with_upgrades builder io svc) w0 s w"
  shows "upgradable_inv H1 H2 rest builder svc (rest io w0) s w"
  using assms(3)
proof (induction rule: upgradable_reach.induct)
  case reach_start
  show ?case by (auto simp: serve_connection_with_upgrades_def intro: exI [of _ io])
next
  case (reach_poll s w r s' w')
  show ?case by (rule upgradable_inv_poll [OF law reach_poll.IH reach_poll.hyps(2)])
next
  case (reach_shutdown s w)
  show ?case by (rule upgradable_inv_shutdown [OF reach_shutdown.IH])
next
  case (reach_env s w w')
  show ?case by (rule upgradable_inv_env [OF env reach_env.hyps(2) reach_env.IH])
qed

text \<open>
  C10: In every execution of an auto-detected connection (polls, graceful shutdown and
  steps of other tasks interleaved in any order), once the connection has become an HTTP/1
  or HTTP/2 connection it is the one hyper was given on a stream that reads exactly the
  bytes the peer sent from the beginning, with the service it was started with; it is an
  HTTP/2 connection only if those bytes were read with the complete preface in front, and
  it never goes back to reading the version.
\<close>

theorem upgradable_connection_safe:
  assumes "reads_from rd rest" and "env_keeps_rest env rest"
    and "upgradable_reach H1 H2 rd env (serve_connection_with_upgrades builder io svc) w0 s w"
  shows "case s of
      Conn_ReadVersion rv b service \<Rightarrow> b = builder \<and> service = Some svc
        \<and> (\<exists>i. rv_io rv = Some i \<and> rest i w = rest io w0)
    | Conn_Http1 c \<Rightarrow> \<exists>rw w1. rewind_rest rest rw w1 = rest io w0 \<and> rw_prefix rw \<noteq> Some HTTP2_PREFIX
        \<and> hyper_evolves H1 (hs_with_upgrades H1 (hs_serve_connection H1 (ab_http1 builder) rw svc)) c
    | Conn_Http2 c \<Rightarrow> \<exists>rw w1. rewind_rest rest rw w1 = rest io w0 \<and> rw_prefix rw = Some HTTP2_PREFIX
        \<and> hyper_evolves H2 (hs_serve_connection H2 (ab_http2 builder) rw svc) c"
  using upgradable_reach_inv [OF assms]
  by (cases s) (auto simp: rv_idle_def)

lemma idle_connection_reach:
  "\<exists>c. upgradable_reach idle_hyper idle_hyper chunk_read (\<lambda>w w'. w' = w)
      (serve_connection_with_upgrades \<lparr>ab_http1 = (), ab_http2 = ()\<rparr> preface_stream ''svc'') ()
      (Conn_Http2 c) ()"
proof -
  let ?b = "\<lparr>ab_http1 = (), ab_http2 = ()\<rparr>"
  let ?reach = "upgradable_reach idle_hyper idle_hyper chunk_read (\<lambda>w w'. w' = w)
      (serve_connection_with_upgrades ?b preface_stream ''svc'') ()"
  have wait: "chunk_read preface_stream 24 () = (Pending, [Some (HTTP2_PREFIX @ [1, 2])], ())"
    by (simp add: preface_stream_def)
  have data: "chunk_read [Some (HTTP2_PREFIX @ [1, 2])] 24 () =
      (Ready (Inr HTTP2_PREFIX), [Some [1, 2]], ())"
    by simp
  obtain rv1 where 1: "read_version_poll chunk_read (read_version_new preface_stream) () = (Pending, rv1, ())"
    and w: "rv_waiting rv1 [Some (HTTP2_PREFIX @ [1, 2])]"
    using read_version_poll_waiting [where rd = chunk_read, OF rv_waiting_new wait] by auto
  obtain rv2 where 2: "read_version_poll chunk_read rv1 () =
      (Ready (Inr (Auto_Http2, rewind_new [Some [1, 2]] HTTP2_PREFIX)), rv2, ())"
    using read_version_poll_waiting [where rd = chunk_read, OF w data] by auto
  have "?reach (Conn_ReadVersion rv1 ?b (Some ''svc'')) ()"
    by (rule reach_poll [OF reach_start])
      (simp add: serve_connection_with_upgrades_def 1)
  then have "?reach (Conn_Http2 (rewind_new [Some [1, 2]] HTTP2_PREFIX, ''svc'', False)) ()"
    by (rule reach_poll) (simp add: 2 start_connection_def idle_hyper_def)
  then show ?thesis by blast
qed

lemma env_keeps_rest_eq: "env_keeps_rest (\<lambda>w w'. w' = w) rest"
  by (simp add: env_keeps_rest_def)

theorem upgradable_connection_safe_witness:
  "\<exists>c rw. upgradable_reach idle_hyper idle_hyper chunk_read (\<lambda>w w'. w' = w)
        (serve_connection_with_upgrades \<lparr>ab_http1 = (), ab_http2 = ()\<rparr> preface_stream ''svc'') ()
        (Conn_Http2 c) ()
     \<and> rewind_rest chunk_rest rw () = HTTP2_PREFIX @ [1, 2] \<and> rw_prefix rw = Some HTTP2_PREFIX
     \<and> hyper_evolves idle_hyper (hs_serve_connection idle_hyper () rw ''svc'') c"
proof -
  obtain c where reach: "upgradable_reach idle_hyper idle_hyper chunk_read (\<lambda>w w'. w' = w)
      (serve_connection_with_upgrades \<lparr>ab_http1 = (), ab_http2 = ()\<rparr> preface_stream ''svc'') ()
      (Conn_Http2 c) ()"
    using idle_connection_reach by blast
  have bytes: "chunk_rest preface_stream () = HTTP2_PREFIX @ [1, 2]"
    by (simp add: chunk_rest_def preface_stream_def)
  show ?thesis
    using upgradable_connection_safe [OF chunk_reads_from env_keeps_rest_eq reach] reach
    unfolding bytes connection_state.case auto_builder.select_convs by (metis (full_types) old.unit.exhaust)
qed

text \<open>
  C11: The connection never panics: in every reachable state a poll panics only if the
  read of the stream or hyper's own poll panics (the \<open>unwrap\<close>s of the I/O object and of
  the service always succeed).
\<close>

theorem upgradable_never_panics:
  assumes "reads_from rd rest" and "env_keeps_rest env rest"
    and "upgradable_reach H1 H2 rd env (serve_connection_with_upgrades builder io svc) w0 s w"
    and "\<And>i n v. fst (rd i n v) \<noteq> Panicked"
    and "\<And>c v. fst (hs_poll H1 c v) \<noteq> Panicked" and "\<And>c v. fst (hs_poll H2 c v) \<noteq> Panicked"
  shows "fst (upgradable_poll H1 H2 rd s w) \<noteq> Panicked"
proof (cases s)
  case (Conn_ReadVersion rv b so)
  with upgradable_reach_inv [OF assms(1-3)] obtain i where idle: "rv_idle rv i" and so: "so = Some svc"
    by auto
  obtain r s' w' where poll: "upgradable_poll H1 H2 rd (Conn_ReadVersion rv b (Some svc)) w = (r, s', w')"
    by (cases "upgradable_poll H1 H2 rd (Conn_ReadVersion rv b (Some svc)) w") auto
  have "r \<noteq> Panicked"
    using upgradable_poll_idle [OF idle poll] assms(4-6)
    by (auto simp: Let_def start_connection_def map_res_eq_iff lift_res_eq_iff split: if_splits)
      (metis fst_conv)+
  with poll so Conn_ReadVersion show ?thesis by simp
qed (use assms(5,6) in auto)

theorem upgradable_never_panics_witness:
  "\<exists>c. upgradable_reach idle_hyper idle_hyper chunk_read (\<lambda>w w'. w' = w)
        (serve_connection_with_upgrades \<lparr>ab_http1 = (), ab_http2 = ()\<rparr> preface_stream ''svc'') ()
        (Conn_Http2 c) ()
     \<and> fst (upgradable_poll idle_hyper idle_hyper chunk_read (Conn_Http2 c) ()) \<noteq> Panicked"
proof -
  obtain c where reach: "upgradable_reach idle_hyper idle_hyper chunk_read (\<lambda>w w'. w' = w)
      (serve_connection_with_upgrades \<lparr>ab_http1 = (), ab_http2 = ()\<rparr> preface_stream ''svc'') ()
      (Conn_Http2 c) ()"
    using idle_connection_reach by blast
  have hyper: "fst (hs_poll idle_hyper d v) \<noteq> Panicked" for d v
    by (simp add: idle_hyper_def)
  show ?thesis
    using upgradable_never_panics [OF chunk_reads_from env_keeps_rest_eq reach chunk_read_no_panic
        hyper hyper] reach
    by blast
qed

text \<open>
  C2: Every connection gets going. For any number of polls, a connection with automatic
  protocol waits for one read of at most 24 bytes and then, in the same poll, is the hyper
  connection for the detected protocol, on the stream with those bytes put back and with
  the service it was given; an error of the read ends it with a protocol error. So once
  bytes have arrived the connection is served, whatever they are.
\<close>

theorem upgradable_runs:
  "out_res (run_polls (upgradable_poll H1 H2 rd) n (serve_connection_with_upgrades builder io svc) w) =
     run_then (\<lambda>i w. rd i 24 w) n io w
       (\<lambda>r io2 m w'. case r of
          Inl e \<Rightarrow> (Ready (Inl (CE_Protocol e)), w')
        | Inr bs \<Rightarrow>
            (let rw = rewind_new io2 (take 24 bs) in
             map_prod (map_polled (map_err CE_Hyper)) id
               (if take 24 bs = HTTP2_PREFIX
                then out_res (run_polls (hs_poll H2) m (hs_serve_connection H2 (ab_http2 builder) rw svc) w')
                else out_res (run_polls (hs_poll H1) m
                  (hs_with_upgrades H1 (hs_serve_connection H1 (ab_http1 builder) rw svc)) w'))))"
proof -
  let ?up = "upgradable_poll H1 H2 rd"
  let ?k = "\<lambda>r io2 m w'. case r of
          Inl e \<Rightarrow> (Ready (Inl (CE_Protocol e)), w')
        | Inr bs \<Rightarrow>
            (let rw = rewind_new io2 (take 24 bs) in
             map_prod (map_polled (map_err CE_Hyper)) id
               (if take 24 bs = HTTP2_PREFIX
                then out_res (run_polls (hs_poll H2) m (hs_serve_connection H2 (ab_http2 builder) rw svc) w')
                else out_res (run_polls (hs_poll H1) m
                  (hs_with_upgrades H1 (hs_serve_connection H1 (ab_http1 builder) rw svc)) w')))"
  have "out_res (run_polls ?up n (Conn_ReadVersion rv builder (Some svc)) w) =
      run_then (\<lambda>i w. rd i 24 w) n io w ?k" if "rv_waiting rv io" for rv
    using that
  proof (induction n arbitrary: rv io w)
    case 0
    then show ?case by simp
  next
    case (Suc n)
    obtain r io' w1 where rd: "rd io 24 w = (r, io', w1)" by (cases "rd io 24 w") auto
    from read_version_poll_waiting [where rd = rd, OF Suc.prems rd] obtain rv1 where
      poll: "read_version_poll rd rv w =
        ((case r of
            Ready (Inr bs) \<Rightarrow>
              Ready (Inr (if take 24 bs = HTTP2_PREFIX then Auto_Http2 else Auto_Http1,
                          rewind_new io' (take 24 bs)))
          | Ready (Inl e) \<Rightarrow> Ready (Inl e)
          | Pending \<Rightarrow> Pending
          | Panicked \<Rightarrow> Panicked), rv1, w1)"
      and wait: "(\<exists>bs. r = Ready (Inr bs)) \<or> rv_waiting rv1 io'"
      by blast
    have start: "out_res (run_polls ?up (Suc n) (Conn_ReadVersion rv builder (Some svc)) w) =
        out_res (run_polls ?up (Suc n) (start_connection H1 H2 builder v rw svc) w1)"
      if "read_version_poll rd rv w = (Ready (Inr (v, rw)), rv1, w1)" for v rw
      using that by simp
    show ?case
    proof (cases "\<exists>bs. r = Ready (Inr bs)")
      case True
      then obtain bs where bs: "r = Ready (Inr bs)" ..
      show ?thesis
        using poll unfolding bs
        by (subst start)
          (auto simp: rd bs start_connection_def Let_def upgradable_http1.run_wrap upgradable_http2.run_wrap
            simp del: run_polls.simps)
    next
      case False
      with wait have "rv_waiting rv1 io'" by simp
      from Suc.IH [OF this, of w1] False rd poll show ?thesis
        by (cases r) (auto split: sum.splits)
    qed
  qed
  then show ?thesis by (simp add: serve_connection_with_upgrades_def)
qed

text \<open>
  Graceful shutdown is forwarded to hyper once the protocol is known; before that it
  cancels the detection, and the next poll ends the connection with an interrupted
  protocol error without reading from the stream.
\<close>

theorem upgradable_shutdown_effect:
  "case s of
     Conn_ReadVersion rv b service \<Rightarrow>
       upgradable_poll H1 H2 rd (upgradable_graceful_shutdown H1 H2 s) w =
         (Ready (Inl (CE_Protocol (IoError Interrupted []))), upgradable_graceful_shutdown H1 H2 s, w)
   | Conn_Http1 c \<Rightarrow> upgradable_graceful_shutdown H1 H2 s = Conn_Http1 (hs_graceful_shutdown H1 c)
   | Conn_Http2 c \<Rightarrow> upgradable_graceful_shutdown H1 H2 s = Conn_Http2 (hs_graceful_shutdown H2 c)"
  by (cases s) (simp_all add: upgradable_graceful_shutdown_def read_version_cancelled)

section \<open>Connecting\<close>

text \<open>
  \<open>Connecting\<close> owns the builder next to the connection that borrows from it.
\<close>

record ('bd, 'c) connecting =
  cg_protocol :: 'bd
  cg_conn :: 'c

definition connecting_build ::
  "('b1, 'b2) auto_builder \<Rightarrow> 's \<Rightarrow> 'i \<Rightarrow>
     (('b1, 'b2) auto_builder, ('i tokio_io, 'b1, 'b2, 's adapted_service, 'c1, 'c2) connection_state) connecting" where
  "connecting_build protocol service stream =
     \<lparr>cg_protocol = protocol,
      cg_conn = serve_connection_with_upgrades protocol (tokio_io_new stream) (adapted service)\<rparr>"

definition auto_serve_connection ::
  "('b1, 'b2) auto_builder \<Rightarrow> 'i \<Rightarrow> 's \<Rightarrow>
     (('b1, 'b2) auto_builder, ('i tokio_io, 'b1, 'b2, 's adapted_service, 'c1, 'c2) connection_state) connecting" where
  "auto_serve_connection self stream service = connecting_build self service stream"

definition connecting_graceful_shutdown :: "('c \<Rightarrow> 'c) \<Rightarrow> ('bd, 'c) connecting \<Rightarrow> ('bd, 'c) connecting" where
  "connecting_graceful_shutdown shutdown self = self\<lparr>cg_conn := shutdown (cg_conn self)\<rparr>"

definition connecting_poll ::
  "('c, 'e + unit, 'w) pollf \<Rightarrow> (('bd, 'c) connecting, 'e + unit, 'w) pollf" where
  "connecting_poll p self w =
     (case p (cg_conn self) w of
        (Ready (Inr u), c', w') \<Rightarrow> (Ready (Inr ()), self\<lparr>cg_conn := c'\<rparr>, w')
      | (Ready (Inl e), c', w') \<Rightarrow> (Ready (Inl e), self\<lparr>cg_conn := c'\<rparr>, w')
      | (Pending, c', w') \<Rightarrow> (Pending, self\<lparr>cg_conn := c'\<rparr>, w')
      | (Panicked, c', w') \<Rightarrow> (Panicked, self\<lparr>cg_conn := c'\<rparr>, w'))"

interpretation connecting:
  future_wrapper p "connecting_poll p" "\<lambda>c. \<lparr>cg_protocol = pr, cg_conn = c\<rparr>" id for p pr
  by unfold_locales (auto simp: connecting_poll_def lift_res_def split: prod.split polled.split sum.split)

text \<open>
  A connection served with the automatic protocol behaves, for any number of polls,
  as the upgradable connection on the given stream (behind \<open>TokioIo\<close>) and service (behind
  the body adapter and the tower bridge).
\<close>

theorem auto_connection_polls:
  "run_polls (connecting_poll (upgradable_poll H1 H2 rd)) n (auto_serve_connection b stream svc) w =
     lift_res (\<lambda>c. \<lparr>cg_protocol = b, cg_conn = c\<rparr>)
       (run_polls (upgradable_poll H1 H2 rd) n
          (serve_connection_with_upgrades b (tokio_io_new stream) (adapted svc)) w)"
  by (simp add: auto_serve_connection_def connecting_build_def connecting.run_wrap)

end
