(* ===== verification/Server_Info.thy ===== *)
theory Server_Info
  imports Service_Layers
begin

text \<open>
  The middleware that attaches connection information to requests
  (\<open>src/server/conn/info.rs\<close>): on the "make service" side it records what is known of the
  accepted stream, on the request side it puts it into the extensions of the request. The
  stream's \<open>info\<close> and TLS receiver, and \<open>erase\<close>, belong to chateau and are parameters; so
  is the \<open>clone\<close> of the wrapped service.
\<close>

section \<open>Make-service futures that attach something to the service made\<close>

locale attach_once =
  fixes inner :: "('f, 'e + 's, 'w) pollf"
    and outer :: "('g, 'e + 't, 'w) pollf"
    and wrap :: "'f \<Rightarrow> 'x option \<Rightarrow> 'g"
    and attach :: "'x \<Rightarrow> 's \<Rightarrow> 't"
  assumes attach_poll:
    "outer (wrap f (Some x)) w =
       (case inner f w of
          (Ready (Inr s), f', w') \<Rightarrow> (Ready (Inr (attach x s)), wrap f' None, w')
        | (Ready (Inl e), f', w') \<Rightarrow> (Ready (Inl e), wrap f' (Some x), w')
        | (Pending, f', w') \<Rightarrow> (Pending, wrap f' (Some x), w')
        | (Panicked, f', w') \<Rightarrow> (Panicked, wrap f' (Some x), w'))"
begin

lemma run_attach:
  "(case run_polls outer n (wrap f (Some x)) w of (r, g', w') \<Rightarrow> (r, w')) =
     (case run_polls inner n f w of (r, f', w') \<Rightarrow> (map_polled (map_ok (attach x)) r, w'))"
proof (induction n arbitrary: f w)
  case 0
  then show ?case by simp
next
  case (Suc n)
  obtain r f' w' where i: "inner f w = (r, f', w')" by (cases "inner f w") auto
  then show ?case
    by (cases r) (auto simp: attach_poll Suc.IH split: sum.split prod.splits)
qed

end

section \<open>Connection information\<close>

record 'c make_info_service = mis_inner :: 'c

record ('f, 'ci) make_info_future =
  mif_inner :: 'f
  mif_info :: "'ci option"

record ('s, 'ci) connection_with_info =
  cwi_inner :: 's
  cwi_info :: "'ci option"

definition make_info_new :: "'c \<Rightarrow> 'c make_info_service" where
  "make_info_new inner = \<lparr>mis_inner = inner\<rparr>"

definition make_info_layer :: "'c \<Rightarrow> 'c make_info_service" where
  "make_info_layer inner = make_info_new inner"

definition make_info_future_new :: "'f \<Rightarrow> 'ci \<Rightarrow> ('f, 'ci) make_info_future" where
  "make_info_future_new inner info = \<lparr>mif_inner = inner, mif_info = Some info\<rparr>"

text \<open>The service keeps a clone of its inner service and calls the original.\<close>

definition make_info_call ::
  "('c \<Rightarrow> 'c) \<Rightarrow> ('io \<Rightarrow> 'ci) \<Rightarrow> ('c, 'io, 'f, 'e, 's, 'w) service \<Rightarrow>
     'c make_info_service \<Rightarrow> 'io \<Rightarrow> 'w \<Rightarrow>
     ('f, 'ci) make_info_future outcome \<times> 'c make_info_service \<times> 'w" where
  "make_info_call clone info C self stream w =
     (let kept = self\<lparr>mis_inner := clone (mis_inner self)\<rparr>;
          i = info stream
      in case call C (mis_inner self) stream w of
           (Ret f, c', w') \<Rightarrow> (Ret (make_info_future_new f i), kept, w')
         | (Panic, c', w') \<Rightarrow> (Panic, kept, w'))"

definition make_info_future_poll ::
  "('f, 'e + 's, 'w) pollf \<Rightarrow>
     (('f, 'ci) make_info_future, 'e + ('s, 'ci) connection_with_info, 'w) pollf" where
  "make_info_future_poll p self w =
     (case p (mif_inner self) w of
        (Ready (Inr inner), f', w') \<Rightarrow>
          (Ready (Inr \<lparr>cwi_inner = inner, cwi_info = mif_info self\<rparr>),
           self\<lparr>mif_inner := f', mif_info := None\<rparr>, w')
      | (Ready (Inl e), f', w') \<Rightarrow> (Ready (Inl e), self\<lparr>mif_inner := f'\<rparr>, w')
      | (Pending, f', w') \<Rightarrow> (Pending, self\<lparr>mif_inner := f'\<rparr>, w')
      | (Panicked, f', w') \<Rightarrow> (Panicked, self\<lparr>mif_inner := f'\<rparr>, w'))"

definition make_info_ops ::
  "('c \<Rightarrow> 'c) \<Rightarrow> ('io \<Rightarrow> 'ci) \<Rightarrow> ('c, 'io, 'f, 'e, 's, 'w) service \<Rightarrow>
     ('c make_info_service, 'io, ('f, 'ci) make_info_future, 'e, ('s, 'ci) connection_with_info, 'w) service" where
  "make_info_ops clone info C =
     \<lparr>poll_ready = (\<lambda>self w. lift_res (\<lambda>c. self\<lparr>mis_inner := c\<rparr>) (poll_ready C (mis_inner self) w)),
      call = make_info_call clone info C, poll_fut = make_info_future_poll (poll_fut C)\<rparr>"

interpretation make_info:
  attach_once p "make_info_future_poll p" "\<lambda>f i. \<lparr>mif_inner = f, mif_info = i\<rparr>"
    "\<lambda>i s. \<lparr>cwi_inner = s, cwi_info = Some i\<rparr>" for p
  by unfold_locales
    (auto simp: make_info_future_poll_def split: prod.splits polled.splits sum.splits)

definition insert_connection_info ::
  "'i \<Rightarrow> ('u, 'h, ('i, 'tls, 'ua) extensions, 'b) request \<Rightarrow>
     ('u, 'h, ('i, 'tls, 'ua) extensions, 'b) request" where
  "insert_connection_info i req =
     req\<lparr>rq_ext := (rq_ext req)\<lparr>ext_connection_info := Some i\<rparr>\<rparr>"

definition connection_with_info_call ::
  "('s \<Rightarrow> 's) \<Rightarrow> ('ci \<Rightarrow> 'i) \<Rightarrow>
     ('s, ('u, 'h, ('i, 'tls, 'ua) extensions, 'b) request, 'f, 'e, 'a, 'w) service \<Rightarrow>
     ('s, 'ci) connection_with_info \<Rightarrow> ('u, 'h, ('i, 'tls, 'ua) extensions, 'b) request \<Rightarrow> 'w \<Rightarrow>
     'f outcome \<times> ('s, 'ci) connection_with_info \<times> 'w" where
  "connection_with_info_call clone erase S self req w =
     (let inner = cwi_inner self;
          self' = self\<lparr>cwi_inner := clone inner, cwi_info := None\<rparr>;
          req' = (case cwi_info self of
                    Some info \<Rightarrow> insert_connection_info (erase info) req
                  | None \<Rightarrow> req)
      in case call S inner req' w of (out, s', w') \<Rightarrow> (out, self', w'))"

definition connection_with_info_ops ::
  "('s \<Rightarrow> 's) \<Rightarrow> ('ci \<Rightarrow> 'i) \<Rightarrow>
     ('s, ('u, 'h, ('i, 'tls, 'ua) extensions, 'b) request, 'f, 'e, 'a, 'w) service \<Rightarrow>
     (('s, 'ci) connection_with_info, ('u, 'h, ('i, 'tls, 'ua) extensions, 'b) request, 'f, 'e, 'a, 'w) service" where
  "connection_with_info_ops clone erase S =
     \<lparr>poll_ready = (\<lambda>self w. lift_res (\<lambda>s. self\<lparr>cwi_inner := s\<rparr>) (poll_ready S (cwi_inner self) w)),
      call = connection_with_info_call clone erase S, poll_fut = poll_fut S\<rparr>"

definition connection_with_info_clone ::
  "('s \<Rightarrow> 's) \<Rightarrow> ('s, 'ci) connection_with_info \<Rightarrow> ('s, 'ci) connection_with_info" where
  "connection_with_info_clone clone self = self\<lparr>cwi_inner := clone (cwi_inner self)\<rparr>"

text \<open>
  Making a service for an accepted stream. The service made is the one the inner
  make-service makes for the same stream, carrying the information of that stream; it is
  made at the same poll, an error is passed on, and the make-service keeps its clone for
  the next stream.
\<close>

theorem make_info_service_made:
  "(case run_call (make_info_ops clone info C) n (make_info_layer c) stream w of (r, c', w') \<Rightarrow> (r, w')) =
     (case run_call C n c stream w of
        (r, c', w') \<Rightarrow>
          (map_polled (map_ok (\<lambda>s. \<lparr>cwi_inner = s, cwi_info = Some (info stream)\<rparr>)) r, w'))
   \<and> fst (snd (run_call (make_info_ops clone info C) n (make_info_layer c) stream w)) =
       make_info_layer (clone c)"
proof (cases "fst (call C c stream w)")
  case Panic
  then show ?thesis
    by (auto simp: run_call_def make_info_ops_def make_info_call_def make_info_layer_def
        make_info_new_def Let_def split: prod.splits)
next
  case (Ret f)
  then show ?thesis
    using make_info.run_attach [of "poll_fut C" n f "info stream" "snd (snd (call C c stream w))"]
    by (auto simp: run_call_def make_info_ops_def make_info_call_def make_info_layer_def
        make_info_new_def make_info_future_new_def Let_def split: prod.splits)
qed

text \<open>Requests sent one after the other on the same value.\<close>

fun call_all ::
  "('s, 'r, 'f, 'e, 'a, 'w) service \<Rightarrow> 's \<Rightarrow> 'r list \<Rightarrow> 'w \<Rightarrow> 'f outcome list \<times> 's \<times> 'w" where
  "call_all S s [] w = ([], s, w)"
| "call_all S s (r # rs) w =
     (case call S s r w of (out, s', w') \<Rightarrow> map_res (Cons out) (call_all S s' rs w'))"

text \<open>The service the wrapped service is after a call: its clone, the original being used up.\<close>

definition cloning :: "('s \<Rightarrow> 's) \<Rightarrow> ('s, 'r, 'f, 'e, 'a, 'w) service \<Rightarrow> ('s, 'r, 'f, 'e, 'a, 'w) service" where
  "cloning clone S =
     S\<lparr>call := (\<lambda>s r w. case call S s r w of (out, s', w') \<Rightarrow> (out, clone s, w'))\<rparr>"

lemma call_sel [simp]:
  "call (connection_with_info_ops clone erase S) = connection_with_info_call clone erase S"
  "call (cloning clone S) s r w = (case call S s r w of (out, s', w') \<Rightarrow> (out, clone s, w'))"
  by (simp_all add: connection_with_info_ops_def cloning_def)

lemma call_all_without_info:
  "call_all (connection_with_info_ops clone erase S) \<lparr>cwi_inner = s, cwi_info = None\<rparr> rs w =
     lift_res (\<lambda>s. \<lparr>cwi_inner = s, cwi_info = None\<rparr>) (call_all (cloning clone S) s rs w)"
proof (induction rs arbitrary: s w)
  case Nil
  then show ?case by simp
next
  case (Cons r rs)
  obtain out s' w' where "call S s r w = (out, s', w')" by (cases "call S s r w") auto
  then show ?case
    by (simp add: connection_with_info_call_def Cons.IH map_lift_res)
qed

text \<open>
  Of the requests called one after the other on one connection service, the first
  carries the connection information in its extensions and the later ones do not; nothing
  else in the requests changes.
\<close>

theorem first_request_has_info:
  "call_all (connection_with_info_ops clone erase S) \<lparr>cwi_inner = s, cwi_info = Some i\<rparr> (r # rs) w =
     lift_res (\<lambda>s. \<lparr>cwi_inner = s, cwi_info = None\<rparr>)
       (call_all (cloning clone S) s (insert_connection_info (erase i) r # rs) w)"
proof -
  obtain out s' w' where "call S s (insert_connection_info (erase i) r) w = (out, s', w')"
    by (cases "call S s (insert_connection_info (erase i) r) w") auto
  moreover have "connection_with_info_call clone erase S \<lparr>cwi_inner = s, cwi_info = Some i\<rparr> r w =
      (out, \<lparr>cwi_inner = clone s, cwi_info = None\<rparr>, w')"
    using calculation by (simp add: connection_with_info_call_def)
  ultimately show ?thesis
    using call_all_without_info [of clone erase S "clone s" rs w']
    by (simp add: map_lift_res)
qed

text \<open>
  Behind the tower bridge every request of a connection carries the connection
  information: the bridge clones the service for each request, and the call on the clone
  passes the request on with the information inserted.
\<close>

theorem every_bridged_request_has_info:
  "thf_future (tower_hyper_call (connection_with_info_clone clone) oneshot
      (tower_hyper_new \<lparr>cwi_inner = s, cwi_info = Some i\<rparr>) r) =
     oneshot \<lparr>cwi_inner = clone s, cwi_info = Some i\<rparr> r
   \<and> fst (call (connection_with_info_ops clone erase S) \<lparr>cwi_inner = clone s, cwi_info = Some i\<rparr> r w) =
     fst (call S (clone s) (insert_connection_info (erase i) r) w)"
  by (simp add: tower_hyper_call_def tower_hyper_new_def connection_with_info_clone_def
      connection_with_info_call_def Let_def split: prod.split)

section \<open>TLS connection information\<close>

text \<open>
  \<open>recv\<close> polls the receiver of the handshake's result, which belongs to chateau.
\<close>

record 'c make_tls_info_service = mts_inner :: 'c

record ('f, 'rx) make_tls_info_future =
  mtf_inner :: 'f
  mtf_rx :: "'rx option"

record ('s, 'rx) connection_with_tls_info =
  cwt_inner :: 's
  cwt_rx :: 'rx

definition make_tls_info_new :: "'c \<Rightarrow> 'c make_tls_info_service" where
  "make_tls_info_new inner = \<lparr>mts_inner = inner\<rparr>"

definition make_tls_info_layer :: "'c \<Rightarrow> 'c make_tls_info_service" where
  "make_tls_info_layer inner = make_tls_info_new inner"

definition make_tls_info_future_new :: "'f \<Rightarrow> 'rx \<Rightarrow> ('f, 'rx) make_tls_info_future" where
  "make_tls_info_future_new inner rx = \<lparr>mtf_inner = inner, mtf_rx = Some rx\<rparr>"

definition make_tls_info_call ::
  "('c \<Rightarrow> 'c) \<Rightarrow> ('io \<Rightarrow> 'rx) \<Rightarrow> ('c, 'io, 'f, 'e, 's, 'w) service \<Rightarrow>
     'c make_tls_info_service \<Rightarrow> 'io \<Rightarrow> 'w \<Rightarrow>
     ('f, 'rx) make_tls_info_future outcome \<times> 'c make_tls_info_service \<times> 'w" where
  "make_tls_info_call clone receiver C self stream w =
     (let kept = self\<lparr>mts_inner := clone (mts_inner self)\<rparr>;
          rx = receiver stream
      in case call C (mts_inner self) stream w of
           (Ret f, c', w') \<Rightarrow> (Ret (make_tls_info_future_new f rx), kept, w')
         | (Panic, c', w') \<Rightarrow> (Panic, kept, w'))"

definition make_tls_info_future_poll ::
  "('f, 'e + 's, 'w) pollf \<Rightarrow>
     (('f, 'rx) make_tls_info_future, 'e + ('s, 'rx) connection_with_tls_info, 'w) pollf" where
  "make_tls_info_future_poll p self w =
     (case p (mtf_inner self) w of
        (Ready (Inr inner), f', w') \<Rightarrow>
          (case mtf_rx self of
             Some rx \<Rightarrow>
               (Ready (Inr \<lparr>cwt_inner = inner, cwt_rx = rx\<rparr>), self\<lparr>mtf_inner := f', mtf_rx := None\<rparr>, w')
           | None \<Rightarrow> (Panicked, self\<lparr>mtf_inner := f'\<rparr>, w'))
      | (Ready (Inl e), f', w') \<Rightarrow> (Ready (Inl e), self\<lparr>mtf_inner := f'\<rparr>, w')
      | (Pending, f', w') \<Rightarrow> (Pending, self\<lparr>mtf_inner := f'\<rparr>, w')
      | (Panicked, f', w') \<Rightarrow> (Panicked, self\<lparr>mtf_inner := f'\<rparr>, w'))"

interpretation make_tls_info:
  attach_once p "make_tls_info_future_poll p" "\<lambda>f rx. \<lparr>mtf_inner = f, mtf_rx = rx\<rparr>"
    "\<lambda>rx s. \<lparr>cwt_inner = s, cwt_rx = rx\<rparr>" for p
  by unfold_locales
    (auto simp: make_tls_info_future_poll_def split: prod.splits polled.splits sum.splits)

definition insert_tls_info ::
  "'tls option \<Rightarrow> ('u, 'h, ('i, 'tls, 'ua) extensions, 'b) request \<Rightarrow>
     ('u, 'h, ('i, 'tls, 'ua) extensions, 'b) request" where
  "insert_tls_info info req =
     (case info of Some i \<Rightarrow> req\<lparr>rq_ext := (rq_ext req)\<lparr>ext_tls := Some i\<rparr>\<rparr> | None \<Rightarrow> req)"

text \<open>The async block of \<open>call\<close>: waiting for the handshake, then for the response.\<close>

datatype ('rx, 's, 'r, 'f) tls_info_future =
  Tif_Recv 'rx 's 'r | Tif_Call 'f | Tif_Done

definition tls_info_call ::
  "('s \<Rightarrow> 's) \<Rightarrow> ('rx \<Rightarrow> 'rx) \<Rightarrow> ('s, 'rx) connection_with_tls_info \<Rightarrow> 'r \<Rightarrow>
     ('rx, 's, 'r, 'f) tls_info_future \<times> ('s, 'rx) connection_with_tls_info" where
  "tls_info_call clone clone_rx self req =
     (let rx = clone_rx (cwt_rx self); next_inner = clone (cwt_inner self); inner = cwt_inner self
      in (Tif_Recv rx inner req, self\<lparr>cwt_inner := next_inner\<rparr>))"

definition tls_info_await ::
  "('f, 'e + 'a, 'w) pollf \<Rightarrow> 'f \<Rightarrow> 'w \<Rightarrow>
     ('e + 'a) polled \<times> ('rx, 's, 'r, 'f) tls_info_future \<times> 'w" where
  "tls_info_await p f w =
     (case p f w of
        (Pending, f', w') \<Rightarrow> (Pending, Tif_Call f', w')
      | (r, f', w') \<Rightarrow> (r, Tif_Done, w'))"

definition tls_info_future_poll ::
  "('rx, 'tls option, 'w) pollf \<Rightarrow>
     ('s, ('u, 'h, ('i, 'tls, 'ua) extensions, 'b) request, 'f, 'e, 'a, 'w) service \<Rightarrow>
     (('rx, 's, ('u, 'h, ('i, 'tls, 'ua) extensions, 'b) request, 'f) tls_info_future, 'e + 'a, 'w) pollf" where
  "tls_info_future_poll recv S self w =
     (case self of
        Tif_Recv rx inner req \<Rightarrow>
          (case recv rx w of
             (Pending, rx', w') \<Rightarrow> (Pending, Tif_Recv rx' inner req, w')
           | (Panicked, rx', w') \<Rightarrow> (Panicked, Tif_Done, w')
           | (Ready info, rx', w') \<Rightarrow>
               (case call S inner (insert_tls_info info req) w' of
                  (Panic, s', w'') \<Rightarrow> (Panicked, Tif_Done, w'')
                | (Ret f, s', w'') \<Rightarrow> tls_info_await (poll_fut S) f w''))
      | Tif_Call f \<Rightarrow> tls_info_await (poll_fut S) f w
      | Tif_Done \<Rightarrow> (Panicked, Tif_Done, w))"

lemma tls_info_poll_simps:
  "tls_info_future_poll recv S (Tif_Recv rx inner req) w =
     (case recv rx w of
        (Pending, rx', w') \<Rightarrow> (Pending, Tif_Recv rx' inner req, w')
      | (Panicked, rx', w') \<Rightarrow> (Panicked, Tif_Done, w')
      | (Ready info, rx', w') \<Rightarrow>
          (case call S inner (insert_tls_info info req) w' of
             (Panic, s', w'') \<Rightarrow> (Panicked, Tif_Done, w'')
           | (Ret f, s', w'') \<Rightarrow> tls_info_await (poll_fut S) f w''))"
  "tls_info_future_poll recv S (Tif_Call f) w = tls_info_await (poll_fut S) f w"
  "tls_info_future_poll recv S Tif_Done w = (Panicked, Tif_Done, w)"
  by (simp_all add: tls_info_future_poll_def)

lemma tls_info_run_call:
  "run_polls (tls_info_future_poll recv S) n (Tif_Call f) w = (Ready x, g, w') \<Longrightarrow>
     \<exists>f'. run_polls (poll_fut S) n f w = (Ready x, f', w')"
proof (induction n arbitrary: f w)
  case 0
  then show ?case by simp
next
  case (Suc n)
  obtain r f' w1 where r: "poll_fut S f w = (r, f', w1)" by (cases "poll_fut S f w") auto
  with Suc show ?case
    by (cases r) (auto simp: tls_info_poll_simps tls_info_await_def)
qed

text \<open>
  A request on a TLS connection. When its future resolves, the handshake's result had
  been received, the inner service was called once, after that, with the result (if there
  is one) in the extensions of the request, and its outcome is the outcome.
\<close>

theorem tls_info_request:
  assumes "run_polls (tls_info_future_poll recv S) n
      (fst (tls_info_call clone clone_rx self r)) w = (Ready x, g, w')"
  shows "\<exists>m info rx' w1 k s'. m \<le> n \<and> k \<le> n
    \<and> run_polls recv m (clone_rx (cwt_rx self)) w = (Ready info, rx', w1)
    \<and> run_call S k (cwt_inner self) (insert_tls_info info r) w1 = (Ready x, s', w')"
proof -
  have "run_polls (tls_info_future_poll recv S) n (Tif_Recv rx s r) w = (Ready x, g, w') \<Longrightarrow>
    \<exists>m info rx' w1 k s'. m \<le> n \<and> k \<le> n \<and> run_polls recv m rx w = (Ready info, rx', w1)
      \<and> run_call S k s (insert_tls_info info r) w1 = (Ready x, s', w')" for rx s
  proof (induction n arbitrary: rx w)
    case 0
    then show ?case by simp
  next
    case (Suc n)
    obtain q rx1 w1 where q: "recv rx w = (q, rx1, w1)" by (cases "recv rx w") auto
    show ?case
    proof (cases q)
      case Pending
      then have "run_polls (tls_info_future_poll recv S) n (Tif_Recv rx1 s r) w1 = (Ready x, g, w')"
        using Suc.prems by (simp add: tls_info_poll_simps q)
      from Suc.IH [OF this]
      obtain m info rx' w2 k s' where "m \<le> n" "k \<le> n" "run_polls recv m rx1 w1 = (Ready info, rx', w2)"
        "run_call S k s (insert_tls_info info r) w2 = (Ready x, s', w')"
        by blast
      with q Pending show ?thesis
        by (intro exI [of _ "Suc m"] exI [of _ info] exI [of _ rx'] exI [of _ w2] exI [of _ k]) auto
    next
      case (Ready info)
      obtain c s' w2 where c: "call S s (insert_tls_info info r) w1 = (c, s', w2)"
        by (cases "call S s (insert_tls_info info r) w1") auto
      obtain f where f: "c = Ret f"
        using Suc.prems by (cases c) (auto simp: tls_info_poll_simps q Ready c)
      obtain p f1 w3 where p: "poll_fut S f w2 = (p, f1, w3)" by (cases "poll_fut S f w2") auto
      have "\<exists>f'. run_polls (poll_fut S) (Suc n) f w2 = (Ready x, f', w')"
        using Suc.prems tls_info_run_call [of recv S n f1 w3 x g w'] p
        by (cases p) (auto simp: tls_info_poll_simps tls_info_await_def q Ready c f)
      then have "\<exists>s'. run_call S (Suc n) s (insert_tls_info info r) w1 = (Ready x, s', w')"
        by (auto simp: run_call_def c f)
      with q Ready show ?thesis
        by (intro exI [of _ "Suc 0"] exI [of _ info] exI [of _ rx1] exI [of _ w1] exI [of _ "Suc n"]) auto
    next
      case Panicked
      with Suc.prems q show ?thesis by (simp add: tls_info_poll_simps)
    qed
  qed
  with assms show ?thesis by (simp add: tls_info_call_def Let_def)
qed

interpretation tls_info_recv:
  future_await recv "tls_info_future_poll recv S" "\<lambda>rx. Tif_Recv rx inner req"
    "\<lambda>info rx w. case call S inner (insert_tls_info info req) w of
        (Panic, s', w') \<Rightarrow> (Panicked, Tif_Done, w')
      | (Ret f, s', w') \<Rightarrow> tls_info_await (poll_fut S) f w'"
  for recv S inner req
  by unfold_locales (simp_all add: tls_info_poll_simps)

lemma tls_info_call_run:
  "out_res (run_polls (tls_info_future_poll recv S) n (Tif_Call f) w) = out_res (run_polls (poll_fut S) n f w)"
proof (induction n arbitrary: f w)
  case 0
  then show ?case by simp
next
  case (Suc n)
  obtain r f' w1 where "poll_fut S f w = (r, f', w1)" by (cases "poll_fut S f w") auto
  with Suc.IH show ?case by (cases r) (simp_all add: tls_info_poll_simps tls_info_await_def)
qed

lemma tls_info_run_then:
  "out_res (run_polls (tls_info_future_poll recv S) n (fst (tls_info_call clone clone_rx self r)) w) =
     run_then recv n (clone_rx (cwt_rx self)) w
       (\<lambda>info rx m w'. out_res (run_call S m (cwt_inner self) (insert_tls_info info r) w'))"
proof -
  have "out_res (continue_polls (tls_info_future_poll recv S) (m - 1)
      (case call S inner req w' of
        (Panic, s', w'') \<Rightarrow> (Panicked, Tif_Done, w'')
      | (Ret f, s', w'') \<Rightarrow> tls_info_await (poll_fut S) f w'')) = out_res (run_call S m inner req w')"
    if "0 < m" for m inner req w'
  proof -
    obtain c s' w1 where c: "call S inner req w' = (c, s', w1)" by (cases "call S inner req w'") auto
    show ?thesis
    proof (cases c)
      case Panic
      with c show ?thesis by (simp add: run_call_def)
    next
      case (Ret f)
      have "continue_polls (tls_info_future_poll recv S) (m - 1) (tls_info_await (poll_fut S) f w1) =
          run_polls (tls_info_future_poll recv S) m (Tif_Call f) w1"
        using that run_polls_continue [of "tls_info_future_poll recv S" "m - 1" "Tif_Call f" w1]
        by (simp add: tls_info_poll_simps del: run_polls.simps)
      with c Ret show ?thesis
        by (simp add: tls_info_call_run run_call_def del: run_polls.simps)
          (simp add: out_res_def split_beta)
    qed
  qed
  then show ?thesis
    by (auto simp: tls_info_call_def Let_def tls_info_recv.run_await intro: run_then_cong)
qed

text \<open>
  A request on a TLS connection, in full. For any number of polls the future waits for
  the result of the handshake and then, in the same poll, calls the inner service once with
  that result in the extensions of the request and follows the future it gets; so it
  resolves whenever the handshake result arrives and the service answers.
\<close>

theorem tls_info_runs:
  "out_res (run_polls (tls_info_future_poll recv S) n (fst (tls_info_call clone clone_rx self r)) w) =
     run_then recv n (clone_rx (cwt_rx self)) w
       (\<lambda>info rx m w'. out_res (run_call S m (cwt_inner self) (insert_tls_info info r) w'))"
  by (rule tls_info_run_then)

text \<open>An instance used in examples: a receiver that is ready after some polls.\<close>

definition counting_recv :: "nat \<times> 'x \<Rightarrow> unit \<Rightarrow> 'x polled \<times> (nat \<times> 'x) \<times> unit" where
  "counting_recv rx w =
     (case rx of (0, x) \<Rightarrow> (Ready x, (0, x), w) | (Suc n, x) \<Rightarrow> (Pending, (n, x), w))"

definition echo_service :: "(unit, 'r, 'r, string, 'r, unit) service" where
  "echo_service =
     \<lparr>poll_ready = (\<lambda>s w. (Ready (Inr ()), s, w)), call = (\<lambda>s r w. (Ret r, s, w)),
      poll_fut = (\<lambda>r w. (Ready (Inr r), r, w))\<rparr>"

theorem tls_info_request_witness:
  "let r = \<lparr>rq_method = GET, rq_uri = (), rq_version = HTTP_11, rq_headers = (),
            rq_ext = (no_extensions :: (unit, string, unit) extensions), rq_body = ()\<rparr>
   in \<exists>m info rx' w1 k s'. m \<le> 3 \<and> k \<le> 3
      \<and> run_polls counting_recv m (2, Some ''h2'') () = (Ready info, rx', w1)
      \<and> run_call echo_service k () (insert_tls_info info r) w1 =
          (Ready (Inr (insert_tls_info (Some ''h2'') r)), s', ())"
proof -
  let ?r = "\<lparr>rq_method = GET, rq_uri = (), rq_version = HTTP_11, rq_headers = (),
            rq_ext = (no_extensions :: (unit, string, unit) extensions), rq_body = ()\<rparr>"
  have "run_polls (tls_info_future_poll counting_recv echo_service) 3
      (fst (tls_info_call id id \<lparr>cwt_inner = (), cwt_rx = (2, Some ''h2'')\<rparr> ?r)) () =
      (Ready (Inr (insert_tls_info (Some ''h2'') ?r)), Tif_Done, ())"
    by (simp add: tls_info_poll_simps tls_info_call_def tls_info_await_def counting_recv_def
        echo_service_def eval_nat_numeral)
  from tls_info_request [OF this] show ?thesis by (simp only: id_apply Let_def connection_with_tls_info.select_convs)
qed

end
