(* ===== verification/Streams.thy ===== *)
theory Streams
  imports Wrappers Http_Types
begin

text \<open>
  The stream types: \<open>Braid\<close> (\<open>src/stream/core.rs\<close>), which dispatches over TCP, duplex and
  Unix streams, the server and client \<open>Stream\<close> (\<open>src/server/conn/stream.rs\<close>,
  \<open>src/client/conn/stream/mod.rs\<close>), which add TLS, and the \<open>Acceptor\<close>
  (\<open>src/server/conn/acceptor.rs\<close>) that produces them. The transports, chateau's TLS streams
  and its \<open>OptTlsStream\<close> are parameters (dictionaries of operations).
\<close>

section \<open>Vectored writes that are not forwarded\<close>

text \<open>
  These types implement \<open>AsyncWrite\<close> without its vectored methods, so tokio's documented
  defaults apply: the first buffer that is not empty is written (or an empty one), and
  the stream says it has no efficient vectored write.
\<close>

definition default_write_vectored ::
  "('i \<Rightarrow> byte list \<Rightarrow> 'w \<Rightarrow> (io_error + nat) polled \<times> 'i \<times> 'w) \<Rightarrow>
     'i \<Rightarrow> byte list list \<Rightarrow> 'w \<Rightarrow> (io_error + nat) polled \<times> 'i \<times> 'w" where
  "default_write_vectored write self bufs w =
     write self (case dropWhile (\<lambda>b. b = []) bufs of b # _ \<Rightarrow> b | [] \<Rightarrow> []) w"

definition no_vectored :: "('i, 'w) io_ops \<Rightarrow> ('i, 'w) io_ops" where
  "no_vectored I =
     I\<lparr>io_write_vectored := default_write_vectored (io_write I), io_is_write_vectored := (\<lambda>i. False)\<rparr>"

lemma no_vectored_sel [simp]:
  "io_read (no_vectored I) = io_read I" "io_write (no_vectored I) = io_write I"
  "io_flush (no_vectored I) = io_flush I" "io_shutdown (no_vectored I) = io_shutdown I"
  "io_write_vectored (no_vectored I) = default_write_vectored (io_write I)"
  "io_is_write_vectored (no_vectored I) = (\<lambda>i. False)"
  by (simp_all add: no_vectored_def)

lemma no_vectored_twice [simp]: "no_vectored (no_vectored I) = no_vectored I"
  by (cases I) (simp add: no_vectored_def)

section \<open>Braid\<close>

datatype ('t, 'd, 'u) braid = Braid_Tcp 't | Braid_Duplex 'd | Braid_Unix 'u

definition braid_from_tcp :: "'t \<Rightarrow> ('t, 'd, 'u) braid" where
  "braid_from_tcp stream = Braid_Tcp stream"

definition braid_from_duplex :: "'d \<Rightarrow> ('t, 'd, 'u) braid" where
  "braid_from_duplex stream = Braid_Duplex stream"

definition braid_from_unix :: "'u \<Rightarrow> ('t, 'd, 'u) braid" where
  "braid_from_unix stream = Braid_Unix stream"

text \<open>The macro \<open>dispatch_core!\<close>, for a method that changes the stream.\<close>

definition dispatch_core ::
  "('t \<Rightarrow> 'a \<times> 't \<times> 'w) \<Rightarrow> ('d \<Rightarrow> 'a \<times> 'd \<times> 'w) \<Rightarrow> ('u \<Rightarrow> 'a \<times> 'u \<times> 'w) \<Rightarrow>
     ('t, 'd, 'u) braid \<Rightarrow> 'a \<times> ('t, 'd, 'u) braid \<times> 'w" where
  "dispatch_core ft fd fu self =
     (case self of
        Braid_Tcp stream \<Rightarrow> lift_res Braid_Tcp (ft stream)
      | Braid_Duplex stream \<Rightarrow> lift_res Braid_Duplex (fd stream)
      | Braid_Unix stream \<Rightarrow> lift_res Braid_Unix (fu stream))"

definition braid_can_share ::
  "('t \<Rightarrow> bool) \<Rightarrow> ('d \<Rightarrow> bool) \<Rightarrow> ('u \<Rightarrow> bool) \<Rightarrow> ('t, 'd, 'u) braid \<Rightarrow> bool" where
  "braid_can_share ct cd cu self =
     (case self of Braid_Tcp s \<Rightarrow> ct s | Braid_Duplex s \<Rightarrow> cd s | Braid_Unix s \<Rightarrow> cu s)"

text \<open>
  \<open>ConnectionInfo\<close> is chateau's: \<open>it\<close>, \<open>idx\<close>, \<open>iu\<close> give the info of the transports and
  \<open>mt\<close>, \<open>md\<close>, \<open>mu\<close> are \<open>ConnectionInfo::map\<close> at the three address types.
\<close>

definition braid_info ::
  "('t \<Rightarrow> 'ct) \<Rightarrow> ('d \<Rightarrow> 'cd) \<Rightarrow> ('u \<Rightarrow> 'cu) \<Rightarrow>
     (('sa \<Rightarrow> ('sa, 'da, 'ua) braid_addr) \<Rightarrow> 'ct \<Rightarrow> 'ci) \<Rightarrow>
     (('da \<Rightarrow> ('sa, 'da, 'ua) braid_addr) \<Rightarrow> 'cd \<Rightarrow> 'ci) \<Rightarrow>
     (('ua \<Rightarrow> ('sa, 'da, 'ua) braid_addr) \<Rightarrow> 'cu \<Rightarrow> 'ci) \<Rightarrow> ('t, 'd, 'u) braid \<Rightarrow> 'ci" where
  "braid_info it idx iu mt md mu self =
     (case self of
        Braid_Tcp stream \<Rightarrow> mt Addr_Tcp (it stream)
      | Braid_Duplex stream \<Rightarrow> md Addr_Duplex (idx stream)
      | Braid_Unix stream \<Rightarrow> mu Addr_Unix (iu stream))"

definition braid_poll_read ::
  "('t, 'w) io_ops \<Rightarrow> ('d, 'w) io_ops \<Rightarrow> ('u, 'w) io_ops \<Rightarrow> ('t, 'd, 'u) braid \<Rightarrow> nat \<Rightarrow> 'w \<Rightarrow>
     (io_error + byte list) polled \<times> ('t, 'd, 'u) braid \<times> 'w" where
  "braid_poll_read T D U self n w =
     dispatch_core (\<lambda>s. io_read T s n w) (\<lambda>s. io_read D s n w) (\<lambda>s. io_read U s n w) self"

definition braid_poll_write ::
  "('t, 'w) io_ops \<Rightarrow> ('d, 'w) io_ops \<Rightarrow> ('u, 'w) io_ops \<Rightarrow> ('t, 'd, 'u) braid \<Rightarrow> byte list \<Rightarrow> 'w \<Rightarrow>
     (io_error + nat) polled \<times> ('t, 'd, 'u) braid \<times> 'w" where
  "braid_poll_write T D U self buf w =
     dispatch_core (\<lambda>s. io_write T s buf w) (\<lambda>s. io_write D s buf w) (\<lambda>s. io_write U s buf w) self"

definition braid_poll_flush ::
  "('t, 'w) io_ops \<Rightarrow> ('d, 'w) io_ops \<Rightarrow> ('u, 'w) io_ops \<Rightarrow> ('t, 'd, 'u) braid \<Rightarrow> 'w \<Rightarrow>
     (io_error + unit) polled \<times> ('t, 'd, 'u) braid \<times> 'w" where
  "braid_poll_flush T D U self w =
     dispatch_core (\<lambda>s. io_flush T s w) (\<lambda>s. io_flush D s w) (\<lambda>s. io_flush U s w) self"

definition braid_poll_shutdown ::
  "('t, 'w) io_ops \<Rightarrow> ('d, 'w) io_ops \<Rightarrow> ('u, 'w) io_ops \<Rightarrow> ('t, 'd, 'u) braid \<Rightarrow> 'w \<Rightarrow>
     (io_error + unit) polled \<times> ('t, 'd, 'u) braid \<times> 'w" where
  "braid_poll_shutdown T D U self w =
     dispatch_core (\<lambda>s. io_shutdown T s w) (\<lambda>s. io_shutdown D s w) (\<lambda>s. io_shutdown U s w) self"

definition braid_ops ::
  "('t, 'w) io_ops \<Rightarrow> ('d, 'w) io_ops \<Rightarrow> ('u, 'w) io_ops \<Rightarrow> (('t, 'd, 'u) braid, 'w) io_ops" where
  "braid_ops T D U =
     \<lparr>io_read = braid_poll_read T D U, io_write = braid_poll_write T D U,
      io_write_vectored = default_write_vectored (braid_poll_write T D U),
      io_flush = braid_poll_flush T D U, io_shutdown = braid_poll_shutdown T D U,
      io_is_write_vectored = (\<lambda>self. False)\<rparr>"

lemmas braid_defs =
  braid_ops_def braid_poll_read_def braid_poll_write_def braid_poll_flush_def
  braid_poll_shutdown_def dispatch_core_def default_write_vectored_def

interpretation braid_tcp: io_forwarder "no_vectored T" "braid_ops T D U" Braid_Tcp for T D U
  by unfold_locales (simp_all add: braid_defs)

interpretation braid_duplex: io_forwarder "no_vectored D" "braid_ops T D U" Braid_Duplex for T D U
  by unfold_locales (simp_all add: braid_defs)

interpretation braid_unix: io_forwarder "no_vectored U" "braid_ops T D U" Braid_Unix for T D U
  by unfold_locales (simp_all add: braid_defs)

section \<open>Optional TLS\<close>

text \<open>
  \<open>OptTlsStream\<close> is chateau's; the crate builds and inspects its two variants and uses its
  operations, the dictionary \<open>OT\<close>.
\<close>

datatype ('t, 'i) opt_tls = OptTls_Tls 't | OptTls_NoTls 'i

section \<open>The server stream\<close>

record ('ci, 't, 'i) server_stream =
  ss_info :: 'ci
  ss_inner :: "('t, 'i) opt_tls"

definition server_stream_new :: "('i \<Rightarrow> 'ci) \<Rightarrow> 'i \<Rightarrow> ('ci, 't, 'i) server_stream" where
  "server_stream_new info inner = \<lparr>ss_info = info inner, ss_inner = OptTls_NoTls inner\<rparr>"

definition server_stream_from_tls :: "('t \<Rightarrow> 'ci) \<Rightarrow> 't \<Rightarrow> ('ci, 't, 'i) server_stream" where
  "server_stream_from_tls info stream = \<lparr>ss_info = info stream, ss_inner = OptTls_Tls stream\<rparr>"

text \<open>A duplex or a braided stream: \<open>info\<close> is the information it has, converted for a duplex.\<close>

definition server_stream_from_duplex ::
  "('d \<Rightarrow> 'ci0) \<Rightarrow> ('ci0 \<Rightarrow> 'ci) \<Rightarrow> 'd \<Rightarrow> ('ci, 'tls, ('t, 'd, 'u) braid) server_stream" where
  "server_stream_from_duplex info into stream =
     \<lparr>ss_info = into (info stream), ss_inner = OptTls_NoTls (braid_from_duplex stream)\<rparr>"

definition server_stream_from_braid ::
  "(('t, 'd, 'u) braid \<Rightarrow> 'ci) \<Rightarrow> ('t, 'd, 'u) braid \<Rightarrow> ('ci, 'tls, ('t, 'd, 'u) braid) server_stream" where
  "server_stream_from_braid info stream = \<lparr>ss_info = info stream, ss_inner = OptTls_NoTls stream\<rparr>"

lemma server_stream_from_tls_eta:
  "server_stream_from_tls info = (\<lambda>c. \<lparr>ss_info = info c, ss_inner = OptTls_Tls c\<rparr>)"
  by (rule ext) (simp add: server_stream_from_tls_def)

definition server_stream_poll_handshake ::
  "('t, io_error + unit, 'w) pollf \<Rightarrow> (('ci, 't, 'i) server_stream, io_error + unit, 'w) pollf" where
  "server_stream_poll_handshake p self w =
     (case ss_inner self of
        OptTls_Tls stream \<Rightarrow> lift_res (\<lambda>t. self\<lparr>ss_inner := OptTls_Tls t\<rparr>) (p stream w)
      | OptTls_NoTls _ \<Rightarrow> (Ready (Inr ()), self, w))"

definition server_stream_info :: "('ci, 't, 'i) server_stream \<Rightarrow> 'ci" where
  "server_stream_info self = ss_info self"

definition server_stream_tls_info ::
  "(('t, 'i) opt_tls \<Rightarrow> 'tls option) \<Rightarrow> ('ci, 't, 'i) server_stream \<Rightarrow> 'tls option" where
  "server_stream_tls_info tls_info self = tls_info (ss_inner self)"

definition server_stream_recv :: "'rx \<Rightarrow> ('t \<Rightarrow> 'rx) \<Rightarrow> ('ci, 't, 'i) server_stream \<Rightarrow> 'rx" where
  "server_stream_recv no_info recv self =
     (case ss_inner self of OptTls_NoTls _ \<Rightarrow> no_info | OptTls_Tls stream \<Rightarrow> recv stream)"

definition server_stream_ops ::
  "(('t, 'i) opt_tls, 'w) io_ops \<Rightarrow> (('ci, 't, 'i) server_stream, 'w) io_ops" where
  "server_stream_ops OT =
     (let write = (\<lambda>self buf w. lift_res (\<lambda>s. self\<lparr>ss_inner := s\<rparr>) (io_write OT (ss_inner self) buf w))
      in \<lparr>io_read = (\<lambda>self n w. lift_res (\<lambda>s. self\<lparr>ss_inner := s\<rparr>) (io_read OT (ss_inner self) n w)),
          io_write = write, io_write_vectored = default_write_vectored write,
          io_flush = (\<lambda>self w. lift_res (\<lambda>s. self\<lparr>ss_inner := s\<rparr>) (io_flush OT (ss_inner self) w)),
          io_shutdown = (\<lambda>self w. lift_res (\<lambda>s. self\<lparr>ss_inner := s\<rparr>) (io_shutdown OT (ss_inner self) w)),
          io_is_write_vectored = (\<lambda>self. False)\<rparr>)"

interpretation server_stream:
  io_forwarder "no_vectored OT" "server_stream_ops OT" "\<lambda>s. \<lparr>ss_info = ci, ss_inner = s\<rparr>" for OT ci
  by unfold_locales (simp_all add: server_stream_ops_def default_write_vectored_def Let_def)

section \<open>The client stream\<close>

record ('t, 'i) client_stream = cs_inner :: "('t, 'i) opt_tls"

definition client_stream_new :: "'i \<Rightarrow> ('t, 'i) client_stream" where
  "client_stream_new inner = \<lparr>cs_inner = OptTls_NoTls inner\<rparr>"

definition client_stream_map ::
  "('i \<Rightarrow> 'j) \<Rightarrow> ('t, 'i) client_stream \<Rightarrow> ('t2, 'j) client_stream outcome" where
  "client_stream_map f self =
     (case cs_inner self of
        OptTls_NoTls inner \<Rightarrow> Ret \<lparr>cs_inner = OptTls_NoTls (f inner)\<rparr>
      | OptTls_Tls _ \<Rightarrow> Panic)"

text \<open>\<open>tls_new\<close> is \<open>TlsStream::new\<close>; the client configuration is part of it.\<close>

definition client_stream_tls ::
  "('i \<Rightarrow> string \<Rightarrow> 't) \<Rightarrow> ('t, 'i) client_stream \<Rightarrow> string \<Rightarrow> ('t, 'i) client_stream outcome" where
  "client_stream_tls tls_new self domain =
     (case cs_inner self of
        OptTls_NoTls core \<Rightarrow> Ret \<lparr>cs_inner = OptTls_Tls (tls_new core domain)\<rparr>
      | OptTls_Tls _ \<Rightarrow> Panic)"

definition client_stream_poll_handshake ::
  "(('t, 'i) opt_tls, io_error + unit, 'w) pollf \<Rightarrow> (('t, 'i) client_stream, io_error + unit, 'w) pollf" where
  "client_stream_poll_handshake p self w = lift_res (\<lambda>s. self\<lparr>cs_inner := s\<rparr>) (p (cs_inner self) w)"

definition client_stream_info ::
  "('t \<Rightarrow> 'ci) \<Rightarrow> ('i \<Rightarrow> 'ci) \<Rightarrow> ('t, 'i) client_stream \<Rightarrow> 'ci" where
  "client_stream_info it ii self =
     (case cs_inner self of OptTls_Tls stream \<Rightarrow> it stream | OptTls_NoTls stream \<Rightarrow> ii stream)"

definition client_stream_tls_info :: "('t \<Rightarrow> 'tls option) \<Rightarrow> ('t, 'i) client_stream \<Rightarrow> 'tls option" where
  "client_stream_tls_info tls_info self =
     (case cs_inner self of OptTls_Tls stream \<Rightarrow> tls_info stream | OptTls_NoTls _ \<Rightarrow> None)"

definition client_stream_can_share :: "('t \<Rightarrow> bool) \<Rightarrow> ('t, 'i) client_stream \<Rightarrow> bool" where
  "client_stream_can_share can_share self =
     (case cs_inner self of OptTls_Tls stream \<Rightarrow> can_share stream | _ \<Rightarrow> False)"

definition client_stream_from_opt :: "('t, 'i) opt_tls \<Rightarrow> ('t, 'i) client_stream" where
  "client_stream_from_opt stream = \<lparr>cs_inner = stream\<rparr>"

definition client_stream_from_tcp :: "'t \<Rightarrow> ('tls, ('t, 'd, 'u) braid) client_stream" where
  "client_stream_from_tcp stream = \<lparr>cs_inner = OptTls_NoTls (braid_from_tcp stream)\<rparr>"

definition client_stream_from_duplex :: "'d \<Rightarrow> ('tls, ('t, 'd, 'u) braid) client_stream" where
  "client_stream_from_duplex stream = \<lparr>cs_inner = OptTls_NoTls (braid_from_duplex stream)\<rparr>"

definition client_stream_from_unix :: "'u \<Rightarrow> ('tls, ('t, 'd, 'u) braid) client_stream" where
  "client_stream_from_unix stream = \<lparr>cs_inner = OptTls_NoTls (braid_from_unix stream)\<rparr>"

text \<open>\<open>Stream::connect\<close>, an async function over connecting the TCP socket, whose future is polled by \<open>p\<close>.\<close>

definition client_stream_connect_poll ::
  "('f, io_error + 't, 'w) pollf \<Rightarrow> ('f, io_error + ('tls, ('t, 'd, 'u) braid) client_stream, 'w) pollf" where
  "client_stream_connect_poll p self w = map_res (map_polled (map_ok client_stream_from_tcp)) (p self w)"

definition client_stream_ops ::
  "(('t, 'i) opt_tls, 'w) io_ops \<Rightarrow> (('t, 'i) client_stream, 'w) io_ops" where
  "client_stream_ops OT =
     (let write = (\<lambda>self buf w. lift_res (\<lambda>s. self\<lparr>cs_inner := s\<rparr>) (io_write OT (cs_inner self) buf w))
      in \<lparr>io_read = (\<lambda>self n w. lift_res (\<lambda>s. self\<lparr>cs_inner := s\<rparr>) (io_read OT (cs_inner self) n w)),
          io_write = write, io_write_vectored = default_write_vectored write,
          io_flush = (\<lambda>self w. lift_res (\<lambda>s. self\<lparr>cs_inner := s\<rparr>) (io_flush OT (cs_inner self) w)),
          io_shutdown = (\<lambda>self w. lift_res (\<lambda>s. self\<lparr>cs_inner := s\<rparr>) (io_shutdown OT (cs_inner self) w)),
          io_is_write_vectored = (\<lambda>self. False)\<rparr>)"

interpretation client_stream:
  io_forwarder "no_vectored OT" "client_stream_ops OT" "\<lambda>s. \<lparr>cs_inner = s\<rparr>" for OT
  by unfold_locales (simp_all add: client_stream_ops_def default_write_vectored_def Let_def)

text \<open>
  C32: The stream types are transparent. A session on a \<open>Braid\<close> stream, or on a server or
  client \<open>Stream\<close>, has the outputs of the same session on the stream inside and leaves the
  same state and world, with every vectored write reduced to a write of its first
  non-empty buffer.
\<close>

theorem stream_sessions_forwarded:
  "io_session (braid_ops T D U) cs (braid_from_tcp t) w =
     lift_res Braid_Tcp (io_session (no_vectored T) cs t w)
   \<and> io_session (braid_ops T D U) cs (braid_from_duplex d) w =
     lift_res Braid_Duplex (io_session (no_vectored D) cs d w)
   \<and> io_session (braid_ops T D U) cs (braid_from_unix u) w =
     lift_res Braid_Unix (io_session (no_vectored U) cs u w)
   \<and> io_session (server_stream_ops OT) cs (server_stream_new info i) w =
     lift_res (\<lambda>s. \<lparr>ss_info = info i, ss_inner = s\<rparr>) (io_session (no_vectored OT) cs (OptTls_NoTls i) w)
   \<and> io_session (client_stream_ops OT) cs (client_stream_from_opt s) w =
     lift_res client_stream_from_opt (io_session (no_vectored OT) cs s w)"
  by (simp add: braid_from_tcp_def braid_from_duplex_def braid_from_unix_def server_stream_new_def
      client_stream_from_opt_def braid_tcp.session_wrap braid_duplex.session_wrap
      braid_unix.session_wrap server_stream.session_wrap client_stream.session_wrap
      flip: fun_eq_iff) (simp add: lift_res_def client_stream_from_opt_def)

section \<open>Accepting connections\<close>

text \<open>
  The operations of an \<open>Accept\<close>: a poll that gives a connection or an error. The raw TLS
  acceptor is chateau's (\<open>raw_tls\<close> is \<open>RawTlsAcceptor::new\<close>).
\<close>

datatype ('lt, 'ld, 'lu) acceptor_core = Core_Tcp 'lt | Core_Duplex 'ld | Core_Unix 'lu

datatype ('a, 'ta) acceptor = Acceptor_NoTls 'a | Acceptor_Tls 'ta

definition acceptor_new :: "'a \<Rightarrow> ('a, 'ta) acceptor" where
  "acceptor_new accept = Acceptor_NoTls accept"

definition acceptor_with_tls ::
  "('cfg \<Rightarrow> 'a \<Rightarrow> 'ta) \<Rightarrow> ('a, 'ta) acceptor \<Rightarrow> 'cfg \<Rightarrow> ('a, 'ta) acceptor outcome" where
  "acceptor_with_tls raw_tls self config =
     (case self of
        Acceptor_NoTls core \<Rightarrow> Ret (Acceptor_Tls (raw_tls config core))
      | Acceptor_Tls _ \<Rightarrow> Panic)"

definition acceptor_core_from_tcp :: "'lt \<Rightarrow> ('lt, 'ld, 'lu) acceptor_core" where
  "acceptor_core_from_tcp value = Core_Tcp value"

definition acceptor_core_from_duplex :: "'ld \<Rightarrow> ('lt, 'ld, 'lu) acceptor_core" where
  "acceptor_core_from_duplex value = Core_Duplex value"

definition acceptor_core_from_unix :: "'lu \<Rightarrow> ('lt, 'ld, 'lu) acceptor_core" where
  "acceptor_core_from_unix value = Core_Unix value"

definition acceptor_from :: "('x \<Rightarrow> ('lt, 'ld, 'lu) acceptor_core) \<Rightarrow> 'x \<Rightarrow>
    (('lt, 'ld, 'lu) acceptor_core, 'ta) acceptor" where
  "acceptor_from into value = Acceptor_NoTls (into value)"

text \<open>\<open>Acceptor::bind\<close>, an async function over binding the TCP listener, whose future is polled by \<open>p\<close>.\<close>

definition acceptor_bind_poll ::
  "('f, io_error + 'lt, 'w) pollf \<Rightarrow> ('f, io_error + (('lt, 'ld, 'lu) acceptor_core, 'ta) acceptor, 'w) pollf" where
  "acceptor_bind_poll p self w =
     map_res (map_polled (map_ok (acceptor_from acceptor_core_from_tcp))) (p self w)"

definition acceptor_core_poll_accept ::
  "('lt, io_error + 't, 'w) pollf \<Rightarrow> ('ld, io_error + 'd, 'w) pollf \<Rightarrow> ('lu, io_error + 'u, 'w) pollf \<Rightarrow>
     (('lt, 'ld, 'lu) acceptor_core, io_error + ('t, 'd, 'u) braid, 'w) pollf" where
  "acceptor_core_poll_accept at ad au self w =
     (case self of
        Core_Tcp acceptor \<Rightarrow>
          map_res (map_polled (map_ok braid_from_tcp)) (lift_res Core_Tcp (at acceptor w))
      | Core_Duplex acceptor \<Rightarrow>
          map_res (map_polled (map_ok braid_from_duplex)) (lift_res Core_Duplex (ad acceptor w))
      | Core_Unix acceptor \<Rightarrow>
          map_res (map_polled (map_ok braid_from_unix)) (lift_res Core_Unix (au acceptor w)))"

definition acceptor_poll_accept ::
  "('i \<Rightarrow> 'ci) \<Rightarrow> ('t \<Rightarrow> 'ci) \<Rightarrow> ('a, 'e + 'i, 'w) pollf \<Rightarrow> ('ta, 'e + 't, 'w) pollf \<Rightarrow>
     (('a, 'ta) acceptor, 'e + ('ci, 't, 'i) server_stream, 'w) pollf" where
  "acceptor_poll_accept info tls_info pa pt self w =
     (case self of
        Acceptor_NoTls acceptor \<Rightarrow>
          map_res (map_polled (map_ok (server_stream_new info))) (lift_res Acceptor_NoTls (pa acceptor w))
      | Acceptor_Tls acceptor \<Rightarrow>
          map_res (map_polled (map_ok (server_stream_from_tls tls_info))) (lift_res Acceptor_Tls (pt acceptor w)))"

text \<open>The acceptor as a stream of connections, which never ends.\<close>

definition acceptor_poll_next ::
  "('i \<Rightarrow> 'ci) \<Rightarrow> ('t \<Rightarrow> 'ci) \<Rightarrow> ('a, 'e + 'i, 'w) pollf \<Rightarrow> ('ta, 'e + 't, 'w) pollf \<Rightarrow>
     (('a, 'ta) acceptor, ('e + ('ci, 't, 'i) server_stream) option, 'w) pollf" where
  "acceptor_poll_next info tls_info pa pt self w =
     map_res (map_polled Some) (acceptor_poll_accept info tls_info pa pt self w)"

interpretation core_tcp:
  future_wrapper at "acceptor_core_poll_accept at ad au" Core_Tcp "map_ok braid_from_tcp" for at ad au
  by unfold_locales (simp add: acceptor_core_poll_accept_def)

interpretation core_duplex:
  future_wrapper ad "acceptor_core_poll_accept at ad au" Core_Duplex "map_ok braid_from_duplex" for at ad au
  by unfold_locales (simp add: acceptor_core_poll_accept_def)

interpretation core_unix:
  future_wrapper au "acceptor_core_poll_accept at ad au" Core_Unix "map_ok braid_from_unix" for at ad au
  by unfold_locales (simp add: acceptor_core_poll_accept_def)

interpretation acceptor_plain:
  future_wrapper pa "acceptor_poll_accept info tls_info pa pt" Acceptor_NoTls
    "map_ok (server_stream_new info)" for pa pt info tls_info
  by unfold_locales (simp add: acceptor_poll_accept_def)

interpretation acceptor_tls:
  future_wrapper pt "acceptor_poll_accept info tls_info pa pt" Acceptor_Tls
    "map_ok (server_stream_from_tls tls_info)" for pa pt info tls_info
  by unfold_locales (simp add: acceptor_poll_accept_def)

text \<open>
  Accepting. Polled any number of times, an acceptor over a TCP listener gives a
  connection exactly when the listener does: a stream without TLS around a \<open>Braid\<close> around
  the accepted connection, its info read from it; errors are passed on. With TLS added it
  gives the raw TLS acceptor's streams, with their info. TLS can be added once: the second
  time panics.
\<close>

theorem acceptor_accepts:
  "run_polls (acceptor_poll_accept info tls_info (acceptor_core_poll_accept at ad au) pt) n
      (acceptor_from acceptor_core_from_tcp l) w =
     map_res (map_polled (map_ok (\<lambda>c. \<lparr>ss_info = info (Braid_Tcp c), ss_inner = OptTls_NoTls (Braid_Tcp c)\<rparr>)))
       (lift_res (\<lambda>l. Acceptor_NoTls (Core_Tcp l)) (run_polls at n l w))
   \<and> (case acceptor_with_tls raw_tls (acceptor_new a) cfg of
        Panic \<Rightarrow> False
      | Ret acc \<Rightarrow>
          run_polls (acceptor_poll_accept info tls_info pa pt) n acc w =
            map_res (map_polled (map_ok (\<lambda>c. \<lparr>ss_info = tls_info c, ss_inner = OptTls_Tls c\<rparr>)))
              (lift_res Acceptor_Tls (run_polls pt n (raw_tls cfg a) w))
          \<and> acceptor_with_tls raw_tls acc cfg' = Panic)"
  by (simp add: acceptor_from_def acceptor_core_from_tcp_def acceptor_plain.run_wrap core_tcp.run_wrap
      acceptor_with_tls_def acceptor_new_def acceptor_tls.run_wrap map_lift_res map_res_comp
      lift_res_comp comp_def id_def polled.map_comp sum.map_comp server_stream_new_def
      server_stream_from_tls_eta braid_from_tcp_def)

text \<open>
  The client stream and TLS. Adding TLS to a stream without it gives a stream whose
  TLS information and sharing are those of the TLS stream; a stream without TLS has no TLS
  information and is never shared; adding TLS twice, or mapping the transport of a TLS
  stream, panics.
\<close>

theorem client_stream_tls_once:
  "(case client_stream_tls tls_new (client_stream_new i) domain of
      Panic \<Rightarrow> False
    | Ret s \<Rightarrow> client_stream_tls_info ti s = ti (tls_new i domain)
        \<and> client_stream_can_share sh s = sh (tls_new i domain)
        \<and> client_stream_info it ii s = it (tls_new i domain)
        \<and> client_stream_tls tls_new s domain' = Panic \<and> client_stream_map f s = Panic)
   \<and> client_stream_tls_info ti (client_stream_new i) = None
   \<and> \<not> client_stream_can_share sh (client_stream_new i)
   \<and> client_stream_map f (client_stream_new i) = Ret (client_stream_new (f i))"
  by (simp add: client_stream_tls_def client_stream_new_def client_stream_tls_info_def
      client_stream_can_share_def client_stream_info_def client_stream_map_def)

end
