(* ===== verification/Server_Builder.thy ===== *)
theory Server_Builder
  imports Server_Auto Server_Info Streams
begin

text \<open>
  The extension methods of the server builder (\<open>src/server/builder.rs\<close>). The operations of
  chateau's \<open>Server\<close> they end in, \<open>with_acceptor\<close>, \<open>with_protocol\<close> and \<open>map_service\<close>, are
  parameters; each changes the type of the server.
\<close>

definition server_with_incoming ::
  "('srv \<Rightarrow> (('lt, 'ld, 'lu) acceptor_core, 'ta) acceptor \<Rightarrow> 'srv2) \<Rightarrow>
     ('x \<Rightarrow> ('lt, 'ld, 'lu) acceptor_core) \<Rightarrow> 'srv \<Rightarrow> 'x \<Rightarrow> 'srv2" where
  "server_with_incoming with_acceptor into self incoming = with_acceptor self (acceptor_from into incoming)"

definition server_with_listener ::
  "('srv \<Rightarrow> (('lt, 'ld, 'lu) acceptor_core, 'ta) acceptor \<Rightarrow> 'srv2) \<Rightarrow> 'srv \<Rightarrow> 'lt \<Rightarrow> 'srv2" where
  "server_with_listener with_acceptor self listener =
     with_acceptor self (acceptor_from acceptor_core_from_tcp listener)"

text \<open>\<open>bind\<close> is \<open>Acceptor::bind\<close>, which opens the socket.\<close>

definition server_with_bind ::
  "('srv \<Rightarrow> ('a, 'ta) acceptor \<Rightarrow> 'srv2) \<Rightarrow> ('addr \<Rightarrow> 'w \<Rightarrow> (io_error + ('a, 'ta) acceptor) \<times> 'w) \<Rightarrow>
     'srv \<Rightarrow> 'addr \<Rightarrow> 'w \<Rightarrow> (io_error + 'srv2) \<times> 'w" where
  "server_with_bind with_acceptor bind self addr w =
     (case bind addr w of (r, w') \<Rightarrow> (map_ok (with_acceptor self) r, w'))"

definition server_with_auto_http ::
  "('srv \<Rightarrow> ('b1, 'b2) auto_builder \<Rightarrow> 'srv2) \<Rightarrow> 'b1 \<Rightarrow> ('ex \<Rightarrow> 'b2) \<Rightarrow> 'ex \<Rightarrow> 'srv \<Rightarrow> 'srv2" where
  "server_with_auto_http with_protocol http1_new http2_new executor self =
     with_protocol self (auto_builder_new http1_new http2_new executor)"

definition server_with_http1 ::
  "('srv \<Rightarrow> 'b http1_builder \<Rightarrow> 'srv2) \<Rightarrow> ('b, 'io, 'svc, 'c, 'h, 'w) hyper_server \<Rightarrow> 'srv \<Rightarrow> 'srv2" where
  "server_with_http1 with_protocol H self = with_protocol self (http1_builder_from (hs_builder_new H))"

definition server_with_http2 ::
  "('srv \<Rightarrow> 'b http2_builder \<Rightarrow> 'srv2) \<Rightarrow> ('ex \<Rightarrow> 'b) \<Rightarrow> 'ex \<Rightarrow> 'srv \<Rightarrow> 'srv2" where
  "server_with_http2 with_protocol http2_new executor self =
     with_protocol self (http2_builder_from (http2_new executor))"

definition server_with_connection_info ::
  "('srv \<Rightarrow> ('c \<Rightarrow> 'c make_info_service) \<Rightarrow> 'srv2) \<Rightarrow> 'srv \<Rightarrow> 'srv2" where
  "server_with_connection_info map_service self = map_service self make_info_new"

definition server_with_tls_connection_info ::
  "('srv \<Rightarrow> ('c \<Rightarrow> 'c make_tls_info_service) \<Rightarrow> 'srv2) \<Rightarrow> 'srv \<Rightarrow> 'srv2" where
  "server_with_tls_connection_info map_service self = map_service self make_tls_info_new"

end
