(* ===== verification/Server_Sni.thy ===== *)
theory Server_Sni
  imports Wrappers Http_Types
begin

text \<open>
  The SNI check of the server (\<open>src/server/conn/tls/sni.rs\<close>): a request that arrived over
  TLS must name the host the TLS handshake named. \<open>TlsConnectionInfo\<close> is chateau's and a
  parameter (\<open>tls_api\<close>); authorities are parsed and printed by the \<open>http\<close> crate.
\<close>

datatype validate_sni_error = InvalidSNI string string | MissingSNI string

datatype 'e sni_middleware_error = Sni_Inner 'e | SNI validate_sni_error

record 's validate_sni_service = vs_inner :: 's

definition validate_sni_new :: "'s \<Rightarrow> 's validate_sni_service" where
  "validate_sni_new inner = \<lparr>vs_inner = inner\<rparr>"

definition validate_sni_layer :: "'s \<Rightarrow> 's validate_sni_service" where
  "validate_sni_layer inner = validate_sni_new inner"

definition sni_middleware_error_inner :: "'e \<Rightarrow> 'e sni_middleware_error" where
  "sni_middleware_error_inner error = Sni_Inner error"

definition validate_sni_clone :: "('s \<Rightarrow> 's) \<Rightarrow> 's validate_sni_service \<Rightarrow> 's validate_sni_service" where
  "validate_sni_clone clone self = \<lparr>vs_inner = clone (vs_inner self)\<rparr>"

type_synonym ('u, 'h, 'ci, 'tls, 'ua, 'b) tls_request = "('u, 'h, ('ci, 'tls, 'ua) extensions, 'b) request"

text \<open>The host a request names: its authority on HTTP/2, the Host header otherwise.\<close>

definition requested_host ::
  "('u, 'au, 'h, 'v) http_api \<Rightarrow> ('u, 'h, 'ci, 'tls, 'ua, 'b) tls_request \<Rightarrow> 'au option" where
  "requested_host A req =
     (if rq_version req = HTTP_2 then uri_authority A (rq_uri req)
      else Option.bind (Option.bind (hdr_get A (rq_headers req) ''host'') (hv_to_str A)) (authority_from_str A))"

text \<open>
  The error \<open>handle\<close> returns, if any, and the request it leaves behind (the TLS info in
  its extensions is marked as validated).
\<close>

definition sni_handle ::
  "('u, 'au, 'h, 'v) http_api \<Rightarrow> 'tls tls_api \<Rightarrow> ('u, 'h, 'ci, 'tls, 'ua, 'b) tls_request \<Rightarrow>
     validate_sni_error option \<times> ('u, 'h, 'ci, 'tls, 'ua, 'b) tls_request" where
  "sni_handle A T req =
     (let host = requested_host A req
      in case ext_tls (rq_ext req) of
           None \<Rightarrow> (None, req)
         | Some tls \<Rightarrow>
             (case Option.bind (tls_server_name T tls) (authority_from_str A) of
                Some sni \<Rightarrow>
                  (case host of
                     Some host \<Rightarrow>
                       if authority_host A host \<noteq> authority_host A sni then
                         (Some (InvalidSNI (authority_str A host) (authority_str A sni)), req)
                       else (None, req\<lparr>rq_ext := (rq_ext req)\<lparr>ext_tls := Some (tls_validated T tls)\<rparr>\<rparr>)
                   | None \<Rightarrow> (None, req))
              | None \<Rightarrow>
                  (Some (MissingSNI (case host of Some h \<Rightarrow> authority_str A h | None \<Rightarrow> ''-'')), req)))"

text \<open>
  The future: \<open>Either\<close> of \<open>std::future::Ready\<close>, which holds its value until it is taken,
  and the inner future with its errors mapped.
\<close>

datatype ('f, 'e) sni_future = Sni_Left "'e sni_middleware_error option" | Sni_Right 'f

definition sni_future_poll ::
  "('f, 'e + 'a, 'w) pollf \<Rightarrow> (('f, 'e) sni_future, 'e sni_middleware_error + 'a, 'w) pollf" where
  "sni_future_poll p self w =
     (case self of
        Sni_Left (Some e) \<Rightarrow> (Ready (Inl e), Sni_Left None, w)
      | Sni_Left None \<Rightarrow> (Panicked, Sni_Left None, w)
      | Sni_Right f \<Rightarrow> map_res (map_polled (map_err Sni_Inner)) (lift_res Sni_Right (p f w)))"

definition validate_sni_call ::
  "('u, 'au, 'h, 'v) http_api \<Rightarrow> 'tls tls_api \<Rightarrow>
     ('s, ('u, 'h, 'ci, 'tls, 'ua, 'b) tls_request, 'f, 'e, 'a, 'w) service \<Rightarrow>
     's validate_sni_service \<Rightarrow> ('u, 'h, 'ci, 'tls, 'ua, 'b) tls_request \<Rightarrow> 'w \<Rightarrow>
     ('f, 'e) sni_future outcome \<times> 's validate_sni_service \<times> 'w" where
  "validate_sni_call A T S self req w =
     (case sni_handle A T req of
        (Some error, req') \<Rightarrow> (Ret (Sni_Left (Some (SNI error))), self, w)
      | (None, req') \<Rightarrow>
          map_res (map_outcome Sni_Right)
            (lift_res (\<lambda>s. self\<lparr>vs_inner := s\<rparr>) (call S (vs_inner self) req' w)))"

definition validate_sni_ops ::
  "('u, 'au, 'h, 'v) http_api \<Rightarrow> 'tls tls_api \<Rightarrow>
     ('s, ('u, 'h, 'ci, 'tls, 'ua, 'b) tls_request, 'f, 'e, 'a, 'w) service \<Rightarrow>
     ('s validate_sni_service, ('u, 'h, 'ci, 'tls, 'ua, 'b) tls_request, ('f, 'e) sni_future,
      'e sni_middleware_error, 'a, 'w) service" where
  "validate_sni_ops A T S =
     \<lparr>poll_ready = (\<lambda>self w.
        map_res (map_polled (map_err Sni_Inner))
          (lift_res (\<lambda>s. self\<lparr>vs_inner := s\<rparr>) (poll_ready S (vs_inner self) w))),
      call = validate_sni_call A T S, poll_fut = sni_future_poll (poll_fut S)\<rparr>"

text \<open>The check as a function: the error it rejects with, or the request it lets through.\<close>

definition sni_checked ::
  "('u, 'au, 'h, 'v) http_api \<Rightarrow> 'tls tls_api \<Rightarrow> ('u, 'h, 'ci, 'tls, 'ua, 'b) tls_request \<Rightarrow>
     'e sni_middleware_error + ('u, 'h, 'ci, 'tls, 'ua, 'b) tls_request" where
  "sni_checked A T req =
     (case sni_handle A T req of (Some e, r) \<Rightarrow> Inl (SNI e) | (None, r) \<Rightarrow> Inr r)"

interpretation sni_error: error_once "sni_future_poll p" Sni_Left id for p
  by unfold_locales (simp_all add: sni_future_poll_def)

interpretation validate_sni:
  request_gate S "validate_sni_ops A T S" Sni_Right Sni_Inner id validate_sni_layer
    "sni_checked A T" "\<lambda>e. Sni_Left (Some e)"
  for S A T
  by unfold_locales
    (auto simp: validate_sni_ops_def validate_sni_layer_def validate_sni_new_def sni_future_poll_def
      validate_sni_call_def sni_checked_def map_res_def lift_res_def
      split: prod.splits option.splits)

text \<open>
  C23: What the SNI check lets through. For a request that reaches the inner service over
  TLS the handshake named a server; if the request names a host, it is the same host and
  the TLS information the service sees is marked as validated; nothing else in the request
  has changed. A request that did not arrive over TLS passes unchanged.
\<close>

theorem sni_check_sound:
  assumes "sni_checked A T req = Inr req'"
  shows "case ext_tls (rq_ext req) of
      None \<Rightarrow> req' = req
    | Some tls \<Rightarrow> \<exists>name sni. tls_server_name T tls = Some name \<and> authority_from_str A name = Some sni
        \<and> (case requested_host A req of
             None \<Rightarrow> req' = req
           | Some host \<Rightarrow> authority_host A host = authority_host A sni
               \<and> req' = req\<lparr>rq_ext := (rq_ext req)\<lparr>ext_tls := Some (tls_validated T tls)\<rparr>\<rparr>)"
  using assms
  by (auto simp: sni_checked_def sni_handle_def Let_def bind_eq_Some_conv bind_eq_None_conv
      split: option.splits if_splits)

lemma sni_run:
  "run_call (validate_sni_ops A T S) (Suc n) (validate_sni_layer s) req w =
     (let forward = (\<lambda>r. map_res (map_polled (map_err Sni_Inner))
            (lift_res validate_sni_layer (run_call S (Suc n) s r w)));
          reject = (\<lambda>e. (Ready (Inl (SNI e)), validate_sni_layer s, w))
      in case ext_tls (rq_ext req) of
           None \<Rightarrow> forward req
         | Some tls \<Rightarrow>
             (case (Option.bind (tls_server_name T tls) (authority_from_str A), requested_host A req) of
                (None, None) \<Rightarrow> reject (MissingSNI ''-'')
              | (None, Some host) \<Rightarrow> reject (MissingSNI (authority_str A host))
              | (Some sni, None) \<Rightarrow> forward req
              | (Some sni, Some host) \<Rightarrow>
                  if authority_host A host = authority_host A sni
                  then forward (req\<lparr>rq_ext := (rq_ext req)\<lparr>ext_tls := Some (tls_validated T tls)\<rparr>\<rparr>)
                  else reject (InvalidSNI (authority_str A host) (authority_str A sni))))"
  by (simp add: validate_sni.run_gate sni_checked_def sni_handle_def Let_def split: option.split)

text \<open>
  The SNI middleware over a whole request. A request over TLS that names another host
  than the handshake is rejected with \<open>InvalidSNI\<close>, one without a usable server name with
  \<open>MissingSNI\<close>, both at the first poll and without calling the inner service; every other
  request has the outcome of the inner service, its errors wrapped.
\<close>

theorem sni_request:
  "run_call (validate_sni_ops A T S) (Suc n) (validate_sni_layer s) req w =
     (let forward = (\<lambda>r. map_res (map_polled (map_err Sni_Inner))
            (lift_res validate_sni_layer (run_call S (Suc n) s r w)));
          reject = (\<lambda>e. (Ready (Inl (SNI e)), validate_sni_layer s, w))
      in case ext_tls (rq_ext req) of
           None \<Rightarrow> forward req
         | Some tls \<Rightarrow>
             (case (Option.bind (tls_server_name T tls) (authority_from_str A), requested_host A req) of
                (None, None) \<Rightarrow> reject (MissingSNI ''-'')
              | (None, Some host) \<Rightarrow> reject (MissingSNI (authority_str A host))
              | (Some sni, None) \<Rightarrow> forward req
              | (Some sni, Some host) \<Rightarrow>
                  if authority_host A host = authority_host A sni
                  then forward (req\<lparr>rq_ext := (rq_ext req)\<lparr>ext_tls := Some (tls_validated T tls)\<rparr>\<rparr>)
                  else reject (InvalidSNI (authority_str A host) (authority_str A sni))))"
  by (rule sni_run)

text \<open>An instance used in examples: the server name and whether it is validated.\<close>

definition name_tls :: "(string option \<times> bool) tls_api" where
  "name_tls = \<lparr>tls_server_name = fst, tls_alpn = (\<lambda>t. None), tls_validated = (\<lambda>t. (fst t, True))\<rparr>"

theorem sni_check_sound_witness:
  "let req = \<lparr>rq_method = GET, rq_uri = uri_default plain_api, rq_version = HTTP_11,
              rq_headers = [(''host'', ''a.org'')],
              rq_ext = \<lparr>ext_connection_info = None :: unit option, ext_tls = Some (Some ''a.org'', False),
                        ext_unix_addr = None :: unit option\<rparr>, rq_body = ()\<rparr>
   in \<exists>req'. (sni_checked plain_api name_tls req :: unit sni_middleware_error + _) = Inr req'
      \<and> ext_tls (rq_ext req') = Some (Some ''a.org'', True)"
proof -
  let ?req = "\<lparr>rq_method = GET, rq_uri = uri_default plain_api, rq_version = HTTP_11,
              rq_headers = [(''host'', ''a.org'')],
              rq_ext = \<lparr>ext_connection_info = None :: unit option, ext_tls = Some (Some ''a.org'', False),
                        ext_unix_addr = None :: unit option\<rparr>, rq_body = ()\<rparr>"
  have "(sni_checked plain_api name_tls ?req :: unit sni_middleware_error + _) =
      Inr (?req\<lparr>rq_ext := (rq_ext ?req)\<lparr>ext_tls := Some (Some ''a.org'', True)\<rparr>\<rparr>)"
    by (simp add: sni_checked_def sni_handle_def requested_host_def name_tls_def api_simps)
  from this sni_check_sound [OF this] show ?thesis
    by (simp add: requested_host_def name_tls_def api_simps)
qed

end
