(* ===== verification/Server_Path.thy ===== *)
theory Server_Path
  imports Server_Auto Server_Info Server_Sni Streams
begin

text \<open>
  Paths through the server that cross components: the bytes of a connection on their way
  from the accepted stream to hyper (\<open>Stream\<close>, \<open>TokioIo\<close>, \<open>ReadVersion\<close>, \<open>Rewind\<close>), the
  protocol an HTTP/1 peer is served with, and a request on its way through the TLS
  information and the SNI check to the handler.
\<close>

section \<open>From the accepted stream to hyper\<close>

text \<open>The stream hyper's connection is started on reads through \<open>TokioIo\<close> and \<open>Stream\<close>.\<close>

definition served_reads ::
  "(('t, 'i) opt_tls, 'w) io_ops \<Rightarrow> (('ci, 't, 'i) server_stream tokio_io, 'w) reader" where
  "served_reads OT = io_read (tokio_hyper_ops (server_stream_ops OT))"

lemma server_stream_reads_from:
  "reads_from (io_read OT) rest \<Longrightarrow> reads_from (io_read (server_stream_ops OT)) (\<lambda>s. rest (ss_inner s))"
  by (rule reads_from_field [where put = "\<lambda>s i. s\<lparr>ss_inner := i\<rparr>"])
    (simp_all add: server_stream_ops_def Let_def)

lemma tokio_hyper_reads_from:
  "reads_from (io_read T) rest \<Longrightarrow> reads_from (io_read (tokio_hyper_ops T)) (\<lambda>io. rest (tio_inner io))"
  by (rule reads_from_field [where put = "\<lambda>io i. io\<lparr>tio_inner := i\<rparr>"])
    (auto simp: tokio_hyper_ops_def tokio_hyper_poll_read_def split: prod.splits polled.splits sum.splits)

lemma served_reads_from:
  "reads_from (io_read OT) rest \<Longrightarrow> reads_from (served_reads OT) (\<lambda>io. rest (ss_inner (tio_inner io)))"
  unfolding served_reads_def
  by (rule tokio_hyper_reads_from [where rest = "\<lambda>s. rest (ss_inner s)"]) (rule server_stream_reads_from)

text \<open>What hyper can read from the stream it was given: the first bytes of the peer, in order.\<close>

definition hyper_reads :: "(('t, 'i) opt_tls, 'w) io_ops \<Rightarrow> byte list \<Rightarrow>
    ('ci, 't, 'i) server_stream tokio_io rewind \<Rightarrow> 'w \<Rightarrow> bool" where
  "hyper_reads OT sent rw w \<longleftrightarrow>
     (\<forall>ns bs rw' w'. drain (io_read (rewind_ops (tokio_hyper_ops (server_stream_ops OT)))) ns rw w = (bs, rw', w')
        \<longrightarrow> (\<exists>left. sent = bs @ left))"

lemma hyper_readsI:
  assumes "reads_from (io_read OT) rest"
    and "rewind_rest (\<lambda>io. rest (ss_inner (tio_inner io))) rw w = sent"
  shows "hyper_reads OT sent rw w"
  unfolding hyper_reads_def
proof (intro allI impI)
  fix ns bs rw' w'
  assume d: "drain (io_read (rewind_ops (tokio_hyper_ops (server_stream_ops OT)))) ns rw w = (bs, rw', w')"
  have "reads_from (rewind_poll_read (served_reads OT)) (rewind_rest (\<lambda>io. rest (ss_inner (tio_inner io))))"
    by (rule rewind_reads_from [OF served_reads_from [OF assms(1)]])
  moreover have "drain (rewind_poll_read (served_reads OT)) ns rw w = (bs, rw', w')"
    using d by (simp add: rewind_ops_def served_reads_def)
  ultimately have "rewind_rest (\<lambda>io. rest (ss_inner (tio_inner io))) rw w =
      bs @ rewind_rest (\<lambda>io. rest (ss_inner (tio_inner io))) rw' w'"
    by (rule drain_reads_from)
  then show "\<exists>left. sent = bs @ left" using assms(2) by (intro exI) (rule trans [OF sym])
qed

lemma served_connection_inv:
  assumes "reads_from (io_read OT) rest" and "env_keeps_rest env rest"
    and "upgradable_reach H1 H2 (served_reads OT) env (cg_conn (auto_serve_connection b stream svc)) w0 s w"
  shows "upgradable_inv H1 H2 (\<lambda>io. rest (ss_inner (tio_inner io))) b (adapted svc)
    (rest (ss_inner stream) w0) s w"
proof -
  let ?rest = "\<lambda>io. rest (ss_inner (tio_inner io))"
  have env: "env_keeps_rest env ?rest" using assms(2) by (simp add: env_keeps_rest_def)
  have "upgradable_reach H1 H2 (served_reads OT) env
      (serve_connection_with_upgrades b (tokio_io_new stream) (adapted svc)) w0 s w"
    using assms(3) by (simp add: auto_serve_connection_def connecting_build_def)
  from upgradable_reach_inv [OF served_reads_from [OF assms(1)] env this]
  show ?thesis by (simp add: tokio_io_new_def)
qed

text \<open>
  C4: The bytes of a connection, from the accepted stream to hyper. However an accepted
  stream (with TLS or without) delivers what its peer sends, and whatever happens to the
  connection in between (polls, graceful shutdown, steps of other tasks, in any order), a
  connection that is being served was started on a stream from which hyper, reading through
  \<open>Rewind\<close>, \<open>TokioIo\<close> and \<open>Stream\<close> in reads of any size, gets the first bytes of the peer in
  order: none lost to the detection, none repeated. It runs the service the connection was
  made for.
\<close>

theorem server_reads_peer_bytes:
  assumes "reads_from (io_read OT) rest" and "env_keeps_rest env rest"
    and "upgradable_reach H1 H2 (served_reads OT) env (cg_conn (auto_serve_connection b stream svc)) w0 s w"
  shows "case s of
      Conn_ReadVersion rv b' service \<Rightarrow> service = Some (adapted svc)
    | Conn_Http1 c \<Rightarrow> \<exists>rw w1. hyper_reads OT (rest (ss_inner stream) w0) rw w1
        \<and> hyper_evolves H1 (hs_with_upgrades H1 (hs_serve_connection H1 (ab_http1 b) rw (adapted svc))) c
    | Conn_Http2 c \<Rightarrow> \<exists>rw w1. hyper_reads OT (rest (ss_inner stream) w0) rw w1
        \<and> hyper_evolves H2 (hs_serve_connection H2 (ab_http2 b) rw (adapted svc)) c"
proof -
  let ?rest = "\<lambda>io. rest (ss_inner (tio_inner io))"
  note inv = served_connection_inv [OF assms]
  show ?thesis
  proof (cases s)
    case (Conn_Http1 c)
    with inv obtain rw w1 where "rewind_rest ?rest rw w1 = rest (ss_inner stream) w0"
      and "hyper_evolves H1 (hs_with_upgrades H1 (hs_serve_connection H1 (ab_http1 b) rw (adapted svc))) c"
      by auto
    with Conn_Http1 hyper_readsI [OF assms(1)] show ?thesis
      unfolding Conn_Http1 connection_state.case by (intro exI [of _ rw] exI [of _ w1] conjI)
  next
    case (Conn_Http2 c)
    with inv obtain rw w1 where "rewind_rest ?rest rw w1 = rest (ss_inner stream) w0"
      and "hyper_evolves H2 (hs_serve_connection H2 (ab_http2 b) rw (adapted svc)) c"
      by auto
    with Conn_Http2 hyper_readsI [OF assms(1)] show ?thesis
      unfolding Conn_Http2 connection_state.case by (intro exI [of _ rw] exI [of _ w1] conjI)
  qed (use inv in auto)
qed

text \<open>An instance: chunks on both sides of the TLS choice.\<close>

definition chunk_opt_tls :: "((byte list option list, byte list option list) opt_tls, 'w) io_ops" where
  "chunk_opt_tls =
     \<lparr>io_read = (\<lambda>s n w. case s of
        OptTls_Tls t \<Rightarrow> lift_res OptTls_Tls (chunk_read t n w)
      | OptTls_NoTls i \<Rightarrow> lift_res OptTls_NoTls (chunk_read i n w)),
      io_write = (\<lambda>i bs w. (Ready (Inr (length bs)), i, w)),
      io_write_vectored = (\<lambda>i bss w. (Ready (Inr (length (concat bss))), i, w)),
      io_flush = (\<lambda>i w. (Ready (Inr ()), i, w)), io_shutdown = (\<lambda>i w. (Ready (Inr ()), i, w)),
      io_is_write_vectored = (\<lambda>i. False)\<rparr>"

definition chunk_opt_rest :: "(byte list option list, byte list option list) opt_tls \<Rightarrow> 'w \<Rightarrow> byte list" where
  "chunk_opt_rest s w = (case s of OptTls_Tls t \<Rightarrow> chunk_rest t w | OptTls_NoTls i \<Rightarrow> chunk_rest i w)"

lemma chunk_opt_reads_from: "reads_from (io_read chunk_opt_tls) chunk_opt_rest"
  unfolding reads_from_def
proof (intro allI impI)
  fix s n w r s' w'
  assume e: "io_read chunk_opt_tls s n w = (r, s', w')"
  have law: "case r of Ready (Inr bs) \<Rightarrow> length bs \<le> n \<and> chunk_rest i w = bs @ chunk_rest i' w'
    | _ \<Rightarrow> chunk_rest i' w' = chunk_rest i w" if "chunk_read i n w = (r, i', w')" for i i'
    by (rule chunk_reads_from [unfolded reads_from_def, rule_format, OF that])
  show "case r of Ready (Inr bs) \<Rightarrow> length bs \<le> n \<and> chunk_opt_rest s w = bs @ chunk_opt_rest s' w'
    | _ \<Rightarrow> chunk_opt_rest s' w' = chunk_opt_rest s w"
  proof (cases s)
    case (OptTls_Tls t)
    then obtain t' where "chunk_read t n w = (r, t', w')" "s' = OptTls_Tls t'"
      using e by (auto simp: chunk_opt_tls_def lift_res_eq_iff)
    with law [of t t'] OptTls_Tls show ?thesis
      by (auto simp: chunk_opt_rest_def split: polled.splits sum.splits)
  next
    case (OptTls_NoTls t)
    then obtain t' where "chunk_read t n w = (r, t', w')" "s' = OptTls_NoTls t'"
      using e by (auto simp: chunk_opt_tls_def lift_res_eq_iff)
    with law [of t t'] OptTls_NoTls show ?thesis
      by (auto simp: chunk_opt_rest_def split: polled.splits sum.splits)
  qed
qed

definition request_stream :: "(unit, byte list option list, byte list option list) server_stream" where
  "request_stream = server_stream_new (\<lambda>_. ()) [Some [71, 69, 84]]"

lemma server_reads_peer_bytes_witness:
  "\<exists>c rw. upgradable_reach idle_hyper idle_hyper (served_reads chunk_opt_tls) (\<lambda>w w'. w' = w)
        (cg_conn (auto_serve_connection \<lparr>ab_http1 = (), ab_http2 = ()\<rparr> request_stream ''svc'')) ()
        (Conn_Http1 c) ()
     \<and> hyper_reads chunk_opt_tls [71, 69, 84] rw ()
     \<and> hyper_evolves idle_hyper (hs_with_upgrades idle_hyper (hs_serve_connection idle_hyper () rw (adapted ''svc''))) c"
proof -
  let ?b = "\<lparr>ab_http1 = (), ab_http2 = ()\<rparr>"
  let ?io = "tokio_io_new request_stream"
  let ?io' = "tokio_io_new (server_stream_new (\<lambda>_. ()) [])"
  have data: "served_reads chunk_opt_tls ?io 24 () = (Ready (Inr [71, 69, 84]), ?io', ())"
    by (simp add: served_reads_def request_stream_def tokio_io_defs server_stream_ops_def Let_def
        server_stream_new_def chunk_opt_tls_def)
  have short: "take 24 [71, 69, 84] \<noteq> HTTP2_PREFIX"
    by (rule notI, drule arg_cong [where f = length]) simp
  obtain rv where "read_version_poll (served_reads chunk_opt_tls) (read_version_new ?io) () =
      (Ready (Inr (Auto_Http1, rewind_new ?io' [71, 69, 84])), rv, ())"
    using read_version_poll_waiting [where rd = "served_reads chunk_opt_tls", OF rv_waiting_new data] short by auto
  then have poll: "upgradable_poll idle_hyper idle_hyper (served_reads chunk_opt_tls)
      (cg_conn (auto_serve_connection ?b request_stream ''svc'')) () =
      (Ready (Inr ()), Conn_Http1 (rewind_new ?io' [71, 69, 84], adapted ''svc'', True), ())"
    by (simp add: auto_serve_connection_def connecting_build_def serve_connection_with_upgrades_def
        start_connection_def idle_hyper_def)
  have reach: "upgradable_reach idle_hyper idle_hyper (served_reads chunk_opt_tls) (\<lambda>w w'. w' = w)
      (cg_conn (auto_serve_connection ?b request_stream ''svc'')) ()
      (Conn_Http1 (rewind_new ?io' [71, 69, 84], adapted ''svc'', True)) ()"
    by (rule reach_poll [OF reach_start poll])
  have sent: "chunk_opt_rest (ss_inner request_stream) () = [71, 69, 84]"
    by (simp add: request_stream_def server_stream_new_def chunk_opt_rest_def chunk_rest_def)
  from server_reads_peer_bytes [OF chunk_opt_reads_from env_keeps_rest_eq reach]
  obtain rw where "hyper_reads chunk_opt_tls [71, 69, 84] rw ()"
    "hyper_evolves idle_hyper (hs_with_upgrades idle_hyper (hs_serve_connection idle_hyper () rw (adapted ''svc'')))
      (rewind_new ?io' [71, 69, 84], adapted ''svc'', True)"
    unfolding sent connection_state.case auto_builder.select_convs by auto
  with reach show ?thesis by blast
qed

section \<open>HTTP/1 peers\<close>

text \<open>The line every HTTP/1 request starts with, up to its minor version.\<close>

definition http1_request_line :: "string \<Rightarrow> string \<Rightarrow> string" where
  "http1_request_line method target = method @ '' '' @ target @ '' HTTP/1.''"

text \<open>Two strings cut at their first space.\<close>

lemma first_space:
  assumes "a @ CHR '' '' # x = b @ CHR '' '' # y" and "CHR '' '' \<notin> set a" and "CHR '' '' \<notin> set b"
  shows "a = b" and "x = y"
proof -
  have cut: "takeWhile (\<lambda>c. c \<noteq> CHR '' '') (l @ CHR '' '' # z) = l" if "CHR '' '' \<notin> set l" for l z
    using that by (induction l) auto
  show "a = b" using cut [OF assms(2), of x] cut [OF assms(3), of y] assms(1) by simp
  with assms(1) show "x = y" by simp
qed

lemma http1_line_not_preface:
  assumes "HTTP2_PREFIX @ left = map of_char (http1_request_line method target @ tail)"
    and "CHR '' '' \<notin> set method" and "CHR '' '' \<notin> set target"
  shows False
proof -
  let ?preface = "''PRI * HTTP/2.0'' @ crlf @ crlf @ ''SM'' @ crlf @ crlf"
  from assms(1) [symmetric] obtain us vs where split: "http1_request_line method target @ tail = us @ vs"
    and us: "HTTP2_PREFIX = map of_char us" unfolding map_eq_append_conv by blast
  have "us = ?preface"
    using us unfolding HTTP2_PREFIX_def inj_map_eq_map [OF of_char_byte_inj] by simp
  with split have "method @ CHR '' '' # (target @ CHR '' '' # ''HTTP/1.'' @ tail) =
      ''PRI'' @ CHR '' '' # (''* HTTP/2.0'' @ crlf @ crlf @ ''SM'' @ crlf @ crlf @ vs)"
    by (simp add: http1_request_line_def)
  from first_space(2) [OF this assms(2)]
  have "target @ CHR '' '' # (''HTTP/1.'' @ tail) =
      ''*'' @ CHR '' '' # (''HTTP/2.0'' @ crlf @ crlf @ ''SM'' @ crlf @ crlf @ vs)" by simp
  from first_space(2) [OF this assms(3)] show False by simp
qed

lemma http2_inv_bytes:
  "upgradable_inv H1 H2 rest b svc bytes (Conn_Http2 c) w \<Longrightarrow> \<exists>left. HTTP2_PREFIX @ left = bytes"
  by (auto simp: rewind_rest_def)

text \<open>
  C5: An HTTP/1 peer is never served as HTTP/2. Whatever its request is (any method and
  target without a space, any headers and body), in however many pieces its bytes arrive,
  and whatever happens to the connection meanwhile, the connection is waiting for the
  version or is an HTTP/1 connection.
\<close>

theorem http1_peer_served_as_http1:
  assumes "reads_from (io_read OT) rest" and "env_keeps_rest env rest"
    and "upgradable_reach H1 H2 (served_reads OT) env (cg_conn (auto_serve_connection b stream svc)) w0 s w"
    and "rest (ss_inner stream) w0 = map of_char (http1_request_line method target @ tail)"
    and "CHR '' '' \<notin> set method" and "CHR '' '' \<notin> set target"
  shows "case s of Conn_Http2 c \<Rightarrow> False | _ \<Rightarrow> True"
proof (cases s)
  case (Conn_Http2 c)
  from http2_inv_bytes [OF served_connection_inv [OF assms(1-3), unfolded Conn_Http2]]
  obtain left where "HTTP2_PREFIX @ left = rest (ss_inner stream) w0" by blast
  with assms(4) have False using http1_line_not_preface [OF _ assms(5,6)] by simp
  then show ?thesis ..
qed simp_all

text \<open>A GET request in two pieces, the first one already the preface's beginning.\<close>

definition get_stream :: "(unit, byte list option list, byte list option list) server_stream" where
  "get_stream =
     \<lparr>ss_info = (), ss_inner = OptTls_NoTls
        [Some (map of_char ''P''), None, Some (map of_char ''UT /x HTTP/1.1'')]\<rparr>"

lemma http1_peer_served_as_http1_witness:
  "\<exists>s. upgradable_reach idle_hyper idle_hyper (served_reads chunk_opt_tls) (\<lambda>w w'. w' = w)
      (cg_conn (auto_serve_connection \<lparr>ab_http1 = (), ab_http2 = ()\<rparr> get_stream ''svc'')) () s ()
    \<and> (case s of Conn_Http2 c \<Rightarrow> False | _ \<Rightarrow> True)"
proof -
  let ?reach = "upgradable_reach idle_hyper idle_hyper (served_reads chunk_opt_tls) (\<lambda>w w'. w' = w)
      (cg_conn (auto_serve_connection \<lparr>ab_http1 = (), ab_http2 = ()\<rparr> get_stream ''svc'')) ()"
  obtain r s where "upgradable_poll idle_hyper idle_hyper (served_reads chunk_opt_tls)
      (cg_conn (auto_serve_connection \<lparr>ab_http1 = (), ab_http2 = ()\<rparr> get_stream ''svc'')) () = (r, s, ())"
    by (cases "upgradable_poll idle_hyper idle_hyper (served_reads chunk_opt_tls)
      (cg_conn (auto_serve_connection \<lparr>ab_http1 = (), ab_http2 = ()\<rparr> get_stream ''svc'')) ()") auto
  then have reach: "?reach s ()" by (rule reach_poll [OF reach_start])
  have "chunk_opt_rest (ss_inner get_stream) () = map of_char (http1_request_line ''PUT'' ''/x'' @ ''1'')"
    by (simp add: chunk_opt_rest_def chunk_rest_def get_stream_def http1_request_line_def)
  from http1_peer_served_as_http1 [OF chunk_opt_reads_from env_keeps_rest_eq reach this] reach
  show ?thesis by auto
qed

section \<open>From the TLS handshake to the handler\<close>

text \<open>
  What the SNI check makes of a request that carries the TLS information \<open>tls\<close>, for a
  handler \<open>S\<close>: the outcome of the handler for the validated request, or the rejection.
\<close>

definition guarded_call ::
  "('u, 'au, 'h, 'v) http_api \<Rightarrow> 'tls tls_api \<Rightarrow>
     ('s, ('u, 'h, 'ci, 'tls, 'ua, 'b) tls_request, 'f, 'e, 'a, 'w) service \<Rightarrow> 's \<Rightarrow> 'tls \<Rightarrow>
     ('u, 'h, 'ci, 'tls, 'ua, 'b) tls_request \<Rightarrow> nat \<Rightarrow> 'w \<Rightarrow> ('e sni_middleware_error + 'a) polled \<times> 'w" where
  "guarded_call A T S s tls r m w =
     (let seen = (\<lambda>t. r\<lparr>rq_ext := (rq_ext r)\<lparr>ext_tls := Some t\<rparr>\<rparr>);
          handled = (\<lambda>r'. map_prod (map_polled (map_err Sni_Inner)) id (out_res (run_call S m s r' w)))
      in case Option.bind (tls_server_name T tls) (authority_from_str A) of
           None \<Rightarrow>
             (Ready (Inl (SNI (MissingSNI
                (case requested_host A r of Some h \<Rightarrow> authority_str A h | None \<Rightarrow> ''-'')))), w)
         | Some sni \<Rightarrow>
             (case requested_host A r of
                None \<Rightarrow> handled (seen tls)
              | Some host \<Rightarrow>
                  if authority_host A host = authority_host A sni then handled (seen (tls_validated T tls))
                  else (Ready (Inl (SNI (InvalidSNI (authority_str A host) (authority_str A sni)))), w)))"

text \<open>
  C8: A request on a TLS server, from the handshake to the handler. The request waits for
  the handshake of its connection; then the handler is called with the handshake's
  information exactly when the handshake named a server and the request names no other
  host, and sees it marked as validated when the request names that host; otherwise the
  request is rejected in the same poll and the handler is not called. On a connection
  without TLS the handler is called with the request as it came.
\<close>

theorem tls_request_guarded:
  assumes "ext_tls (rq_ext r) = None"
  shows "out_res (run_polls (tls_info_future_poll recv (validate_sni_ops A T S)) n
      (fst (tls_info_call clone clone_rx \<lparr>cwt_inner = validate_sni_layer s, cwt_rx = rx\<rparr> r)) w) =
    run_then recv n (clone_rx rx) w
      (\<lambda>info rx' m w'. case info of
         None \<Rightarrow> map_prod (map_polled (map_err Sni_Inner)) id (out_res (run_call S m s r w'))
       | Some tls \<Rightarrow> guarded_call A T S s tls r m w')"
proof -
  have host: "requested_host A (r\<lparr>rq_ext := x\<rparr>) = requested_host A r" for x
    by (simp add: requested_host_def)
  have "out_res (run_call (validate_sni_ops A T S) m (validate_sni_layer s) (insert_tls_info info r) w') =
      (case info of
         None \<Rightarrow> map_prod (map_polled (map_err Sni_Inner)) id (out_res (run_call S m s r w'))
       | Some tls \<Rightarrow> guarded_call A T S s tls r m w')" if pos: "0 < m" for info m w'
  proof -
    obtain k where m: "m = Suc k" using pos by (cases m) auto
    show ?thesis
      using assms
      by (auto simp: m sni_run insert_tls_info_def guarded_call_def Let_def host
          split: option.splits)
  qed
  then show ?thesis
    by (auto simp: tls_info_run_then intro: run_then_cong)
qed

text \<open>A handshake for another host than the one the request names.\<close>

definition other_host_request ::
  "(plain_uri, (string \<times> string) list, unit, string option \<times> bool, unit, unit) tls_request" where
  "other_host_request =
     \<lparr>rq_method = GET, rq_uri = uri_default plain_api, rq_version = HTTP_11,
      rq_headers = [(''host'', ''b.org'')], rq_ext = no_extensions, rq_body = ()\<rparr>"

lemma tls_request_guarded_witness:
  "out_res (run_polls (tls_info_future_poll counting_recv (validate_sni_ops plain_api name_tls echo_service)) 2
      (fst (tls_info_call id id
        \<lparr>cwt_inner = validate_sni_layer (), cwt_rx = (1, Some (Some ''a.org'', False))\<rparr> other_host_request)) ()) =
    (Ready (Inl (SNI (InvalidSNI ''b.org'' ''a.org''))), ())"
proof -
  have "ext_tls (rq_ext other_host_request) = None"
    by (simp add: other_host_request_def no_extensions_def)
  from tls_request_guarded [OF this, of counting_recv plain_api name_tls echo_service 2 id id "()"
      "(1, Some (Some ''a.org'', False))" "()"]
  show ?thesis
    by (simp add: eval_nat_numeral counting_recv_def guarded_call_def other_host_request_def
        requested_host_def name_tls_def api_simps del: run_polls.simps)
qed

end
