(* ===== verification/Http_Checks.thy ===== *)
theory Http_Checks
  imports Wrappers Http_Types
begin

text \<open>
  The checks a client request passes before it is sent: the \<open>Host\<close> header
  (\<open>src/service/host.rs\<close>) and the HTTP/1 and HTTP/2 compatibility checks
  (\<open>src/service/http.rs\<close>). Each check is a function on requests and a service around an
  inner service; the last section composes them in the order of the client builder. The
  flag \<open>dbg\<close> says whether the program is compiled with debug assertions.
\<close>

section \<open>The HttpService and HttpConnectionInfo traits\<close>

text \<open>The blanket implementation: every tower service on requests is an HTTP service.\<close>

definition http_service_impl :: "('s, 'r, 'f, 'e, 'a, 'w) service \<Rightarrow> ('s, 'r, 'f, 'e, 'a, 'w) service" where
  "http_service_impl T =
     \<lparr>poll_ready = (\<lambda>self w. poll_ready T self w), call = (\<lambda>self req w. call T self req w),
      poll_fut = poll_fut T\<rparr>"

text \<open>A pooled connection has the version of the connection it dereferences to.\<close>

definition pooled_version :: "('p \<Rightarrow> 'c) \<Rightarrow> ('c \<Rightarrow> http_protocol) \<Rightarrow> 'p \<Rightarrow> http_protocol" where
  "pooled_version deref version self = version (deref self)"

section \<open>The Host header\<close>

abbreviation HOST :: string where
  "HOST \<equiv> ''host''"

definition is_schema_secure :: "('u, 'au, 'h, 'v) http_api \<Rightarrow> 'u \<Rightarrow> bool" where
  "is_schema_secure A uri =
     (case uri_scheme A uri of
        Some scheme_str \<Rightarrow> scheme_str = ''wss'' \<or> scheme_str = ''https''
      | None \<Rightarrow> False)"

definition get_non_default_port :: "('u, 'au, 'h, 'v) http_api \<Rightarrow> 'u \<Rightarrow> (string \<times> 16 word) option" where
  "get_non_default_port A uri =
     (case (map_option snd (uri_port A uri), is_schema_secure A uri) of
        (Some p, secure) \<Rightarrow>
          if p = 443 \<and> secure then None
          else if p = 80 \<and> \<not> secure then None
          else uri_port A uri
      | (None, secure) \<Rightarrow> uri_port A uri)"

definition set_host_header ::
  "('u, 'au, 'h, 'v) http_api \<Rightarrow> ('u, 'h, 'x, 'b) request \<Rightarrow> ('u, 'h, 'x, 'b) request outcome" where
  "set_host_header A request =
     (case uri_host A (rq_uri request) of
        None \<Rightarrow> Ret request
      | Some hostname \<Rightarrow>
          let uri = rq_uri request in
          case hdr_get A (rq_headers request) HOST of
            Some _ \<Rightarrow> Ret request
          | None \<Rightarrow>
              (case (case get_non_default_port A uri of
                       Some port \<Rightarrow> hv_from_str A (hostname @ '':'' @ fst port)
                     | None \<Rightarrow> hv_from_str A hostname) of
                 None \<Rightarrow> Panic
               | Some v \<Rightarrow>
                   Ret (request\<lparr>rq_headers := hdr_insert A (rq_headers request) HOST v\<rparr>)))"

record 's set_host_header_svc = shh_inner :: 's

definition set_host_header_layer :: "'s \<Rightarrow> 's set_host_header_svc" where
  "set_host_header_layer inner = \<lparr>shh_inner = inner\<rparr>"

text \<open>The call of the service for plain requests, which looks at the request's version.\<close>

definition set_host_request ::
  "('u, 'au, 'h, 'v) http_api \<Rightarrow> ('u, 'h, 'x, 'b) request \<Rightarrow> ('u, 'h, 'x, 'b) request outcome" where
  "set_host_request A req = (if rq_version req < HTTP_2 then set_host_header A req else Ret req)"

definition set_host_request_service ::
  "('u, 'au, 'h, 'v) http_api \<Rightarrow> ('s, ('u, 'h, 'x, 'b) request, 'f, 'e, 'a, 'w) service \<Rightarrow>
     ('s set_host_header_svc, ('u, 'h, 'x, 'b) request, 'f, 'e, 'a, 'w) service" where
  "set_host_request_service A S =
     \<lparr>poll_ready = (\<lambda>self w. lift_res (\<lambda>s. self\<lparr>shh_inner := s\<rparr>) (poll_ready S (shh_inner self) w)),
      call = (\<lambda>self req w.
        case set_host_request A req of
          Panic \<Rightarrow> (Panic, self, w)
        | Ret req' \<Rightarrow> lift_res (\<lambda>s. self\<lparr>shh_inner := s\<rparr>) (call S (shh_inner self) req' w)),
      poll_fut = poll_fut S\<rparr>"

text \<open>The call of the service below the pool, which looks at the connection's version.\<close>

definition set_host_conn ::
  "('u, 'au, 'h, 'v) http_api \<Rightarrow> ('c \<Rightarrow> http_protocol) \<Rightarrow> 'c \<times> ('u, 'h, 'x, 'b) request \<Rightarrow>
     ('c \<times> ('u, 'h, 'x, 'b) request) outcome" where
  "set_host_conn A version cr =
     (case cr of (conn, req) \<Rightarrow>
        if version conn = Http1 then map_outcome (Pair conn) (set_host_header A req)
        else Ret (conn, req))"

definition set_host_conn_service ::
  "('u, 'au, 'h, 'v) http_api \<Rightarrow> ('c \<Rightarrow> http_protocol) \<Rightarrow>
     ('s, 'c \<times> ('u, 'h, 'x, 'b) request, 'f, 'e, 'a, 'w) service \<Rightarrow>
     ('s set_host_header_svc, 'c \<times> ('u, 'h, 'x, 'b) request, 'f, 'e, 'a, 'w) service" where
  "set_host_conn_service A version S =
     \<lparr>poll_ready = (\<lambda>self w. lift_res (\<lambda>s. self\<lparr>shh_inner := s\<rparr>) (poll_ready S (shh_inner self) w)),
      call = (\<lambda>self req w.
        case set_host_conn A version req of
          Panic \<Rightarrow> (Panic, self, w)
        | Ret req' \<Rightarrow> lift_res (\<lambda>s. self\<lparr>shh_inner := s\<rparr>) (call S (shh_inner self) req' w)),
      poll_fut = poll_fut S\<rparr>"

lemmas set_host_svc_defs =
  set_host_header_layer_def set_host_request_service_def set_host_conn_service_def

interpretation set_host_request:
  request_map S "set_host_request_service A S" "\<lambda>f. f" id id set_host_header_layer "set_host_request A"
  for S A
  by unfold_locales
    (simp_all add: set_host_svc_defs sum.map_id0 map_res_def lift_res_def outcome.map_ident split: prod.splits)

interpretation set_host_conn:
  request_map S "set_host_conn_service A version S" "\<lambda>f. f" id id set_host_header_layer
    "set_host_conn A version"
  for S A version
  by unfold_locales
    (simp_all add: set_host_svc_defs sum.map_id0 map_res_def lift_res_def outcome.map_ident split: prod.splits)

text \<open>The value the header gets: the host, with the port when it is not the scheme's default.\<close>

definition host_value :: "('u, 'au, 'h, 'v) http_api \<Rightarrow> 'u \<Rightarrow> string \<Rightarrow> string" where
  "host_value A uri hostname =
     hostname @ (case get_non_default_port A uri of Some port \<Rightarrow> '':'' @ fst port | None \<Rightarrow> [])"

lemma set_host_header_cases:
  "set_host_header A r =
     (case uri_host A (rq_uri r) of
        None \<Rightarrow> Ret r
      | Some hostname \<Rightarrow>
          if hdr_get A (rq_headers r) HOST \<noteq> None then Ret r
          else case hv_from_str A (host_value A (rq_uri r) hostname) of
            None \<Rightarrow> Panic
          | Some v \<Rightarrow> Ret (r\<lparr>rq_headers := hdr_insert A (rq_headers r) HOST v\<rparr>))"
  by (auto simp: set_host_header_def host_value_def Let_def split: option.splits)



section \<open>HTTP/1 request targets\<close>

definition authority_form :: "('u, 'au, 'h, 'v) http_api \<Rightarrow> 'u \<Rightarrow> 'u outcome" where
  "authority_form A uri =
     (case uri_authority A uri of
        Some auth \<Rightarrow>
          (case uri_from_parts A None (Some auth) None of Some uri' \<Rightarrow> Ret uri' | None \<Rightarrow> Panic)
      | None \<Rightarrow> Panic)"

definition absolute_form :: "bool \<Rightarrow> ('u, 'au, 'h, 'v) http_api \<Rightarrow> 'u \<Rightarrow> 'u outcome" where
  "absolute_form dbg A uri =
     (if dbg \<and> uri_scheme A uri = None then Panic
      else if dbg \<and> uri_authority A uri = None then Panic
      else Ret uri)"

text \<open>\<open>Uri::default() == "/"\<close> is read off the parts of the URI.\<close>

definition uri_is_slash :: "('u, 'au, 'h, 'v) http_api \<Rightarrow> 'u \<Rightarrow> bool" where
  "uri_is_slash A uri \<longleftrightarrow>
     uri_scheme A uri = None \<and> uri_authority A uri = None \<and> uri_path_and_query A uri = Some ''/''"

definition origin_form :: "bool \<Rightarrow> ('u, 'au, 'h, 'v) http_api \<Rightarrow> 'u \<Rightarrow> 'u outcome" where
  "origin_form dbg A uri =
     (let just_slash =
        (if dbg \<and> \<not> uri_is_slash A (uri_default A) then Panic else Ret (uri_default A))
      in case uri_path_and_query A uri of
        Some path \<Rightarrow>
          if path \<noteq> ''/'' then
            (case uri_from_parts A None None (Some path) of Some uri' \<Rightarrow> Ret uri' | None \<Rightarrow> Panic)
          else just_slash
      | None \<Rightarrow> just_slash)"

definition check_http1_request ::
  "bool \<Rightarrow> ('u, 'au, 'h, 'v) http_api \<Rightarrow> ('c \<Rightarrow> http_protocol) \<Rightarrow> 'c \<times> ('u, 'h, 'x, 'b) request \<Rightarrow>
     ('c \<times> ('u, 'h, 'x, 'b) request) outcome" where
  "check_http1_request dbg A version cr =
     (case cr of (conn, req) \<Rightarrow>
        if version conn \<noteq> Http1 then Ret (conn, req)
        else if rq_method req = CONNECT then
          (case authority_form A (rq_uri req) of
             Panic \<Rightarrow> Panic
           | Ret uri \<Rightarrow>
               if uri_scheme A uri = Some ''https'' then
                 (case origin_form dbg A uri of
                    Panic \<Rightarrow> Panic
                  | Ret uri' \<Rightarrow> Ret (conn, req\<lparr>rq_uri := uri'\<rparr>))
               else Ret (conn, req\<lparr>rq_uri := uri\<rparr>))
        else if uri_scheme A (rq_uri req) = None \<or> uri_authority A (rq_uri req) = None then
          (case absolute_form dbg A (rq_uri req) of
             Panic \<Rightarrow> Panic
           | Ret uri \<Rightarrow> Ret (conn, req\<lparr>rq_uri := uri\<rparr>))
        else
          (case origin_form dbg A (rq_uri req) of
             Panic \<Rightarrow> Panic
           | Ret uri \<Rightarrow> Ret (conn, req\<lparr>rq_uri := uri\<rparr>)))"

text \<open>
  The two forms a request target is sent in: the authority alone, or the path and query
  alone (\<open>/\<close> when there is none).
\<close>

definition in_authority_form :: "('u, 'au, 'h, 'v) http_api \<Rightarrow> 'au \<Rightarrow> 'u \<Rightarrow> bool" where
  "in_authority_form A auth u \<longleftrightarrow>
     uri_scheme A u = None \<and> uri_authority A u = Some auth \<and> uri_path_and_query A u = None"

definition in_origin_form :: "('u, 'au, 'h, 'v) http_api \<Rightarrow> 'u \<Rightarrow> 'u \<Rightarrow> bool" where
  "in_origin_form A u0 u \<longleftrightarrow>
     uri_scheme A u = None \<and> uri_authority A u = None
     \<and> uri_path_and_query A u = Some (case uri_path_and_query A u0 of Some p \<Rightarrow> p | None \<Rightarrow> ''/'')"

lemma authority_form_spec:
  assumes "uri_laws A"
  shows "case uri_authority A u of
      None \<Rightarrow> authority_form A u = Panic
    | Some auth \<Rightarrow> \<exists>u'. authority_form A u = Ret u' \<and> in_authority_form A auth u'"
proof (cases "uri_authority A u")
  case None
  then show ?thesis by (simp add: authority_form_def)
next
  case (Some auth)
  obtain u' where "uri_from_parts A None (Some auth) None = Some u'" "in_authority_form A auth u'"
    using uri_laws_authority [OF assms, of auth] by (auto simp: in_authority_form_def)
  with Some show ?thesis by (simp add: authority_form_def)
qed

lemma origin_form_spec:
  assumes "uri_laws A"
  shows "\<exists>u'. origin_form dbg A u = Ret u' \<and> in_origin_form A u u'"
proof (cases "\<exists>p. uri_path_and_query A u = Some p \<and> p \<noteq> ''/''")
  case True
  then obtain p where p: "uri_path_and_query A u = Some p" "p \<noteq> ''/''" by blast
  obtain u' where "uri_from_parts A None None (Some p) = Some u'" "in_origin_form A u u'"
    using uri_laws_path [OF assms p(1)] p by (auto simp: in_origin_form_def)
  with p show ?thesis by (simp add: origin_form_def)
next
  case False
  then have "origin_form dbg A u = Ret (uri_default A)"
    using uri_laws_default [OF assms]
    by (cases "uri_path_and_query A u") (auto simp: origin_form_def uri_is_slash_def Let_def)
  with False show ?thesis
    using uri_laws_default [OF assms] by (auto simp: in_origin_form_def split: option.splits)
qed

text \<open>
  C21: The HTTP/1 check on every branch. Requests on other connections pass unchanged. On
  HTTP/1 only the URI changes: a CONNECT request is sent with the authority alone (it
  panics without an authority), a request with scheme and authority is sent in origin
  form (path and query, \<open>/\<close> when there is none). A request whose URI lacks the scheme or
  the authority passes unchanged in a release build and panics in a debug build.
\<close>

theorem check_http1_request_spec:
  assumes "uri_laws A"
  shows "if version conn \<noteq> Http1 then check_http1_request dbg A version (conn, r) = Ret (conn, r)
    else if rq_method r = CONNECT then
      (case uri_authority A (rq_uri r) of
         None \<Rightarrow> check_http1_request dbg A version (conn, r) = Panic
       | Some auth \<Rightarrow> \<exists>u. check_http1_request dbg A version (conn, r) = Ret (conn, r\<lparr>rq_uri := u\<rparr>)
           \<and> in_authority_form A auth u)
    else if uri_scheme A (rq_uri r) = None \<or> uri_authority A (rq_uri r) = None then
      check_http1_request dbg A version (conn, r) = (if dbg then Panic else Ret (conn, r))
    else \<exists>u. check_http1_request dbg A version (conn, r) = Ret (conn, r\<lparr>rq_uri := u\<rparr>)
           \<and> in_origin_form A (rq_uri r) u"
proof -
  obtain u1 where o: "origin_form dbg A (rq_uri r) = Ret u1" "in_origin_form A (rq_uri r) u1"
    using origin_form_spec [OF assms] by blast
  show ?thesis
    using authority_form_spec [OF assms, of "rq_uri r"] o
    by (auto simp: check_http1_request_def absolute_form_def in_authority_form_def split: option.splits)
qed

theorem check_http1_request_spec_witness:
  "\<exists>u. check_http1_request True plain_api id (Http1,
       \<lparr>rq_method = GET,
        rq_uri = \<lparr>pu_scheme = Some ''http'',
                  pu_authority = Some \<lparr>pa_host = ''a.org'', pa_port = None\<rparr>, pu_path = Some ''/x?y''\<rparr>,
        rq_version = HTTP_11, rq_headers = [], rq_ext = (), rq_body = ()\<rparr>) =
     Ret (Http1,
       \<lparr>rq_method = GET, rq_uri = u, rq_version = HTTP_11, rq_headers = [], rq_ext = (), rq_body = ()\<rparr>)
     \<and> uri_authority plain_api u = None \<and> uri_path_and_query plain_api u = Some ''/x?y''"
  using check_http1_request_spec [OF plain_uri_laws, of id Http1 True
      "\<lparr>rq_method = GET,
        rq_uri = \<lparr>pu_scheme = Some ''http'',
                  pu_authority = Some \<lparr>pa_host = ''a.org'', pa_port = None\<rparr>, pu_path = Some ''/x?y''\<rparr>,
        rq_version = HTTP_11, rq_headers = [], rq_ext = (), rq_body = ()\<rparr>"]
  by (auto simp: in_origin_form_def api_simps)

text \<open>
  \<open>tower::util::MapRequest\<close> is a parameter: the dictionary \<open>MS\<close> of its operations and its
  constructor \<open>mk\<close>. Documented of it: readiness and futures are those of the inner
  service, and a call maps the request first.
\<close>

definition map_request_laws ::
  "('s, 'r, 'f, 'e, 'a, 'w) service \<Rightarrow> ('m, 'r, 'f, 'e, 'a, 'w) service \<Rightarrow>
     ('s \<Rightarrow> ('r \<Rightarrow> 'r outcome) \<Rightarrow> 'm) \<Rightarrow> bool" where
  "map_request_laws S MS mk \<longleftrightarrow>
     poll_fut MS = poll_fut S \<and>
     (\<forall>s f w. poll_ready MS (mk s f) w = lift_res (\<lambda>s. mk s f) (poll_ready S s w)) \<and>
     (\<forall>s f r w. call MS (mk s f) r w =
        (case f r of
           Panic \<Rightarrow> (Panic, mk s f, w)
         | Ret r' \<Rightarrow> lift_res (\<lambda>s. mk s f) (call S s r' w)))"

record 'm http1_checks_service = h1k_inner :: 'm

definition http1_checks_new ::
  "('s \<Rightarrow> ('c \<times> ('u, 'h, 'x, 'b) request \<Rightarrow> ('c \<times> ('u, 'h, 'x, 'b) request) outcome) \<Rightarrow> 'm) \<Rightarrow>
     bool \<Rightarrow> ('u, 'au, 'h, 'v) http_api \<Rightarrow> ('c \<Rightarrow> http_protocol) \<Rightarrow> 's \<Rightarrow> 'm http1_checks_service" where
  "http1_checks_new mk dbg A version service =
     \<lparr>h1k_inner = mk service (check_http1_request dbg A version)\<rparr>"

definition http1_checks_clone :: "('m \<Rightarrow> 'm) \<Rightarrow> 'm http1_checks_service \<Rightarrow> 'm http1_checks_service" where
  "http1_checks_clone clone self = \<lparr>h1k_inner = clone (h1k_inner self)\<rparr>"

definition http1_checks_layer ::
  "('s \<Rightarrow> ('c \<times> ('u, 'h, 'x, 'b) request \<Rightarrow> ('c \<times> ('u, 'h, 'x, 'b) request) outcome) \<Rightarrow> 'm) \<Rightarrow>
     bool \<Rightarrow> ('u, 'au, 'h, 'v) http_api \<Rightarrow> ('c \<Rightarrow> http_protocol) \<Rightarrow> 's \<Rightarrow> 'm http1_checks_service" where
  "http1_checks_layer mk dbg A version service = http1_checks_new mk dbg A version service"

definition http1_checks_ops ::
  "('m, 'r, 'f, 'e, 'a, 'w) service \<Rightarrow> ('m http1_checks_service, 'r, 'f, 'e, 'a, 'w) service" where
  "http1_checks_ops MS =
     \<lparr>poll_ready = (\<lambda>self w. lift_res (\<lambda>m. self\<lparr>h1k_inner := m\<rparr>) (poll_ready MS (h1k_inner self) w)),
      call = (\<lambda>self req w. lift_res (\<lambda>m. self\<lparr>h1k_inner := m\<rparr>) (call MS (h1k_inner self) req w)),
      poll_fut = poll_fut MS\<rparr>"

lemma http1_checks_request_map:
  assumes "map_request_laws S MS mk"
  shows "request_map S (http1_checks_ops MS) (\<lambda>f. f) id id (http1_checks_layer mk dbg A version)
    (check_http1_request dbg A version)"
  using assms
  by unfold_locales
    (auto simp: map_request_laws_def http1_checks_ops_def http1_checks_layer_def http1_checks_new_def
      sum.map_id0 map_res_def lift_res_def outcome.map_ident split: prod.splits)

section \<open>HTTP/2 requests\<close>

definition CONNECTION_HEADERS :: "string list" where
  "CONNECTION_HEADERS =
     [''connection'', ''proxy-connection'', ''keep-alive'', ''transfer-encoding'', ''upgrade'']"

datatype 'e http_request_error = InvalidMethod http_method | Connection_Error 'e

fun remove_headers :: "('u, 'au, 'h, 'v) http_api \<Rightarrow> string list \<Rightarrow> 'h \<Rightarrow> 'h" where
  "remove_headers A [] h = h"
| "remove_headers A (name # names) h = remove_headers A names (hdr_remove A h name)"

definition check_http2_request ::
  "('u, 'au, 'h, 'v) http_api \<Rightarrow> ('c \<Rightarrow> http_protocol) \<Rightarrow> 'c \<times> ('u, 'h, 'x, 'b) request \<Rightarrow>
     'e http_request_error + 'c \<times> ('u, 'h, 'x, 'b) request" where
  "check_http2_request A version cr =
     (case cr of (conn, req) \<Rightarrow>
        if version conn = Http2 then
          if rq_method req = CONNECT then Inl (InvalidMethod CONNECT)
          else
            let req = req\<lparr>rq_version := HTTP_2\<rparr>;
                req = req\<lparr>rq_headers := remove_headers A CONNECTION_HEADERS (rq_headers req)\<rparr>;
                req = req\<lparr>rq_headers := hdr_remove A (rq_headers req) HOST\<rparr>
            in Inr (conn, req)
        else Inr (conn, req))"

lemma hdr_get_remove_headers:
  assumes "header_laws A"
  shows "hdr_get A (remove_headers A names h) k = (if k \<in> set names then None else hdr_get A h k)"
  by (induction names arbitrary: h) (auto simp: header_lawsD [OF assms])

text \<open>
  C22: The HTTP/2 check on every branch. Requests on other connections pass unchanged. On
  HTTP/2 a CONNECT request is rejected; every other request passes with version HTTP/2,
  without the connection-specific headers and without Host, all its other headers, its
  method, URI, extensions and body unchanged.
\<close>

theorem check_http2_request_spec:
  assumes "header_laws A"
  shows "case check_http2_request A version (conn, r) of
      Inl e \<Rightarrow> version conn = Http2 \<and> rq_method r = CONNECT \<and> e = InvalidMethod CONNECT
    | Inr (conn', r') \<Rightarrow> conn' = conn
        \<and> (if version conn = Http2
           then rq_method r \<noteq> CONNECT
             \<and> r' = r\<lparr>rq_version := HTTP_2, rq_headers := rq_headers r'\<rparr>
             \<and> (\<forall>k. hdr_get A (rq_headers r') k =
                 (if k \<in> {''connection'', ''proxy-connection'', ''keep-alive'',
                         ''transfer-encoding'', ''upgrade'', ''host''}
                  then None else hdr_get A (rq_headers r) k))
           else r' = r)"
  by (auto simp: check_http2_request_def hdr_get_remove_headers [OF assms] header_lawsD [OF assms]
      CONNECTION_HEADERS_def)

theorem check_http2_request_spec_witness:
  "\<exists>r'. (check_http2_request plain_api id (Http2,
       \<lparr>rq_method = GET, rq_uri = uri_default plain_api, rq_version = HTTP_11,
        rq_headers = [(''host'', ''a.org''), (''upgrade'', ''x''), (''accept'', ''y'')],
        rq_ext = (), rq_body = ()\<rparr>) :: unit http_request_error + _) = Inr (Http2, r')
     \<and> rq_version r' = HTTP_2 \<and> hdr_get plain_api (rq_headers r') ''host'' = None
     \<and> hdr_get plain_api (rq_headers r') ''accept'' = Some ''y''"
  using check_http2_request_spec [OF plain_header_laws, of id Http2
       "\<lparr>rq_method = GET, rq_uri = uri_default plain_api, rq_version = HTTP_11,
        rq_headers = [(''host'', ''a.org''), (''upgrade'', ''x''), (''accept'', ''y'')],
        rq_ext = (), rq_body = ()\<rparr>"]
  by (simp add: check_http2_request_def Let_def api_simps CONNECTION_HEADERS_def)

record 's http2_checks_service = h2k_inner :: 's

definition http2_checks_new :: "'s \<Rightarrow> 's http2_checks_service" where
  "http2_checks_new inner = \<lparr>h2k_inner = inner\<rparr>"

definition http2_checks_layer :: "'s \<Rightarrow> 's http2_checks_service" where
  "http2_checks_layer inner = http2_checks_new inner"

datatype ('f, 'e) http2_checks_state = H2k_Service 'f | H2k_Error "'e http_request_error option"

record ('f, 'e) http2_checks_future = h2kf_state :: "('f, 'e) http2_checks_state"

definition http2_checks_future_new :: "'f \<Rightarrow> ('f, 'e) http2_checks_future" where
  "http2_checks_future_new future = \<lparr>h2kf_state = H2k_Service future\<rparr>"

definition http2_checks_future_error :: "'e http_request_error \<Rightarrow> ('f, 'e) http2_checks_future" where
  "http2_checks_future_error error = \<lparr>h2kf_state = H2k_Error (Some error)\<rparr>"

definition http2_checks_future_poll ::
  "('f, 'e + 'a, 'w) pollf \<Rightarrow> (('f, 'e) http2_checks_future, 'e http_request_error + 'a, 'w) pollf" where
  "http2_checks_future_poll p self w =
     (case h2kf_state self of
        H2k_Service future \<Rightarrow>
          map_res (map_polled (map_err Connection_Error))
            (lift_res (\<lambda>f. self\<lparr>h2kf_state := H2k_Service f\<rparr>) (p future w))
      | H2k_Error (Some e) \<Rightarrow> (Ready (Inl e), self\<lparr>h2kf_state := H2k_Error None\<rparr>, w)
      | H2k_Error None \<Rightarrow> (Panicked, self, w))"

definition http2_checks_call ::
  "('u, 'au, 'h, 'v) http_api \<Rightarrow> ('c \<Rightarrow> http_protocol) \<Rightarrow>
     ('s, 'c \<times> ('u, 'h, 'x, 'b) request, 'f, 'e, 'a, 'w) service \<Rightarrow>
     's http2_checks_service \<Rightarrow> 'c \<times> ('u, 'h, 'x, 'b) request \<Rightarrow> 'w \<Rightarrow>
     ('f, 'e) http2_checks_future outcome \<times> 's http2_checks_service \<times> 'w" where
  "http2_checks_call A version S self req w =
     (case check_http2_request A version req of
        Inr req' \<Rightarrow>
          map_res (map_outcome http2_checks_future_new)
            (lift_res (\<lambda>s. self\<lparr>h2k_inner := s\<rparr>) (call S (h2k_inner self) req' w))
      | Inl error \<Rightarrow> (Ret (http2_checks_future_error error), self, w))"

definition http2_checks_ops ::
  "('u, 'au, 'h, 'v) http_api \<Rightarrow> ('c \<Rightarrow> http_protocol) \<Rightarrow>
     ('s, 'c \<times> ('u, 'h, 'x, 'b) request, 'f, 'e, 'a, 'w) service \<Rightarrow>
     ('s http2_checks_service, 'c \<times> ('u, 'h, 'x, 'b) request, ('f, 'e) http2_checks_future,
      'e http_request_error, 'a, 'w) service" where
  "http2_checks_ops A version S =
     \<lparr>poll_ready = (\<lambda>self w.
        map_res (map_polled (map_err Connection_Error))
          (lift_res (\<lambda>s. self\<lparr>h2k_inner := s\<rparr>) (poll_ready S (h2k_inner self) w))),
      call = http2_checks_call A version S,
      poll_fut = http2_checks_future_poll (poll_fut S)\<rparr>"

lemmas http2_checks_defs =
  http2_checks_new_def http2_checks_layer_def http2_checks_future_new_def
  http2_checks_future_error_def http2_checks_future_poll_def http2_checks_call_def
  http2_checks_ops_def

interpretation http2_checks_error:
  error_once "http2_checks_future_poll p" "\<lambda>e. \<lparr>h2kf_state = H2k_Error e\<rparr>" id for p
  by unfold_locales (simp_all add: http2_checks_defs)

interpretation http2_checks:
  request_gate S "http2_checks_ops A version S" http2_checks_future_new Connection_Error id
    http2_checks_layer "check_http2_request A version" http2_checks_future_error
  for S A version
  by unfold_locales
    (simp_all add: http2_checks_defs map_res_def lift_res_def split: prod.splits)

section \<open>The request executor\<close>

text \<open>
  The stack the client builder puts around the request executor: the Host header first,
  then the HTTP/2 checks, then the HTTP/1 checks.
\<close>

definition executor_stack ::
  "('s \<Rightarrow> ('c \<times> ('u, 'h, 'x, 'b) request \<Rightarrow> ('c \<times> ('u, 'h, 'x, 'b) request) outcome) \<Rightarrow> 'm) \<Rightarrow>
     bool \<Rightarrow> ('u, 'au, 'h, 'v) http_api \<Rightarrow> ('c \<Rightarrow> http_protocol) \<Rightarrow> 's \<Rightarrow>
     'm http1_checks_service http2_checks_service set_host_header_svc" where
  "executor_stack mk dbg A version executor =
     set_host_header_layer (http2_checks_layer (http1_checks_layer mk dbg A version executor))"

definition executor_ops ::
  "('u, 'au, 'h, 'v) http_api \<Rightarrow> ('c \<Rightarrow> http_protocol) \<Rightarrow>
     ('m, 'c \<times> ('u, 'h, 'x, 'b) request, 'f, 'e, 'a, 'w) service \<Rightarrow>
     ('m http1_checks_service http2_checks_service set_host_header_svc,
      'c \<times> ('u, 'h, 'x, 'b) request, ('f, 'e) http2_checks_future,
      'e http_request_error, 'a, 'w) service" where
  "executor_ops A version MS =
     set_host_conn_service A version (http2_checks_ops A version (http1_checks_ops MS))"

text \<open>The checks in a row: what the executor gets, or why it gets nothing.\<close>

definition checked_request ::
  "bool \<Rightarrow> ('u, 'au, 'h, 'v) http_api \<Rightarrow> ('c \<Rightarrow> http_protocol) \<Rightarrow> 'c \<times> ('u, 'h, 'x, 'b) request \<Rightarrow>
     ('e http_request_error + 'c \<times> ('u, 'h, 'x, 'b) request) outcome" where
  "checked_request dbg A version cr =
     (case set_host_conn A version cr of
        Panic \<Rightarrow> Panic
      | Ret cr1 \<Rightarrow>
          (case check_http2_request A version cr1 of
             Inl e \<Rightarrow> Ret (Inl e)
           | Inr cr2 \<Rightarrow> map_outcome Inr (check_http1_request dbg A version cr2)))"

lemma executor_run:
  assumes "map_request_laws S MS mk"
  shows "run_call (executor_ops A version MS) (Suc n) (executor_stack mk dbg A version s) cr w =
    (case checked_request dbg A version cr of
       Panic \<Rightarrow> (Panicked, executor_stack mk dbg A version s, w)
     | Ret (Inl e) \<Rightarrow> (Ready (Inl e), executor_stack mk dbg A version s, w)
     | Ret (Inr cr') \<Rightarrow>
         map_res (map_polled (map_err Connection_Error))
           (lift_res (executor_stack mk dbg A version) (run_call S (Suc n) s cr' w)))"
  unfolding executor_ops_def executor_stack_def checked_request_def
  by (auto simp: set_host_conn.run_map http2_checks.run_gate
      request_map.run_map [OF http1_checks_request_map [OF assms]] lift_res_comp map_lift_res
      comp_def sum.map_id0 executor_stack_def split: outcome.splits sum.splits)

lemma executor_http1_run:
  fixes S :: "('s, 'c \<times> ('u, 'h, 'x, 'b) request, 'f, 'e, 'a, 'w) service"
  assumes "map_request_laws S MS mk" and "header_laws A" and "uri_laws A"
    and "version conn = Http1" and "rq_method r \<noteq> CONNECT"
    and "uri_scheme A (rq_uri r) = Some sch" and "uri_authority A (rq_uri r) = Some auth"
    and "hv_from_str A (host_value A (rq_uri r) (authority_host A auth)) = Some v"
  shows "\<exists>u h. run_call (executor_ops A version MS) (Suc n) (executor_stack mk dbg A version s) (conn, r) w =
      map_res (map_polled (map_err Connection_Error))
        (lift_res (executor_stack mk dbg A version)
          (run_call S (Suc n) s (conn, r\<lparr>rq_uri := u, rq_headers := h\<rparr>) w))
    \<and> in_origin_form A (rq_uri r) u
    \<and> (\<forall>k. hdr_get A h k =
        (if k = HOST \<and> hdr_get A (rq_headers r) HOST = None then Some v
         else hdr_get A (rq_headers r) k))"
proof -
  obtain u where u: "origin_form dbg A (rq_uri r) = Ret u" "in_origin_form A (rq_uri r) u"
    using origin_form_spec [OF assms(3)] by blast
  have host: "uri_host A (rq_uri r) = Some (authority_host A auth)"
    using assms(7) by (simp add: uri_laws_host [OF assms(3)])
  define h where "h = (if hdr_get A (rq_headers r) HOST = None
      then hdr_insert A (rq_headers r) HOST v else rq_headers r)"
  have "(checked_request dbg A version (conn, r) :: ('e http_request_error + 'c \<times> ('u, 'h, 'x, 'b) request) outcome) =
      Ret (Inr (conn, r\<lparr>rq_uri := u, rq_headers := h\<rparr>))"
    using assms(4-8) u(1) host
    by (auto simp: checked_request_def set_host_conn_def set_host_header_cases h_def
        check_http2_request_def check_http1_request_def)
  then show ?thesis
    using u(2) header_lawsD(1) [OF assms(2)]
    by (intro exI [of _ u] exI [of _ h]) (auto simp: executor_run [OF assms(1)] h_def)
qed

text \<open>
  A request on an HTTP/1 connection through the whole stack. With an absolute URI
  and a method other than CONNECT, the executor is called with the request in origin form
  and with the Host header taken from the URI before it was stripped (or the caller's own
  Host header), everything else unchanged, and its outcome is the outcome.
\<close>

theorem executor_http1:
  fixes S :: "('s, 'c \<times> ('u, 'h, 'x, 'b) request, 'f, 'e, 'a, 'w) service"
  assumes "map_request_laws S MS mk" and "header_laws A" and "uri_laws A"
    and "version conn = Http1" and "rq_method r \<noteq> CONNECT"
    and "uri_scheme A (rq_uri r) = Some sch" and "uri_authority A (rq_uri r) = Some auth"
    and "hv_from_str A (host_value A (rq_uri r) (authority_host A auth)) = Some v"
  shows "\<exists>u h. run_call (executor_ops A version MS) (Suc n) (executor_stack mk dbg A version s) (conn, r) w =
      map_res (map_polled (map_err Connection_Error))
        (lift_res (executor_stack mk dbg A version)
          (run_call S (Suc n) s (conn, r\<lparr>rq_uri := u, rq_headers := h\<rparr>) w))
    \<and> in_origin_form A (rq_uri r) u
    \<and> (\<forall>k. hdr_get A h k =
        (if k = HOST \<and> hdr_get A (rq_headers r) HOST = None then Some v
         else hdr_get A (rq_headers r) k))"
  using assms by (rule executor_http1_run)

lemma executor_http2_run:
  fixes S :: "('s, 'c \<times> ('u, 'h, 'x, 'b) request, 'f, 'e, 'a, 'w) service"
  assumes "map_request_laws S MS mk" and "header_laws A" and "version conn = Http2"
  shows "\<exists>h. run_call (executor_ops A version MS) (Suc n) (executor_stack mk dbg A version s) (conn, r) w =
      (if rq_method r = CONNECT
       then (Ready (Inl (InvalidMethod CONNECT)), executor_stack mk dbg A version s, w)
       else map_res (map_polled (map_err Connection_Error))
         (lift_res (executor_stack mk dbg A version)
           (run_call S (Suc n) s (conn, r\<lparr>rq_version := HTTP_2, rq_headers := h\<rparr>) w)))
    \<and> (\<forall>k. hdr_get A h k =
        (if k \<in> insert HOST (set CONNECTION_HEADERS) then None else hdr_get A (rq_headers r) k))"
proof -
  define h where "h = hdr_remove A (remove_headers A CONNECTION_HEADERS (rq_headers r)) HOST"
  have "(checked_request dbg A version (conn, r) :: ('e http_request_error + 'c \<times> ('u, 'h, 'x, 'b) request) outcome) =
      (if rq_method r = CONNECT then Ret (Inl (InvalidMethod CONNECT))
       else Ret (Inr (conn, r\<lparr>rq_version := HTTP_2, rq_headers := h\<rparr>)))"
    using assms(3)
    by (simp add: checked_request_def set_host_conn_def check_http2_request_def
        check_http1_request_def h_def)
  moreover have "hdr_get A h k =
        (if k \<in> insert HOST (set CONNECTION_HEADERS) then None else hdr_get A (rq_headers r) k)" for k
    by (simp add: h_def header_lawsD [OF assms(2)] hdr_get_remove_headers [OF assms(2)])
  ultimately show ?thesis
    by (intro exI [of _ h]) (simp add: executor_run [OF assms(1)])
qed

text \<open>
  A request on an HTTP/2 connection through the whole stack. A CONNECT request is
  rejected with \<open>InvalidMethod\<close> at the first poll and the executor is never called. Any
  other request reaches the executor as HTTP/2 with its URI unchanged and without Host
  and connection-specific headers.
\<close>

theorem executor_http2:
  fixes S :: "('s, 'c \<times> ('u, 'h, 'x, 'b) request, 'f, 'e, 'a, 'w) service"
  assumes "map_request_laws S MS mk" and "header_laws A" and "version conn = Http2"
  shows "\<exists>h. run_call (executor_ops A version MS) (Suc n) (executor_stack mk dbg A version s) (conn, r) w =
      (if rq_method r = CONNECT
       then (Ready (Inl (InvalidMethod CONNECT)), executor_stack mk dbg A version s, w)
       else map_res (map_polled (map_err Connection_Error))
         (lift_res (executor_stack mk dbg A version)
           (run_call S (Suc n) s (conn, r\<lparr>rq_version := HTTP_2, rq_headers := h\<rparr>) w)))
    \<and> (\<forall>k. hdr_get A h k =
        (if k \<in> insert HOST (set CONNECTION_HEADERS) then None else hdr_get A (rq_headers r) k))"
  using assms by (rule executor_http2_run)

text \<open>
  An instance used in examples: an executor that answers with the request it was given,
  and a request mapper that is the pair of the service and the function.
\<close>

definition echo_executor :: "(unit, 'r, 'r, string, 'r, unit) service" where
  "echo_executor =
     \<lparr>poll_ready = (\<lambda>s w. (Ready (Inr ()), s, w)), call = (\<lambda>s r w. (Ret r, s, w)),
      poll_fut = (\<lambda>r w. (Ready (Inr r), r, w))\<rparr>"

definition pair_mapper ::
  "('s, 'r, 'f, 'e, 'a, 'w) service \<Rightarrow> ('s \<times> ('r \<Rightarrow> 'r outcome), 'r, 'f, 'e, 'a, 'w) service" where
  "pair_mapper S =
     \<lparr>poll_ready = (\<lambda>(s, f) w. lift_res (\<lambda>s. (s, f)) (poll_ready S s w)),
      call = (\<lambda>(s, f) r w.
        case f r of Panic \<Rightarrow> (Panic, (s, f), w) | Ret r' \<Rightarrow> lift_res (\<lambda>s. (s, f)) (call S s r' w)),
      poll_fut = poll_fut S\<rparr>"

lemma pair_mapper_laws: "map_request_laws S (pair_mapper S) Pair"
  by (auto simp: map_request_laws_def pair_mapper_def split: outcome.split)

theorem executor_http1_witness:
  "\<exists>u h. fst (run_call (executor_ops plain_api id (pair_mapper echo_executor)) 1
        (executor_stack Pair True plain_api id ()) (Http1,
       \<lparr>rq_method = GET,
        rq_uri = \<lparr>pu_scheme = Some ''http'',
                  pu_authority = Some \<lparr>pa_host = ''a.org'', pa_port = None\<rparr>, pu_path = Some ''/x''\<rparr>,
        rq_version = HTTP_11, rq_headers = [], rq_ext = (), rq_body = ()\<rparr>) ()) =
      Ready (Inr (Http1,
       \<lparr>rq_method = GET, rq_uri = u, rq_version = HTTP_11, rq_headers = h, rq_ext = (), rq_body = ()\<rparr>))
    \<and> uri_authority plain_api u = None \<and> hdr_get plain_api h HOST = Some ''a.org''"
proof -
  let ?r = "\<lparr>rq_method = GET,
        rq_uri = \<lparr>pu_scheme = Some ''http'',
                  pu_authority = Some \<lparr>pa_host = ''a.org'', pa_port = None\<rparr>, pu_path = Some ''/x''\<rparr>,
        rq_version = HTTP_11, rq_headers = [] :: (string \<times> string) list, rq_ext = (), rq_body = ()\<rparr>"
  show ?thesis
    using executor_http1 [OF pair_mapper_laws [of echo_executor] plain_header_laws plain_uri_laws,
        of id Http1 ?r "''http''" "\<lparr>pa_host = ''a.org'', pa_port = None\<rparr>" "''a.org''" 0 True "()" "()"]
    by (auto simp: api_simps host_value_def get_non_default_port_def in_origin_form_def
        run_call_def echo_executor_def)
qed

theorem executor_http2_witness:
  "fst (run_call (executor_ops plain_api id (pair_mapper echo_executor)) 1
        (executor_stack Pair True plain_api id ()) (Http2,
       \<lparr>rq_method = CONNECT, rq_uri = uri_default plain_api, rq_version = HTTP_11,
        rq_headers = [], rq_ext = (), rq_body = ()\<rparr>) ()) = Ready (Inl (InvalidMethod CONNECT))"
  using executor_http2 [OF pair_mapper_laws [of echo_executor] plain_header_laws,
      of id Http2 0 True "()" "\<lparr>rq_method = CONNECT, rq_uri = uri_default plain_api,
        rq_version = HTTP_11, rq_headers = [], rq_ext = (), rq_body = ()\<rparr>" "()"]
  by auto

end
