(* ===== verification/Happy_Eyeballs.thy ===== *)
theory Happy_Eyeballs
  imports Prelude "HOL-Library.Multiset"
begin

text \<open>
  The Happy Eyeballs race of \<open>src/happy_eyeballs.rs\<close>. The set holds futures not started
  (\<open>queue\<close>) and futures running concurrently (\<open>tasks\<close>, a \<open>FuturesUnordered\<close> of the futures
  crate). The async functions are cut at their awaits: a configuration is the set with the
  point the program is suspended at, and a step is what the runtime resumes it with (a
  completed task, an elapsed timer). The function \<open>out\<close> gives the output of each future.
\<close>

section \<open>The set\<close>

datatype 'e happy_eyeballs_error = HE_Timeout duration | NoProgress | HE_Error 'e

record ('f, 'e) eyeball_set =
  es_queue :: "'f list"
  es_tasks :: "'f multiset"
  es_delay :: "duration option"
  es_timeout :: "duration option"
  es_started :: "instant option"
  es_initial_concurrency :: "nat option"
  es_error :: "'e happy_eyeballs_error option"

definition eyeball_set_new ::
  "duration option \<Rightarrow> duration option \<Rightarrow> nat option \<Rightarrow> ('f, 'e) eyeball_set" where
  "eyeball_set_new delay timeout initial_concurrency =
     \<lparr>es_queue = [], es_tasks = {#}, es_delay = delay, es_timeout = timeout, es_started = None,
      es_initial_concurrency = initial_concurrency, es_error = None\<rparr>"

definition eyeball_set_is_empty :: "('f, 'e) eyeball_set \<Rightarrow> bool" where
  "eyeball_set_is_empty self \<longleftrightarrow> es_tasks self = {#} \<and> es_queue self = []"

definition eyeball_set_len :: "('f, 'e) eyeball_set \<Rightarrow> nat" where
  "eyeball_set_len self = size (es_tasks self) + length (es_queue self)"

definition eyeball_set_push :: "'f \<Rightarrow> ('f, 'e) eyeball_set \<Rightarrow> ('f, 'e) eyeball_set" where
  "eyeball_set_push future self = self\<lparr>es_queue := es_queue self @ [future]\<rparr>"

definition eyeball_set_extend :: "'f list \<Rightarrow> ('f, 'e) eyeball_set \<Rightarrow> ('f, 'e) eyeball_set" where
  "eyeball_set_extend futures self = self\<lparr>es_queue := es_queue self @ futures\<rparr>"

text \<open>
  The \<open>Display\<close> and \<open>source\<close> of the error, given the display of the inner error and of a
  number; durations are counted in nanoseconds.
\<close>

fun happy_eyeballs_error_display :: "('e \<Rightarrow> string) \<Rightarrow> (nat \<Rightarrow> string) \<Rightarrow> 'e happy_eyeballs_error \<Rightarrow> string" where
  "happy_eyeballs_error_display show_e show_nat NoProgress = ''no progress can be made''"
| "happy_eyeballs_error_display show_e show_nat (HE_Error e) = ''error: '' @ show_e e"
| "happy_eyeballs_error_display show_e show_nat (HE_Timeout d) =
     ''timeout: '' @ show_nat (d div 1000000) @ ''ms''"

fun happy_eyeballs_error_source :: "'e happy_eyeballs_error \<Rightarrow> 'e option" where
  "happy_eyeballs_error_source (HE_Error e) = Some e"
| "happy_eyeballs_error_source _ = None"

lemma eyeball_set_len_simps [simp]:
  "eyeball_set_len (eyeball_set_push f s) = Suc (eyeball_set_len s)"
  "eyeball_set_len (eyeball_set_extend fs s) = length fs + eyeball_set_len s"
  "eyeball_set_is_empty s \<longleftrightarrow> eyeball_set_len s = 0"
  by (auto simp: eyeball_set_len_def eyeball_set_push_def eyeball_set_extend_def eyeball_set_is_empty_def)

section \<open>Joining the next task\<close>

datatype 't eyeball = Eyeball_Ok 't | Eyeball_Error | Eyeball_Timeout | Eyeball_Exhausted

text \<open>
  \<open>join_next\<close> up to its await, and after it: \<open>nxt\<close> is what \<open>tasks.next()\<close> gives, the task
  that completed or \<open>None\<close> when there is none.
\<close>

definition join_next_start :: "instant \<Rightarrow> ('f, 'e) eyeball_set \<Rightarrow> ('f, 'e) eyeball_set" where
  "join_next_start now self =
     self\<lparr>es_started := Some (case es_started self of Some t \<Rightarrow> t | None \<Rightarrow> now)\<rparr>"

definition join_next ::
  "('f \<Rightarrow> 'e + 't) \<Rightarrow> 'f option \<Rightarrow> ('f, 'e) eyeball_set \<Rightarrow> 't eyeball \<times> ('f, 'e) eyeball_set" where
  "join_next out nxt self =
     (case nxt of
        Some f \<Rightarrow>
          let self' = self\<lparr>es_tasks := es_tasks self - {#f#}\<rparr>
          in (case out f of
                Inr stream \<Rightarrow> (Eyeball_Ok stream, self')
              | Inl e \<Rightarrow>
                  if es_error self = None then (Eyeball_Error, self'\<lparr>es_error := Some (HE_Error e)\<rparr>)
                  else (Eyeball_Error, self'))
      | None \<Rightarrow> (Eyeball_Exhausted, self))"

text \<open>What ends the wait of \<open>join_next_with_timeout\<close>: the inner future or the delay.\<close>

datatype 'f wake = Wake_Next "'f option" | Wake_Delay

definition join_next_with_timeout ::
  "('f \<Rightarrow> 'e + 't) \<Rightarrow> 'f wake \<Rightarrow> ('f, 'e) eyeball_set \<Rightarrow> 't eyeball \<times> ('f, 'e) eyeball_set" where
  "join_next_with_timeout out wake self =
     (case wake of
        Wake_Next nxt \<Rightarrow> join_next out nxt self
      | Wake_Delay \<Rightarrow> (Eyeball_Timeout, self))"

section \<open>Processing all futures\<close>

type_synonym ('t, 'e) he_result = "'e happy_eyeballs_error + 't"

text \<open>
  Where \<open>process_all\<close> is suspended: not started, in the queue loop holding the future it
  popped, in the final loop, or finished.
\<close>

datatype ('f, 't, 'e) he_point =
  At_Start | In_Queue 'f | In_Drain | Done "('t, 'e) he_result" | Panicking

type_synonym ('f, 't, 'e) he_config = "('f, 'e) eyeball_set \<times> ('f, 't, 'e) he_point"

fun push_initial :: "nat \<Rightarrow> ('f, 'e) eyeball_set \<Rightarrow> ('f, 'e) eyeball_set" where
  "push_initial 0 self = self"
| "push_initial (Suc n) self =
     push_initial n
       (case es_queue self of
          future # q \<Rightarrow> self\<lparr>es_queue := q, es_tasks := add_mset future (es_tasks self)\<rparr>
        | [] \<Rightarrow> self)"

text \<open>The head of the \<open>while\<close> loop, up to the next await.\<close>

definition queue_head :: "instant \<Rightarrow> ('f, 'e) eyeball_set \<Rightarrow> ('f, 't, 'e) he_config" where
  "queue_head now self =
     (case es_queue self of
        future # q \<Rightarrow> (join_next_start now (self\<lparr>es_queue := q\<rparr>), In_Queue future)
      | [] \<Rightarrow> (join_next_start now self, In_Drain))"

definition process_start :: "instant \<Rightarrow> ('f, 'e) eyeball_set \<Rightarrow> ('f, 't, 'e) he_config" where
  "process_start now self =
     queue_head now
       (push_initial
          (case es_initial_concurrency self of Some c \<Rightarrow> c | None \<Rightarrow> length (es_queue self)) self)"

definition queue_resume ::
  "('f \<Rightarrow> 'e + 't) \<Rightarrow> instant \<Rightarrow> 'f wake \<Rightarrow> 'f \<Rightarrow> ('f, 'e) eyeball_set \<Rightarrow> ('f, 't, 'e) he_config" where
  "queue_resume out now wake future self =
     (case join_next_with_timeout out wake self of
        (Eyeball_Ok outcome, self') \<Rightarrow> (self', Done (Inr outcome))
      | (_, self') \<Rightarrow> queue_head now (self'\<lparr>es_tasks := add_mset future (es_tasks self')\<rparr>))"

definition drain_resume ::
  "('f \<Rightarrow> 'e + 't) \<Rightarrow> instant \<Rightarrow> 'f option \<Rightarrow> ('f, 'e) eyeball_set \<Rightarrow> ('f, 't, 'e) he_config" where
  "drain_resume out now nxt self =
     (case join_next out nxt self of
        (Eyeball_Ok outcome, self') \<Rightarrow> (self', Done (Inr outcome))
      | (Eyeball_Error, self') \<Rightarrow> (join_next_start now self', In_Drain)
      | (Eyeball_Timeout, self') \<Rightarrow> (self', Panicking)
      | (Eyeball_Exhausted, self') \<Rightarrow>
          (self'\<lparr>es_error := None\<rparr>,
           Done (case es_error self' of Some e \<Rightarrow> Inl e | None \<Rightarrow> Inl NoProgress)))"

text \<open>The outer timeout of \<open>finish\<close>.\<close>

definition finish_timeout :: "instant \<Rightarrow> ('f, 'e) eyeball_set \<Rightarrow> ('f, 't, 'e) he_config" where
  "finish_timeout now self =
     (self, Done (Inl (HE_Timeout (now - (case es_started self of Some t \<Rightarrow> t | None \<Rightarrow> now)))))"

text \<open>
  \<open>FuturesUnordered::next\<close>: ready with \<open>None\<close> exactly when no task is left, otherwise with
  some task that has completed.
\<close>

definition next_task :: "('f, 'e) eyeball_set \<Rightarrow> 'f option \<Rightarrow> bool" where
  "next_task self nxt \<longleftrightarrow>
     (case nxt of None \<Rightarrow> es_tasks self = {#} | Some f \<Rightarrow> f \<in># es_tasks self)"

datatype 'f he_event = Ev_Start | Ev_Next "'f option" | Ev_Delay | Ev_Timeout

text \<open>
  The steps. A timer can only win against a wait that is not ready at once, that is, while
  there are tasks.
\<close>

inductive he_step ::
  "('f \<Rightarrow> 'e + 't) \<Rightarrow> ('f, 't, 'e) he_config \<Rightarrow> 'f he_event \<Rightarrow> ('f, 't, 'e) he_config \<Rightarrow> bool"
  for out :: "'f \<Rightarrow> 'e + 't" where
  he_start: "he_step out (self, At_Start) Ev_Start (process_start now self)"
| he_queue: "next_task self nxt \<Longrightarrow>
    he_step out (self, In_Queue f) (Ev_Next nxt) (queue_resume out now (Wake_Next nxt) f self)"
| he_delay: "es_delay self = Some d \<Longrightarrow> es_tasks self \<noteq> {#} \<Longrightarrow>
    he_step out (self, In_Queue f) Ev_Delay (queue_resume out now Wake_Delay f self)"
| he_drain: "next_task self nxt \<Longrightarrow>
    he_step out (self, In_Drain) (Ev_Next nxt) (drain_resume out now nxt self)"
| he_timeout: "es_timeout self = Some d \<Longrightarrow> es_tasks self \<noteq> {#} \<Longrightarrow> p = In_Drain \<or> (\<exists>f. p = In_Queue f) \<Longrightarrow>
    he_step out (self, p) Ev_Timeout (finish_timeout now self)"

inductive_cases he_step_startE: "he_step out (self, At_Start) ev c"
inductive_cases he_step_queueE: "he_step out (self, In_Queue f) ev c"
inductive_cases he_step_drainE: "he_step out (self, In_Drain) ev c"
inductive_simps he_step_done [simp]: "he_step out (self, Done r) ev c"

inductive he_run ::
  "('f \<Rightarrow> 'e + 't) \<Rightarrow> ('f, 't, 'e) he_config \<Rightarrow> 'f he_event list \<Rightarrow> ('f, 't, 'e) he_config \<Rightarrow> bool"
  for out :: "'f \<Rightarrow> 'e + 't" and c0 where
  he_run_nil: "he_run out c0 [] c0"
| he_run_snoc: "he_run out c0 evs c \<Longrightarrow> he_step out c ev c' \<Longrightarrow> he_run out c0 (evs @ [ev]) c'"

text \<open>The tasks that completed, in order.\<close>

definition completed :: "'f he_event list \<Rightarrow> 'f list" where
  "completed evs = concat (map (\<lambda>ev. case ev of Ev_Next (Some f) \<Rightarrow> [f] | _ \<Rightarrow> []) evs)"

lemma completed_simps [simp]:
  "completed [] = []"
  "completed (evs @ [ev]) = completed evs @ (case ev of Ev_Next (Some f) \<Rightarrow> [f] | _ \<Rightarrow> [])"
  by (simp_all add: completed_def)

section \<open>The invariant\<close>

definition failed :: "('f \<Rightarrow> 'e + 't) \<Rightarrow> 'f \<Rightarrow> bool" where
  "failed out f \<longleftrightarrow> (\<exists>e. out f = Inl e)"

definition first_error :: "('f \<Rightarrow> 'e + 't) \<Rightarrow> 'f list \<Rightarrow> 'e happy_eyeballs_error option" where
  "first_error out fs =
     (case fs of [] \<Rightarrow> None | f # _ \<Rightarrow> (case out f of Inl e \<Rightarrow> Some (HE_Error e) | Inr x \<Rightarrow> None))"

lemma first_error_append [simp]:
  "first_error out (fs @ gs) = (if fs = [] then first_error out gs else first_error out fs)"
  by (cases fs) (simp_all add: first_error_def)

lemma first_error_single [simp]:
  "first_error out [f] = (case out f of Inl e \<Rightarrow> Some (HE_Error e) | Inr x \<Rightarrow> None)"
  by (simp add: first_error_def)

lemma first_error_None: "\<forall>f \<in> set fs. failed out f \<Longrightarrow> first_error out fs = None \<longleftrightarrow> fs = []"
  by (cases fs) (auto simp: first_error_def failed_def)

text \<open>
  While the race is on: the futures are started in the order they were pushed, each one
  that was started is running or has failed, and the first failure is remembered.
\<close>

definition racing ::
  "('f \<Rightarrow> 'e + 't) \<Rightarrow> 'f list \<Rightarrow> ('f, 'e) eyeball_set \<Rightarrow> 'f list \<Rightarrow> 'f list \<Rightarrow> bool" where
  "racing out fs self waiting done \<longleftrightarrow>
     (\<exists>started. fs = started @ waiting \<and> mset started = es_tasks self + mset done)
     \<and> (\<forall>f \<in> set done. failed out f) \<and> es_error self = first_error out done"

definition he_outcome ::
  "('f \<Rightarrow> 'e + 't) \<Rightarrow> duration option \<Rightarrow> 'f list \<Rightarrow> 'f list \<Rightarrow> ('t, 'e) he_result \<Rightarrow> bool" where
  "he_outcome out tmo fs done r \<longleftrightarrow>
     (case r of
        Inr x \<Rightarrow> (\<exists>gs f. done = gs @ [f] \<and> out f = Inr x \<and> (\<forall>g \<in> set gs. failed out g))
          \<and> mset done \<subseteq># mset fs
      | Inl (HE_Error e) \<Rightarrow> mset done = mset fs \<and> (\<forall>g \<in> set fs. failed out g)
          \<and> (\<exists>f gs. done = f # gs \<and> out f = Inl e)
      | Inl NoProgress \<Rightarrow> fs = []
      | Inl (HE_Timeout d) \<Rightarrow> tmo \<noteq> None \<and> (\<forall>g \<in> set done. failed out g))"

fun he_inv ::
  "('f \<Rightarrow> 'e + 't) \<Rightarrow> duration option \<Rightarrow> 'f list \<Rightarrow> 'f list \<Rightarrow> ('f, 't, 'e) he_config \<Rightarrow> bool" where
  "he_inv out tmo fs done (self, At_Start) \<longleftrightarrow>
     es_timeout self = tmo \<and> es_queue self = fs \<and> racing out fs self fs done"
| "he_inv out tmo fs done (self, In_Queue f) \<longleftrightarrow>
     es_timeout self = tmo \<and> racing out fs self (f # es_queue self) done"
| "he_inv out tmo fs done (self, In_Drain) \<longleftrightarrow>
     es_timeout self = tmo \<and> es_queue self = [] \<and> racing out fs self [] done"
| "he_inv out tmo fs done (self, Done r) \<longleftrightarrow> he_outcome out tmo fs done r"
| "he_inv out tmo fs done (self, Panicking) \<longleftrightarrow> False"

lemma racing_start_next:
  "racing out fs self (f # waiting) done \<Longrightarrow>
     racing out fs (self\<lparr>es_tasks := add_mset f (es_tasks self)\<rparr>) waiting done"
  unfolding racing_def
proof (elim conjE exE, intro conjI)
  fix started
  assume "fs = started @ f # waiting" "mset started = es_tasks self + mset done"
  then show "\<exists>started. fs = started @ waiting \<and>
      mset started = es_tasks (self\<lparr>es_tasks := add_mset f (es_tasks self)\<rparr>) + mset done"
    by (intro exI [of _ "started @ [f]"]) simp
qed simp_all

lemma racing_queue [simp]: "racing out fs (self\<lparr>es_queue := q\<rparr>) w done = racing out fs self w done"
  and racing_started [simp]: "racing out fs (join_next_start now self) w done = racing out fs self w done"
  by (simp_all add: racing_def join_next_start_def)

lemma join_next_start_sel [simp]:
  "es_queue (join_next_start now self) = es_queue self"
  "es_timeout (join_next_start now self) = es_timeout self"
  "es_tasks (join_next_start now self) = es_tasks self"
  "es_initial_concurrency (join_next_start now self) = es_initial_concurrency self"
  "es_delay (join_next_start now self) = es_delay self"
  by (simp_all add: join_next_start_def)

lemma racing_push_initial:
  "racing out fs self (es_queue self) done \<Longrightarrow>
     racing out fs (push_initial n self) (es_queue (push_initial n self)) done
     \<and> es_timeout (push_initial n self) = es_timeout self"
proof (induction n arbitrary: self)
  case 0
  then show ?case by simp
next
  case (Suc n)
  show ?case
  proof (cases "es_queue self")
    case Nil
    with Suc show ?thesis by simp
  next
    case (Cons f q)
    with Suc.prems have "racing out fs (self\<lparr>es_queue := q, es_tasks := add_mset f (es_tasks self)\<rparr>) q done"
      using racing_start_next [of out fs "self\<lparr>es_queue := q\<rparr>" f q "done"] by simp
    with Suc.IH [of "self\<lparr>es_queue := q, es_tasks := add_mset f (es_tasks self)\<rparr>"] Cons
    show ?thesis by simp
  qed
qed

lemma he_inv_queue_head:
  "racing out fs self (es_queue self) done \<Longrightarrow> es_timeout self = tmo \<Longrightarrow>
     he_inv out tmo fs done (queue_head now self)"
  by (auto simp: queue_head_def split: list.split)

lemma racing_failed:
  assumes "racing out fs self w done" and "f \<in># es_tasks self" and "out f = Inl e"
  shows "racing out fs (snd (join_next out (Some f) self)) w (done @ [f])"
    and "fst (join_next out (Some f) self) = Eyeball_Error"
proof -
  obtain started where st: "fs = started @ w" "mset started = es_tasks self + mset done"
    and fl: "\<forall>f \<in> set done. failed out f" and er: "es_error self = first_error out done"
    using assms(1) by (auto simp: racing_def)
  have ms: "mset started = (es_tasks self - {#f#}) + mset (done @ [f])"
    using st(2) assms(2) by simp
  have "first_error out (done @ [f]) =
      (if es_error self = None then Some (HE_Error e) else es_error self)"
    using first_error_None [OF fl] assms(3) er by auto
  then show "racing out fs (snd (join_next out (Some f) self)) w (done @ [f])"
    using st(1) ms fl assms(3)
    by (auto simp: racing_def join_next_def Let_def failed_def er)
  show "fst (join_next out (Some f) self) = Eyeball_Error"
    using assms(3) by (simp add: join_next_def Let_def)
qed

lemma join_next_sel [simp]:
  "es_queue (snd (join_next out nxt self)) = es_queue self"
  "es_timeout (snd (join_next out nxt self)) = es_timeout self"
  "es_delay (snd (join_next out nxt self)) = es_delay self"
  by (auto simp: join_next_def Let_def split: option.split sum.split)

lemma racing_success:
  assumes "racing out fs self w done" and "f \<in># es_tasks self" and "out f = Inr x"
  shows "he_outcome out tmo fs (done @ [f]) (Inr x)"
    and "fst (join_next out (Some f) self) = Eyeball_Ok x"
proof -
  obtain started where st: "fs = started @ w" "mset started = es_tasks self + mset done"
    and fl: "\<forall>f \<in> set done. failed out f"
    using assms(1) by (auto simp: racing_def)
  have "mset (done @ [f]) \<subseteq># mset started"
    using st(2) assms(2) by simp
  then have "mset (done @ [f]) \<subseteq># mset fs"
    using st(1) by (metis mset_append subset_mset.add_increasing2 subset_mset.zero_le)
  with fl assms(3) show "he_outcome out tmo fs (done @ [f]) (Inr x)"
    by (simp add: he_outcome_def)
  show "fst (join_next out (Some f) self) = Eyeball_Ok x"
    using assms(3) by (simp add: join_next_def Let_def)
qed

lemma racing_exhausted:
  assumes "racing out fs self [] done" and "es_tasks self = {#}"
  shows "he_outcome out tmo fs done (case es_error self of Some e \<Rightarrow> Inl e | None \<Rightarrow> Inl NoProgress)"
proof -
  have ms: "mset fs = mset done" and fl: "\<forall>f \<in> set done. failed out f"
    and er: "es_error self = first_error out done"
    using assms by (auto simp: racing_def)
  show ?thesis
  proof (cases "done")
    case Nil
    with ms er show ?thesis by (simp add: he_outcome_def first_error_def)
  next
    case (Cons f gs)
    then obtain e where e: "out f = Inl e" using fl by (auto simp: failed_def)
    have "set fs = set done" using ms by (metis set_mset_mset)
    with Cons e er ms fl show ?thesis by (simp add: he_outcome_def first_error_def)
  qed
qed

lemma he_inv_queue_resume:
  assumes "racing out fs self (f # es_queue self) done" and "es_timeout self = tmo"
    and "case wake of Wake_Next nxt \<Rightarrow> next_task self nxt | Wake_Delay \<Rightarrow> True"
  shows "he_inv out tmo fs
    (done @ (case wake of Wake_Next (Some g) \<Rightarrow> [g] | _ \<Rightarrow> [])) (queue_resume out now wake f self)"
proof -
  have push: "he_inv out tmo fs d (queue_head now (s\<lparr>es_tasks := add_mset f (es_tasks s)\<rparr>))"
    if "racing out fs s (f # es_queue s) d" "es_timeout s = tmo" for s d
    using that racing_start_next by (intro he_inv_queue_head) simp_all
  consider g where "wake = Wake_Next (Some g)" "g \<in># es_tasks self"
    | "wake = Wake_Next None" | "wake = Wake_Delay"
    using assms(3) by (auto simp: next_task_def split: wake.splits option.splits)
  then show ?thesis
  proof cases
    case 1
    show ?thesis
    proof (cases "out g")
      case (Inl e)
      define s' where "s' = snd (join_next out (Some g) self)"
      have jn: "join_next out (Some g) self = (Eyeball_Error, s')"
        using racing_failed(2) [OF assms(1) 1(2) Inl] by (simp add: s'_def prod_eq_iff)
      have "racing out fs s' (f # es_queue s') (done @ [g])" "es_timeout s' = tmo"
        using racing_failed(1) [OF assms(1) 1(2) Inl] assms(2) by (simp_all add: s'_def)
      from push [OF this] show ?thesis
        by (simp add: queue_resume_def join_next_with_timeout_def 1(1) jn)
    next
      case (Inr x)
      with 1 show ?thesis
        using racing_success [OF assms(1) 1(2) Inr]
        by (cases "join_next out (Some g) self")
          (auto simp: queue_resume_def join_next_with_timeout_def)
    qed
  qed (use push [OF assms(1,2)] in
      \<open>simp_all add: queue_resume_def join_next_with_timeout_def join_next_def\<close>)
qed

lemma he_inv_drain_resume:
  assumes "racing out fs self [] done" and "es_queue self = []" and "es_timeout self = tmo"
    and "next_task self nxt"
  shows "he_inv out tmo fs (done @ (case nxt of Some g \<Rightarrow> [g] | None \<Rightarrow> []))
    (drain_resume out now nxt self)"
proof (cases nxt)
  case None
  then have "es_tasks self = {#}" using assms(4) by (simp add: next_task_def)
  from racing_exhausted [OF assms(1) this] None show ?thesis
    by (simp add: drain_resume_def join_next_def)
next
  case (Some g)
  then have g: "g \<in># es_tasks self" using assms(4) by (simp add: next_task_def)
  show ?thesis
  proof (cases "out g")
    case (Inl e)
    define s' where "s' = snd (join_next out (Some g) self)"
    have jn: "join_next out (Some g) self = (Eyeball_Error, s')"
      using racing_failed(2) [OF assms(1) g Inl] by (simp add: s'_def prod_eq_iff)
    have "racing out fs s' [] (done @ [g])" "es_timeout s' = tmo" "es_queue s' = []"
      using racing_failed(1) [OF assms(1) g Inl] assms(2,3) by (simp_all add: s'_def)
    then show ?thesis by (simp add: drain_resume_def Some jn)
  next
    case (Inr x)
    then show ?thesis
      using racing_success [OF assms(1) g Inr]
      by (cases "join_next out (Some g) self") (simp add: drain_resume_def Some)
  qed
qed

lemma he_inv_step:
  assumes "he_step out c ev c'" and "he_inv out tmo fs (completed evs) c"
  shows "he_inv out tmo fs (completed (evs @ [ev])) c'"
  using assms
proof (cases rule: he_step.cases)
  case (he_start self now)
  with assms(2) show ?thesis
    by (auto simp: process_start_def racing_push_initial intro!: he_inv_queue_head)
next
  case (he_queue self nxt f now)
  with assms(2) show ?thesis
    using he_inv_queue_resume [of out fs self f "completed evs" tmo "Wake_Next nxt" now] by simp
next
  case (he_delay self d f now)
  with assms(2) show ?thesis
    using he_inv_queue_resume [of out fs self f "completed evs" tmo Wake_Delay now] by simp
next
  case (he_drain self nxt now)
  with assms(2) show ?thesis
    using he_inv_drain_resume [of out fs self "completed evs" tmo nxt now] by simp
next
  case (he_timeout self d p now)
  then have "es_timeout self = tmo" "\<exists>w. racing out fs self w (completed evs)"
    using assms(2) by auto
  with he_timeout(4) have "tmo \<noteq> None" "\<forall>g \<in> set (completed evs). failed out g"
    by (auto simp: racing_def)
  with he_timeout show ?thesis by (simp add: finish_timeout_def he_outcome_def)
qed

text \<open>Awaiting the set: the future that runs \<open>finish\<close>, not started.\<close>

definition eyeball_set_into_future :: "('f, 'e) eyeball_set \<Rightarrow> ('f, 't, 'e) he_config" where
  "eyeball_set_into_future self = (self, At_Start)"

text \<open>A fresh set with the futures \<open>fs\<close> pushed, about to be finished.\<close>

definition he_initial ::
  "duration option \<Rightarrow> duration option \<Rightarrow> nat option \<Rightarrow> 'f list \<Rightarrow> ('f, 't, 'e) he_config" where
  "he_initial delay timeout concurrency fs =
     (eyeball_set_extend fs (eyeball_set_new delay timeout concurrency), At_Start)"

lemma he_inv_initial: "he_inv out tmo fs [] (he_initial delay tmo c fs)"
  by (simp add: he_initial_def eyeball_set_extend_def eyeball_set_new_def racing_def first_error_def)

lemma he_run_inv:
  "he_run out (he_initial delay tmo c fs) evs cfg \<Longrightarrow> he_inv out tmo fs (completed evs) cfg"
proof (induction rule: he_run.induct)
  case he_run_nil
  show ?case by (simp add: he_inv_initial)
next
  case (he_run_snoc evs c ev c')
  then show ?case using he_inv_step by blast
qed

text \<open>
  An instance used in examples: three futures, of which the second succeeds; one is
  started at once, the first fails, the second, started by then, succeeds.
\<close>

definition demo_out :: "nat \<Rightarrow> string + string" where
  "demo_out f = (if f = 1 then Inr ''stream'' else Inl ''refused'')"

definition demo_set :: "nat list \<Rightarrow> nat multiset \<Rightarrow> string happy_eyeballs_error option \<Rightarrow> (nat, string) eyeball_set" where
  "demo_set q ts e =
     \<lparr>es_queue = q, es_tasks = ts, es_delay = Some 5, es_timeout = Some 100, es_started = Some 0,
      es_initial_concurrency = Some 1, es_error = e\<rparr>"

lemma demo_run_queue:
  "he_run demo_out (he_initial (Some 5) (Some 100) (Some 1) [0, 1, 2])
     [Ev_Start, Ev_Next (Some 0)] (demo_set [] {#1#} (Some (HE_Error ''refused'')), In_Queue 2)"
proof -
  let ?s0 = "eyeball_set_extend [0, 1, 2] (eyeball_set_new (Some 5) (Some 100) (Some 1))"
  have 1: "process_start 0 ?s0 = (demo_set [2] {#0#} None, In_Queue 1)"
    by (simp add: process_start_def queue_head_def eyeball_set_extend_def
        eyeball_set_new_def demo_set_def join_next_start_def eval_nat_numeral)
  have 2: "queue_resume demo_out 1 (Wake_Next (Some 0)) 1 (demo_set [2] {#0#} None) =
      (demo_set [] {#1#} (Some (HE_Error ''refused'')), In_Queue 2)"
    by (simp add: queue_resume_def join_next_with_timeout_def join_next_def demo_out_def demo_set_def
        queue_head_def join_next_start_def)
  have "he_step demo_out (?s0, At_Start) Ev_Start (process_start 0 ?s0)"
    by (rule he_step.he_start)
  then have "he_run demo_out (?s0, At_Start) ([] @ [Ev_Start]) (demo_set [2] {#0#} None, In_Queue 1)"
    unfolding 1 by (rule he_run_snoc [OF he_run_nil])
  moreover have "he_step demo_out (demo_set [2] {#0#} None, In_Queue 1) (Ev_Next (Some 0))
      (queue_resume demo_out 1 (Wake_Next (Some 0)) 1 (demo_set [2] {#0#} None))"
    by (rule he_step.he_queue) (simp add: next_task_def demo_set_def)
  ultimately show ?thesis
    unfolding 2 using he_run_snoc by (fastforce simp: he_initial_def)
qed

lemma demo_run_done:
  "he_run demo_out (he_initial (Some 5) (Some 100) (Some 1) [0, 1, 2])
     [Ev_Start, Ev_Next (Some 0), Ev_Next (Some 1)]
     (demo_set [] {#} (Some (HE_Error ''refused'')), Done (Inr ''stream''))"
proof -
  have "he_step demo_out (demo_set [] {#1#} (Some (HE_Error ''refused'')), In_Queue 2) (Ev_Next (Some 1))
      (queue_resume demo_out 1 (Wake_Next (Some 1)) 2 (demo_set [] {#1#} (Some (HE_Error ''refused''))))"
    by (rule he_step.he_queue) (simp add: next_task_def demo_set_def)
  moreover have "queue_resume demo_out 1 (Wake_Next (Some 1)) 2 (demo_set [] {#1#} (Some (HE_Error ''refused''))) =
      (demo_set [] {#} (Some (HE_Error ''refused'')), Done (Inr ''stream''))"
    by (simp add: queue_resume_def join_next_with_timeout_def join_next_def demo_out_def demo_set_def)
  ultimately show ?thesis
    using he_run_snoc [OF demo_run_queue] by fastforce
qed

text \<open>
  C13: The result of the race, for every schedule. A success is the output of the first
  future that succeeded, all that completed before it having failed. An error is returned
  only when every future was started and failed, and it is the error of the first that
  did. \<open>NoProgress\<close> is returned only for an empty set, a timeout only when one was set.
\<close>

theorem happy_eyeballs_result:
  assumes "he_run out (he_initial delay tmo c fs) evs (self, Done r)"
  shows "case r of
      Inr x \<Rightarrow> (\<exists>gs f. completed evs = gs @ [f] \<and> out f = Inr x \<and> (\<forall>g \<in> set gs. failed out g))
        \<and> mset (completed evs) \<subseteq># mset fs
    | Inl (HE_Error e) \<Rightarrow> mset (completed evs) = mset fs \<and> (\<forall>g \<in> set fs. failed out g)
        \<and> (\<exists>f gs. completed evs = f # gs \<and> out f = Inl e)
    | Inl NoProgress \<Rightarrow> fs = []
    | Inl (HE_Timeout d) \<Rightarrow> tmo \<noteq> None \<and> (\<forall>g \<in> set (completed evs). failed out g)"
  using he_run_inv [OF assms] by (simp add: he_outcome_def)

theorem happy_eyeballs_result_witness:
  "\<exists>gs f. completed [Ev_Start, Ev_Next (Some 0), Ev_Next (Some 1)] = gs @ [f]
     \<and> demo_out f = Inr ''stream'' \<and> (\<forall>g \<in> set gs. failed demo_out g)"
  using happy_eyeballs_result [OF demo_run_done] by simp

text \<open>
  C14: While the race is on, the futures started so far are a prefix of the pushed ones
  (they start in order, each once), each of them is either running or has completed with
  an error, the rest is still waiting, and the panic of the final loop is never reached.
\<close>

theorem happy_eyeballs_order:
  assumes "he_run out (he_initial delay tmo c fs) evs (self, p)"
  shows "p \<noteq> Panicking
    \<and> (case p of
         Done r \<Rightarrow> True
       | _ \<Rightarrow> \<exists>started.
           fs = started @ (case p of In_Queue f \<Rightarrow> [f] | _ \<Rightarrow> []) @ es_queue self
           \<and> mset started = es_tasks self + mset (completed evs)
           \<and> (\<forall>f \<in> set (completed evs). failed out f))"
  using he_run_inv [OF assms] by (cases p) (auto simp: racing_def)

theorem happy_eyeballs_order_witness:
  "\<exists>started. [0, 1, 2] = started @ [2]
     \<and> mset started = {#1#} + mset (completed [Ev_Start, Ev_Next (Some (0::nat))])"
  using happy_eyeballs_order [OF demo_run_queue] by (auto simp: demo_set_def)

section \<open>Termination\<close>

text \<open>Every step but the first uses up a future waiting, a running task, or ends the race.\<close>

fun he_measure :: "('f, 't, 'e) he_config \<Rightarrow> nat" where
  "he_measure (self, At_Start) = 2 * length (es_queue self) + size (es_tasks self) + 2"
| "he_measure (self, In_Queue f) = 2 * (length (es_queue self) + 1) + size (es_tasks self) + 1"
| "he_measure (self, In_Drain) = size (es_tasks self) + 1"
| "he_measure (self, Done r) = 0"
| "he_measure (self, Panicking) = 0"

lemma he_measure_queue_head:
  "he_measure (queue_head now self) = 2 * length (es_queue self) + size (es_tasks self) + 1"
  by (cases "es_queue self") (simp_all add: queue_head_def)

lemma push_initial_size:
  "2 * length (es_queue (push_initial n self)) + size (es_tasks (push_initial n self))
     \<le> 2 * length (es_queue self) + size (es_tasks self)"
proof (induction n arbitrary: self)
  case 0
  then show ?case by simp
next
  case (Suc n)
  show ?case
  proof (cases "es_queue self")
    case Nil
    with Suc.IH [of self] show ?thesis by simp
  next
    case (Cons f q)
    with Suc.IH [of "self\<lparr>es_queue := q, es_tasks := add_mset f (es_tasks self)\<rparr>"]
    show ?thesis by simp
  qed
qed

lemma join_next_tasks:
  "next_task self nxt \<Longrightarrow>
     es_tasks (snd (join_next out nxt self)) =
       (case nxt of Some f \<Rightarrow> es_tasks self - {#f#} | None \<Rightarrow> es_tasks self)"
  by (auto simp: join_next_def Let_def split: option.split sum.split)

lemma join_next_tasks_le:
  "next_task self nxt \<Longrightarrow> size (es_tasks (snd (join_next out nxt self))) \<le> size (es_tasks self)"
  by (auto simp: join_next_tasks next_task_def size_Diff_singleton_if split: option.split)

lemma join_next_with_timeout_le:
  assumes "case wake of Wake_Next nxt \<Rightarrow> next_task self nxt | Wake_Delay \<Rightarrow> True"
    and "join_next_with_timeout out wake self = (e, self')"
  shows "es_queue self' = es_queue self \<and> size (es_tasks self') \<le> size (es_tasks self)"
proof (cases wake)
  case (Wake_Next nxt)
  with assms have "self' = snd (join_next out nxt self)" "next_task self nxt"
    by (simp_all add: join_next_with_timeout_def)
  then show ?thesis using join_next_tasks_le by simp
next
  case Wake_Delay
  with assms show ?thesis by (simp add: join_next_with_timeout_def)
qed

lemma queue_resume_measure:
  assumes "case wake of Wake_Next nxt \<Rightarrow> next_task self nxt | Wake_Delay \<Rightarrow> True"
  shows "he_measure (queue_resume out now wake f self) < he_measure (self, In_Queue f)"
proof -
  obtain e self' where j: "join_next_with_timeout out wake self = (e, self')"
    by (cases "join_next_with_timeout out wake self") auto
  have "es_queue self' = es_queue self" "size (es_tasks self') \<le> size (es_tasks self)"
    using join_next_with_timeout_le [OF assms j] by simp_all
  then show ?thesis
    by (cases e) (simp_all add: queue_resume_def j he_measure_queue_head)
qed

lemma drain_resume_measure:
  assumes "next_task self nxt"
  shows "he_measure (drain_resume out now nxt self) < he_measure (self, In_Drain)"
proof (cases nxt)
  case None
  then show ?thesis by (simp add: drain_resume_def join_next_def)
next
  case (Some f)
  then have "size (es_tasks self - {#f#}) < size (es_tasks self)"
    using assms by (intro size_Diff1_less) (simp add: next_task_def)
  with Some show ?thesis
    by (simp add: drain_resume_def join_next_def Let_def split: sum.split)
qed

lemma he_step_measure: "he_step out c ev c' \<Longrightarrow> he_measure c' < he_measure c"
proof (induction rule: he_step.induct)
  case (he_start self now)
  show ?case
    using push_initial_size [of "case es_initial_concurrency self of Some c \<Rightarrow> c | None \<Rightarrow> length (es_queue self)" self]
    by (simp add: process_start_def he_measure_queue_head)
next
  case (he_queue self nxt f now)
  then show ?case using queue_resume_measure [where wake = "Wake_Next nxt" and self = self] by simp
next
  case (he_delay self d f now)
  then show ?case using queue_resume_measure [where wake = Wake_Delay and self = self] by simp
next
  case (he_drain self nxt now)
  then show ?case by (rule drain_resume_measure)
next
  case (he_timeout self d p now)
  then show ?case by (auto simp: finish_timeout_def)
qed

lemma he_run_measure: "he_run out c0 evs c \<Longrightarrow> length evs + he_measure c \<le> he_measure c0"
proof (induction rule: he_run.induct)
  case he_run_nil
  then show ?case by simp
next
  case (he_run_snoc evs c ev c')
  then show ?case using he_step_measure [of out c ev c'] by simp
qed

lemma he_progress:
  assumes "p \<noteq> Panicking" and "\<And>r. p \<noteq> Done r"
  shows "\<exists>ev c'. he_step out (self, p) ev c' \<and> ev \<noteq> Ev_Delay \<and> ev \<noteq> Ev_Timeout"
proof -
  have "\<exists>nxt. next_task self nxt"
  proof (cases "es_tasks self = {#}")
    case True
    then show ?thesis by (intro exI [of _ None]) (simp add: next_task_def)
  next
    case False
    then obtain f where "f \<in># es_tasks self" by auto
    then show ?thesis by (intro exI [of _ "Some f"]) (simp add: next_task_def)
  qed
  then obtain nxt where "next_task self nxt" ..
  with assms show ?thesis
    by (cases p) (blast intro: he_start he_queue he_drain)+
qed

text \<open>
  C15: The race ends. On a set of \<open>n\<close> futures every run has at most \<open>2 n + 2\<close> steps, and
  until there is a result a next step is possible: the completion of a running task or the
  observation that none is left.
\<close>

theorem happy_eyeballs_terminates:
  assumes "he_run out (he_initial delay tmo c fs) evs (self, p)"
  shows "length evs \<le> 2 * length fs + 2
    \<and> ((\<exists>r. p = Done r) \<or> (\<exists>ev c'. he_step out (self, p) ev c' \<and> ev \<noteq> Ev_Delay \<and> ev \<noteq> Ev_Timeout))"
proof
  show "length evs \<le> 2 * length fs + 2"
    using he_run_measure [OF assms]
    by (simp add: he_initial_def eyeball_set_extend_def eyeball_set_new_def)
  have "p \<noteq> Panicking" using he_run_inv [OF assms] by auto
  then show "(\<exists>r. p = Done r) \<or> (\<exists>ev c'. he_step out (self, p) ev c' \<and> ev \<noteq> Ev_Delay \<and> ev \<noteq> Ev_Timeout)"
    using he_progress [of p out self] by blast
qed

theorem happy_eyeballs_terminates_witness:
  "\<exists>ev c'. he_step demo_out (demo_set [] {#1#} (Some (HE_Error ''refused'')), In_Queue 2) ev c'
     \<and> ev \<noteq> Ev_Delay \<and> ev \<noteq> Ev_Timeout"
  using happy_eyeballs_terminates [OF demo_run_queue] by auto

section \<open>Concurrency\<close>

definition delays :: "'f he_event list \<Rightarrow> nat" where
  "delays evs = length (filter (\<lambda>ev. ev = Ev_Delay) evs)"

lemma queue_head_sel [simp]:
  "es_tasks (fst (queue_head now self)) = es_tasks self"
  "es_initial_concurrency (fst (queue_head now self)) = es_initial_concurrency self"
  by (simp_all add: queue_head_def split: list.split)

lemma push_initial_tasks: "size (es_tasks (push_initial n self)) \<le> size (es_tasks self) + n"
proof (induction n arbitrary: self)
  case 0
  then show ?case by simp
next
  case (Suc n)
  show ?case
  proof (cases "es_queue self")
    case Nil
    with Suc.IH [of self] show ?thesis by simp
  next
    case (Cons f q)
    with Suc.IH [of "self\<lparr>es_queue := q, es_tasks := add_mset f (es_tasks self)\<rparr>"]
    show ?thesis by simp
  qed
qed

lemma push_initial_all:
  "length (es_queue self) \<le> n \<Longrightarrow> es_queue (push_initial n self) = []"
proof (induction n arbitrary: self)
  case 0
  then show ?case by simp
next
  case (Suc n)
  show ?case
  proof (cases "es_queue self")
    case Nil
    with Suc.IH [of self] show ?thesis by simp
  next
    case (Cons f q)
    with Suc.prems Suc.IH [of "self\<lparr>es_queue := q, es_tasks := add_mset f (es_tasks self)\<rparr>"]
    show ?thesis by simp
  qed
qed

text \<open>How many tasks a step can add: one, when the delay elapsed or none was running.\<close>

lemma queue_resume_tasks:
  assumes "case wake of Wake_Next nxt \<Rightarrow> next_task self nxt | Wake_Delay \<Rightarrow> True"
  shows "size (es_tasks (fst (queue_resume out now wake f self)))
    \<le> (case wake of Wake_Delay \<Rightarrow> Suc (size (es_tasks self)) | _ \<Rightarrow> max 1 (size (es_tasks self)))"
proof (cases wake)
  case Wake_Delay
  then show ?thesis by (simp add: queue_resume_def join_next_with_timeout_def)
next
  case (Wake_Next nxt)
  show ?thesis
  proof (cases nxt)
    case None
    with Wake_Next assms show ?thesis
      by (simp add: queue_resume_def join_next_with_timeout_def join_next_def next_task_def)
  next
    case (Some g)
    with Wake_Next assms have "size (es_tasks self - {#g#}) < size (es_tasks self)"
      by (intro size_Diff1_less) (simp add: next_task_def)
    with Wake_Next Some show ?thesis
      by (simp add: queue_resume_def join_next_with_timeout_def join_next_def Let_def split: sum.split)
  qed
qed

lemma drain_resume_tasks:
  "next_task self nxt \<Longrightarrow> size (es_tasks (fst (drain_resume out now nxt self))) \<le> size (es_tasks self)"
  by (auto simp: drain_resume_def join_next_def Let_def next_task_def size_Diff_singleton_if
      split: option.split sum.split)

lemma he_step_tasks:
  assumes "he_step out c ev c'" and "size (es_tasks (fst c)) \<le> max 1 k + d"
    and "snd c = At_Start \<Longrightarrow> es_initial_concurrency (fst c) = Some k \<and> es_tasks (fst c) = {#}"
  shows "size (es_tasks (fst c')) \<le> max 1 k + d + (if ev = Ev_Delay then 1 else 0)"
  using assms
proof (cases rule: he_step.cases)
  case (he_start self now)
  with assms(3) show ?thesis
    using push_initial_tasks [of k self] by (simp add: process_start_def)
next
  case (he_queue self nxt f now)
  with assms(2) show ?thesis
    using queue_resume_tasks [where wake = "Wake_Next nxt" and self = self and out = out and now = now and f = f]
    by simp
next
  case (he_delay self dl f now)
  with assms(2) show ?thesis
    using queue_resume_tasks [where wake = Wake_Delay and self = self and out = out and now = now and f = f]
    by simp
next
  case (he_drain self nxt now)
  with assms(2) show ?thesis
    using drain_resume_tasks [of self nxt out now] by simp
next
  case (he_timeout self dl p now)
  with assms(2) show ?thesis by (simp add: finish_timeout_def)
qed

lemma he_step_not_start: "he_step out c ev c' \<Longrightarrow> snd c' \<noteq> At_Start"
  by (induction rule: he_step.induct)
    (auto simp: process_start_def queue_head_def queue_resume_def drain_resume_def finish_timeout_def
      split: list.splits prod.splits eyeball.splits)

lemma he_run_tasks:
  "he_run out (he_initial delay tmo (Some k) fs) evs c \<Longrightarrow>
     size (es_tasks (fst c)) \<le> max 1 k + delays evs
     \<and> (snd c = At_Start \<longrightarrow> es_initial_concurrency (fst c) = Some k \<and> es_tasks (fst c) = {#})"
proof (induction rule: he_run.induct)
  case he_run_nil
  then show ?case
    by (simp add: he_initial_def eyeball_set_extend_def eyeball_set_new_def delays_def)
next
  case (he_run_snoc evs c ev c')
  then show ?case
    using he_step_tasks [of out c ev c' k "delays evs"] he_step_not_start [of out c ev c']
    by (auto simp: delays_def split: if_splits)
qed

lemma drain_resume_stays:
  "es_queue (fst (drain_resume out now nxt self)) = es_queue self"
  "snd (drain_resume out now nxt self) \<noteq> In_Queue f"
  "snd (drain_resume out now nxt self) \<noteq> At_Start"
  by (auto simp: drain_resume_def join_next_def Let_def split: option.split sum.split)

lemma he_run_unbounded:
  "he_run out (he_initial delay tmo None fs) evs c \<Longrightarrow>
     (if evs = [] then c = he_initial delay tmo None fs
      else es_queue (fst c) = [] \<and> (\<forall>f. snd c \<noteq> In_Queue f) \<and> snd c \<noteq> At_Start)"
proof (induction rule: he_run.induct)
  case he_run_nil
  then show ?case by simp
next
  case (he_run_snoc evs c ev c')
  show ?case
  proof (cases "evs = []")
    case True
    define s0 where "s0 = fst c"
    have s0: "c = (s0, At_Start)" "es_queue s0 = fs" "es_initial_concurrency s0 = None"
      using True he_run_snoc.IH
      by (simp_all add: s0_def he_initial_def eyeball_set_extend_def eyeball_set_new_def)
    then obtain now where "c' = process_start now s0"
      using he_run_snoc.hyps(2) by (auto elim!: he_step_startE)
    then show ?thesis
      using push_initial_all [of s0 "length fs"] s0
      by (simp add: process_start_def queue_head_def)
  next
    case False
    with he_run_snoc have q: "es_queue (fst c) = []" "\<forall>f. snd c \<noteq> In_Queue f" "snd c \<noteq> At_Start"
      by auto
    from he_run_snoc(2) show ?thesis
      using q by (cases rule: he_step.cases) (auto simp: drain_resume_stays finish_timeout_def)
  qed
qed

text \<open>
  C16: How many attempts run at the same time. With an initial concurrency of \<open>k\<close> there
  are never more than \<open>max 1 k\<close> running tasks plus one for each time the delay elapsed.
  Without one, all futures are started at once, whatever the delay.
\<close>

theorem happy_eyeballs_concurrency:
  assumes "he_run out (he_initial delay tmo c fs) evs (self, p)"
  shows "case c of
      Some k \<Rightarrow> size (es_tasks self) \<le> max 1 k + delays evs
    | None \<Rightarrow> if evs = [] then es_queue self = fs else es_queue self = [] \<and> (\<forall>f. p \<noteq> In_Queue f)"
  using assms he_run_tasks [of out delay tmo _ fs evs "(self, p)"]
    he_run_unbounded [of out delay tmo fs evs "(self, p)"]
  by (auto simp: he_initial_def eyeball_set_extend_def eyeball_set_new_def split: option.split)

theorem happy_eyeballs_concurrency_witness:
  "size (es_tasks (demo_set [] {#1#} (Some (HE_Error ''refused'')))) \<le>
     max 1 1 + delays [Ev_Start, Ev_Next (Some (0::nat))]"
  using happy_eyeballs_concurrency [OF demo_run_queue] by simp

end
