(* ===== verification/Client_Conn.thy ===== *)
theory Client_Conn
  imports Byte_Io Http_Types
begin

text \<open>
  Client connections: the HTTP/1, HTTP/2 and automatic connections
  (\<open>src/client/conn/connection.rs\<close>, \<open>src/client/conn/protocol/mod.rs\<close> and \<open>auto.rs\<close>) and
  the handshakes that make them. Hyper's \<open>SendRequest\<close> and its handshake are parameters.
  The locale \<open>poolable_connection\<close> is what the connection pool relies on; the three
  connection types satisfy it.
\<close>

section \<open>What the pool relies on\<close>

text \<open>
  The operations of chateau's \<open>Connection\<close> and \<open>PoolableConnection\<close> and of the crate's
  \<open>HttpConnectionInfo\<close>.
\<close>

record ('c, 'r, 'f, 'e, 'w) connection =
  cn_send_request :: "'c \<Rightarrow> 'r \<Rightarrow> 'w \<Rightarrow> 'f \<times> 'c \<times> 'w"
  cn_poll_ready :: "'c \<Rightarrow> 'w \<Rightarrow> ('e + unit) polled \<times> 'c \<times> 'w"
  cn_is_open :: "'c \<Rightarrow> 'w \<Rightarrow> bool"
  cn_can_share :: "'c \<Rightarrow> bool"
  cn_reuse :: "'c \<Rightarrow> 'c option"
  cn_version :: "'c \<Rightarrow> http_protocol"

text \<open>A connection taken out of the pool again and again.\<close>

fun reuse_times :: "('c, 'r, 'f, 'e, 'w) connection \<Rightarrow> nat \<Rightarrow> 'c \<Rightarrow> 'c option" where
  "reuse_times C 0 c = Some c"
| "reuse_times C (Suc n) c = Option.bind (cn_reuse C c) (reuse_times C n)"

locale poolable_connection =
  fixes C :: "('c, 'r, 'f, 'e, 'w) connection"
  assumes share_multiplex: "cn_can_share C c \<longleftrightarrow> protocol_multiplex (cn_version C c)"
    and reuse_shared: "cn_reuse C c \<noteq> None \<longleftrightarrow> cn_can_share C c"
    and reuse_version: "cn_reuse C c = Some c' \<Longrightarrow> cn_version C c' = cn_version C c"
begin

lemma reuse_times_shared:
  "cn_can_share C c \<Longrightarrow> \<exists>c'. reuse_times C n c = Some c' \<and> cn_version C c' = cn_version C c"
proof (induction n arbitrary: c)
  case 0
  then show ?case by simp
next
  case (Suc n)
  then obtain c1 where c1: "cn_reuse C c = Some c1" using reuse_shared by blast
  then have "cn_version C c1 = cn_version C c" by (rule reuse_version)
  with Suc.prems have "cn_can_share C c1" by (simp add: share_multiplex)
  with Suc.IH c1 \<open>cn_version C c1 = cn_version C c\<close> show ?case by fastforce
qed

lemma exclusive_iff: "cn_reuse C c = None \<longleftrightarrow> \<not> protocol_multiplex (cn_version C c)"
  using reuse_shared share_multiplex by blast

end

section \<open>Sending requests\<close>

text \<open>Hyper's \<open>SendRequest\<close>: \<open>is_ready\<close> looks at state shared with the connection task.\<close>

record ('s, 'r, 'f, 'e, 'w) sender_api =
  snd_send :: "'s \<Rightarrow> 'r \<Rightarrow> 'w \<Rightarrow> 'f \<times> 's \<times> 'w"
  snd_poll_ready :: "'s \<Rightarrow> 'w \<Rightarrow> ('e + unit) polled \<times> 's \<times> 'w"
  snd_is_ready :: "'s \<Rightarrow> 'w \<Rightarrow> bool"
  snd_clone :: "'s \<Rightarrow> 's"

record 'f send_request_future = srf_inner :: 'f

definition send_request_future_new :: "'f \<Rightarrow> 'f send_request_future" where
  "send_request_future_new future = \<lparr>srf_inner = future\<rparr>"

text \<open>The poll logs an error and its sources, and returns it unchanged.\<close>

definition send_request_future_poll :: "('f, 'e + 'a, 'w) pollf \<Rightarrow> ('f send_request_future, 'e + 'a, 'w) pollf" where
  "send_request_future_poll p self w = lift_res (\<lambda>f. self\<lparr>srf_inner := f\<rparr>) (p (srf_inner self) w)"

interpretation send_request_future:
  future_wrapper p "send_request_future_poll p" send_request_future_new id for p
  by unfold_locales (simp add: send_request_future_poll_def send_request_future_new_def lift_res_def split: prod.split)

section \<open>HTTP/1 and HTTP/2 connections\<close>

record 's http1_conn = h1_sender :: 's

definition http1_conn_new :: "'s \<Rightarrow> 's http1_conn" where
  "http1_conn_new send_request = \<lparr>h1_sender = send_request\<rparr>"

definition http1_conn_ops ::
  "('s, ('u, 'h, 'x, 'b) request, 'f, 'e, 'w) sender_api \<Rightarrow>
     ('s http1_conn, ('u, 'h, 'x, 'b) request, 'f send_request_future, 'e, 'w) connection" where
  "http1_conn_ops S1 =
     \<lparr>cn_send_request = (\<lambda>self request w.
        map_res send_request_future_new
          (lift_res (\<lambda>s. self\<lparr>h1_sender := s\<rparr>) (snd_send S1 (h1_sender self) (request\<lparr>rq_version := HTTP_11\<rparr>) w))),
      cn_poll_ready = (\<lambda>self w. lift_res (\<lambda>s. self\<lparr>h1_sender := s\<rparr>) (snd_poll_ready S1 (h1_sender self) w)),
      cn_is_open = (\<lambda>self w. snd_is_ready S1 (h1_sender self) w),
      cn_can_share = (\<lambda>c. False),
      cn_reuse = (\<lambda>c. None),
      cn_version = (\<lambda>c. Http1)\<rparr>"

record 's http2_conn = h2_sender :: 's

definition http2_conn_new :: "'s \<Rightarrow> 's http2_conn" where
  "http2_conn_new send_request = \<lparr>h2_sender = send_request\<rparr>"

definition http2_conn_ops ::
  "('s, ('u, 'h, 'x, 'b) request, 'f, 'e, 'w) sender_api \<Rightarrow>
     ('s http2_conn, ('u, 'h, 'x, 'b) request, 'f send_request_future, 'e, 'w) connection" where
  "http2_conn_ops S2 =
     \<lparr>cn_send_request = (\<lambda>self request w.
        map_res send_request_future_new (lift_res (\<lambda>s. self\<lparr>h2_sender := s\<rparr>) (snd_send S2 (h2_sender self) request w))),
      cn_poll_ready = (\<lambda>self w. lift_res (\<lambda>s. self\<lparr>h2_sender := s\<rparr>) (snd_poll_ready S2 (h2_sender self) w)),
      cn_is_open = (\<lambda>self w. snd_is_ready S2 (h2_sender self) w),
      cn_can_share = (\<lambda>c. True),
      cn_reuse = (\<lambda>self. Some \<lparr>h2_sender = snd_clone S2 (h2_sender self)\<rparr>),
      cn_version = (\<lambda>c. Http2)\<rparr>"

section \<open>The automatic connection\<close>

datatype ('s1, 's2) http_connection = Inner_H2 's2 | Inner_H1 's1

definition http_connection_h1 :: "'s1 \<Rightarrow> ('s1, 's2) http_connection" where
  "http_connection_h1 conn = Inner_H1 conn"

definition http_connection_h2 :: "'s2 \<Rightarrow> ('s1, 's2) http_connection" where
  "http_connection_h2 conn = Inner_H2 conn"

definition http_connection_version :: "('s1, 's2) http_connection \<Rightarrow> http_protocol" where
  "http_connection_version self = (case self of Inner_H1 _ \<Rightarrow> Http1 | Inner_H2 _ \<Rightarrow> Http2)"

definition http_connection_send_request ::
  "('s1, ('u, 'h, 'x, 'b) request, 'f, 'e, 'w) sender_api \<Rightarrow>
     ('s2, ('u, 'h, 'x, 'b) request, 'f, 'e, 'w) sender_api \<Rightarrow>
     ('s1, 's2) http_connection \<Rightarrow> ('u, 'h, 'x, 'b) request \<Rightarrow> 'w \<Rightarrow>
     'f send_request_future \<times> ('s1, 's2) http_connection \<times> 'w" where
  "http_connection_send_request S1 S2 self request w =
     (case self of
        Inner_H2 conn \<Rightarrow>
          map_res send_request_future_new
            (lift_res Inner_H2 (snd_send S2 conn (request\<lparr>rq_version := HTTP_2\<rparr>) w))
      | Inner_H1 conn \<Rightarrow>
          map_res send_request_future_new
            (lift_res Inner_H1 (snd_send S1 conn (request\<lparr>rq_version := HTTP_11\<rparr>) w)))"

definition http_connection_poll_ready ::
  "('s1, 'r, 'f, 'e, 'w) sender_api \<Rightarrow> ('s2, 'r, 'f, 'e, 'w) sender_api \<Rightarrow>
     ('s1, 's2) http_connection \<Rightarrow> 'w \<Rightarrow> ('e + unit) polled \<times> ('s1, 's2) http_connection \<times> 'w" where
  "http_connection_poll_ready S1 S2 self w =
     (case self of
        Inner_H2 conn \<Rightarrow> lift_res Inner_H2 (snd_poll_ready S2 conn w)
      | Inner_H1 conn \<Rightarrow> lift_res Inner_H1 (snd_poll_ready S1 conn w))"

definition http_connection_ops ::
  "('s1, ('u, 'h, 'x, 'b) request, 'f, 'e, 'w) sender_api \<Rightarrow>
     ('s2, ('u, 'h, 'x, 'b) request, 'f, 'e, 'w) sender_api \<Rightarrow>
     (('s1, 's2) http_connection, ('u, 'h, 'x, 'b) request, 'f send_request_future, 'e, 'w) connection" where
  "http_connection_ops S1 S2 =
     \<lparr>cn_send_request = http_connection_send_request S1 S2,
      cn_poll_ready = http_connection_poll_ready S1 S2,
      cn_is_open = (\<lambda>self w.
        case self of Inner_H2 conn \<Rightarrow> snd_is_ready S2 conn w | Inner_H1 conn \<Rightarrow> snd_is_ready S1 conn w),
      cn_can_share = (\<lambda>self. case self of Inner_H2 _ \<Rightarrow> True | Inner_H1 _ \<Rightarrow> False),
      cn_reuse = (\<lambda>self.
        case self of Inner_H2 conn \<Rightarrow> Some (Inner_H2 (snd_clone S2 conn)) | Inner_H1 _ \<Rightarrow> None),
      cn_version = http_connection_version\<rparr>"

interpretation http1_pool: poolable_connection "http1_conn_ops S1" for S1
  by unfold_locales (simp_all add: http1_conn_ops_def protocol_multiplex_def)

interpretation http2_pool: poolable_connection "http2_conn_ops S2" for S2
  by unfold_locales (auto simp: http2_conn_ops_def protocol_multiplex_def)

interpretation http_pool: poolable_connection "http_connection_ops S1 S2" for S1 S2
  by unfold_locales
    (auto simp: http_connection_ops_def protocol_multiplex_def http_connection_version_def
      split: http_connection.split http_connection.splits)

text \<open>
  Sharing connections. An HTTP/1 connection is never given out for reuse while it is
  held; a multiplexing connection can be reused any number of times, each time giving a
  connection of the same version.
\<close>

theorem http_connection_sharing:
  "(case c of
      Inner_H1 _ \<Rightarrow> cn_reuse (http_connection_ops S1 S2) c = None
    | Inner_H2 _ \<Rightarrow>
        (\<exists>c'. reuse_times (http_connection_ops S1 S2) n c = Some c' \<and> http_connection_version c' = Http2))
   \<and> cn_can_share (http_connection_ops S1 S2) c = (http_connection_version c = Http2)
   \<and> cn_reuse (http1_conn_ops T1) c1 = None
   \<and> (\<exists>c'. reuse_times (http2_conn_ops T2) n c2 = Some c')"
proof -
  have v: "cn_version (http_connection_ops S1 S2) = http_connection_version"
    by (simp add: http_connection_ops_def)
  have "\<exists>c'. reuse_times (http_connection_ops S1 S2) n (Inner_H2 s) = Some c' \<and> http_connection_version c' = Http2"
    for s
    using http_pool.reuse_times_shared [of S1 S2 "Inner_H2 s" n] http_pool.share_multiplex [of S1 S2 "Inner_H2 s"]
    by (simp add: v protocol_multiplex_def http_connection_version_def)
  moreover have "cn_reuse (http_connection_ops S1 S2) (Inner_H1 s) = None" for s
    using http_pool.exclusive_iff [of S1 S2 "Inner_H1 s"]
    by (simp add: v protocol_multiplex_def http_connection_version_def)
  moreover have "cn_can_share (http_connection_ops S1 S2) c = (http_connection_version c = Http2)"
    using http_pool.share_multiplex [of S1 S2 c]
    by (simp add: v protocol_multiplex_def split: http_protocol.split)
  moreover have "cn_reuse (http1_conn_ops T1) c1 = None" by (simp add: http1_conn_ops_def)
  moreover have "\<exists>c'. reuse_times (http2_conn_ops T2) n c2 = Some c'"
    using http2_pool.reuse_times_shared [of T2 c2 n] by (auto simp: http2_conn_ops_def)
  ultimately show ?thesis by (cases c) simp_all
qed

text \<open>
  The version of a request on the wire. Whatever version the caller set, an HTTP/1
  connection sends the request as HTTP/1.1 and an automatic connection as its own
  version; the rest of the request is unchanged. A plain HTTP/2 connection leaves the
  request as it is.
\<close>

theorem request_version_sent:
  "fst (cn_send_request (http_connection_ops S1 S2) c r w) =
     send_request_future_new
       (case c of
          Inner_H1 s \<Rightarrow> fst (snd_send S1 s (r\<lparr>rq_version := HTTP_11\<rparr>) w)
        | Inner_H2 s \<Rightarrow> fst (snd_send S2 s (r\<lparr>rq_version := HTTP_2\<rparr>) w))
   \<and> protocol_version (cn_version (http_connection_ops S1 S2) c) =
       (case c of Inner_H1 s \<Rightarrow> HTTP_11 | Inner_H2 s \<Rightarrow> HTTP_2)
   \<and> fst (cn_send_request (http1_conn_ops S1) \<lparr>h1_sender = s1\<rparr> r w) =
       send_request_future_new (fst (snd_send S1 s1 (r\<lparr>rq_version := HTTP_11\<rparr>) w))
   \<and> fst (cn_send_request (http2_conn_ops S2) \<lparr>h2_sender = s2\<rparr> r w) =
       send_request_future_new (fst (snd_send S2 s2 r w))"
  by (simp add: http_connection_ops_def http_connection_send_request_def http_connection_version_def
      http1_conn_ops_def http2_conn_ops_def split: http_connection.split)

section \<open>Handshakes\<close>

text \<open>
  Hyper's client builder for one protocol: its handshake on a stream, the poll of the
  handshake, which gives the sender and the connection to be driven, and for HTTP/1 the
  connection with upgrades. \<open>spawn\<close> is \<open>tokio::spawn\<close> of the task that drives a
  connection and logs its error.
\<close>

record ('b, 'io, 'hf, 'cn) hyper_client =
  hc_builder_new :: 'b
  hc_handshake :: "'b \<Rightarrow> 'io \<Rightarrow> 'hf"
  hc_with_upgrades :: "'cn \<Rightarrow> 'cn"

text \<open>The async block that performs the handshake, and what it is suspended at.\<close>

datatype ('b, 'io, 'hf) handshake_future = Hs_Start 'b 'io | Hs_Wait 'hf | Hs_Done

definition handshake_await ::
  "('hf, 'e + 's \<times> 'cn, 'w) pollf \<Rightarrow> ('cn \<Rightarrow> 'w \<Rightarrow> 'w) \<Rightarrow> ('s \<Rightarrow> 'c) \<Rightarrow> 'hf \<Rightarrow> 'w \<Rightarrow>
     ('e + 'c) polled \<times> ('b, 'io, 'hf) handshake_future \<times> 'w" where
  "handshake_await p spawn mk hf w =
     (case p hf w of
        (Ready (Inr (sender, conn)), hf', w') \<Rightarrow> (Ready (Inr (mk sender)), Hs_Done, spawn conn w')
      | (Ready (Inl e), hf', w') \<Rightarrow> (Ready (Inl e), Hs_Done, w')
      | (Pending, hf', w') \<Rightarrow> (Pending, Hs_Wait hf', w')
      | (Panicked, hf', w') \<Rightarrow> (Panicked, Hs_Done, w'))"

definition handshake_poll ::
  "('b, 'io tokio_io, 'hf, 'cn) hyper_client \<Rightarrow> ('hf, 'e + 's \<times> 'cn, 'w) pollf \<Rightarrow>
     ('cn \<Rightarrow> 'w \<Rightarrow> 'w) \<Rightarrow> ('s \<Rightarrow> 'c) \<Rightarrow> (('b, 'io, 'hf) handshake_future, 'e + 'c, 'w) pollf" where
  "handshake_poll H p spawn mk self w =
     (case self of
        Hs_Start builder io \<Rightarrow> handshake_await p spawn mk (hc_handshake H builder (tokio_io_new io)) w
      | Hs_Wait hf \<Rightarrow> handshake_await p spawn mk hf w
      | Hs_Done \<Rightarrow> (Panicked, Hs_Done, w))"

record ('b, 'io, 'hf) http_protocol_future = hpf_inner :: "('b, 'io, 'hf) handshake_future"

definition http_protocol_future_poll ::
  "(('b, 'io, 'hf) handshake_future, 'e + 'c, 'w) pollf \<Rightarrow>
     (('b, 'io, 'hf) http_protocol_future, 'e + 'c, 'w) pollf" where
  "http_protocol_future_poll p self w = lift_res (\<lambda>f. self\<lparr>hpf_inner := f\<rparr>) (p (hpf_inner self) w)"

interpretation http_protocol_future:
  future_wrapper p "http_protocol_future_poll p" "\<lambda>f. \<lparr>hpf_inner = f\<rparr>" id for p
  by unfold_locales (simp add: http_protocol_future_poll_def)

subsection \<open>The single-protocol builders\<close>

record 'b client_http1_builder = ch1_builder :: 'b

definition client_http1_builder_new ::
  "('b, 'io, 'hf, 'cn) hyper_client \<Rightarrow> 'b client_http1_builder" where
  "client_http1_builder_new H = \<lparr>ch1_builder = hc_builder_new H\<rparr>"

definition client_http1_builder_from :: "'b \<Rightarrow> 'b client_http1_builder" where
  "client_http1_builder_from value = \<lparr>ch1_builder = value\<rparr>"

definition client_http1_builder_default ::
  "('b, 'io, 'hf, 'cn) hyper_client \<Rightarrow> 'b client_http1_builder" where
  "client_http1_builder_default H = \<lparr>ch1_builder = hc_builder_new H\<rparr>"

definition client_http1_builder_clone :: "('b \<Rightarrow> 'b) \<Rightarrow> 'b client_http1_builder \<Rightarrow> 'b client_http1_builder" where
  "client_http1_builder_clone clone self = \<lparr>ch1_builder = clone (ch1_builder self)\<rparr>"

definition client_http1_builder_deref :: "'b client_http1_builder \<Rightarrow> 'b" where
  "client_http1_builder_deref self = ch1_builder self"

definition client_http1_builder_deref_mut :: "('b \<Rightarrow> 'b) \<Rightarrow> 'b client_http1_builder \<Rightarrow> 'b client_http1_builder" where
  "client_http1_builder_deref_mut f self = self\<lparr>ch1_builder := f (ch1_builder self)\<rparr>"

definition client_http1_multiplex :: "'b client_http1_builder \<Rightarrow> bool" where
  "client_http1_multiplex self = False"

definition client_http1_multiplex_ready :: "'b client_http1_builder \<Rightarrow> 'io \<Rightarrow> bool" where
  "client_http1_multiplex_ready self io = False"

text \<open>The builder is replaced by its clone; the original goes into the future.\<close>

definition client_http1_call ::
  "('b \<Rightarrow> 'b) \<Rightarrow> 'b client_http1_builder \<Rightarrow> 'io \<Rightarrow>
     ('b, 'io, 'hf) http_protocol_future \<times> 'b client_http1_builder" where
  "client_http1_call clone self req =
     (\<lparr>hpf_inner = Hs_Start (ch1_builder self) req\<rparr>, \<lparr>ch1_builder = clone (ch1_builder self)\<rparr>)"

definition client_http1_future_poll ::
  "('b, 'io tokio_io, 'hf, 'cn) hyper_client \<Rightarrow> ('hf, 'e + 's \<times> 'cn, 'w) pollf \<Rightarrow>
     ('cn \<Rightarrow> 'w \<Rightarrow> 'w) \<Rightarrow> (('b, 'io, 'hf) http_protocol_future, 'e + 's http1_conn, 'w) pollf" where
  "client_http1_future_poll H p spawn =
     http_protocol_future_poll
       (handshake_poll H p (\<lambda>conn. spawn (hc_with_upgrades H conn)) http1_conn_new)"

record 'b client_http2_builder = ch2_builder :: 'b

definition client_http2_builder_new :: "('ex \<Rightarrow> 'b) \<Rightarrow> 'ex \<Rightarrow> 'b client_http2_builder" where
  "client_http2_builder_new builder_new executor = \<lparr>ch2_builder = builder_new executor\<rparr>"

definition client_http2_builder_from :: "'b \<Rightarrow> 'b client_http2_builder" where
  "client_http2_builder_from value = \<lparr>ch2_builder = value\<rparr>"

definition client_http2_builder_clone :: "('b \<Rightarrow> 'b) \<Rightarrow> 'b client_http2_builder \<Rightarrow> 'b client_http2_builder" where
  "client_http2_builder_clone clone self = \<lparr>ch2_builder = clone (ch2_builder self)\<rparr>"

definition client_http2_builder_deref :: "'b client_http2_builder \<Rightarrow> 'b" where
  "client_http2_builder_deref self = ch2_builder self"

definition client_http2_builder_deref_mut :: "('b \<Rightarrow> 'b) \<Rightarrow> 'b client_http2_builder \<Rightarrow> 'b client_http2_builder" where
  "client_http2_builder_deref_mut f self = self\<lparr>ch2_builder := f (ch2_builder self)\<rparr>"

definition client_http2_multiplex :: "'b client_http2_builder \<Rightarrow> bool" where
  "client_http2_multiplex self = True"

definition client_http2_multiplex_ready :: "'b client_http2_builder \<Rightarrow> 'io \<Rightarrow> bool" where
  "client_http2_multiplex_ready self io = True"

definition client_http2_call ::
  "('b \<Rightarrow> 'b) \<Rightarrow> 'b client_http2_builder \<Rightarrow> 'io \<Rightarrow>
     ('b, 'io, 'hf) http_protocol_future \<times> 'b client_http2_builder" where
  "client_http2_call clone self req =
     (\<lparr>hpf_inner = Hs_Start (ch2_builder self) req\<rparr>, \<lparr>ch2_builder = clone (ch2_builder self)\<rparr>)"

definition client_http2_future_poll ::
  "('b, 'io tokio_io, 'hf, 'cn) hyper_client \<Rightarrow> ('hf, 'e + 's \<times> 'cn, 'w) pollf \<Rightarrow>
     ('cn \<Rightarrow> 'w \<Rightarrow> 'w) \<Rightarrow> (('b, 'io, 'hf) http_protocol_future, 'e + 's http2_conn, 'w) pollf" where
  "client_http2_future_poll H p spawn =
     http_protocol_future_poll (handshake_poll H p (\<lambda>conn. spawn conn) http2_conn_new)"

text \<open>What the run of a handshake gives, in terms of the run of hyper's handshake.\<close>

definition handshake_result :: "('cn \<Rightarrow> 'w \<Rightarrow> 'w) \<Rightarrow> ('s \<Rightarrow> 'c) \<Rightarrow> ('e + 's \<times> 'cn) polled \<Rightarrow> 'w \<Rightarrow>
    ('e + 'c) polled \<times> 'w" where
  "handshake_result spawn mk r w =
     (case r of
        Ready (Inr (sender, conn)) \<Rightarrow> (Ready (Inr (mk sender)), spawn conn w)
      | Ready (Inl e) \<Rightarrow> (Ready (Inl e), w)
      | Pending \<Rightarrow> (Pending, w)
      | Panicked \<Rightarrow> (Panicked, w))"

lemma handshake_poll_simps:
  "handshake_poll H p spawn mk (Hs_Start b io) w =
     handshake_await p spawn mk (hc_handshake H b (tokio_io_new io)) w"
  "handshake_poll H p spawn mk (Hs_Wait hf) w = handshake_await p spawn mk hf w"
  by (simp_all add: handshake_poll_def)

lemma handshake_await_run:
  "(case run_polls (handshake_poll H p spawn mk) n (Hs_Wait hf) w of (r, f, w') \<Rightarrow> (r, w')) =
     (case run_polls p n hf w of (r, hf', w') \<Rightarrow> handshake_result spawn mk r w')"
proof (induction n arbitrary: hf w)
  case 0
  then show ?case by (simp add: handshake_result_def)
next
  case (Suc n)
  obtain r hf' w' where r: "p hf w = (r, hf', w')" by (cases "p hf w") auto
  then show ?case
    using Suc.IH [of hf' w']
    by (cases r)
      (auto simp: handshake_poll_simps handshake_await_def handshake_result_def split: sum.split)
qed

lemma handshake_run:
  "(case run_polls (handshake_poll H p spawn mk) (Suc n) (Hs_Start b io) w of (r, f, w') \<Rightarrow> (r, w')) =
     (case run_polls p (Suc n) (hc_handshake H b (tokio_io_new io)) w of
        (r, hf', w') \<Rightarrow> handshake_result spawn mk r w')"
  using handshake_await_run [of H p spawn mk "Suc n" "hc_handshake H b (tokio_io_new io)" w]
  by (simp add: handshake_poll_simps)

lemma lift_res_output:
  "(case lift_res g x of (r, f, w') \<Rightarrow> F r w') = (case x of (r, f, w') \<Rightarrow> F r w')"
  by (cases x) simp

text \<open>
  Establishing an HTTP/1 or HTTP/2 client connection. Polled any number of times, the
  connect future follows hyper's handshake on the given stream (behind \<open>TokioIo\<close>); when
  the handshake succeeds the task that drives the connection (with upgrades for HTTP/1) is
  spawned once, and the connection over the handshake's sender is returned; its errors are
  returned and spawn nothing.
\<close>

theorem client_handshake_polls:
  "(case run_polls (client_http1_future_poll H p spawn) (Suc n) (fst (client_http1_call clone b1 io)) w of
      (r, f, w') \<Rightarrow> (r, w')) =
     (case run_polls p (Suc n) (hc_handshake H (ch1_builder b1) (tokio_io_new io)) w of
        (r, hf', w') \<Rightarrow>
          handshake_result (\<lambda>conn. spawn (hc_with_upgrades H conn)) (\<lambda>s. \<lparr>h1_sender = s\<rparr>) r w')
   \<and> (case run_polls (client_http2_future_poll H2 p2 spawn2) (Suc n) (fst (client_http2_call clone2 b2 io)) w of
      (r, f, w') \<Rightarrow> (r, w')) =
     (case run_polls p2 (Suc n) (hc_handshake H2 (ch2_builder b2) (tokio_io_new io)) w of
        (r, hf', w') \<Rightarrow> handshake_result spawn2 (\<lambda>s. \<lparr>h2_sender = s\<rparr>) r w')"
proof -
  have mk: "http1_conn_new = (\<lambda>s. \<lparr>h1_sender = s\<rparr>)" "http2_conn_new = (\<lambda>s. \<lparr>h2_sender = s\<rparr>)"
    by (simp_all add: http1_conn_new_def http2_conn_new_def fun_eq_iff)
  show ?thesis
    unfolding client_http1_future_poll_def client_http2_future_poll_def client_http1_call_def
      client_http2_call_def fst_conv http_protocol_future.run_wrap map_res_id(1) lift_res_output
      handshake_run mk
    by simp
qed

subsection \<open>The ALPN builder\<close>

datatype 'e auto_http_protocol_error =
  Auto_Http1_Error 'e | Auto_Http2_Error 'e | Auto_Unsupported http_protocol

record ('b1, 'b2) alpn_builder =
  alpn_http1 :: 'b1
  alpn_http2 :: 'b2
  alpn_initial_protocol :: http_protocol

definition alpn_builder_default ::
  "('b1, 'io, 'hf1, 'cn1) hyper_client \<Rightarrow> ('ex \<Rightarrow> 'b2) \<Rightarrow> 'ex \<Rightarrow> ('b1, 'b2) alpn_builder" where
  "alpn_builder_default H1 http2_new executor =
     \<lparr>alpn_http1 = hc_builder_new H1, alpn_http2 = http2_new executor, alpn_initial_protocol = Http1\<rparr>"

definition alpn_builder_clone ::
  "('b1 \<Rightarrow> 'b1) \<Rightarrow> ('b2 \<Rightarrow> 'b2) \<Rightarrow> ('b1, 'b2) alpn_builder \<Rightarrow> ('b1, 'b2) alpn_builder" where
  "alpn_builder_clone clone1 clone2 self =
     \<lparr>alpn_http1 = clone1 (alpn_http1 self), alpn_http2 = clone2 (alpn_http2 self),
      alpn_initial_protocol = alpn_initial_protocol self\<rparr>"

definition alpn_builder_http1 :: "('b1 \<Rightarrow> 'b1) \<Rightarrow> ('b1, 'b2) alpn_builder \<Rightarrow> ('b1, 'b2) alpn_builder" where
  "alpn_builder_http1 f self = self\<lparr>alpn_http1 := f (alpn_http1 self)\<rparr>"

definition alpn_builder_http2 :: "('b2 \<Rightarrow> 'b2) \<Rightarrow> ('b1, 'b2) alpn_builder \<Rightarrow> ('b1, 'b2) alpn_builder" where
  "alpn_builder_http2 f self = self\<lparr>alpn_http2 := f (alpn_http2 self)\<rparr>"

definition alpn_multiplex :: "('b1, 'b2) alpn_builder \<Rightarrow> bool" where
  "alpn_multiplex self = True"

text \<open>\<open>tls_info\<close> is \<open>HasTlsConnectionInfo::tls_info\<close> of the stream.\<close>

definition alpn_multiplex_ready ::
  "('io \<Rightarrow> 'tls option) \<Rightarrow> 'tls tls_api \<Rightarrow> ('b1, 'b2) alpn_builder \<Rightarrow> 'io \<Rightarrow> bool" where
  "alpn_multiplex_ready tls_info T self io =
     (Option.bind (tls_info io) (tls_alpn T) = Some ''h2'')"

datatype ('b1, 'b2, 'io, 'hf1, 'hf2) alpn_future =
  Alpn_Start "('b1, 'b2) alpn_builder" 'io http_protocol
| Alpn_H1 "('b1, 'io, 'hf1) handshake_future"
| Alpn_H2 "('b2, 'io, 'hf2) handshake_future"
| Alpn_Done

definition alpn_handshake_h2 ::
  "('b2, 'io tokio_io, 'hf2, 'cn2) hyper_client \<Rightarrow> ('hf2, 'e + 's2 \<times> 'cn2, 'w) pollf \<Rightarrow>
     ('cn2 \<Rightarrow> 'w \<Rightarrow> 'w) \<Rightarrow> ('b2, 'io, 'hf2) handshake_future \<Rightarrow> 'w \<Rightarrow>
     ('e auto_http_protocol_error + ('s1, 's2) http_connection) polled
       \<times> ('b1, 'b2, 'io, 'hf1, 'hf2) alpn_future \<times> 'w" where
  "alpn_handshake_h2 H2 p2 spawn2 f w =
     map_res (map_polled (map_err Auto_Http2_Error))
       (lift_res Alpn_H2 (handshake_poll H2 p2 spawn2 http_connection_h2 f w))"

definition alpn_handshake_h1 ::
  "('b1, 'io tokio_io, 'hf1, 'cn1) hyper_client \<Rightarrow> ('hf1, 'e + 's1 \<times> 'cn1, 'w) pollf \<Rightarrow>
     ('cn1 \<Rightarrow> 'w \<Rightarrow> 'w) \<Rightarrow> ('b1, 'io, 'hf1) handshake_future \<Rightarrow> 'w \<Rightarrow>
     ('e auto_http_protocol_error + ('s1, 's2) http_connection) polled
       \<times> ('b1, 'b2, 'io, 'hf1, 'hf2) alpn_future \<times> 'w" where
  "alpn_handshake_h1 H1 p1 spawn1 f w =
     map_res (map_polled (map_err Auto_Http1_Error))
       (lift_res Alpn_H1
         (handshake_poll H1 p1 (\<lambda>conn. spawn1 (hc_with_upgrades H1 conn)) http_connection_h1 f w))"

definition alpn_handshake_poll ::
  "('io \<Rightarrow> 'tls option) \<Rightarrow> 'tls tls_api \<Rightarrow>
     ('b1, 'io tokio_io, 'hf1, 'cn1) hyper_client \<Rightarrow> ('hf1, 'e + 's1 \<times> 'cn1, 'w) pollf \<Rightarrow> ('cn1 \<Rightarrow> 'w \<Rightarrow> 'w) \<Rightarrow>
     ('b2, 'io tokio_io, 'hf2, 'cn2) hyper_client \<Rightarrow> ('hf2, 'e + 's2 \<times> 'cn2, 'w) pollf \<Rightarrow> ('cn2 \<Rightarrow> 'w \<Rightarrow> 'w) \<Rightarrow>
     (('b1, 'b2, 'io, 'hf1, 'hf2) alpn_future,
      'e auto_http_protocol_error + ('s1, 's2) http_connection, 'w) pollf" where
  "alpn_handshake_poll tls_info T H1 p1 spawn1 H2 p2 spawn2 self w =
     (case self of
        Alpn_Start builder io protocol \<Rightarrow>
          (case protocol of
             Http2 \<Rightarrow> alpn_handshake_h2 H2 p2 spawn2 (Hs_Start (alpn_http2 builder) io) w
           | Http1 \<Rightarrow>
               if Option.bind (tls_info io) (tls_alpn T) = Some ''h2''
               then alpn_handshake_h2 H2 p2 spawn2 (Hs_Start (alpn_http2 builder) io) w
               else alpn_handshake_h1 H1 p1 spawn1 (Hs_Start (alpn_http1 builder) io) w
           | Http3 \<Rightarrow> (Ready (Inl (Auto_Unsupported Http3)), Alpn_Done, w))
      | Alpn_H2 f \<Rightarrow> alpn_handshake_h2 H2 p2 spawn2 f w
      | Alpn_H1 f \<Rightarrow> alpn_handshake_h1 H1 p1 spawn1 f w
      | Alpn_Done \<Rightarrow> (Panicked, Alpn_Done, w))"

definition alpn_call ::
  "('b1 \<Rightarrow> 'b1) \<Rightarrow> ('b2 \<Rightarrow> 'b2) \<Rightarrow> ('b1, 'b2) alpn_builder \<Rightarrow> 'io \<Rightarrow>
     ('b1, 'b2, 'io, 'hf1, 'hf2) alpn_future \<times> ('b1, 'b2) alpn_builder" where
  "alpn_call clone1 clone2 self req =
     (Alpn_Start self req (alpn_initial_protocol self), alpn_builder_clone clone1 clone2 self)"

interpretation alpn_h1:
  future_wrapper "handshake_poll H1 p1 (\<lambda>conn. spawn1 (hc_with_upgrades H1 conn)) http_connection_h1"
    "alpn_handshake_poll tls_info T H1 p1 spawn1 H2 p2 spawn2" Alpn_H1 "map_err Auto_Http1_Error"
  for tls_info T H1 p1 spawn1 H2 p2 spawn2
  by unfold_locales (simp add: alpn_handshake_poll_def alpn_handshake_h1_def)

interpretation alpn_h2:
  future_wrapper "handshake_poll H2 p2 spawn2 http_connection_h2"
    "alpn_handshake_poll tls_info T H1 p1 spawn1 H2 p2 spawn2" Alpn_H2 "map_err Auto_Http2_Error"
  for tls_info T H1 p1 spawn1 H2 p2 spawn2
  by unfold_locales (simp add: alpn_handshake_poll_def alpn_handshake_h2_def)

text \<open>The first poll of the future is the first poll of the handshake it chooses.\<close>

definition alpn_chosen ::
  "('io \<Rightarrow> 'tls option) \<Rightarrow> 'tls tls_api \<Rightarrow> ('b1, 'b2) alpn_builder \<Rightarrow> 'io \<Rightarrow> http_protocol \<Rightarrow>
     ('b1, 'b2, 'io, 'hf1, 'hf2) alpn_future" where
  "alpn_chosen tls_info T b io protocol =
     (if protocol = Http2 \<or> protocol = Http1 \<and> alpn_multiplex_ready tls_info T b io
      then Alpn_H2 (Hs_Start (alpn_http2 b) io)
      else if protocol = Http1 then Alpn_H1 (Hs_Start (alpn_http1 b) io)
      else Alpn_Start b io protocol)"

lemma alpn_start_run:
  "run_polls (alpn_handshake_poll tls_info T H1 p1 spawn1 H2 p2 spawn2) (Suc n) (Alpn_Start b io protocol) w =
     run_polls (alpn_handshake_poll tls_info T H1 p1 spawn1 H2 p2 spawn2) (Suc n)
       (alpn_chosen tls_info T b io protocol) w"
  by (cases protocol)
    (simp_all add: alpn_chosen_def alpn_handshake_poll_def alpn_multiplex_ready_def)

lemma map_res_output:
  "(case map_res g x of (r, f, w') \<Rightarrow> F r w') = (case x of (r, f, w') \<Rightarrow> F (g r) w')"
  by (cases x) simp

lemma handshake_run_map:
  "(case run_polls (handshake_poll H p spawn mk) (Suc n) (Hs_Start b io) w of (r, f, w') \<Rightarrow> (g r, w')) =
     (case run_polls p (Suc n) (hc_handshake H b (tokio_io_new io)) w of
        (r, hf', w') \<Rightarrow> map_prod g id (handshake_result spawn mk r w'))"
  using arg_cong [OF handshake_run [of H p spawn mk n b io w], of "map_prod g id"]
  by (auto simp: map_prod_def split: prod.splits)

lemma alpn_run:
  "(case run_polls (alpn_handshake_poll tls_info T H1 p1 spawn1 H2 p2 spawn2) (Suc n)
       (fst (alpn_call clone1 clone2 b io)) w of (r, f, w') \<Rightarrow> (r, w')) =
     (if alpn_initial_protocol b = Http3 then (Ready (Inl (Auto_Unsupported Http3)), w)
      else if alpn_initial_protocol b = Http2 \<or> alpn_multiplex_ready tls_info T b io then
        (case run_polls p2 (Suc n) (hc_handshake H2 (alpn_http2 b) (tokio_io_new io)) w of
           (r, hf', w') \<Rightarrow> map_prod (map_polled (map_err Auto_Http2_Error)) id
             (handshake_result spawn2 Inner_H2 r w'))
      else
        (case run_polls p1 (Suc n) (hc_handshake H1 (alpn_http1 b) (tokio_io_new io)) w of
           (r, hf', w') \<Rightarrow> map_prod (map_polled (map_err Auto_Http1_Error)) id
             (handshake_result (\<lambda>conn. spawn1 (hc_with_upgrades H1 conn)) Inner_H1 r w')))"
proof -
  have mk: "http_connection_h1 = Inner_H1" "http_connection_h2 = Inner_H2"
    by (simp_all add: http_connection_h1_def http_connection_h2_def fun_eq_iff)
  consider "alpn_initial_protocol b = Http3"
    | "alpn_initial_protocol b = Http2 \<or> alpn_initial_protocol b = Http1 \<and> alpn_multiplex_ready tls_info T b io"
    | "alpn_initial_protocol b = Http1" "\<not> alpn_multiplex_ready tls_info T b io"
    by (cases "alpn_initial_protocol b") auto
  then show ?thesis
  proof cases
    case 1
    then show ?thesis by (simp add: alpn_call_def alpn_handshake_poll_def)
  next
    case 2
    then show ?thesis
      unfolding alpn_call_def fst_conv alpn_start_run
      by (auto simp: alpn_chosen_def alpn_h2.run_wrap map_res_output lift_res_output mk handshake_run_map
          simp del: run_polls.simps)
  next
    case 3
    then show ?thesis
      unfolding alpn_call_def fst_conv alpn_start_run
      by (simp add: alpn_chosen_def alpn_h1.run_wrap map_res_output lift_res_output mk handshake_run_map
          del: run_polls.simps)
  qed
qed

text \<open>
  C28: Choosing the protocol of an automatic connection. It is HTTP/2 exactly when the
  builder starts with HTTP/2 or the TLS handshake of the stream negotiated \<open>h2\<close> (the
  condition under which the builder reports that the stream can be multiplexed), and
  HTTP/1 otherwise; the connect future then follows hyper's handshake for that protocol,
  its errors marked with it. HTTP/3 is refused without touching the stream.
\<close>

theorem alpn_connection_protocol:
  "(case run_polls (alpn_handshake_poll tls_info T H1 p1 spawn1 H2 p2 spawn2) (Suc n)
       (fst (alpn_call clone1 clone2 b io)) w of (r, f, w') \<Rightarrow> (r, w')) =
     (if alpn_initial_protocol b = Http3 then (Ready (Inl (Auto_Unsupported Http3)), w)
      else if alpn_initial_protocol b = Http2 \<or> alpn_multiplex_ready tls_info T b io then
        (case run_polls p2 (Suc n) (hc_handshake H2 (alpn_http2 b) (tokio_io_new io)) w of
           (r, hf', w') \<Rightarrow> map_prod (map_polled (map_err Auto_Http2_Error)) id
             (handshake_result spawn2 Inner_H2 r w'))
      else
        (case run_polls p1 (Suc n) (hc_handshake H1 (alpn_http1 b) (tokio_io_new io)) w of
           (r, hf', w') \<Rightarrow> map_prod (map_polled (map_err Auto_Http1_Error)) id
             (handshake_result (\<lambda>conn. spawn1 (hc_with_upgrades H1 conn)) Inner_H1 r w')))"
  by (rule alpn_run)

end
