(* ===== verification/Client_Dns.thy ===== *)
theory Client_Dns
  imports Http_Types Wrappers
begin

text \<open>
  Name resolution (\<open>src/client/conn/dns.rs\<close>) and the transport that takes its address from
  the request's extensions (\<open>src/client/conn/transport/unix.rs\<close>). The blocking thread pool of
  tokio, \<open>getaddrinfo\<close> and the Unix transport are parameters.
\<close>

section \<open>The host and port to resolve\<close>

definition trim_start_matches :: "char \<Rightarrow> string \<Rightarrow> string" where
  "trim_start_matches c s = dropWhile (\<lambda>x. x = c) s"

definition trim_end_matches :: "char \<Rightarrow> string \<Rightarrow> string" where
  "trim_end_matches c s = rev (dropWhile (\<lambda>x. x = c) (rev s))"

definition get_host_and_port ::
  "('u, 'au, 'h, 'v) http_api \<Rightarrow> 'u \<Rightarrow> io_error + string \<times> 16 word" where
  "get_host_and_port A uri =
     (case uri_host A uri of
        None \<Rightarrow> Inl (IoError InvalidData ''missing host in URI'')
      | Some host \<Rightarrow>
          (let host = trim_end_matches (CHR '']'') (trim_start_matches (CHR ''['') host) in
           case uri_port A uri of
             Some (_, port) \<Rightarrow> Inr (host, port)
           | None \<Rightarrow>
               if uri_scheme A uri = Some ''http'' then Inr (host, 80)
               else if uri_scheme A uri = Some ''https'' then Inr (host, 443)
               else Inl (IoError InvalidData ''missing port in URI for non-http(s) scheme'')))"

lemma trim_start_id: "s = [] \<or> hd s \<noteq> c \<Longrightarrow> trim_start_matches c s = s"
  by (cases s) (simp_all add: trim_start_matches_def)

lemma trim_end_id: "s = [] \<or> last s \<noteq> c \<Longrightarrow> trim_end_matches c s = s"
  by (cases s rule: rev_cases) (simp_all add: trim_end_matches_def)

lemma trim_brackets:
  assumes "hd (s @ ''!'') \<noteq> CHR ''[''" and "last (CHR ''!'' # s) \<noteq> CHR '']''"
  shows "trim_end_matches (CHR '']'') (trim_start_matches (CHR ''['') (''['' @ s @ '']'')) = s"
    and "trim_end_matches (CHR '']'') (trim_start_matches (CHR ''['') s) = s"
proof -
  have "trim_start_matches (CHR ''['') (''['' @ s @ '']'') = s @ '']''"
    using assms(1) by (cases s) (simp_all add: trim_start_matches_def)
  moreover have "trim_end_matches (CHR '']'') (s @ '']'') = s"
    using assms(2) by (cases s rule: rev_cases) (simp_all add: trim_end_matches_def)
  ultimately show "trim_end_matches (CHR '']'') (trim_start_matches (CHR ''['') (''['' @ s @ '']'')) = s"
    by simp
  show "trim_end_matches (CHR '']'') (trim_start_matches (CHR ''['') s) = s"
    using assms by (cases s) (simp_all add: trim_start_id trim_end_id split: if_splits)
qed

text \<open>
  What is resolved. The host loses the brackets of an IPv6 literal, and only those: an
  address that is bracketed, or not, is passed on as it is; the port is the one of the URI,
  else the default of \<open>http\<close> or \<open>https\<close>. A URI with no host, or with no port and another
  scheme, is an error of kind \<open>InvalidData\<close>.
\<close>

theorem get_host_and_port_spec:
  assumes "hd (addr @ ''!'') \<noteq> CHR ''[''" and "last (CHR ''!'' # addr) \<noteq> CHR '']''"
    and "uri_host A u = None \<or> uri_host A u = Some addr \<or> uri_host A u = Some (''['' @ addr @ '']'')"
  shows "get_host_and_port A u =
    (case (uri_host A u, uri_port A u) of
       (None, _) \<Rightarrow> Inl (IoError InvalidData ''missing host in URI'')
     | (Some _, Some (_, port)) \<Rightarrow> Inr (addr, port)
     | (Some _, None) \<Rightarrow>
         (case uri_scheme A u of
            Some scheme \<Rightarrow>
              if scheme = ''http'' then Inr (addr, 80)
              else if scheme = ''https'' then Inr (addr, 443)
              else Inl (IoError InvalidData ''missing port in URI for non-http(s) scheme'')
          | None \<Rightarrow> Inl (IoError InvalidData ''missing port in URI for non-http(s) scheme'')))"
  using assms(3) trim_brackets [OF assms(1,2)]
  by (auto simp: get_host_and_port_def Let_def split: option.split)

lemma get_host_and_port_spec_witness:
  "get_host_and_port plain_api
     \<lparr>pu_scheme = Some ''https'', pu_authority = Some \<lparr>pa_host = ''[::1]'', pa_port = None\<rparr>, pu_path = None\<rparr> =
     Inr (''::1'', 443)
   \<and> get_host_and_port plain_api
     \<lparr>pu_scheme = Some ''ws'', pu_authority = Some \<lparr>pa_host = ''::1'', pa_port = None\<rparr>, pu_path = None\<rparr> =
     Inl (IoError InvalidData ''missing port in URI for non-http(s) scheme'')"
  using get_host_and_port_spec [of "''::1''" plain_api
      "\<lparr>pu_scheme = Some ''https'', pu_authority = Some \<lparr>pa_host = ''[::1]'', pa_port = None\<rparr>, pu_path = None\<rparr>"]
    get_host_and_port_spec [of "''::1''" plain_api
      "\<lparr>pu_scheme = Some ''ws'', pu_authority = Some \<lparr>pa_host = ''::1'', pa_port = None\<rparr>, pu_path = None\<rparr>"]
  by (simp add: api_simps)

section \<open>The blocking lookup\<close>

text \<open>
  tokio's \<open>spawn_blocking\<close>, with the \<open>JoinHandle\<close> it returns and the \<open>JoinError\<close> of a task
  that was cancelled or panicked. A job is what the closure does to the world.
\<close>

record ('jh, 'je, 'o, 'w) blocking_pool =
  bp_spawn :: "('w \<Rightarrow> 'o \<times> 'w) \<Rightarrow> 'w \<Rightarrow> 'jh \<times> 'w"
  bp_poll :: "('jh, 'je + 'o, 'w) pollf"
  bp_abort :: "'jh \<Rightarrow> 'w \<Rightarrow> 'w"
  je_is_cancelled :: "'je \<Rightarrow> bool"
  je_message :: "'je \<Rightarrow> string"

text \<open>
  \<open>to_socket_addrs\<close> of a host and a port, and the collection \<open>SocketAddrs\<close> of chateau.
\<close>

record ('sa, 'sas, 'ip, 'w) addr_api =
  aa_lookup :: "string \<times> 16 word \<Rightarrow> 'w \<Rightarrow> (io_error + 'sa list) \<times> 'w"
  aa_from_iter :: "'sa list \<Rightarrow> 'sas"
  aa_into_iter :: "'sas \<Rightarrow> 'sa list"
  aa_ip :: "'sa \<Rightarrow> 'ip"

record 'jh join_handle_future = jhf_handle :: 'jh

definition join_output :: "('jh, 'je, io_error + 'a, 'w) blocking_pool \<Rightarrow> 'je + (io_error + 'a) \<Rightarrow> io_error + 'a" where
  "join_output B r =
     (case r of
        Inr (Inr addrs) \<Rightarrow> Inr addrs
      | Inr (Inl error) \<Rightarrow> Inl error
      | Inl join_err \<Rightarrow>
          if je_is_cancelled B join_err then Inl (IoError Interrupted (je_message B join_err))
          else Inl (IoError OtherKind (je_message B join_err)))"

definition join_handle_poll ::
  "('jh, 'je, io_error + 'a, 'w) blocking_pool \<Rightarrow> ('jh join_handle_future, io_error + 'a, 'w) pollf" where
  "join_handle_poll B self w =
     map_res (map_polled (join_output B))
       (lift_res (\<lambda>h. self\<lparr>jhf_handle := h\<rparr>) (bp_poll B (jhf_handle self) w))"

definition join_handle_drop :: "('jh, 'je, 'o, 'w) blocking_pool \<Rightarrow> 'jh join_handle_future \<Rightarrow> 'w \<Rightarrow> 'w" where
  "join_handle_drop B self w = bp_abort B (jhf_handle self) w"

text \<open>\<open>resolve\<close>, and the job that \<open>call\<close> spawns for a host and a port.\<close>

definition dns_resolve ::
  "('jh, 'je, io_error + 'sas, 'w) blocking_pool \<Rightarrow> ('sa, 'sas, 'ip, 'w) addr_api \<Rightarrow> string \<times> 16 word \<Rightarrow> 'w \<Rightarrow>
     'jh join_handle_future \<times> 'w" where
  "dns_resolve B D addr w =
     (case bp_spawn B (\<lambda>w. case aa_lookup D addr w of (r, w') \<Rightarrow> (map_ok (aa_from_iter D) r, w')) w of
        (jh, w') \<Rightarrow> (\<lparr>jhf_handle = jh\<rparr>, w'))"

interpretation join_handle:
  future_wrapper "bp_poll B" "join_handle_poll B" "\<lambda>h. \<lparr>jhf_handle = h\<rparr>" "join_output B" for B
  by unfold_locales (simp add: join_handle_poll_def)

section \<open>The resolver\<close>

datatype gai_resolver = GaiResolver

datatype 'jh gai_future_state = Gai_JoinHandle "'jh join_handle_future" | Gai_Error "io_error option"

record 'jh gai_future = gai_state :: "'jh gai_future_state"

definition gai_future_error :: "io_error \<Rightarrow> 'jh gai_future" where
  "gai_future_error error = \<lparr>gai_state = Gai_Error (Some error)\<rparr>"

definition gai_future_handle :: "'jh join_handle_future \<Rightarrow> 'jh gai_future" where
  "gai_future_handle handle = \<lparr>gai_state = Gai_JoinHandle handle\<rparr>"

definition gai_future_poll ::
  "('jh, 'je, io_error + 'a, 'w) blocking_pool \<Rightarrow> ('jh gai_future, io_error + 'a, 'w) pollf" where
  "gai_future_poll B self w =
     (case gai_state self of
        Gai_JoinHandle handle \<Rightarrow>
          lift_res (\<lambda>h. self\<lparr>gai_state := Gai_JoinHandle h\<rparr>) (join_handle_poll B handle w)
      | Gai_Error (Some err) \<Rightarrow> (Ready (Inl err), self\<lparr>gai_state := Gai_Error None\<rparr>, w)
      | Gai_Error None \<Rightarrow> (Panicked, self, w))"

definition gai_call ::
  "('u, 'au, 'h, 'v) http_api \<Rightarrow> ('jh, 'je, io_error + 'sas, 'w) blocking_pool \<Rightarrow> ('sa, 'sas, 'ip, 'w) addr_api \<Rightarrow>
     gai_resolver \<Rightarrow> ('u, 'h, 'x, 'b) request \<Rightarrow> 'w \<Rightarrow> 'jh gai_future outcome \<times> gai_resolver \<times> 'w" where
  "gai_call A B D self req w =
     (case get_host_and_port A (rq_uri req) of
        Inl e \<Rightarrow> (Ret (gai_future_error e), self, w)
      | Inr (host, port) \<Rightarrow>
          (case dns_resolve B D (host, port) w of
             (handle, w') \<Rightarrow> (Ret (gai_future_handle handle), self, w')))"

definition gai_ops ::
  "('u, 'au, 'h, 'v) http_api \<Rightarrow> ('jh, 'je, io_error + 'sas, 'w) blocking_pool \<Rightarrow> ('sa, 'sas, 'ip, 'w) addr_api \<Rightarrow>
     (gai_resolver, ('u, 'h, 'x, 'b) request, 'jh gai_future, io_error, 'sas, 'w) service" where
  "gai_ops A B D =
     \<lparr>poll_ready = (\<lambda>self w. (Ready (Inr ()), self, w)), call = gai_call A B D,
      poll_fut = gai_future_poll B\<rparr>"

text \<open>The lookup alone as a service: the resolver is a gate in front of it.\<close>

definition lookup_ops ::
  "('jh, 'je, io_error + 'sas, 'w) blocking_pool \<Rightarrow> ('sa, 'sas, 'ip, 'w) addr_api \<Rightarrow>
     (gai_resolver, string \<times> 16 word, 'jh join_handle_future, io_error, 'sas, 'w) service" where
  "lookup_ops B D =
     \<lparr>poll_ready = (\<lambda>self w. (Ready (Inr ()), self, w)),
      call = (\<lambda>self addr w. case dns_resolve B D addr w of (handle, w') \<Rightarrow> (Ret handle, self, w')),
      poll_fut = join_handle_poll B\<rparr>"

lemma gai_future_handle_eta: "gai_future_handle = (\<lambda>h. \<lparr>gai_state = Gai_JoinHandle h\<rparr>)"
  by (simp add: gai_future_handle_def fun_eq_iff)

lemmas gai_defs =
  gai_ops_def gai_call_def lookup_ops_def gai_future_error_def gai_future_handle_eta gai_future_poll_def

interpretation gai_error:
  error_once "gai_future_poll B" "\<lambda>e. \<lparr>gai_state = Gai_Error e\<rparr>" id for B
  by unfold_locales (simp_all add: gai_defs)

interpretation gai:
  request_gate "lookup_ops B D" "gai_ops A B D" gai_future_handle id id id
    "\<lambda>req. get_host_and_port A (rq_uri req)" gai_future_error
  for A B D
  by unfold_locales (auto simp: gai_defs sum.map_id0 split: prod.splits)

lemma gai_run:
  "run_call (gai_ops A B D) (Suc n) s r w =
     (case get_host_and_port A (rq_uri r) of
        Inl e \<Rightarrow> (Ready (Inl e), s, w)
      | Inr addr \<Rightarrow> run_call (lookup_ops B D) (Suc n) s addr w)"
proof -
  have "run_call (gai_ops A B D) (Suc n) (id s) r w =
     (case get_host_and_port A (rq_uri r) of
        Inl e \<Rightarrow> (Ready (Inl e), id s, w)
      | Inr addr \<Rightarrow>
          map_res (map_polled (map_sum id id)) (lift_res id (run_call (lookup_ops B D) (Suc n) s addr w)))"
    by (rule gai.run_gate)
  then show ?thesis by (simp add: sum.map_id0 split: sum.splits)
qed

section \<open>The first address\<close>

record 'r first_addr_resolver = far_inner :: 'r

record 'f first_addr_future = faf_inner :: 'f

definition first_addr_new :: "'r \<Rightarrow> 'r first_addr_resolver" where
  "first_addr_new inner = \<lparr>far_inner = inner\<rparr>"

definition first_addr :: "'r \<Rightarrow> 'r first_addr_resolver" where
  "first_addr self = first_addr_new self"

definition first_addr_output ::
  "('sa, 'sas, 'ip, 'w) addr_api \<Rightarrow> io_error + 'sas \<Rightarrow> io_error + 'ip" where
  "first_addr_output D r =
     (case r of
        Inr addrs \<Rightarrow>
          (case aa_into_iter D addrs of
             [] \<Rightarrow> Inl (IoError AddrNotAvailable ''no address found'')
           | addr # _ \<Rightarrow> Inr (aa_ip D addr))
      | Inl error \<Rightarrow> Inl error)"

definition first_addr_future_poll ::
  "('sa, 'sas, 'ip, 'w) addr_api \<Rightarrow> ('f, io_error + 'sas, 'w) pollf \<Rightarrow>
     ('f first_addr_future, io_error + 'ip, 'w) pollf" where
  "first_addr_future_poll D p self w =
     map_res (map_polled (first_addr_output D))
       (lift_res (\<lambda>f. self\<lparr>faf_inner := f\<rparr>) (p (faf_inner self) w))"

definition first_addr_ops ::
  "('sa, 'sas, 'ip, 'w) addr_api \<Rightarrow> ('s, 'r, 'f, io_error, 'sas, 'w) service \<Rightarrow>
     ('s first_addr_resolver, 'r, 'f first_addr_future, io_error, 'ip, 'w) service" where
  "first_addr_ops D S =
     \<lparr>poll_ready = (\<lambda>self w. lift_res (\<lambda>s. self\<lparr>far_inner := s\<rparr>) (poll_ready S (far_inner self) w)),
      call = (\<lambda>self req w.
        map_res (map_outcome (\<lambda>f. \<lparr>faf_inner = f\<rparr>))
          (lift_res (\<lambda>s. self\<lparr>far_inner := s\<rparr>) (call S (far_inner self) req w))),
      poll_fut = first_addr_future_poll D (poll_fut S)\<rparr>"

interpretation first_addr:
  future_wrapper p "first_addr_future_poll D p" "\<lambda>f. \<lparr>faf_inner = f\<rparr>" "first_addr_output D" for D p
  by unfold_locales (simp add: first_addr_future_poll_def)

lemma first_addr_run:
  "run_call (first_addr_ops D S) n (first_addr_new s) r w =
     map_res (map_polled (first_addr_output D)) (lift_res first_addr_new (run_call S n s r w))"
proof -
  obtain c s' w' where c: "call S s r w = (c, s', w')" by (cases "call S s r w") auto
  show ?thesis
  proof (cases c)
    case Panic
    with c show ?thesis by (simp add: run_call_def first_addr_ops_def first_addr_new_def)
  next
    case (Ret f)
    obtain q f' w'' where "run_polls (poll_fut S) n f w' = (q, f', w'')"
      by (cases "run_polls (poll_fut S) n f w'") auto
    with c Ret show ?thesis
      by (simp add: run_call_def first_addr_ops_def first_addr_new_def first_addr.run_wrap)
  qed
qed

text \<open>
  C30: Resolving a request to one address, end to end. A bad URI fails with the error of
  \<open>get_host_and_port\<close> before any lookup is started; otherwise one blocking lookup of that
  host and port runs, and its outcome decides: the address of the first entry,
  \<open>AddrNotAvailable\<close> for no entry, the lookup's own error, \<open>Interrupted\<close> when the task was
  cancelled and \<open>Other\<close> when it panicked.
\<close>

theorem first_addr_resolution:
  "run_call (first_addr_ops D (gai_ops A B D)) (Suc n) (first_addr_new GaiResolver) r w =
    (case get_host_and_port A (rq_uri r) of
       Inl e \<Rightarrow> (Ready (Inl e), first_addr_new GaiResolver, w)
     | Inr addr \<Rightarrow>
         (case bp_spawn B (\<lambda>w. case aa_lookup D addr w of (x, w') \<Rightarrow> (map_ok (aa_from_iter D) x, w')) w of
            (jh, w1) \<Rightarrow>
              (case run_polls (bp_poll B) (Suc n) jh w1 of
                 (q, jh', w2) \<Rightarrow>
                   (map_polled
                      (\<lambda>x. case x of
                         Inl je \<Rightarrow>
                           Inl (IoError (if je_is_cancelled B je then Interrupted else OtherKind) (je_message B je))
                       | Inr (Inl e) \<Rightarrow> Inl e
                       | Inr (Inr addrs) \<Rightarrow>
                           (case aa_into_iter D addrs of
                              [] \<Rightarrow> Inl (IoError AddrNotAvailable ''no address found'')
                            | a # _ \<Rightarrow> Inr (aa_ip D a))) q,
                    first_addr_new GaiResolver, w2))))"
proof (cases "get_host_and_port A (rq_uri r)")
  case (Inl e)
  then show ?thesis by (simp add: first_addr_run gai_run first_addr_output_def)
next
  case (Inr addr)
  obtain jh w1 where sp:
    "bp_spawn B (\<lambda>w. case aa_lookup D addr w of (x, w') \<Rightarrow> (map_ok (aa_from_iter D) x, w')) w = (jh, w1)"
    by (cases "bp_spawn B (\<lambda>w. case aa_lookup D addr w of (x, w') \<Rightarrow> (map_ok (aa_from_iter D) x, w')) w") auto
  obtain q jh' w2 where po: "run_polls (bp_poll B) (Suc n) jh w1 = (q, jh', w2)"
    by (cases "run_polls (bp_poll B) (Suc n) jh w1") auto
  have "run_call (lookup_ops B D) (Suc n) GaiResolver addr w = (map_polled (join_output B) q, GaiResolver, w2)"
    using po by (simp add: run_call_def lookup_ops_def dns_resolve_def sp join_handle.run_wrap del: run_polls.simps)
  then have "run_call (gai_ops A B D) (Suc n) GaiResolver r w = (map_polled (join_output B) q, GaiResolver, w2)"
    by (simp add: gai_run Inr)
  with Inr sp po show ?thesis
    by (simp add: first_addr_run polled.map_comp del: run_polls.simps)
      (auto simp: first_addr_output_def join_output_def intro!: polled.map_cong split: sum.split list.split)
qed

section \<open>The Unix transport with the address in the request\<close>

record 't unix_ext_transport = uet_transport :: 't

definition unix_ext_new :: "'t \<Rightarrow> 't unix_ext_transport" where
  "unix_ext_new transport = \<lparr>uet_transport = transport\<rparr>"

definition unix_ext_from :: "'t \<Rightarrow> 't unix_ext_transport" where
  "unix_ext_from transport = \<lparr>uet_transport = transport\<rparr>"

text \<open>
  The boxed future: the connector is computed by \<open>call\<close>, the async block only unwraps it.
\<close>

datatype ('f, 'e) unix_ext_future = Uet_Start "'e + 'f" | Uet_Wait 'f | Uet_Done

definition unix_ext_await ::
  "('f, 'e + 'i, 'w) pollf \<Rightarrow> 'f \<Rightarrow> 'w \<Rightarrow> ('e + 'i) polled \<times> ('f, 'e) unix_ext_future \<times> 'w" where
  "unix_ext_await p f w =
     (case p f w of
        (Pending, f', w') \<Rightarrow> (Pending, Uet_Wait f', w')
      | (r, f', w') \<Rightarrow> (r, Uet_Done, w'))"

definition unix_ext_future_poll ::
  "('f, 'e + 'i, 'w) pollf \<Rightarrow> (('f, 'e) unix_ext_future, 'e + 'i, 'w) pollf" where
  "unix_ext_future_poll p self w =
     (case self of
        Uet_Start (Inl e) \<Rightarrow> (Ready (Inl e), Uet_Done, w)
      | Uet_Start (Inr f) \<Rightarrow> unix_ext_await p f w
      | Uet_Wait f \<Rightarrow> unix_ext_await p f w
      | Uet_Done \<Rightarrow> (Panicked, Uet_Done, w))"

text \<open>
  The transport is replaced by its clone; the call is made on the original, which is
  dropped. \<open>no_address\<close> is \<open>UnixConnectionError::NoAddress\<close>.
\<close>

definition unix_ext_call ::
  "('t \<Rightarrow> 't) \<Rightarrow> 'e \<Rightarrow> ('t, ('u, 'h, ('ci, 'tls, 'ua) extensions, 'b) request \<times> 'ua, 'f, 'e, 'i, 'w) service \<Rightarrow>
     't unix_ext_transport \<Rightarrow> ('u, 'h, ('ci, 'tls, 'ua) extensions, 'b) request \<Rightarrow> 'w \<Rightarrow>
     ('f, 'e) unix_ext_future outcome \<times> 't unix_ext_transport \<times> 'w" where
  "unix_ext_call clone no_address T self req w =
     (let self' = self\<lparr>uet_transport := clone (uet_transport self)\<rparr> in
      case ext_unix_addr (rq_ext req) of
        None \<Rightarrow> (Ret (Uet_Start (Inl no_address)), self', w)
      | Some addr \<Rightarrow>
          (case call T (uet_transport self) (req, addr) w of
             (c, _, w') \<Rightarrow> (map_outcome (\<lambda>f. Uet_Start (Inr f)) c, self', w')))"

definition unix_ext_ops ::
  "('t \<Rightarrow> 't) \<Rightarrow> 'e \<Rightarrow> ('t, ('u, 'h, ('ci, 'tls, 'ua) extensions, 'b) request \<times> 'ua, 'f, 'e, 'i, 'w) service \<Rightarrow>
     ('t unix_ext_transport, ('u, 'h, ('ci, 'tls, 'ua) extensions, 'b) request,
      ('f, 'e) unix_ext_future, 'e, 'i, 'w) service" where
  "unix_ext_ops clone no_address T =
     \<lparr>poll_ready = (\<lambda>self w. lift_res (\<lambda>t. self\<lparr>uet_transport := t\<rparr>) (poll_ready T (uet_transport self) w)),
      call = unix_ext_call clone no_address T,
      poll_fut = unix_ext_future_poll (poll_fut T)\<rparr>"

lemma unix_ext_poll_simps:
  "unix_ext_future_poll p (Uet_Start (Inr f)) w = unix_ext_await p f w"
  "unix_ext_future_poll p (Uet_Wait f) w = unix_ext_await p f w"
  by (simp_all add: unix_ext_future_poll_def)

lemma unix_ext_run_wait:
  "(case run_polls (unix_ext_future_poll p) n (Uet_Wait f) w of (r, g, w') \<Rightarrow> F r w') =
     (case run_polls p n f w of (r, f', w') \<Rightarrow> F r w')"
proof (induction n arbitrary: f w)
  case 0
  then show ?case by simp
next
  case (Suc n)
  obtain r f' w' where "p f w = (r, f', w')" by (cases "p f w") auto
  then show ?case by (cases r) (simp_all add: unix_ext_poll_simps unix_ext_await_def Suc.IH)
qed

lemma unix_ext_run_start:
  "(case run_polls (unix_ext_future_poll p) n (Uet_Start (Inr f)) w of (r, g, w') \<Rightarrow> F r w') =
     (case run_polls p n f w of (r, f', w') \<Rightarrow> F r w')"
proof (cases n)
  case 0
  then show ?thesis by simp
next
  case (Suc m)
  obtain r f' w' where "p f w = (r, f', w')" by (cases "p f w") auto
  with Suc show ?thesis
    by (cases r) (simp_all add: unix_ext_poll_simps unix_ext_await_def unix_ext_run_wait)
qed


end
