(* ===== verification/Client_Transport.thy ===== *)
theory Client_Transport
  imports Streams
begin

text \<open>
  Client transports over TLS (\<open>src/client/conn/tls.rs\<close>): the decision whether a request
  wants TLS and for which domain, \<open>AutoTlsTransport\<close>, which connects with or without TLS
  accordingly, and \<open>HttpTlsTransport\<close>. The transport below and chateau's \<open>TlsTransport\<close>
  are parameters.
\<close>

section \<open>When a request is sent over TLS\<close>

definition get_host :: "('u, 'au, 'h, 'v) http_api \<Rightarrow> ('u, 'h, 'x, 'b) request \<Rightarrow> string option" where
  "get_host A request =
     (case Option.bind (hdr_get A (rq_headers request) ''host'') (hv_to_str A) of
        Some h \<Rightarrow> Some h
      | None \<Rightarrow> uri_host A (rq_uri request))"

definition get_tls_domain :: "('u, 'au, 'h, 'v) http_api \<Rightarrow> ('u, 'h, 'x, 'b) request \<Rightarrow> string option" where
  "get_tls_domain A request =
     (case uri_scheme A (rq_uri request) of
        Some scheme \<Rightarrow>
          if scheme = ''https'' then get_host A request
          else if scheme = ''wss'' then get_host A request
          else None
      | None \<Rightarrow> None)"

text \<open>
  \<open>TlsTransport\<close>: its constructor, its parts, and what \<open>transport_mut\<close> does to it.
\<close>

record ('t, 'cfg, 'tt) tls_transport_api =
  tt_new :: "'t \<Rightarrow> 'cfg \<Rightarrow> 'tt"
  tt_transport :: "'tt \<Rightarrow> 't"
  tt_set_transport :: "'tt \<Rightarrow> 't \<Rightarrow> 'tt"
  tt_config :: "'tt \<Rightarrow> 'cfg"

definition tls_transport_laws :: "('t, 'cfg, 'tt) tls_transport_api \<Rightarrow> bool" where
  "tls_transport_laws P \<longleftrightarrow>
     (\<forall>t c. tt_transport P (tt_new P t c) = t \<and> tt_config P (tt_new P t c) = c)"

datatype ('t, 'tt) auto_tls_transport = Transport_Plain 't | Transport_Tls 'tt

definition auto_tls_new :: "'t \<Rightarrow> ('t, 'tt) auto_tls_transport" where
  "auto_tls_new transport = Transport_Plain transport"

definition auto_tls_with_tls ::
  "('t, 'cfg, 'tt) tls_transport_api \<Rightarrow> ('t, 'tt) auto_tls_transport \<Rightarrow> 'cfg \<Rightarrow> ('t, 'tt) auto_tls_transport" where
  "auto_tls_with_tls P self config =
     (let inner = (case self of
                     Transport_Plain inner \<Rightarrow> inner
                   | Transport_Tls transport \<Rightarrow> tt_transport P transport)
      in Transport_Tls (tt_new P inner config))"

definition auto_tls_with_optional_tls ::
  "('t, 'cfg, 'tt) tls_transport_api \<Rightarrow> ('t, 'tt) auto_tls_transport \<Rightarrow> 'cfg option \<Rightarrow>
     ('t, 'tt) auto_tls_transport" where
  "auto_tls_with_optional_tls P self config =
     (case config of Some config \<Rightarrow> auto_tls_with_tls P self config | None \<Rightarrow> self)"

definition auto_tls_with_default_tls ::
  "('t, 'cfg, 'tt) tls_transport_api \<Rightarrow> 'cfg \<Rightarrow> ('t, 'tt) auto_tls_transport \<Rightarrow> ('t, 'tt) auto_tls_transport" where
  "auto_tls_with_default_tls P default_config self = auto_tls_with_tls P self default_config"

definition auto_tls_into_inner ::
  "('t, 'cfg, 'tt) tls_transport_api \<Rightarrow> ('t, 'tt) auto_tls_transport \<Rightarrow> 't" where
  "auto_tls_into_inner P self =
     (case self of Transport_Plain inner \<Rightarrow> inner | Transport_Tls transport \<Rightarrow> tt_transport P transport)"

definition auto_tls_into_parts ::
  "('t, 'cfg, 'tt) tls_transport_api \<Rightarrow> ('t, 'tt) auto_tls_transport \<Rightarrow> 't \<times> 'cfg option" where
  "auto_tls_into_parts P self =
     (case self of
        Transport_Plain inner \<Rightarrow> (inner, None)
      | Transport_Tls transport \<Rightarrow> (tt_transport P transport, Some (tt_config P transport)))"

definition auto_tls_config ::
  "('t, 'cfg, 'tt) tls_transport_api \<Rightarrow> ('t, 'tt) auto_tls_transport \<Rightarrow> 'cfg option" where
  "auto_tls_config P self =
     (case self of Transport_Plain _ \<Rightarrow> None | Transport_Tls transport \<Rightarrow> Some (tt_config P transport))"

definition auto_tls_inner ::
  "('t, 'cfg, 'tt) tls_transport_api \<Rightarrow> ('t, 'tt) auto_tls_transport \<Rightarrow> 't" where
  "auto_tls_inner P self =
     (case self of Transport_Plain inner \<Rightarrow> inner | Transport_Tls transport \<Rightarrow> tt_transport P transport)"

text \<open>The transport changed by \<open>f\<close> through the reference \<open>inner_mut\<close> hands out.\<close>

definition auto_tls_inner_mut ::
  "('t, 'cfg, 'tt) tls_transport_api \<Rightarrow> ('t \<Rightarrow> 't) \<Rightarrow> ('t, 'tt) auto_tls_transport \<Rightarrow> ('t, 'tt) auto_tls_transport" where
  "auto_tls_inner_mut P f self =
     (case self of
        Transport_Plain inner \<Rightarrow> Transport_Plain (f inner)
      | Transport_Tls transport \<Rightarrow>
          Transport_Tls (tt_set_transport P transport (f (tt_transport P transport))))"

text \<open>The default transport, with TLS: \<open>config\<close> is the default configuration, if it can be made.\<close>

definition auto_tls_default ::
  "('t, 'cfg, 'tt) tls_transport_api \<Rightarrow> 't \<Rightarrow> 'cfg outcome \<Rightarrow> ('t, 'tt) auto_tls_transport outcome" where
  "auto_tls_default P transport config =
     map_outcome (auto_tls_with_tls P (auto_tls_new transport)) config"

section \<open>Connecting\<close>

datatype ('f, 'ft) transport_braid_future = Braid_Plain 'f | Braid_Tls_Connect 'ft

definition transport_braid_future_poll ::
  "('f, 'e + 'i, 'w) pollf \<Rightarrow> ('ft, 'te + 't, 'w) pollf \<Rightarrow> ('e \<Rightarrow> 'te) \<Rightarrow>
     (('f, 'ft) transport_braid_future, 'te + ('t, 'i) client_stream, 'w) pollf" where
  "transport_braid_future_poll p pt connection_error self w =
     (case self of
        Braid_Plain fut \<Rightarrow>
          map_res (map_polled (map_sum connection_error client_stream_new)) (lift_res Braid_Plain (p fut w))
      | Braid_Tls_Connect fut \<Rightarrow>
          map_res (map_polled (map_ok (\<lambda>s. client_stream_from_opt (OptTls_Tls s))))
            (lift_res Braid_Tls_Connect (pt fut w)))"

interpretation braid_plain_future:
  future_wrapper p "transport_braid_future_poll p pt ce" Braid_Plain "map_sum ce client_stream_new" for p pt ce
  by unfold_locales (simp add: transport_braid_future_poll_def)

interpretation braid_tls_future:
  future_wrapper pt "transport_braid_future_poll p pt ce" Braid_Tls_Connect
    "map_ok (\<lambda>s. client_stream_from_opt (OptTls_Tls s))" for p pt ce
  by unfold_locales (simp add: transport_braid_future_poll_def)

text \<open>
  The transport \<open>T\<close> takes the request by reference; the TLS transport \<open>TT\<close> takes it with
  the domain, a \<open>TlsRequest\<close>.
\<close>

definition auto_tls_poll_ready ::
  "('t, 'r, 'f, 'e, 'i, 'w) service \<Rightarrow> ('tt, 'r \<times> string option, 'ft, 'te, 's, 'w) service \<Rightarrow> ('e \<Rightarrow> 'te) \<Rightarrow>
     ('t, 'tt) auto_tls_transport \<Rightarrow> 'w \<Rightarrow> ('te + unit) polled \<times> ('t, 'tt) auto_tls_transport \<times> 'w" where
  "auto_tls_poll_ready T TT ce self w =
     (case self of
        Transport_Plain inner \<Rightarrow>
          map_res (map_polled (map_err ce)) (lift_res Transport_Plain (poll_ready T inner w))
      | Transport_Tls inner \<Rightarrow> lift_res Transport_Tls (poll_ready TT inner w))"

definition auto_tls_call ::
  "('u, 'au, 'h, 'v) http_api \<Rightarrow> ('t, 'cfg, 'tt) tls_transport_api \<Rightarrow>
     ('t, ('u, 'h, 'x, 'b) request, 'f, 'e, 'i, 'w) service \<Rightarrow>
     ('tt, ('u, 'h, 'x, 'b) request \<times> string option, 'ft, 'te, 's, 'w) service \<Rightarrow>
     ('t, 'tt) auto_tls_transport \<Rightarrow> ('u, 'h, 'x, 'b) request \<Rightarrow> 'w \<Rightarrow>
     ('f, 'ft) transport_braid_future outcome \<times> ('t, 'tt) auto_tls_transport \<times> 'w" where
  "auto_tls_call A P T TT self request w =
     (case (self, get_tls_domain A request) of
        (Transport_Plain inner, _) \<Rightarrow>
          map_res (map_outcome Braid_Plain) (lift_res Transport_Plain (call T inner request w))
      | (Transport_Tls inner, Some domain) \<Rightarrow>
          map_res (map_outcome Braid_Tls_Connect)
            (lift_res Transport_Tls (call TT inner (request, Some domain) w))
      | (Transport_Tls inner, None) \<Rightarrow>
          map_res (map_outcome Braid_Plain)
            (lift_res (\<lambda>t. Transport_Tls (tt_set_transport P inner t))
              (call T (tt_transport P inner) request w)))"

definition auto_tls_ops ::
  "('u, 'au, 'h, 'v) http_api \<Rightarrow> ('t, 'cfg, 'tt) tls_transport_api \<Rightarrow>
     ('t, ('u, 'h, 'x, 'b) request, 'f, 'e, 'i, 'w) service \<Rightarrow>
     ('tt, ('u, 'h, 'x, 'b) request \<times> string option, 'ft, 'te, 's, 'w) service \<Rightarrow> ('e \<Rightarrow> 'te) \<Rightarrow>
     (('t, 'tt) auto_tls_transport, ('u, 'h, 'x, 'b) request, ('f, 'ft) transport_braid_future,
      'te, ('s, 'i) client_stream, 'w) service" where
  "auto_tls_ops A P T TT ce =
     \<lparr>poll_ready = auto_tls_poll_ready T TT ce, call = auto_tls_call A P T TT,
      poll_fut = transport_braid_future_poll (poll_fut T) (poll_fut TT) ce\<rparr>"

text \<open>The transport that always uses TLS.\<close>

record 'tt http_tls_transport = htt_transport :: 'tt

definition http_tls_new :: "('t, 'cfg, 'tt) tls_transport_api \<Rightarrow> 't \<Rightarrow> 'cfg \<Rightarrow> 'tt http_tls_transport" where
  "http_tls_new P transport config = \<lparr>htt_transport = tt_new P transport config\<rparr>"

definition http_tls_ops ::
  "('u, 'au, 'h, 'v) http_api \<Rightarrow>
     ('tt, ('u, 'h, 'x, 'b) request \<times> string option, 'ft, 'te, 's, 'w) service \<Rightarrow>
     ('f, 'e + 'i, 'w) pollf \<Rightarrow> ('e \<Rightarrow> 'te) \<Rightarrow>
     ('tt http_tls_transport, ('u, 'h, 'x, 'b) request, ('f, 'ft) transport_braid_future,
      'te, ('s, 'i) client_stream, 'w) service" where
  "http_tls_ops A TT p ce =
     \<lparr>poll_ready = (\<lambda>self w. lift_res (\<lambda>t. self\<lparr>htt_transport := t\<rparr>) (poll_ready TT (htt_transport self) w)),
      call = (\<lambda>self request w.
        map_res (map_outcome Braid_Tls_Connect)
          (lift_res (\<lambda>t. self\<lparr>htt_transport := t\<rparr>)
            (call TT (htt_transport self) (request, get_tls_domain A request) w))),
      poll_fut = transport_braid_future_poll p (poll_fut TT) ce\<rparr>"

lemma run_call_braid_tls:
  assumes "call S s r w = map_res (map_outcome Braid_Tls_Connect) (lift_res g (call TT t r' w))"
    and "poll_fut S = transport_braid_future_poll p (poll_fut TT) ce"
  shows "run_call S n s r w =
    map_res (map_polled (map_ok (\<lambda>s. client_stream_from_opt (OptTls_Tls s))))
      (lift_res g (run_call TT n t r' w))"
proof -
  obtain c t' w' where c: "call TT t r' w = (c, t', w')" by (cases "call TT t r' w") auto
  show ?thesis
  proof (cases c)
    case Panic
    with assms c show ?thesis by (simp add: run_call_def)
  next
    case (Ret f)
    obtain q f' w'' where "run_polls (poll_fut TT) n f w' = (q, f', w'')"
      by (cases "run_polls (poll_fut TT) n f w'") auto
    with assms c Ret show ?thesis by (simp add: run_call_def braid_tls_future.run_wrap)
  qed
qed

lemma run_call_braid_plain:
  assumes "call S s r w = map_res (map_outcome Braid_Plain) (lift_res g (call T t r' w))"
    and "poll_fut S = transport_braid_future_poll (poll_fut T) pt ce"
  shows "run_call S n s r w =
    map_res (map_polled (map_sum ce client_stream_new)) (lift_res g (run_call T n t r' w))"
proof -
  obtain c t' w' where c: "call T t r' w = (c, t', w')" by (cases "call T t r' w") auto
  show ?thesis
  proof (cases c)
    case Panic
    with assms c show ?thesis by (simp add: run_call_def)
  next
    case (Ret f)
    obtain q f' w'' where "run_polls (poll_fut T) n f w' = (q, f', w'')"
      by (cases "run_polls (poll_fut T) n f w'") auto
    with assms c Ret show ?thesis by (simp add: run_call_def braid_plain_future.run_wrap)
  qed
qed

lemma auto_tls_run:
  "run_call (auto_tls_ops A P T TT ce) n self r w =
     (case (self, get_tls_domain A r) of
        (Transport_Tls tt, Some domain) \<Rightarrow>
          map_res (map_polled (map_ok (\<lambda>s. \<lparr>cs_inner = OptTls_Tls s\<rparr>)))
            (lift_res Transport_Tls (run_call TT n tt (r, Some domain) w))
      | (Transport_Tls tt, None) \<Rightarrow>
          map_res (map_polled (map_sum ce (\<lambda>i. \<lparr>cs_inner = OptTls_NoTls i\<rparr>)))
            (lift_res (\<lambda>t. Transport_Tls (tt_set_transport P tt t)) (run_call T n (tt_transport P tt) r w))
      | (Transport_Plain t, _) \<Rightarrow>
          map_res (map_polled (map_sum ce (\<lambda>i. \<lparr>cs_inner = OptTls_NoTls i\<rparr>)))
            (lift_res Transport_Plain (run_call T n t r w)))
   \<and> get_tls_domain A r =
        (if uri_scheme A (rq_uri r) \<in> {Some ''https'', Some ''wss''}
         then (case Option.bind (hdr_get A (rq_headers r) ''host'') (hv_to_str A) of
                 Some h \<Rightarrow> Some h | None \<Rightarrow> uri_host A (rq_uri r))
         else None)"
proof -
  have new: "client_stream_new = (\<lambda>i. \<lparr>cs_inner = OptTls_NoTls i\<rparr>)"
    "(\<lambda>s. client_stream_from_opt (OptTls_Tls s)) = (\<lambda>s. \<lparr>cs_inner = OptTls_Tls s\<rparr>)"
    by (simp_all add: client_stream_new_def client_stream_from_opt_def fun_eq_iff)
  have fut: "poll_fut (auto_tls_ops A P T TT ce) = transport_braid_future_poll (poll_fut T) (poll_fut TT) ce"
    by (simp add: auto_tls_ops_def)
  have "get_tls_domain A r =
        (if uri_scheme A (rq_uri r) \<in> {Some ''https'', Some ''wss''}
         then (case Option.bind (hdr_get A (rq_headers r) ''host'') (hv_to_str A) of
                 Some h \<Rightarrow> Some h | None \<Rightarrow> uri_host A (rq_uri r))
         else None)"
    by (auto simp: get_tls_domain_def get_host_def split: option.splits)
  moreover have "run_call (auto_tls_ops A P T TT ce) n (Transport_Plain t) r w =
      map_res (map_polled (map_sum ce (\<lambda>i. \<lparr>cs_inner = OptTls_NoTls i\<rparr>)))
        (lift_res Transport_Plain (run_call T n t r w))" for t
    unfolding new(1) [symmetric]
    by (rule run_call_braid_plain [OF _ fut]) (simp add: auto_tls_ops_def auto_tls_call_def)
  moreover have "run_call (auto_tls_ops A P T TT ce) n (Transport_Tls tt) r w =
      map_res (map_polled (map_ok (\<lambda>s. \<lparr>cs_inner = OptTls_Tls s\<rparr>)))
        (lift_res Transport_Tls (run_call TT n tt (r, Some d) w))" if "get_tls_domain A r = Some d" for tt d
    unfolding new(2) [symmetric]
    by (rule run_call_braid_tls [OF _ fut]) (simp add: auto_tls_ops_def auto_tls_call_def that)
  moreover have "run_call (auto_tls_ops A P T TT ce) n (Transport_Tls tt) r w =
      map_res (map_polled (map_sum ce (\<lambda>i. \<lparr>cs_inner = OptTls_NoTls i\<rparr>)))
        (lift_res (\<lambda>t. Transport_Tls (tt_set_transport P tt t)) (run_call T n (tt_transport P tt) r w))"
    if "get_tls_domain A r = None" for tt
    unfolding new(1) [symmetric]
    by (rule run_call_braid_plain [OF _ fut]) (simp add: auto_tls_ops_def auto_tls_call_def that)
  ultimately show ?thesis
    by (simp split: auto_tls_transport.split option.split)
qed

text \<open>
  TLS is never dropped. A transport with TLS connects a request with an \<open>https\<close> or
  \<open>wss\<close> URI that has a host through its TLS transport, with a domain, and what it returns
  is a TLS stream; the plain transport is not called. A request with another scheme (or
  none), or on a transport without TLS, is connected without TLS, and the stream says so.
\<close>

theorem auto_tls_connects:
  "run_call (auto_tls_ops A P T TT ce) n self r w =
     (case (self, get_tls_domain A r) of
        (Transport_Tls tt, Some domain) \<Rightarrow>
          map_res (map_polled (map_ok (\<lambda>s. \<lparr>cs_inner = OptTls_Tls s\<rparr>)))
            (lift_res Transport_Tls (run_call TT n tt (r, Some domain) w))
      | (Transport_Tls tt, None) \<Rightarrow>
          map_res (map_polled (map_sum ce (\<lambda>i. \<lparr>cs_inner = OptTls_NoTls i\<rparr>)))
            (lift_res (\<lambda>t. Transport_Tls (tt_set_transport P tt t)) (run_call T n (tt_transport P tt) r w))
      | (Transport_Plain t, _) \<Rightarrow>
          map_res (map_polled (map_sum ce (\<lambda>i. \<lparr>cs_inner = OptTls_NoTls i\<rparr>)))
            (lift_res Transport_Plain (run_call T n t r w)))
   \<and> get_tls_domain A r =
        (if uri_scheme A (rq_uri r) \<in> {Some ''https'', Some ''wss''}
         then (case Option.bind (hdr_get A (rq_headers r) ''host'') (hv_to_str A) of
                 Some h \<Rightarrow> Some h | None \<Rightarrow> uri_host A (rq_uri r))
         else None)"
  by (rule auto_tls_run)

lemma auto_tls_parts:
  assumes "tls_transport_laws P"
  shows "auto_tls_into_parts P (auto_tls_with_tls P self cfg) = (auto_tls_inner P self, Some cfg)"
    and "auto_tls_into_inner P (auto_tls_with_optional_tls P (auto_tls_new t) c) = t"
  using assms
  by (auto simp: tls_transport_laws_def auto_tls_into_parts_def auto_tls_with_tls_def
      auto_tls_inner_def auto_tls_into_inner_def auto_tls_with_optional_tls_def auto_tls_new_def
      split: auto_tls_transport.split option.split)

end
