(* ===== verification/Client_Handle.thy ===== *)
theory Client_Handle
  imports Client_Transport
begin

text \<open>
  The client handle (\<open>src/client/mod.rs\<close>): the key under which the pool files a connection,
  and \<open>Client\<close>, a shared, copy-on-write reference to a service. \<open>Arc\<close> cells live in an
  explicit store, so that two handles on one cell are visible in the model.
\<close>

section \<open>The key of the connection pool\<close>

datatype 'au uri_key = UriKey string "'au option"

definition uri_key_display :: "('u, 'au, 'h, 'v) http_api \<Rightarrow> 'au uri_key \<Rightarrow> string" where
  "uri_key_display A self =
     (case self of UriKey scheme authority \<Rightarrow>
        scheme @ ''://'' @ (case authority of None \<Rightarrow> [] | Some a \<Rightarrow> authority_str A a))"

definition uri_key_from :: "string \<times> 'au \<Rightarrow> 'au uri_key" where
  "uri_key_from value = UriKey (fst value) (Some (snd value))"

text \<open>
  \<open>key_error\<close> is \<open>KeyError::new\<close> of a message and \<open>uri_display\<close> the \<open>Display\<close> of a URI; the
  \<open>unwrap\<close> on the reassembled URI is the panicking branch.
\<close>

definition uri_key_try_from ::
  "('u, 'au, 'h, 'v) http_api \<Rightarrow> ('u \<Rightarrow> string) \<Rightarrow> (string \<Rightarrow> 'ke) \<Rightarrow> 'u \<Rightarrow> ('ke + 'au uri_key) outcome" where
  "uri_key_try_from A uri_display key_error uri =
     (let authority = uri_authority A uri in
      case uri_scheme A uri of
        Some scheme \<Rightarrow> Ret (Inr (UriKey scheme authority))
      | None \<Rightarrow>
          (case uri_from_parts A None (uri_authority A uri) (uri_path_and_query A uri) of
             None \<Rightarrow> Panic
           | Some u \<Rightarrow> Ret (Inl (key_error (''Missing scheme in URI: '' @ uri_display u)))))"

definition uri_key_from_str ::
  "('u, 'au, 'h, 'v) http_api \<Rightarrow> ('u \<Rightarrow> string) \<Rightarrow> (string \<Rightarrow> 'ke) \<Rightarrow> (string \<Rightarrow> 'pe + 'u) \<Rightarrow> ('pe \<Rightarrow> 'ke) \<Rightarrow>
     string \<Rightarrow> ('ke + 'au uri_key) outcome" where
  "uri_key_from_str A uri_display key_error parse key_error_parse s =
     (case parse s of
        Inl e \<Rightarrow> Ret (Inl (key_error_parse e))
      | Inr uri \<Rightarrow> uri_key_try_from A uri_display key_error uri)"

definition build_key :: "('u, 'au, 'h, 'v) http_api \<Rightarrow> ('u, 'h, 'x, 'b) request \<Rightarrow> 'ke + 'au uri_key" where
  "build_key A request =
     (let authority = uri_authority A (rq_uri request);
          scheme = (case uri_scheme A (rq_uri request) of
                      Some scheme \<Rightarrow> scheme
                    | None \<Rightarrow>
                        (case rq_version request of
                           HTTP_2 \<Rightarrow> ''https''
                         | HTTP_3 \<Rightarrow> ''https''
                         | _ \<Rightarrow> ''http''))
      in Inr (UriKey scheme authority))"

text \<open>
  A key with an authority, printed and parsed again, is the same key, when the parser reads
  \<open>scheme://authority\<close> as that scheme and authority.
\<close>

lemma uri_key_roundtrip:
  assumes "parse (s @ ''://'' @ authority_str A a) = Inr u"
    and "uri_scheme A u = Some s" and "uri_authority A u = Some a"
  shows "uri_key_from_str A uri_display key_error parse key_error_parse (uri_key_display A (uri_key_from (s, a)))
     = Ret (Inr (uri_key_from (s, a)))"
  using assms by (simp add: uri_key_from_str_def uri_key_display_def uri_key_from_def uri_key_try_from_def)

text \<open>The scheme a request is filed under.\<close>

definition effective_scheme :: "('u, 'au, 'h, 'v) http_api \<Rightarrow> ('u, 'h, 'x, 'b) request \<Rightarrow> string" where
  "effective_scheme A r =
     (case uri_scheme A (rq_uri r) of
        Some s \<Rightarrow> s
      | None \<Rightarrow> if rq_version r \<in> {HTTP_2, HTTP_3} then ''https'' else ''http'')"

lemma build_key_eq: "build_key A r = Inr (UriKey (effective_scheme A r) (uri_authority A (rq_uri r)))"
  by (simp add: build_key_def effective_scheme_def split: option.split http_version.split)

lemma get_tls_domain_iff:
  assumes "uri_laws A" and "uri_authority A (rq_uri r) = Some a"
  shows "get_tls_domain A r = None \<longleftrightarrow> uri_scheme A (rq_uri r) \<notin> {Some ''https'', Some ''wss''}"
  using assms uri_laws_host [OF assms(1)]
  by (auto simp: get_tls_domain_def get_host_def split: option.splits)


definition key_request :: "string option \<Rightarrow> string \<Rightarrow> http_version \<Rightarrow>
    (plain_uri, (string \<times> string) list, unit, unit) request" where
  "key_request scheme host version =
     \<lparr>rq_method = GET,
      rq_uri = \<lparr>pu_scheme = scheme, pu_authority = Some \<lparr>pa_host = host, pa_port = None\<rparr>, pu_path = None\<rparr>,
      rq_version = version, rq_headers = [], rq_ext = (), rq_body = ()\<rparr>"


text \<open>
  Where the key and the transport disagree. An HTTP/2 or HTTP/3 request whose URI is an
  authority without a scheme is filed under \<open>https\<close>, but the transport connects it without
  TLS; an \<open>https\<close> request to the same authority has the same key, and wants TLS.
\<close>

theorem schemeless_http2_key:
  assumes "uri_laws A"
    and "uri_scheme A (rq_uri r1) = None" "uri_authority A (rq_uri r1) = Some a"
    and "rq_version r1 = HTTP_2 \<or> rq_version r1 = HTTP_3"
    and "uri_scheme A (rq_uri r2) = Some ''https''" "uri_authority A (rq_uri r2) = Some a"
  shows "build_key A r1 = (build_key A r2 :: 'ke + 'au uri_key)
    \<and> get_tls_domain A r1 = None \<and> get_tls_domain A r2 \<noteq> None"
  using assms get_tls_domain_iff [OF assms(1,3)] get_tls_domain_iff [OF assms(1,6)]
  by (auto simp: build_key_eq effective_scheme_def)

lemma schemeless_http2_key_witness:
  "build_key plain_api (key_request None ''a'' HTTP_2) =
      (build_key plain_api (key_request (Some ''https'') ''a'' HTTP_11) :: unit + plain_authority uri_key)
    \<and> get_tls_domain plain_api (key_request None ''a'' HTTP_2) = None
    \<and> get_tls_domain plain_api (key_request (Some ''https'') ''a'' HTTP_11) \<noteq> None"
  by (rule schemeless_http2_key [where a = "\<lparr>pa_host = ''a'', pa_port = None\<rparr>", OF plain_uri_laws])
    (simp_all add: api_simps key_request_def)

section \<open>The client\<close>

text \<open>
  \<open>oneshot\<close> is \<open>tower::ServiceExt::oneshot\<close>, which takes the service by value; \<open>clone\<close> is
  the clone of the boxed service.
\<close>

record 's client_ref = cr_service :: 's

definition client_ref_new :: "'s \<Rightarrow> 's client_ref" where
  "client_ref_new service = \<lparr>cr_service = service\<rparr>"

definition client_ref_request :: "('s \<Rightarrow> 's) \<Rightarrow> ('s \<Rightarrow> 'r \<Rightarrow> 'o) \<Rightarrow> 's client_ref \<Rightarrow> 'r \<Rightarrow> 'o \<times> 's client_ref" where
  "client_ref_request clone oneshot self request =
     (let service = clone (cr_service self)
      in (oneshot (cr_service self) request, self\<lparr>cr_service := service\<rparr>))"

text \<open>The store of \<open>Arc\<close> cells: a value and the number of handles on it.\<close>

record 's arc_store =
  as_cells :: "nat \<Rightarrow> ('s client_ref \<times> nat) option"
  as_next :: nat

record client = cl_inner :: nat

definition arc_new :: "'s client_ref \<Rightarrow> 's arc_store \<Rightarrow> nat \<times> 's arc_store" where
  "arc_new v h =
     (as_next h, h\<lparr>as_cells := (as_cells h)(as_next h \<mapsto> (v, 1)), as_next := Suc (as_next h)\<rparr>)"

definition arc_drop :: "nat \<Rightarrow> 's arc_store \<Rightarrow> 's arc_store" where
  "arc_drop a h =
     (case as_cells h a of
        None \<Rightarrow> h
      | Some (v, n) \<Rightarrow>
          h\<lparr>as_cells := (as_cells h)(a := if n \<le> 1 then None else Some (v, n - 1))\<rparr>)"

definition arc_get :: "nat \<Rightarrow> 's arc_store \<Rightarrow> 's client_ref option" where
  "arc_get a h = map_option fst (as_cells h a)"

definition arc_set :: "nat \<Rightarrow> 's client_ref \<Rightarrow> 's arc_store \<Rightarrow> 's arc_store" where
  "arc_set a v h = h\<lparr>as_cells := (as_cells h)(a := map_option (\<lambda>(_, n). (v, n)) (as_cells h a))\<rparr>"

text \<open>
  \<open>Arc::make_mut\<close>: the cell itself when this is the only handle, else a new cell with a
  clone of the value.
\<close>

definition arc_make_mut :: "('s \<Rightarrow> 's) \<Rightarrow> nat \<Rightarrow> 's arc_store \<Rightarrow> nat \<times> 's arc_store" where
  "arc_make_mut clone a h =
     (case as_cells h a of
        None \<Rightarrow> (a, h)
      | Some (v, n) \<Rightarrow>
          if n = 1 then (a, h) else arc_new \<lparr>cr_service = clone (cr_service v)\<rparr> (arc_drop a h))"

definition client_new_from_service :: "'s \<Rightarrow> 's arc_store \<Rightarrow> client \<times> 's arc_store" where
  "client_new_from_service service h =
     (case arc_new (client_ref_new service) h of (a, h') \<Rightarrow> (\<lparr>cl_inner = a\<rparr>, h'))"

definition client_clone :: "client \<Rightarrow> 's arc_store \<Rightarrow> client \<times> 's arc_store" where
  "client_clone self h =
     (self, h\<lparr>as_cells := (as_cells h)(cl_inner self := map_option (\<lambda>(v, n). (v, Suc n)) (as_cells h (cl_inner self)))\<rparr>)"

definition client_request ::
  "('s \<Rightarrow> 's) \<Rightarrow> ('s \<Rightarrow> 'r \<Rightarrow> 'o) \<Rightarrow> client \<Rightarrow> 'r \<Rightarrow> 's arc_store \<Rightarrow> 'o option \<times> client \<times> 's arc_store" where
  "client_request clone oneshot self request h =
     (case arc_make_mut clone (cl_inner self) h of
        (a, h1) \<Rightarrow>
          (case arc_get a h1 of
             None \<Rightarrow> (None, self\<lparr>cl_inner := a\<rparr>, h1)
           | Some v \<Rightarrow>
               (case client_ref_request clone oneshot v request of
                  (fut, v') \<Rightarrow> (Some fut, self\<lparr>cl_inner := a\<rparr>, arc_set a v' h1))))"

definition client_poll_ready ::
  "('s \<Rightarrow> 's) \<Rightarrow> ('s \<Rightarrow> 'w \<Rightarrow> ('e + unit) polled \<times> 's \<times> 'w) \<Rightarrow> client \<Rightarrow> 's arc_store \<Rightarrow> 'w \<Rightarrow>
     ('e + unit) polled option \<times> client \<times> 's arc_store \<times> 'w" where
  "client_poll_ready clone ready self h w =
     (case arc_make_mut clone (cl_inner self) h of
        (a, h1) \<Rightarrow>
          (case arc_get a h1 of
             None \<Rightarrow> (None, self\<lparr>cl_inner := a\<rparr>, h1, w)
           | Some v \<Rightarrow>
               (case ready (cr_service v) w of
                  (r, s, w') \<Rightarrow> (Some r, self\<lparr>cl_inner := a\<rparr>, arc_set a (v\<lparr>cr_service := s\<rparr>) h1, w'))))"

definition client_into_inner :: "('s \<Rightarrow> 's) \<Rightarrow> client \<Rightarrow> 's arc_store \<Rightarrow> 's option \<times> 's arc_store" where
  "client_into_inner clone self h =
     (case as_cells h (cl_inner self) of
        None \<Rightarrow> (None, h)
      | Some (v, n) \<Rightarrow>
          (Some (if n = 1 then cr_service v else clone (cr_service v)), arc_drop (cl_inner self) h))"

text \<open>
  A store is consistent with the live handles when every cell counts its handles and every
  handle has a cell.
\<close>

definition store_ok :: "'s arc_store \<Rightarrow> client list \<Rightarrow> bool" where
  "store_ok h cs \<longleftrightarrow>
     (\<forall>a. (case as_cells h a of
             None \<Rightarrow> count_list (map cl_inner cs) a = 0
           | Some (_, n) \<Rightarrow> n = count_list (map cl_inner cs) a \<and> 0 < n \<and> a < as_next h))"

definition client_service :: "'s arc_store \<Rightarrow> client \<Rightarrow> 's option" where
  "client_service h c = map_option cr_service (arc_get (cl_inner c) h)"

lemma store_ok_handle:
  assumes "store_ok h cs" and "c \<in> set cs"
  obtains v n where "as_cells h (cl_inner c) = Some (v, n)" "n = count_list (map cl_inner cs) (cl_inner c)"
    "0 < n" "cl_inner c < as_next h"
proof -
  have "count_list (map cl_inner cs) (cl_inner c) \<noteq> 0"
    using assms(2) by (auto simp: count_list_0_iff)
  with assms(1) that show thesis
    unfolding store_ok_def by (cases "as_cells h (cl_inner c)") (auto dest!: spec [of _ "cl_inner c"])
qed

lemma store_ok_fresh: "store_ok h cs \<Longrightarrow> as_cells h (as_next h) = None"
  unfolding store_ok_def by (drule spec [of _ "as_next h"]) (auto split: option.splits)

lemma store_ok_unshared:
  assumes "store_ok h (c # cs)" and "as_cells h (cl_inner c) = Some (v, n)"
  shows "n = 1 \<longleftrightarrow> cl_inner c \<notin> cl_inner ` set cs" and "n = Suc (count_list (map cl_inner cs) (cl_inner c))"
  using assms unfolding store_ok_def by (auto dest!: spec [of _ "cl_inner c"] simp: count_list_0_iff)

lemma arc_drop_ok:
  assumes "store_ok h (c # cs)"
  shows "store_ok (arc_drop (cl_inner c) h) cs"
    and "d \<in> set cs \<Longrightarrow> client_service (arc_drop (cl_inner c) h) d = client_service h d"
proof -
  obtain v n where v: "as_cells h (cl_inner c) = Some (v, n)" by (rule store_ok_handle [OF assms, of c]) auto
  note n = store_ok_unshared (2) [OF assms v]
  show "store_ok (arc_drop (cl_inner c) h) cs"
    unfolding store_ok_def
  proof
    fix b
    have b: "case as_cells h b of None \<Rightarrow> count_list (map cl_inner (c # cs)) b = 0
        | Some (_, m) \<Rightarrow> m = count_list (map cl_inner (c # cs)) b \<and> 0 < m \<and> b < as_next h"
      using assms unfolding store_ok_def by blast
    show "case as_cells (arc_drop (cl_inner c) h) b of None \<Rightarrow> count_list (map cl_inner cs) b = 0
        | Some (_, m) \<Rightarrow> m = count_list (map cl_inner cs) b \<and> 0 < m \<and> b < as_next (arc_drop (cl_inner c) h)"
    proof (cases "b = cl_inner c")
      case True
      with b v n show ?thesis by (simp add: arc_drop_def)
    next
      case False
      with b v show ?thesis by (auto simp: arc_drop_def split: option.splits)
    qed
  qed
  show "client_service (arc_drop (cl_inner c) h) d = client_service h d" if d: "d \<in> set cs"
  proof (cases "cl_inner d = cl_inner c")
    case True
    from d have "cl_inner d \<in> cl_inner ` set cs" by (rule imageI)
    with True have "count_list (map cl_inner cs) (cl_inner c) \<noteq> 0" by (simp add: count_list_0_iff)
    with True v n show ?thesis by (simp add: client_service_def arc_get_def arc_drop_def)
  next
    case False
    with v show ?thesis by (simp add: client_service_def arc_get_def arc_drop_def)
  qed
qed

lemma arc_new_ok:
  assumes "store_ok h cs" and "arc_new v h = (a, h')"
  shows "store_ok h' (\<lparr>cl_inner = a\<rparr> # cs)" and "arc_get a h' = Some v" and "a \<notin> cl_inner ` set cs"
    and "d \<in> set cs \<Longrightarrow> client_service h' d = client_service h d"
proof -
  have fresh: "count_list (map cl_inner cs) (as_next h) = 0"
    using assms(1) store_ok_fresh [OF assms(1)] unfolding store_ok_def by (auto dest: spec [of _ "as_next h"])
  have a: "a = as_next h" and h': "h' = snd (arc_new v h)" using assms(2) by (auto simp: arc_new_def)
  show "store_ok h' (\<lparr>cl_inner = a\<rparr> # cs)"
    unfolding store_ok_def
  proof
    fix b
    have "case as_cells h b of None \<Rightarrow> count_list (map cl_inner cs) b = 0
        | Some (_, n) \<Rightarrow> n = count_list (map cl_inner cs) b \<and> 0 < n \<and> b < as_next h"
      using assms(1) by (simp add: store_ok_def)
    then show "case as_cells h' b of None \<Rightarrow> count_list (map cl_inner (\<lparr>cl_inner = a\<rparr> # cs)) b = 0
        | Some (_, n) \<Rightarrow> n = count_list (map cl_inner (\<lparr>cl_inner = a\<rparr> # cs)) b \<and> 0 < n \<and> b < as_next h'"
      using fresh by (auto simp: a h' arc_new_def split: option.splits)
  qed
  show "arc_get a h' = Some v" by (simp add: a h' arc_get_def arc_new_def)
  show new: "a \<notin> cl_inner ` set cs" using fresh by (auto simp: a count_list_0_iff)
  show "client_service h' d = client_service h d" if "d \<in> set cs"
  proof -
    have "cl_inner d \<noteq> as_next h" using that new a by (metis imageI)
    then show ?thesis by (simp add: h' client_service_def arc_get_def arc_new_def)
  qed
qed

lemma client_new_ok:
  assumes "store_ok h cs" and "client_new_from_service s h = (c, h')"
  shows "store_ok h' (c # cs)" and "client_service h' c = Some s"
    and "map (client_service h') cs = map (client_service h) cs"
proof -
  obtain a where a: "arc_new (client_ref_new s) h = (a, h')" "c = \<lparr>cl_inner = a\<rparr>"
    using assms(2) by (auto simp: client_new_from_service_def split: prod.splits)
  note new = arc_new_ok [OF assms(1) a(1)]
  show "store_ok h' (c # cs)" "client_service h' c = Some s"
    using new(1,2) by (simp_all add: a(2) client_service_def client_ref_new_def)
  show "map (client_service h') cs = map (client_service h) cs"
    using new(4) by simp
qed

lemma arc_set_ok:
  assumes "store_ok h cs"
  shows "store_ok (arc_set a v h) cs"
  unfolding store_ok_def
proof
  fix b
  have "case as_cells h b of None \<Rightarrow> count_list (map cl_inner cs) b = 0
      | Some (_, n) \<Rightarrow> n = count_list (map cl_inner cs) b \<and> 0 < n \<and> b < as_next h"
    using assms unfolding store_ok_def by blast
  then show "case as_cells (arc_set a v h) b of None \<Rightarrow> count_list (map cl_inner cs) b = 0
      | Some (_, n) \<Rightarrow> n = count_list (map cl_inner cs) b \<and> 0 < n \<and> b < as_next (arc_set a v h)"
    by (cases "as_cells h b") (auto simp: arc_set_def)
qed

lemma arc_set_service:
  "client_service (arc_set a v h) d =
     (if cl_inner d = a then map_option (\<lambda>_. cr_service v) (client_service h d) else client_service h d)"
  by (auto simp: client_service_def arc_set_def arc_get_def option.map_comp comp_def split_beta)

text \<open>
  \<open>make_mut\<close> gives the handle a cell of its own, with its service or a clone of it, and
  leaves the service of every other handle alone.
\<close>

definition own_service :: "('s \<Rightarrow> 's) \<Rightarrow> client \<Rightarrow> client list \<Rightarrow> 's \<Rightarrow> 's" where
  "own_service clone c cs s = (if cl_inner c \<in> cl_inner ` set cs then clone s else s)"

lemma arc_make_mut_ok:
  assumes "store_ok h (c # cs)" and "client_service h c = Some s"
  obtains a h1 v where "arc_make_mut clone (cl_inner c) h = (a, h1)" "store_ok h1 (\<lparr>cl_inner = a\<rparr> # cs)"
    "arc_get a h1 = Some v" "cr_service v = own_service clone c cs s" "a \<notin> cl_inner ` set cs"
    "\<And>d. d \<in> set cs \<Longrightarrow> client_service h1 d = client_service h d"
proof -
  obtain v n where v: "as_cells h (cl_inner c) = Some (v, n)" by (rule store_ok_handle [OF assms(1), of c]) auto
  have s: "cr_service v = s" using assms(2) v by (simp add: client_service_def arc_get_def)
  note n = store_ok_unshared (1) [OF assms(1) v]
  show thesis
  proof (cases "n = 1")
    case True
    have "(\<lparr>cl_inner = cl_inner c\<rparr> :: client) = c" by simp
    then have "store_ok h (\<lparr>cl_inner = cl_inner c\<rparr> # cs)" using assms(1) by (rule ssubst)
    with True v n s show thesis
      by (intro that [of "cl_inner c" h v]) (simp_all add: arc_make_mut_def arc_get_def own_service_def)
  next
    case False
    obtain a h1 where new: "arc_new \<lparr>cr_service = clone s\<rparr> (arc_drop (cl_inner c) h) = (a, h1)"
      by (cases "arc_new \<lparr>cr_service = clone s\<rparr> (arc_drop (cl_inner c) h)") auto
    note drop = arc_drop_ok [OF assms(1)] and ok = arc_new_ok [OF arc_drop_ok(1) [OF assms(1)] new]
    show thesis
    proof (rule that [of a h1 "\<lparr>cr_service = clone s\<rparr>"])
      show "arc_make_mut clone (cl_inner c) h = (a, h1)"
        using False v s new by (simp add: arc_make_mut_def)
      show "cr_service \<lparr>cr_service = clone s\<rparr> = own_service clone c cs s"
        using False n by (simp add: own_service_def)
      show "client_service h1 d = client_service h d" if "d \<in> set cs" for d
        using that ok(4) drop(2) by simp
    qed (use ok in auto)
  qed
qed

lemma client_poll_ready_ok:
  assumes "store_ok h (c # cs)" and "client_poll_ready clone ready c h w = (r, c', h', w')"
  shows "store_ok h' (c' # cs)"
proof -
  obtain v n where "as_cells h (cl_inner c) = Some (v, n)" by (rule store_ok_handle [OF assms(1), of c]) auto
  then have s: "client_service h c = Some (cr_service v)" by (simp add: client_service_def arc_get_def)
  obtain a h1 x where m: "arc_make_mut clone (cl_inner c) h = (a, h1)" "store_ok h1 (\<lparr>cl_inner = a\<rparr> # cs)"
    "arc_get a h1 = Some x"
    by (rule arc_make_mut_ok [OF assms(1) s, of clone]) blast
  have cl: "c\<lparr>cl_inner := a\<rparr> = \<lparr>cl_inner = a\<rparr>" by (cases c) simp
  obtain q s' w1 where "ready (cr_service x) w = (q, s', w1)" by (cases "ready (cr_service x) w") auto
  with assms(2) m(1,3) have "c' = \<lparr>cl_inner = a\<rparr>" "h' = arc_set a (x\<lparr>cr_service := s'\<rparr>) h1"
    by (auto simp: client_poll_ready_def cl)
  then show ?thesis using arc_set_ok [OF m(2)] by simp
qed

lemma client_clone_ok:
  assumes "store_ok h cs" and "c \<in> set cs" and "client_clone c h = (c', h')"
  shows "store_ok h' (c' # cs)"
  unfolding store_ok_def
proof
  fix b
  have c': "c' = c" and h': "h' = snd (client_clone c h)" using assms(3) by (auto simp: client_clone_def)
  obtain v n where v: "as_cells h (cl_inner c) = Some (v, n)" "cl_inner c < as_next h"
    by (rule store_ok_handle [OF assms(1,2)]) auto
  have "case as_cells h b of None \<Rightarrow> count_list (map cl_inner cs) b = 0
      | Some (_, n) \<Rightarrow> n = count_list (map cl_inner cs) b \<and> 0 < n \<and> b < as_next h"
    using assms unfolding store_ok_def by blast
  then show "case as_cells h' b of None \<Rightarrow> count_list (map cl_inner (c' # cs)) b = 0
      | Some (_, n) \<Rightarrow> n = count_list (map cl_inner (c' # cs)) b \<and> 0 < n \<and> b < as_next h'"
    using v by (auto simp: c' h' client_clone_def split: option.splits)
qed

lemma client_request_run:
  assumes "store_ok h (c # cs)"
  shows "\<exists>s c' h'. client_service h c = Some s
    \<and> client_request clone oneshot c r h = (Some (oneshot (own_service clone c cs s) r), c', h')
    \<and> store_ok h' (c' # cs)
    \<and> client_service h' c' = Some (clone (own_service clone c cs s))
    \<and> map (client_service h') cs = map (client_service h) cs"
proof -
  obtain v n where "as_cells h (cl_inner c) = Some (v, n)" by (rule store_ok_handle [OF assms, of c]) auto
  then have s: "client_service h c = Some (cr_service v)" by (simp add: client_service_def arc_get_def)
  let ?s = "own_service clone c cs (cr_service v)"
  obtain a h1 w where m: "arc_make_mut clone (cl_inner c) h = (a, h1)" "store_ok h1 (\<lparr>cl_inner = a\<rparr> # cs)"
    "arc_get a h1 = Some w" "cr_service w = ?s" "a \<notin> cl_inner ` set cs"
    "\<And>d. d \<in> set cs \<Longrightarrow> client_service h1 d = client_service h d"
    by (rule arc_make_mut_ok [OF assms s, of clone]) blast
  have cl: "c\<lparr>cl_inner := a\<rparr> = \<lparr>cl_inner = a\<rparr>" by (cases c) simp
  have "client_request clone oneshot c r h =
      (Some (oneshot ?s r), \<lparr>cl_inner = a\<rparr>, arc_set a (w\<lparr>cr_service := clone ?s\<rparr>) h1)"
    by (simp add: client_request_def client_ref_request_def m(1,3,4) cl)
  moreover have "store_ok (arc_set a (w\<lparr>cr_service := clone ?s\<rparr>) h1) (\<lparr>cl_inner = a\<rparr> # cs)"
    by (rule arc_set_ok [OF m(2)])
  moreover have "client_service (arc_set a (w\<lparr>cr_service := clone ?s\<rparr>) h1) \<lparr>cl_inner = a\<rparr> = Some (clone ?s)"
    unfolding arc_set_service using m(3) by (simp add: client_service_def)
  moreover have "client_service (arc_set a (w\<lparr>cr_service := clone ?s\<rparr>) h1) d = client_service h d"
    if "d \<in> set cs" for d
    using m(6) [OF that] imageI [OF that, of cl_inner] m(5) by (auto simp: arc_set_service)
  ultimately show ?thesis using s by (intro exI conjI) (assumption | simp)+
qed

lemma client_request_ok:
  "store_ok h (c # cs) \<Longrightarrow> client_request clone oneshot c r h = (fut, c', h') \<Longrightarrow> store_ok h' (c' # cs)"
  using client_request_run [of h c cs clone oneshot r] by auto

text \<open>
  C25: Clones of a client are independent. In any consistent store, a request through one
  handle is sent by the service of that handle (by a clone of it while other handles share
  it), leaves a clone for the next request, and changes the service of no other handle; the
  store stays consistent. No handle is ever left without a cell.
\<close>

theorem client_request_isolated:
  assumes "store_ok h (c # cs)"
  shows "\<exists>s c' h'. client_service h c = Some s
    \<and> client_request clone oneshot c r h = (Some (oneshot (own_service clone c cs s) r), c', h')
    \<and> store_ok h' (c' # cs)
    \<and> client_service h' c' = Some (clone (own_service clone c cs s))
    \<and> map (client_service h') cs = map (client_service h) cs"
  using assms by (rule client_request_run)

text \<open>Two handles on one cell, with a service that counts how often it was cloned.\<close>

lemma client_request_isolated_witness:
  "\<exists>s c' h'. client_service
        (\<lparr>as_cells = [0 \<mapsto> (\<lparr>cr_service = 5\<rparr>, 2)], as_next = 1\<rparr> :: nat arc_store) \<lparr>cl_inner = 0\<rparr> = Some s
    \<and> client_request Suc Pair \<lparr>cl_inner = 0\<rparr> ''get''
        (\<lparr>as_cells = [0 \<mapsto> (\<lparr>cr_service = 5\<rparr>, 2)], as_next = 1\<rparr> :: nat arc_store) = (Some (6, ''get''), c', h')
    \<and> store_ok h' [c', \<lparr>cl_inner = 0\<rparr>]
    \<and> client_service h' c' = Some 7 \<and> client_service h' \<lparr>cl_inner = 0\<rparr> = Some 5"
proof -
  let ?h = "\<lparr>as_cells = [0 \<mapsto> (\<lparr>cr_service = 5\<rparr>, 2)], as_next = 1\<rparr> :: nat arc_store"
  have "store_ok ?h [\<lparr>cl_inner = 0\<rparr>, \<lparr>cl_inner = 0\<rparr>]" by (simp add: store_ok_def)
  from client_request_isolated [OF this, of Suc Pair "''get''"]
  show ?thesis by (auto simp: own_service_def client_service_def arc_get_def)
qed

text \<open>
  Everything a program can do with clients: make one from a service, clone one, send a
  request or poll readiness through one, take the service out of one or drop it.
\<close>

inductive client_step ::
  "('s \<Rightarrow> 's) \<Rightarrow> ('s \<Rightarrow> 'r \<Rightarrow> 'o) \<Rightarrow> ('s \<Rightarrow> 'w \<Rightarrow> ('e + unit) polled \<times> 's \<times> 'w) \<Rightarrow>
     's arc_store \<times> client list \<Rightarrow> 's arc_store \<times> client list \<Rightarrow> bool"
  for clone oneshot ready where
  Step_New: "client_new_from_service s h = (c, h') \<Longrightarrow> client_step clone oneshot ready (h, cs) (h', c # cs)"
| Step_Clone: "c \<in> set cs \<Longrightarrow> client_clone c h = (c', h') \<Longrightarrow>
    client_step clone oneshot ready (h, cs) (h', c' # cs)"
| Step_Request: "client_request clone oneshot c r h = (fut, c', h') \<Longrightarrow>
    client_step clone oneshot ready (h, xs @ c # ys) (h', xs @ c' # ys)"
| Step_Ready: "client_poll_ready clone ready c h w = (q, c', h', w') \<Longrightarrow>
    client_step clone oneshot ready (h, xs @ c # ys) (h', xs @ c' # ys)"
| Step_Into_Inner: "client_into_inner clone c h = (s, h') \<Longrightarrow>
    client_step clone oneshot ready (h, xs @ c # ys) (h', xs @ ys)"
| Step_Drop: "client_step clone oneshot ready (h, xs @ c # ys) (arc_drop (cl_inner c) h, xs @ ys)"

definition no_clients :: "'s arc_store" where
  "no_clients = \<lparr>as_cells = (\<lambda>_. None), as_next = 0\<rparr>"

lemma store_ok_middle: "store_ok h (xs @ c # ys) = store_ok h (c # xs @ ys)"
proof -
  have "count_list (map cl_inner (xs @ c # ys)) a = count_list (map cl_inner (c # xs @ ys)) a" for a
    by simp
  then show ?thesis by (simp only: store_ok_def)
qed

lemma store_ok_services: "store_ok h cs \<Longrightarrow> c \<in> set cs \<Longrightarrow> client_service h c \<noteq> None"
  by (erule (1) store_ok_handle) (simp add: client_service_def arc_get_def)

lemma client_step_ok:
  assumes "client_step clone oneshot ready (h, cs) (h', cs')" and "store_ok h cs"
  shows "store_ok h' cs'"
  using assms
proof (cases rule: client_step.cases)
  case (Step_New s c)
  with client_new_ok(1) [OF assms(2)] show ?thesis by blast
next
  case (Step_Clone c c')
  with client_clone_ok [OF assms(2)] show ?thesis by blast
next
  case (Step_Request c r fut c' xs ys)
  with assms(2) client_request_ok [of h c "xs @ ys"] show ?thesis by (simp add: store_ok_middle)
next
  case (Step_Ready c w q c' w' xs ys)
  with assms(2) client_poll_ready_ok [of h c "xs @ ys"] show ?thesis by (simp add: store_ok_middle)
next
  case (Step_Into_Inner c s xs ys)
  with assms(2) have ok: "store_ok h (c # xs @ ys)" by (simp add: store_ok_middle)
  obtain v n where "as_cells h (cl_inner c) = Some (v, n)" by (rule store_ok_handle [OF ok, of c]) auto
  with Step_Into_Inner arc_drop_ok(1) [OF ok] show ?thesis by (auto simp: client_into_inner_def)
next
  case (Step_Drop xs c ys)
  with assms(2) arc_drop_ok(1) [of h c "xs @ ys"] show ?thesis by (simp add: store_ok_middle)
qed



end
