(* ===== verification/Client_Builder.thy ===== *)
theory Client_Builder
  imports Service_Layers Http_Checks Client_Handle
begin

text \<open>
  The client builder (\<open>src/client/builder.rs\<close>) with and without the \<open>tls\<close> feature, the
  default TLS configuration (\<open>src/client/mod.rs\<close>) and the client's error type
  (\<open>src/client/error.rs\<close>). The layers the builder stacks that are not the crate's own (the
  boxed services, redirects, the header default, the error mapping and the connection pool)
  are parameters. The lemmas follow a request through the stack that \<open>build_service\<close> makes.
\<close>

section \<open>Errors\<close>

datatype 'h client_error =
  Err_Connection box_error
| Err_Transport box_error
| Err_Protocol box_error
| Err_Service box_error
| Err_User 'h
| Err_InvalidMethod http_method
| Err_UnsupportedProtocol
| Err_RequestTimeout

text \<open>The variants of chateau's \<open>ConnectionError\<close> that the conversion matches on, and the rest.\<close>

datatype ('t, 'p, 's, 'k, 'x) pool_error =
  Pool_Connecting 't | Pool_Handshaking 'p | Pool_Service 's | Pool_Unavailable | Pool_Key 'k | Pool_Other 'x

definition client_error_from ::
  "('t \<Rightarrow> box_error) \<Rightarrow> ('p \<Rightarrow> box_error) \<Rightarrow> ('s \<Rightarrow> box_error) \<Rightarrow> ('k \<Rightarrow> box_error) \<Rightarrow>
     ('t, 'p, 's, 'k, 'x) pool_error \<Rightarrow> 'h client_error" where
  "client_error_from into_t into_p into_s into_k error =
     (case error of
        Pool_Connecting e \<Rightarrow> Err_Transport (into_t e)
      | Pool_Handshaking e \<Rightarrow> Err_Protocol (into_p e)
      | Pool_Service e \<Rightarrow> Err_Connection (into_s e)
      | Pool_Unavailable \<Rightarrow> Err_Connection (BoxError ''pool closed, no connection can be made'')
      | Pool_Key e \<Rightarrow> Err_Connection (into_k e)
      | Pool_Other _ \<Rightarrow> Err_Connection (BoxError ''Unknown error occured''))"

section \<open>The default TLS configuration\<close>

text \<open>
  What the crate uses of rustls: the empty root store, adding a certificate to it, the
  configuration for the roots without client authentication, and its list of ALPN protocols.
\<close>

record ('cert, 'roots, 'e, 'cfg) rustls_api =
  roots_empty :: 'roots
  roots_add :: "'roots \<Rightarrow> 'cert \<Rightarrow> 'e + 'roots"
  cfg_build :: "'roots \<Rightarrow> 'cfg"
  cfg_alpn :: "'cfg \<Rightarrow> string list"
  cfg_set_alpn :: "'cfg \<Rightarrow> string list \<Rightarrow> 'cfg"

text \<open>The loop over the certificates; the \<open>unwrap\<close> panics on one the store refuses.\<close>

fun add_certs :: "('cert, 'roots, 'e, 'cfg) rustls_api \<Rightarrow> 'roots \<Rightarrow> 'cert list \<Rightarrow> 'roots outcome" where
  "add_certs R roots [] = Ret roots"
| "add_certs R roots (cert # certs) =
     (case roots_add R roots cert of Inl _ \<Rightarrow> Panic | Inr roots' \<Rightarrow> add_certs R roots' certs)"

text \<open>\<open>loaded\<close> is what loading the certificates of the platform gave.\<close>

definition default_tls_config ::
  "('cert, 'roots, 'e, 'cfg) rustls_api \<Rightarrow> 'le + 'cert list \<Rightarrow> 'cfg outcome" where
  "default_tls_config R loaded =
     (case loaded of
        Inl _ \<Rightarrow> Panic
      | Inr certs \<Rightarrow>
          (case add_certs R (roots_empty R) certs of
             Panic \<Rightarrow> Panic
           | Ret roots \<Rightarrow>
               (let cfg = cfg_build R roots;
                    cfg = cfg_set_alpn R cfg (cfg_alpn R cfg @ [''h2'']);
                    cfg = cfg_set_alpn R cfg (cfg_alpn R cfg @ [''http/1.1''])
                in Ret cfg)))"

text \<open>Documented of rustls: a new configuration offers no protocol, and the list is a field.\<close>

definition alpn_laws :: "('cert, 'roots, 'e, 'cfg) rustls_api \<Rightarrow> bool" where
  "alpn_laws R \<longleftrightarrow>
     (\<forall>roots. cfg_alpn R (cfg_build R roots) = []) \<and> (\<forall>cfg ps. cfg_alpn R (cfg_set_alpn R cfg ps) = ps)"

text \<open>
  The default configuration offers HTTP/2 before HTTP/1.1; there is none when the
  certificates cannot be loaded or the store refuses one of them.
\<close>

lemma default_tls_config_offers:
  assumes "alpn_laws R"
  shows "(case default_tls_config R loaded of
      Ret cfg \<Rightarrow> cfg_alpn R cfg = [''h2'', ''http/1.1'']
    | Panic \<Rightarrow> (case loaded of Inl _ \<Rightarrow> True | Inr certs \<Rightarrow> add_certs R (roots_empty R) certs = Panic))"
  using assms by (simp add: default_tls_config_def alpn_laws_def Let_def split: sum.split outcome.split)

section \<open>The builder\<close>

text \<open>
  The \<open>ServiceBuilder\<close> with the layers added so far is the function that applies them.
  Durations are counted in nanoseconds.
\<close>

record ('t, 'p, 'rp, 'l, 'cfg, 'pool) client_builder =
  cb_transport :: 't
  cb_protocol :: 'p
  cb_builder :: 'l
  cb_user_agent :: "string option"
  cb_redirect :: "'rp option"
  cb_timeout :: "duration option"
  cb_tls :: "'cfg option"
  cb_pool :: "'pool option"

definition duration_from_secs :: "nat \<Rightarrow> duration" where
  "duration_from_secs n = n * 1000000000"

definition client_builder_new :: "(unit, unit, 'rp, 's \<Rightarrow> 's, 'cfg, 'pool) client_builder" where
  "client_builder_new =
     \<lparr>cb_transport = (), cb_protocol = (), cb_builder = (\<lambda>s. s), cb_user_agent = None,
      cb_redirect = None, cb_timeout = None, cb_tls = None, cb_pool = None\<rparr>"

definition client_builder_default ::
  "'t \<Rightarrow> 'p \<Rightarrow> 'rp \<Rightarrow> 'cfg outcome \<Rightarrow> 'pool \<Rightarrow>
     ('t, 'p, 'rp, 's \<Rightarrow> 's, 'cfg, 'pool) client_builder outcome" where
  "client_builder_default transport protocol standard tls pool =
     map_outcome (\<lambda>config.
       \<lparr>cb_transport = transport, cb_protocol = protocol, cb_builder = (\<lambda>s. s), cb_user_agent = None,
        cb_redirect = Some standard, cb_timeout = Some (duration_from_secs 30),
        cb_tls = Some config, cb_pool = Some pool\<rparr>) tls"

definition with_transport ::
  "'t2 \<Rightarrow> ('t, 'p, 'rp, 'l, 'cfg, 'pool) client_builder \<Rightarrow> ('t2, 'p, 'rp, 'l, 'cfg, 'pool) client_builder" where
  "with_transport transport self =
     \<lparr>cb_transport = transport, cb_protocol = cb_protocol self, cb_builder = cb_builder self,
      cb_user_agent = cb_user_agent self, cb_redirect = cb_redirect self, cb_timeout = cb_timeout self,
      cb_tls = cb_tls self, cb_pool = cb_pool self\<rparr>"

definition with_tcp ::
  "('res \<Rightarrow> 'cfgt \<Rightarrow> 't2) \<Rightarrow> 'res \<Rightarrow> 'cfgt \<Rightarrow> ('t, 'p, 'rp, 'l, 'cfg, 'pool) client_builder \<Rightarrow>
     ('t2, 'p, 'rp, 'l, 'cfg, 'pool) client_builder" where
  "with_tcp tcp_new resolver config self =
     \<lparr>cb_transport = tcp_new resolver config, cb_protocol = cb_protocol self, cb_builder = cb_builder self,
      cb_user_agent = cb_user_agent self, cb_redirect = cb_redirect self, cb_timeout = cb_timeout self,
      cb_tls = cb_tls self, cb_pool = cb_pool self\<rparr>"

text \<open>
  The methods that hand out a mutable reference to a field, with the change \<open>f\<close> made
  through it.
\<close>

definition builder_transport where
  "builder_transport f self = self\<lparr>cb_transport := f (cb_transport self)\<rparr>"

definition with_protocol ::
  "'p2 \<Rightarrow> ('t, 'p, 'rp, 'l, 'cfg, 'pool) client_builder \<Rightarrow> ('t, 'p2, 'rp, 'l, 'cfg, 'pool) client_builder" where
  "with_protocol protocol self =
     \<lparr>cb_transport = cb_transport self, cb_protocol = protocol, cb_builder = cb_builder self,
      cb_user_agent = cb_user_agent self, cb_redirect = cb_redirect self, cb_timeout = cb_timeout self,
      cb_tls = cb_tls self, cb_pool = cb_pool self\<rparr>"

definition with_tls where
  "with_tls config self = self\<lparr>cb_tls := Some config\<rparr>"

definition without_tls where
  "without_tls self = self\<lparr>cb_tls := None\<rparr>"

definition with_default_tls where
  "with_default_tls R loaded self =
     map_outcome (\<lambda>config. self\<lparr>cb_tls := Some config\<rparr>) (default_tls_config R loaded)"

definition builder_tls where
  "builder_tls f self = self\<lparr>cb_tls := f (cb_tls self)\<rparr>"

text \<open>Without the \<open>tls\<close> feature there is nothing to disable.\<close>

definition without_tls_no_feature where
  "without_tls_no_feature self = self"

definition builder_pool where
  "builder_pool f self = self\<lparr>cb_pool := map_option f (cb_pool self)\<rparr>"

definition with_default_pool where
  "with_default_pool default_pool self = self\<lparr>cb_pool := Some default_pool\<rparr>"

definition with_pool where
  "with_pool pool self = self\<lparr>cb_pool := Some pool\<rparr>"

definition without_pool where
  "without_pool self = self\<lparr>cb_pool := None\<rparr>"

definition with_auto_http ::
  "'p2 \<Rightarrow> ('t, 'p, 'rp, 'l, 'cfg, 'pool) client_builder \<Rightarrow> ('t, 'p2, 'rp, 'l, 'cfg, 'pool) client_builder" where
  "with_auto_http alpn_default self =
     \<lparr>cb_transport = cb_transport self, cb_protocol = alpn_default, cb_builder = cb_builder self,
      cb_user_agent = cb_user_agent self, cb_redirect = cb_redirect self, cb_timeout = cb_timeout self,
      cb_tls = cb_tls self, cb_pool = cb_pool self\<rparr>"

definition builder_protocol where
  "builder_protocol f self = self\<lparr>cb_protocol := f (cb_protocol self)\<rparr>"

definition builder_user_agent where
  "builder_user_agent self = cb_user_agent self"

definition with_user_agent where
  "with_user_agent user_agent self = self\<lparr>cb_user_agent := Some user_agent\<rparr>"

definition with_redirect_policy ::
  "'rp2 \<Rightarrow> ('t, 'p, 'rp, 'l, 'cfg, 'pool) client_builder \<Rightarrow> ('t, 'p, 'rp2, 'l, 'cfg, 'pool) client_builder" where
  "with_redirect_policy policy self =
     \<lparr>cb_transport = cb_transport self, cb_protocol = cb_protocol self, cb_builder = cb_builder self,
      cb_user_agent = cb_user_agent self, cb_redirect = Some policy, cb_timeout = cb_timeout self,
      cb_tls = cb_tls self, cb_pool = cb_pool self\<rparr>"

definition without_redirects ::
  "('t, 'p, 'rp, 'l, 'cfg, 'pool) client_builder \<Rightarrow> ('t, 'p, 'rp2, 'l, 'cfg, 'pool) client_builder" where
  "without_redirects self =
     \<lparr>cb_transport = cb_transport self, cb_protocol = cb_protocol self, cb_builder = cb_builder self,
      cb_user_agent = cb_user_agent self, cb_redirect = None, cb_timeout = cb_timeout self,
      cb_tls = cb_tls self, cb_pool = cb_pool self\<rparr>"

definition with_standard_redirect_policy ::
  "'rp2 \<Rightarrow> ('t, 'p, 'rp, 'l, 'cfg, 'pool) client_builder \<Rightarrow> ('t, 'p, 'rp2, 'l, 'cfg, 'pool) client_builder" where
  "with_standard_redirect_policy standard self =
     \<lparr>cb_transport = cb_transport self, cb_protocol = cb_protocol self, cb_builder = cb_builder self,
      cb_user_agent = cb_user_agent self, cb_redirect = Some standard, cb_timeout = cb_timeout self,
      cb_tls = cb_tls self, cb_pool = cb_pool self\<rparr>"

definition builder_redirect_policy where
  "builder_redirect_policy f self = self\<lparr>cb_redirect := map_option f (cb_redirect self)\<rparr>"

definition builder_timeout where
  "builder_timeout self = cb_timeout self"

definition with_timeout where
  "with_timeout timeout self = self\<lparr>cb_timeout := Some timeout\<rparr>"

definition without_timeout where
  "without_timeout self = self\<lparr>cb_timeout := None\<rparr>"

definition with_optional_timeout where
  "with_optional_timeout timeout self = self\<lparr>cb_timeout := timeout\<rparr>"

text \<open>The body types are only types: the builder with other ones has the same fields.\<close>

definition with_body ::
  "('t, 'p, 'rp, 'l, 'cfg, 'pool) client_builder \<Rightarrow> ('t, 'p, 'rp, 'l, 'cfg, 'pool) client_builder" where
  "with_body self =
     \<lparr>cb_transport = cb_transport self, cb_protocol = cb_protocol self, cb_builder = cb_builder self,
      cb_user_agent = cb_user_agent self, cb_redirect = cb_redirect self, cb_timeout = cb_timeout self,
      cb_tls = cb_tls self, cb_pool = cb_pool self\<rparr>"

text \<open>A layer added later is applied closer to the connection.\<close>

definition client_builder_layer ::
  "('a \<Rightarrow> 'b) \<Rightarrow> ('t, 'p, 'rp, 'b \<Rightarrow> 'c, 'cfg, 'pool) client_builder \<Rightarrow>
     ('t, 'p, 'rp, 'a \<Rightarrow> 'c, 'cfg, 'pool) client_builder" where
  "client_builder_layer layer self =
     \<lparr>cb_transport = cb_transport self, cb_protocol = cb_protocol self,
      cb_builder = (\<lambda>s. cb_builder self (layer s)),
      cb_user_agent = cb_user_agent self, cb_redirect = cb_redirect self, cb_timeout = cb_timeout self,
      cb_tls = cb_tls self, cb_pool = cb_pool self\<rparr>"

section \<open>The service stack\<close>

text \<open>
  The layers from tower, tower-http and chateau: what each makes of the service below it.
\<close>

record ('sv, 'n, 'so, 'sh, 'rp, 'ua, 'fr, 'v, 'ir, 'cp, 'me, 'tr, 'p, 'pool, 'ex) client_layers =
  ly_new :: "'sv \<Rightarrow> 'n"
  ly_shared :: "'so \<Rightarrow> 'sh"
  ly_redirect :: "'rp \<Rightarrow> 'ua \<Rightarrow> 'fr"
  ly_user_agent :: "'v \<Rightarrow> 'ir \<Rightarrow> 'ua"
  ly_map_err :: "'cp \<Rightarrow> 'me"
  ly_pool :: "'tr \<Rightarrow> 'p \<Rightarrow> 'pool option \<Rightarrow> 'ex \<Rightarrow> 'cp"

text \<open>
  The part below the optional layers: from the user agent default down to the pool, whose
  executor is the stack of request checks.
\<close>

definition client_core where
  "client_core Y mk dbg A version executor transport user_agent self =
     ly_user_agent Y user_agent
       (incoming_response_layer
         (ly_map_err Y
           (ly_pool Y transport (cb_protocol self) (cb_pool self)
             (executor_stack mk dbg A version executor))))"

definition client_user_agent ::
  "('u, 'au, 'h, 'v) http_api \<Rightarrow> 'v \<Rightarrow> ('t, 'p, 'rp, 'l, 'cfg, 'pool) client_builder \<Rightarrow> 'v outcome" where
  "client_user_agent A default_agent self =
     (case cb_user_agent self of
        Some ua \<Rightarrow> (case hv_from_str A ua of Some v \<Rightarrow> Ret v | None \<Rightarrow> Panic)
      | None \<Rightarrow> Ret default_agent)"

text \<open>The layers above: the redirects, the timeout, the boxed service, the user's layers, and a box around it all.\<close>

definition client_middleware where
  "client_middleware Y self core =
     ly_new Y (cb_builder self
       (ly_shared Y
         (option_layer (map_option (timeout_layer (\<lambda>_. Err_RequestTimeout)) (cb_timeout self))
           (option_layer (map_option (ly_redirect Y) (cb_redirect self)) core))))"

text \<open>With the \<open>tls\<close> feature the transport is the automatic TLS transport with the configured TLS.\<close>

definition build_service where
  "build_service Y P mk dbg A version executor default_agent self =
     (case client_user_agent A default_agent self of
        Panic \<Rightarrow> Panic
      | Ret user_agent \<Rightarrow>
          Ret (client_middleware Y self
            (client_core Y mk dbg A version executor
              (auto_tls_with_optional_tls P (auto_tls_new (cb_transport self)) (cb_tls self)) user_agent self)))"

text \<open>Without it, the transport is used as it is.\<close>

definition build_service_no_tls where
  "build_service_no_tls Y mk dbg A version executor default_agent self =
     (case client_user_agent A default_agent self of
        Panic \<Rightarrow> Panic
      | Ret user_agent \<Rightarrow>
          Ret (client_middleware Y self
            (client_core Y mk dbg A version executor (cb_transport self) user_agent self)))"

text \<open>\<open>build\<close> wraps the service in a client, in both cases.\<close>

definition client_build where
  "client_build Y P mk dbg A version executor default_agent self h =
     map_outcome (\<lambda>service. client_new_from_service service h)
       (build_service Y P mk dbg A version executor default_agent self)"

definition client_build_no_tls where
  "client_build_no_tls Y mk dbg A version executor default_agent self h =
     map_outcome (\<lambda>service. client_new_from_service service h)
       (build_service_no_tls Y mk dbg A version executor default_agent self)"

text \<open>
  The operations of the two optional layers: the timeout around the redirects around the
  core. \<open>FR\<close> are the operations of the redirecting service, \<open>UA\<close> those of the core.
\<close>

definition optional_ops where
  "optional_ops Z FR UA =
     option_service_ops (timeout_service Z (option_service_ops FR UA id)) (option_service_ops FR UA id) id"

text \<open>
  Documented behaviour of the three wrappers on one request: the boxed service adds
  nothing, \<open>map_err\<close> maps the error, \<open>if_not_present\<close> inserts the header only when it is
  missing.
\<close>

definition shared_law ::
  "('so \<Rightarrow> 'sh) \<Rightarrow> ('so, 'r, 'fo, 'e, 'a, 'w) service \<Rightarrow> ('sh, 'r, 'f, 'e, 'a, 'w) service \<Rightarrow> bool" where
  "shared_law mk S SH \<longleftrightarrow> (\<forall>n s r w. run_call SH n (mk s) r w = lift_res mk (run_call S n s r w))"

definition map_err_law ::
  "('s \<Rightarrow> 'me) \<Rightarrow> ('e \<Rightarrow> 'e2) \<Rightarrow> ('s, 'r, 'f, 'e, 'a, 'w) service \<Rightarrow> ('me, 'r, 'g, 'e2, 'a, 'w) service \<Rightarrow> bool" where
  "map_err_law mk from_error S ME \<longleftrightarrow>
     (\<forall>n s r w. run_call ME n (mk s) r w =
        map_res (map_polled (map_err from_error)) (lift_res mk (run_call S n s r w)))"

definition with_default_agent ::
  "('u, 'au, 'h, 'v) http_api \<Rightarrow> 'v \<Rightarrow> ('u, 'h, 'x, 'b) request \<Rightarrow> ('u, 'h, 'x, 'b) request" where
  "with_default_agent A v r =
     (case hdr_get A (rq_headers r) ''user-agent'' of
        Some _ \<Rightarrow> r
      | None \<Rightarrow> r\<lparr>rq_headers := hdr_insert A (rq_headers r) ''user-agent'' v\<rparr>)"

definition user_agent_law ::
  "('u, 'au, 'h, 'v) http_api \<Rightarrow> ('v \<Rightarrow> 's \<Rightarrow> 'ua) \<Rightarrow> ('s, ('u, 'h, 'x, 'b) request, 'f, 'e, 'a, 'w) service \<Rightarrow>
     ('ua, ('u, 'h, 'x, 'b) request, 'g, 'e, 'a, 'w) service \<Rightarrow> bool" where
  "user_agent_law A mk S UA \<longleftrightarrow>
     (\<forall>n v s r w. run_call UA n (mk v s) r w = lift_res (mk v) (run_call S n s (with_default_agent A v r) w))"

lemma client_core_run:
  assumes "map_err_law (ly_map_err Y) from_error POOL ME"
    and "user_agent_law A (ly_user_agent Y) (incoming_response_service conv ME) UA"
  shows "fst (run_call UA n (client_core Y mk dbg A version executor tr v b) r w) =
      map_polled (map_sum from_error (map_response_body conv))
        (fst (run_call POOL n
          (ly_pool Y tr (cb_protocol b) (cb_pool b) (executor_stack mk dbg A version executor))
          (with_default_agent A v r) w))"
  using assms
  by (simp add: client_core_def user_agent_law_def map_err_law_def
      incoming_response.run_map polled.map_comp sum.map_comp comp_def)

lemma client_middleware_run:
  assumes "shared_law (ly_shared Y) (optional_ops Z FR UA) SH" and "shared_law (ly_new Y) SH NEW"
    and "cb_builder b = (\<lambda>s. s)" and "cb_redirect b = None"
  shows "fst (run_call NEW n (client_middleware Y b core) r w) =
    (case cb_timeout b of
       None \<Rightarrow> fst (run_call UA n core r w)
     | Some d \<Rightarrow>
         fst (run_call (timeout_service Z (option_service_ops FR UA id)) n
           (timeout_new (Opt_Service core) d (\<lambda>_. Err_RequestTimeout)) r w))"
  using assms
  by (cases "cb_timeout b")
    (simp_all add: client_middleware_def shared_law_def optional_ops_def option_layer_def option_mw.run_map
      option_plain.run_map timeout_layer_def sum.map_id0)

lemma client_user_agent_cases:
  "client_user_agent A default_agent b =
     (if cb_user_agent b \<noteq> None \<and> Option.bind (cb_user_agent b) (hv_from_str A) = None then Panic
      else Ret (case cb_user_agent b of None \<Rightarrow> default_agent | Some ua \<Rightarrow> the (hv_from_str A ua)))"
  by (auto simp: client_user_agent_def split: option.split)

text \<open>
  C27: A request through a built client, with no layer of the user's and no redirects. The
  pool is asked once, with the transport, protocol and pool configured and with the request
  whose user agent is filled in only when it was missing; its error becomes the client's
  error, and the body of its response is converted. With a timeout this whole path runs
  under the timeout service, whose error is \<open>RequestTimeout\<close>. The builder panics exactly when
  the configured user agent is no header value.
\<close>

theorem client_request_path:
  assumes "map_err_law (ly_map_err Y) from_error POOL ME"
    and "user_agent_law A (ly_user_agent Y) (incoming_response_service conv ME) UA"
    and "shared_law (ly_shared Y) (optional_ops Z FR UA) SH" and "shared_law (ly_new Y) SH NEW"
    and "cb_builder b = (\<lambda>s. s)" and "cb_redirect b = None"
  shows "(case build_service Y P mk dbg A version executor default_agent b of
      Panic \<Rightarrow> Option.bind (cb_user_agent b) (hv_from_str A) = None \<and> cb_user_agent b \<noteq> None
    | Ret svc \<Rightarrow>
        (let v = (case cb_user_agent b of None \<Rightarrow> default_agent | Some ua \<Rightarrow> the (hv_from_str A ua));
             tr = auto_tls_with_optional_tls P (auto_tls_new (cb_transport b)) (cb_tls b) in
         fst (run_call NEW n svc r w) =
           (case cb_timeout b of
              None \<Rightarrow>
                map_polled (map_sum from_error (map_response_body conv))
                  (fst (run_call POOL n
                    (ly_pool Y tr (cb_protocol b) (cb_pool b) (executor_stack mk dbg A version executor))
                    (with_default_agent A v r) w))
            | Some d \<Rightarrow>
                fst (run_call (timeout_service Z (option_service_ops FR UA id)) n
                  (timeout_new (Opt_Service (client_core Y mk dbg A version executor tr v b)) d
                    (\<lambda>_. Err_RequestTimeout))
                  r w))))"
  by (simp add: build_service_def client_user_agent_cases Let_def client_core_run [OF assms(1,2)]
      client_middleware_run [OF assms(3-6)] split: option.split)

text \<open>Without the \<open>tls\<close> feature the path is the same, on the transport itself.\<close>

lemma client_request_path_no_tls:
  assumes "map_err_law (ly_map_err Y) from_error POOL ME"
    and "user_agent_law A (ly_user_agent Y) (incoming_response_service conv ME) UA"
    and "shared_law (ly_shared Y) (optional_ops Z FR UA) SH" and "shared_law (ly_new Y) SH NEW"
    and "cb_builder b = (\<lambda>s. s)" and "cb_redirect b = None" and "cb_timeout b = None"
    and "build_service_no_tls Y mk dbg A version executor default_agent b = Ret svc"
  shows "\<exists>v. fst (run_call NEW n svc r w) =
    map_polled (map_sum from_error (map_response_body conv))
      (fst (run_call POOL n
        (ly_pool Y (cb_transport b) (cb_protocol b) (cb_pool b) (executor_stack mk dbg A version executor))
        (with_default_agent A v r) w))"
proof -
  from assms(8) obtain v where
    "svc = client_middleware Y b (client_core Y mk dbg A version executor (cb_transport b) v b)"
    by (auto simp: build_service_no_tls_def client_user_agent_cases split: if_splits)
  then show ?thesis
    by (intro exI [of _ v])
      (simp add: client_core_run [OF assms(1,2)] client_middleware_run [OF assms(3-6)] assms(7))
qed

section \<open>An example\<close>

text \<open>A pool that answers with the user agent it was sent, and a header default on a pair.\<close>

definition agent_pool ::
  "(unit, (plain_uri, (string \<times> string) list, unit, unit) request, string option, string client_error,
    (string option, unit) response, unit) service" where
  "agent_pool =
     \<lparr>poll_ready = (\<lambda>s w. (Ready (Inr ()), s, w)),
      call = (\<lambda>s r w. (Ret (map_of (rq_headers r) ''user-agent''), s, w)),
      poll_fut = (\<lambda>f w. (Ready (Inr \<lparr>rs_parts = f, rs_body = ()\<rparr>), f, w))\<rparr>"

definition agent_ops ::
  "('u, 'au, 'h, 'v) http_api \<Rightarrow> ('s, ('u, 'h, 'x, 'b) request, 'f, 'e, 'a, 'w) service \<Rightarrow>
     ('v \<times> 's, ('u, 'h, 'x, 'b) request, 'f, 'e, 'a, 'w) service" where
  "agent_ops A S =
     \<lparr>poll_ready = (\<lambda>s w. lift_res (Pair (fst s)) (poll_ready S (snd s) w)),
      call = (\<lambda>s r w. lift_res (Pair (fst s)) (call S (snd s) (with_default_agent A (fst s) r) w)),
      poll_fut = poll_fut S\<rparr>"

lemma agent_ops_law: "user_agent_law A Pair S (agent_ops A S)"
proof -
  have "run_call (agent_ops A S) n (v, s) r w = lift_res (Pair v) (run_call S n s (with_default_agent A v r) w)"
    for n v s r w
    by (auto simp: run_call_def agent_ops_def split: prod.splits outcome.splits)
  then show ?thesis by (simp add: user_agent_law_def)
qed

definition agent_layers where
  "agent_layers =
     \<lparr>ly_new = (\<lambda>s. s), ly_shared = (\<lambda>s. s), ly_redirect = (\<lambda>(_ :: unit) s. s), ly_user_agent = Pair, ly_map_err = (\<lambda>s. s),
      ly_pool = (\<lambda>_ _ _ _. ())\<rparr>"

definition agent_builder :: "string option \<Rightarrow> (unit, unit, unit, 's \<Rightarrow> 's, unit, unit) client_builder" where
  "agent_builder ua = client_builder_new\<lparr>cb_user_agent := ua\<rparr>"

definition agent_request :: "(plain_uri, (string \<times> string) list, unit, unit) request" where
  "agent_request =
     \<lparr>rq_method = GET, rq_uri = \<lparr>pu_scheme = None, pu_authority = None, pu_path = Some ''/''\<rparr>,
      rq_version = HTTP_11, rq_headers = [], rq_ext = (), rq_body = ()\<rparr>"

definition agent_core where
  "agent_core = agent_ops plain_api (incoming_response_service (\<lambda>b. b) agent_pool)"

definition unit_tls :: "(unit, unit, unit) tls_transport_api" where
  "unit_tls = \<lparr>tt_new = (\<lambda>_ _. ()), tt_transport = (\<lambda>_. ()), tt_set_transport = (\<lambda>_ _. ()), tt_config = (\<lambda>_. ())\<rparr>"

definition agent_checks ::
  "unit \<Rightarrow> (unit \<times> (plain_uri, (string \<times> string) list, unit, unit) request \<Rightarrow>
     (unit \<times> (plain_uri, (string \<times> string) list, unit, unit) request) outcome) \<Rightarrow> unit" where
  "agent_checks s check = s"

lemma client_request_path_witness:
  "(case build_service agent_layers unit_tls agent_checks False plain_api (\<lambda>_ :: unit. Http1) ()
          ''hyperdriver'' (agent_builder None) of
      Panic \<Rightarrow> False
    | Ret svc \<Rightarrow>
        fst (run_call (optional_ops (\<lparr>sleep_new = (\<lambda>_ _. ()), sleep_poll = (\<lambda>s w. (Pending, s, w))\<rparr> :: (unit, unit) sleep_api)
              agent_core agent_core) 1 svc agent_request ()) =
          Ready (Inr \<lparr>rs_parts = Some ''hyperdriver'', rs_body = ()\<rparr>))"
proof -
  let ?Z = "\<lparr>sleep_new = (\<lambda>_ _. ()), sleep_poll = (\<lambda>s w. (Pending, s, w))\<rparr> :: (unit, unit) sleep_api"
  have me: "map_err_law (ly_map_err agent_layers) id agent_pool agent_pool"
    by (simp add: map_err_law_def agent_layers_def sum.map_id0 lift_res_def map_res_def split: prod.splits)
  have ua: "user_agent_law plain_api (ly_user_agent agent_layers)
      (incoming_response_service (\<lambda>b. b) agent_pool) agent_core"
    by (simp add: agent_layers_def agent_core_def agent_ops_law)
  have sh: "shared_law (ly_shared agent_layers) (optional_ops ?Z agent_core agent_core) (optional_ops ?Z agent_core agent_core)"
    and nw: "shared_law (ly_new agent_layers) (optional_ops ?Z agent_core agent_core) (optional_ops ?Z agent_core agent_core)"
    by (simp_all add: shared_law_def agent_layers_def)
  have b: "cb_builder (agent_builder None) = (\<lambda>s. s)" "cb_redirect (agent_builder None) = None"
    "cb_user_agent (agent_builder None) = None" "cb_timeout (agent_builder None) = None"
    by (simp_all add: agent_builder_def client_builder_new_def)
  have pool: "run_call agent_pool (Suc 0) s (with_default_agent plain_api ''hyperdriver'' agent_request) () =
      (Ready (Inr \<lparr>rs_parts = Some ''hyperdriver'', rs_body = ()\<rparr>), (), ())" for s
    by (simp add: run_call_def agent_pool_def with_default_agent_def agent_request_def api_simps)
  show ?thesis
    using client_request_path [OF me ua sh nw b(1,2), where P = unit_tls and mk = agent_checks and dbg = False
        and version = "\<lambda>_ :: unit. Http1" and executor = "()" and n = 1
        and default_agent = "''hyperdriver''" and r = agent_request and w = "()"]
    by (simp add: b pool map_response_body_def Let_def split: outcome.splits)
qed

end
