(* ===== verification/Service_Files.thy ===== *)
theory Service_Files
  imports Client_Conn Client_Builder
begin

text \<open>
  The request executor (\<open>src/service/client.rs\<close>), the shared service (\<open>shared.rs\<close>) and the
  make-services (\<open>make.rs\<close>, \<open>serviceref.rs\<close>). These files are in the source tree but
  \<open>service/mod.rs\<close> does not list them; the crate links chateau's versions of the executor and
  of the shared service. Here they are models of code the crate has, and they meet the
  laws the client path relies on.
\<close>

section \<open>Executing a request on a connection\<close>

record ('c, 'r) execute_request =
  er_conn :: 'c
  er_request :: 'r

definition execute_request_new :: "'c \<Rightarrow> 'r \<Rightarrow> ('c, 'r) execute_request" where
  "execute_request_new conn request = \<lparr>er_conn = conn, er_request = request\<rparr>"

definition execute_request_into_parts :: "('c, 'r) execute_request \<Rightarrow> 'c \<times> 'r" where
  "execute_request_into_parts self = (er_conn self, er_request self)"

definition execute_request_connection :: "('c, 'r) execute_request \<Rightarrow> 'c" where
  "execute_request_connection self = er_conn self"

definition execute_request_request :: "('c, 'r) execute_request \<Rightarrow> 'r" where
  "execute_request_request self = er_request self"

text \<open>\<open>request_mut\<close>, with the change \<open>f\<close> made through the reference.\<close>

definition execute_request_request_mut :: "('r \<Rightarrow> 'r) \<Rightarrow> ('c, 'r) execute_request \<Rightarrow> ('c, 'r) execute_request" where
  "execute_request_request_mut f self = self\<lparr>er_request := f (er_request self)\<rparr>"

datatype request_executor = Request_Executor

definition request_executor_new :: request_executor where
  "request_executor_new = Request_Executor"

definition request_executor_default :: request_executor where
  "request_executor_default = request_executor_new"

definition request_executor_clone :: "request_executor \<Rightarrow> request_executor" where
  "request_executor_clone self = request_executor_new"

text \<open>The async function \<open>execute_request\<close>: not started, waiting for the response, or done.\<close>

datatype ('c, 'r, 'f) execute_future = Ef_Start "('c, 'r) execute_request" | Ef_Wait 'f 'c | Ef_Done

definition execute_await ::
  "('f, 'e + ('p, 'b1) response, 'w) pollf \<Rightarrow> ('e \<Rightarrow> box_error) \<Rightarrow> ('b1 \<Rightarrow> 'b2) \<Rightarrow> 'f \<Rightarrow> 'c \<Rightarrow> 'w \<Rightarrow>
     ('h client_error + ('p, 'b2) response) polled \<times> ('c, 'r, 'f) execute_future \<times> 'w" where
  "execute_await p into conv f conn w =
     (case p f w of
        (Ready (Inr response), f', w') \<Rightarrow> (Ready (Inr (map_response_body conv response)), Ef_Done, w')
      | (Ready (Inl error), f', w') \<Rightarrow> (Ready (Inl (Err_Connection (into error))), Ef_Done, w')
      | (Pending, f', w') \<Rightarrow> (Pending, Ef_Wait f' conn, w')
      | (Panicked, f', w') \<Rightarrow> (Panicked, Ef_Done, w'))"

definition execute_request_poll ::
  "('c, 'r, 'f, 'x, 'w) connection \<Rightarrow> ('f, 'e + ('p, 'b1) response, 'w) pollf \<Rightarrow> ('e \<Rightarrow> box_error) \<Rightarrow>
     ('b1 \<Rightarrow> 'b2) \<Rightarrow> (('c, 'r, 'f) execute_future, 'h client_error + ('p, 'b2) response, 'w) pollf" where
  "execute_request_poll C p into conv self w =
     (case self of
        Ef_Start req \<Rightarrow>
          (case execute_request_into_parts req of
             (conn, request) \<Rightarrow>
               (case cn_send_request C conn request w of
                  (f, conn', w') \<Rightarrow> execute_await p into conv f conn' w'))
      | Ef_Wait f conn \<Rightarrow> execute_await p into conv f conn w
      | Ef_Done \<Rightarrow> (Panicked, Ef_Done, w))"

definition request_executor_ops ::
  "('c, 'r, 'f, 'x, 'w) connection \<Rightarrow> ('f, 'e + ('p, 'b1) response, 'w) pollf \<Rightarrow> ('e \<Rightarrow> box_error) \<Rightarrow>
     ('b1 \<Rightarrow> 'b2) \<Rightarrow>
     (request_executor, ('c, 'r) execute_request, ('c, 'r, 'f) execute_future, 'h client_error,
      ('p, 'b2) response, 'w) service" where
  "request_executor_ops C p into conv =
     \<lparr>poll_ready = (\<lambda>self w. (Ready (Inr ()), self, w)),
      call = (\<lambda>self req w. (Ret (Ef_Start req), self, w)),
      poll_fut = execute_request_poll C p into conv\<rparr>"

lemma execute_request_poll_simps:
  "execute_request_poll C p into conv (Ef_Start \<lparr>er_conn = c, er_request = r\<rparr>) w =
     (case cn_send_request C c r w of (f, c', w') \<Rightarrow> execute_await p into conv f c' w')"
  "execute_request_poll C p into conv (Ef_Wait f c) w = execute_await p into conv f c w"
  by (simp_all add: execute_request_poll_def execute_request_into_parts_def)

lemma execute_wait_run:
  "out_res (run_polls (execute_request_poll C p into conv) n (Ef_Wait f c) w) =
     map_prod (map_polled (map_sum (\<lambda>e. Err_Connection (into e)) (map_response_body conv))) id
       (out_res (run_polls p n f w))"
proof (induction n arbitrary: f w)
  case 0
  then show ?case by simp
next
  case (Suc n)
  obtain r f' w' where "p f w = (r, f', w')" by (cases "p f w") auto
  with Suc.IH show ?case
    by (cases r) (auto simp: execute_request_poll_simps execute_await_def split: sum.split)
qed

lemma execute_start_run:
  "cn_send_request C c r w = (f, c', w') \<Longrightarrow>
     run_polls (execute_request_poll C p into conv) (Suc n) (Ef_Start \<lparr>er_conn = c, er_request = r\<rparr>) w =
       run_polls (execute_request_poll C p into conv) (Suc n) (Ef_Wait f c') w'"
  by (simp add: execute_request_poll_simps)

text \<open>
  A request through the executor: it is sent once, on the connection it came with, and the
  response of the connection is the response, its body converted; an error of the connection
  is a connection error of the client.
\<close>

lemma request_executor_run:
  "out_res (run_call (request_executor_ops C p into conv) (Suc n) s (execute_request_new c r) w) =
     (case cn_send_request C c r w of
        (f, c', w') \<Rightarrow>
          map_prod (map_polled (map_sum (\<lambda>e. Err_Connection (into e)) (map_response_body conv))) id
            (out_res (run_polls p (Suc n) f w')))"
proof -
  obtain f c' w' where s: "cn_send_request C c r w = (f, c', w')"
    by (cases "cn_send_request C c r w") auto
  have "out_res (run_call (request_executor_ops C p into conv) (Suc n) s (execute_request_new c r) w) =
      out_res (run_polls (execute_request_poll C p into conv) (Suc n) (Ef_Start \<lparr>er_conn = c, er_request = r\<rparr>) w)"
    by (auto simp: run_call_def request_executor_ops_def execute_request_new_def out_res_def split_beta
        simp del: run_polls.simps)
  then show ?thesis by (simp add: s execute_start_run [OF s] execute_wait_run del: run_polls.simps)
qed

section \<open>The shared service\<close>

text \<open>
  The box holds the service; \<open>map_future\<close> boxes its future. Cloning the box clones the
  service in it.
\<close>

datatype 's shared_service = Shared_Service 's

datatype 'f boxed_future = Boxed_Future 'f

definition shared_service_new :: "'s \<Rightarrow> 's shared_service" where
  "shared_service_new service = Shared_Service service"

definition shared_service_layer :: "'s \<Rightarrow> 's shared_service" where
  "shared_service_layer = shared_service_new"

definition shared_service_clone :: "('s \<Rightarrow> 's) \<Rightarrow> 's shared_service \<Rightarrow> 's shared_service" where
  "shared_service_clone clone self = (case self of Shared_Service s \<Rightarrow> Shared_Service (clone s))"

definition boxed_future_poll :: "('f, 'o, 'w) pollf \<Rightarrow> ('f boxed_future, 'o, 'w) pollf" where
  "boxed_future_poll p self w = (case self of Boxed_Future f \<Rightarrow> lift_res Boxed_Future (p f w))"

definition shared_service_ops ::
  "('s, 'r, 'f, 'e, 'a, 'w) service \<Rightarrow> ('s shared_service, 'r, 'f boxed_future, 'e, 'a, 'w) service" where
  "shared_service_ops S =
     \<lparr>poll_ready = (\<lambda>self w. case self of Shared_Service s \<Rightarrow> lift_res Shared_Service (poll_ready S s w)),
      call = (\<lambda>self req w. case self of Shared_Service s \<Rightarrow>
        map_res (map_outcome Boxed_Future) (lift_res Shared_Service (call S s req w))),
      poll_fut = boxed_future_poll (poll_fut S)\<rparr>"

lemma shared_service_new_eta: "shared_service_new = Shared_Service"
  by (simp add: shared_service_new_def fun_eq_iff)

interpretation shared_service: request_map S "shared_service_ops S" Boxed_Future id id shared_service_new Ret for S
  by unfold_locales (simp_all add: shared_service_ops_def boxed_future_poll_def shared_service_new_eta sum.map_id0)

text \<open>The shared service adds nothing: it meets the law the client path asks of the boxed service.\<close>

lemma shared_service_law: "shared_law shared_service_layer S (shared_service_ops S)"
  by (simp add: shared_law_def shared_service_layer_def shared_service.run_map sum.map_id0)

section \<open>Make-services\<close>

text \<open>The blanket implementations for a service that takes a reference forward to it.\<close>

definition poll_ready_ref :: "('s, 't, 'f, 'e, 'a, 'w) service \<Rightarrow> 's \<Rightarrow> 'w \<Rightarrow> ('e + unit) polled \<times> 's \<times> 'w" where
  "poll_ready_ref M self w = poll_ready M self w"

definition make_service_ref :: "('s, 't, 'f, 'e, 'a, 'w) service \<Rightarrow> 's \<Rightarrow> 't \<Rightarrow> 'w \<Rightarrow> 'f outcome \<times> 's \<times> 'w" where
  "make_service_ref M self target w = call M self target w"

definition service_ref_poll_ready :: "('s, 't, 'f, 'e, 'a, 'w) service \<Rightarrow> 's \<Rightarrow> 'w \<Rightarrow> ('e + unit) polled \<times> 's \<times> 'w" where
  "service_ref_poll_ready M self w = poll_ready M self w"

definition service_ref_call :: "('s, 't, 'f, 'e, 'a, 'w) service \<Rightarrow> 's \<Rightarrow> 't \<Rightarrow> 'w \<Rightarrow> 'f outcome \<times> 's \<times> 'w" where
  "service_ref_call M self stream w = call M self stream w"

text \<open>A make-service from a closure; the closure may keep state and panic.\<close>

record 'fn make_service_fn = msf_f :: 'fn

definition make_service_fn_new :: "'fn \<Rightarrow> 'fn make_service_fn" where
  "make_service_fn_new f = \<lparr>msf_f = f\<rparr>"

definition make_service_fn_ops ::
  "('fn \<Rightarrow> 't \<Rightarrow> 'w \<Rightarrow> 'f outcome \<times> 'fn \<times> 'w) \<Rightarrow> ('f, 'e + 'a, 'w) pollf \<Rightarrow>
     ('fn make_service_fn, 't, 'f, 'e, 'a, 'w) service" where
  "make_service_fn_ops app p =
     \<lparr>poll_ready = (\<lambda>self w. (Ready (Inr ()), self, w)),
      call = (\<lambda>self target w. lift_res (\<lambda>f. self\<lparr>msf_f := f\<rparr>) (app (msf_f self) target w)),
      poll_fut = p\<rparr>"

record 's box_make_service = bms_inner :: 's

definition box_make_service_new :: "'s \<Rightarrow> 's box_make_service" where
  "box_make_service_new inner = \<lparr>bms_inner = inner\<rparr>"

definition box_make_service_ops ::
  "('s, 't, 'f, 'e, 'a, 'w) service \<Rightarrow> ('s box_make_service, 't, 'f boxed_future, 'e, 'a, 'w) service" where
  "box_make_service_ops M =
     \<lparr>poll_ready = (\<lambda>self w. lift_res (\<lambda>s. self\<lparr>bms_inner := s\<rparr>) (poll_ready M (bms_inner self) w)),
      call = (\<lambda>self target w.
        map_res (map_outcome Boxed_Future) (lift_res (\<lambda>s. self\<lparr>bms_inner := s\<rparr>) (call M (bms_inner self) target w))),
      poll_fut = boxed_future_poll (poll_fut M)\<rparr>"

interpretation box_make_service:
  request_map M "box_make_service_ops M" Boxed_Future id id box_make_service_new Ret for M
  by unfold_locales
    (simp_all add: box_make_service_ops_def boxed_future_poll_def box_make_service_new_def sum.map_id0
      lift_res_def map_res_def split: prod.split)

record ('n, 's) box_make_layer = bml_boxed :: "'n \<Rightarrow> 's box_make_service"

definition box_make_layer_new :: "('n \<Rightarrow> 's) \<Rightarrow> ('n, 's) box_make_layer" where
  "box_make_layer_new inner_layer = \<lparr>bml_boxed = (\<lambda>inner. box_make_service_new (inner_layer inner))\<rparr>"

definition box_make_layer_layer :: "('n, 's) box_make_layer \<Rightarrow> 'n \<Rightarrow> 's box_make_service" where
  "box_make_layer_layer self inner = bml_boxed self inner"

definition box_make_layer_clone :: "('n, 's) box_make_layer \<Rightarrow> ('n, 's) box_make_layer" where
  "box_make_layer_clone self = \<lparr>bml_boxed = bml_boxed self\<rparr>"

text \<open>A boxed make-service layer, or a clone of it, makes the services the layer inside makes.\<close>

lemma box_make_layer_run:
  "run_call (box_make_service_ops M) n (box_make_layer_layer (box_make_layer_clone (box_make_layer_new layer)) inner) t w =
     lift_res box_make_service_new (run_call M n (layer inner) t w)"
  by (simp add: box_make_layer_layer_def box_make_layer_clone_def box_make_layer_new_def
      box_make_service.run_map sum.map_id0)

end
