(* ===== verification/Client_Path.thy ===== *)
theory Client_Path
  imports Client_Transport Http_Checks Service_Files
begin

text \<open>
  A request of the client across the components it passes: the transport that connects for
  it (\<open>conn/tls.rs\<close>), the protocol that shakes hands on the stream (\<open>conn/protocol/auto.rs\<close>),
  the checks in front of the executor (\<open>service/http.rs\<close>, \<open>service/host.rs\<close>) and the
  connection that sends it (\<open>conn/protocol/auto.rs\<close>).
\<close>

section \<open>The executor\<close>

text \<open>
  What the checks rely on at the bottom of the stack: the executor sends the request once,
  on the connection it came with, and its outcome is that of the connection's future,
  converted by \<open>g\<close>.
\<close>

definition executor_law ::
  "('c, 'r, 'f, 'x, 'w) connection \<Rightarrow> ('f, 'o1, 'w) pollf \<Rightarrow> ('o1 \<Rightarrow> 'e + 'a) \<Rightarrow>
     ('s, 'c \<times> 'r, 'g, 'e, 'a, 'w) service \<Rightarrow> bool" where
  "executor_law C p g S \<longleftrightarrow>
     (\<forall>n s c r w. out_res (run_call S (Suc n) s (c, r) w) =
        (case cn_send_request C c r w of
           (f, c', w') \<Rightarrow> map_prod (map_polled g) id (out_res (run_polls p (Suc n) f w'))))"

text \<open>The crate's executor meets it, its request record made of the pair.\<close>

definition paired_executor ::
  "('s, ('c, 'r) execute_request, 'f, 'e, 'a, 'w) service \<Rightarrow> ('s, 'c \<times> 'r, 'f, 'e, 'a, 'w) service" where
  "paired_executor S =
     \<lparr>poll_ready = poll_ready S, call = (\<lambda>s cr w. call S s (execute_request_new (fst cr) (snd cr)) w),
      poll_fut = poll_fut S\<rparr>"

lemma paired_executor_run: "run_call (paired_executor S) n s (c, r) w = run_call S n s (execute_request_new c r) w"
  by (simp add: run_call_def paired_executor_def split: prod.split outcome.split)

lemma request_executor_law:
  "executor_law C p (map_sum (\<lambda>e. Err_Connection (into e)) (map_response_body conv))
     (paired_executor (request_executor_ops C p into conv))"
  by (simp only: executor_law_def paired_executor_run request_executor_run simp_thms)

text \<open>Sending on an automatic connection, and waiting for the response.\<close>

definition sent_on ::
  "('s, 'r, 'f, 'x, 'w) sender_api \<Rightarrow> ('f, 'o, 'w) pollf \<Rightarrow> nat \<Rightarrow> 's \<Rightarrow> 'r \<Rightarrow> 'w \<Rightarrow> 'o polled \<times> 'w" where
  "sent_on S p n s r w = (case snd_send S s r w of (f, s', w') \<Rightarrow> out_res (run_polls p n f w'))"

lemma executor_sends:
  assumes "executor_law (http_connection_ops S1 S2) (send_request_future_poll p) g E"
  shows "out_res (run_call E (Suc n) e (c, r) w) =
    map_prod (map_polled g) id
      (case c of
         Inner_H1 s \<Rightarrow> sent_on S1 p (Suc n) s (r\<lparr>rq_version := HTTP_11\<rparr>) w
       | Inner_H2 s \<Rightarrow> sent_on S2 p (Suc n) s (r\<lparr>rq_version := HTTP_2\<rparr>) w)"
  using assms
  by (cases c)
    (auto simp: executor_law_def http_connection_ops_def http_connection_send_request_def sent_on_def
      send_request_future.run_wrap simp del: run_polls.simps split: prod.splits)

section \<open>What was connected\<close>

lemma Inr_eq_map_sum: "Inr y = map_sum f g x \<longleftrightarrow> (\<exists>b. x = Inr b \<and> y = g b)"
  by (cases x) auto

text \<open>A stream that was connected for a request is a TLS stream when the scheme asks for it.\<close>

definition stream_is_tls :: "('t, 'i) client_stream \<Rightarrow> bool" where
  "stream_is_tls s = (case cs_inner s of OptTls_Tls _ \<Rightarrow> True | OptTls_NoTls _ \<Rightarrow> False)"

lemma connected_stream:
  assumes "run_call (auto_tls_ops A P T TT ce) n tr r w = (Ready (Inr io), tr', w')"
    and "uri_laws A" and "uri_authority A (rq_uri r) = Some auth"
  shows "stream_is_tls io \<longleftrightarrow>
    (\<exists>tt. tr = Transport_Tls tt) \<and> uri_scheme A (rq_uri r) \<in> {Some ''https'', Some ''wss''}"
proof -
  have "uri_host A (rq_uri r) = Some (authority_host A auth)"
    using assms(3) by (simp add: uri_laws_host [OF assms(2)])
  then have dom: "get_tls_domain A r = None \<longleftrightarrow> uri_scheme A (rq_uri r) \<notin> {Some ''https'', Some ''wss''}"
    by (auto simp: get_tls_domain_def get_host_def split: option.split)
  from assms(1) have "stream_is_tls io \<longleftrightarrow> (\<exists>tt. tr = Transport_Tls tt) \<and> get_tls_domain A r \<noteq> None"
    unfolding auto_tls_run [THEN conjunct1]
    by (cases tr)
      (auto simp: stream_is_tls_def map_res_eq_iff lift_res_eq_iff eq_commute [of "Ready _"] Inr_eq_map_sum
        split: option.splits sum.splits)
  with dom show ?thesis by blast
qed

text \<open>The connection a handshake gave: HTTP/2 exactly when the stream negotiated it.\<close>

lemma alpn_connected:
  assumes "out_res (run_polls (alpn_handshake_poll tls_info T H1 p1 spawn1 H2 p2 spawn2) (Suc n)
      (fst (alpn_call clone1 clone2 b io)) w) = (Ready (Inr c), w')"
    and "alpn_initial_protocol b = Http1"
  shows "(case c of Inner_H1 _ \<Rightarrow> False | Inner_H2 _ \<Rightarrow> True) \<longleftrightarrow>
    Option.bind (tls_info io) (tls_alpn T) = Some ''h2''"
  using assms(1) unfolding out_res_def alpn_run
  by (auto simp: assms(2) alpn_multiplex_ready_def handshake_result_def simp del: run_polls.simps
      split: if_splits prod.splits polled.splits sum.splits)

lemma plain_stream_no_alpn:
  "Option.bind (client_stream_tls_info ti io) (tls_alpn T) = Some x \<Longrightarrow> stream_is_tls io"
  by (auto simp: client_stream_tls_info_def stream_is_tls_def split: opt_tls.splits)

section \<open>What is sent\<close>

text \<open>The request an automatic connection may put on the wire for the request \<open>r\<close>.\<close>

definition wire_request ::
  "('u, 'au, 'h, 'v) http_api \<Rightarrow> http_protocol \<Rightarrow> 'v \<Rightarrow>
     ('u, 'h, 'x, 'b) request \<Rightarrow> ('u, 'h, 'x, 'b) request \<Rightarrow> bool" where
  "wire_request A protocol host r r' \<longleftrightarrow>
     rq_method r' = rq_method r \<and> rq_body r' = rq_body r \<and> rq_ext r' = rq_ext r
   \<and> rq_version r' = protocol_version protocol
   \<and> (case protocol of
        Http1 \<Rightarrow> in_origin_form A (rq_uri r) (rq_uri r')
          \<and> (\<forall>k. hdr_get A (rq_headers r') k =
              (if k = HOST \<and> hdr_get A (rq_headers r) HOST = None then Some host else hdr_get A (rq_headers r) k))
      | _ \<Rightarrow> rq_uri r' = rq_uri r
          \<and> (\<forall>k. hdr_get A (rq_headers r') k =
              (if k \<in> insert HOST (set CONNECTION_HEADERS) then None else hdr_get A (rq_headers r) k)))"

lemma checked_http1_sent:
  fixes E :: "('s, ('s1, 's2) http_connection \<times> ('u, 'h, 'x, 'b) request, 'f, 'e, 'a, 'w) service"
  assumes "map_request_laws E ME mk" and "header_laws A" and "uri_laws A"
    and "executor_law (http_connection_ops S1 S2) (send_request_future_poll p) g E"
    and "rq_method r \<noteq> CONNECT"
    and "uri_scheme A (rq_uri r) = Some sch" and "uri_authority A (rq_uri r) = Some auth"
    and "hv_from_str A (host_value A (rq_uri r) (authority_host A auth)) = Some v"
  shows "\<exists>r'. wire_request A Http1 v r r' \<and>
    out_res (run_call (executor_ops A http_connection_version ME) (Suc n)
      (executor_stack mk dbg A http_connection_version e) (Inner_H1 s, r) w) =
    map_prod (map_polled (map_err Connection_Error \<circ> g)) id (sent_on S1 p (Suc n) s r' w)"
proof -
  have "http_connection_version (Inner_H1 s :: ('s1, 's2) http_connection) = Http1"
    by (simp add: http_connection_version_def)
  from executor_http1_run [where version = http_connection_version, OF assms(1-3) this assms(5-8), of n dbg e w]
  obtain u h where
    run: "run_call (executor_ops A http_connection_version ME) (Suc n)
        (executor_stack mk dbg A http_connection_version e) (Inner_H1 s, r) w =
      map_res (map_polled (map_err Connection_Error)) (lift_res (executor_stack mk dbg A http_connection_version)
        (run_call E (Suc n) e (Inner_H1 s, r\<lparr>rq_uri := u, rq_headers := h\<rparr>) w))"
    and u: "in_origin_form A (rq_uri r) u"
    and h: "\<forall>k. hdr_get A h k =
        (if k = HOST \<and> hdr_get A (rq_headers r) HOST = None then Some v else hdr_get A (rq_headers r) k)"
    by blast
  show ?thesis
    by (rule exI [of _ "r\<lparr>rq_uri := u, rq_headers := h, rq_version := HTTP_11\<rparr>"])
      (simp add: run executor_sends [OF assms(4)] wire_request_def u h prod.map_comp polled.map_comp comp_def id_def)
qed

lemma checked_http2_sent:
  fixes E :: "('s, ('s1, 's2) http_connection \<times> ('u, 'h, 'x, 'b) request, 'f, 'e, 'a, 'w) service"
  assumes "map_request_laws E ME mk" and "header_laws A"
    and "executor_law (http_connection_ops S1 S2) (send_request_future_poll p) g E"
    and "rq_method r \<noteq> CONNECT"
  shows "\<exists>r'. wire_request A Http2 v r r' \<and>
    out_res (run_call (executor_ops A http_connection_version ME) (Suc n)
      (executor_stack mk dbg A http_connection_version e) (Inner_H2 s, r) w) =
    map_prod (map_polled (map_err Connection_Error \<circ> g)) id (sent_on S2 p (Suc n) s r' w)"
proof -
  have "http_connection_version (Inner_H2 s :: ('s1, 's2) http_connection) = Http2"
    by (simp add: http_connection_version_def)
  from executor_http2_run [where version = http_connection_version, OF assms(1,2) this, of n dbg e r w] assms(4)
  obtain h where
    run: "run_call (executor_ops A http_connection_version ME) (Suc n)
        (executor_stack mk dbg A http_connection_version e) (Inner_H2 s, r) w =
      map_res (map_polled (map_err Connection_Error)) (lift_res (executor_stack mk dbg A http_connection_version)
        (run_call E (Suc n) e (Inner_H2 s, r\<lparr>rq_version := HTTP_2, rq_headers := h\<rparr>) w))"
    and h: "\<forall>k. hdr_get A h k =
        (if k \<in> insert HOST (set CONNECTION_HEADERS) then None else hdr_get A (rq_headers r) k)"
    by auto
  show ?thesis
    by (rule exI [of _ "r\<lparr>rq_headers := h, rq_version := HTTP_2\<rparr>"])
      (simp add: run executor_sends [OF assms(3)] wire_request_def h prod.map_comp polled.map_comp comp_def id_def)
qed

text \<open>
  C7: From the URI to the wire. A request with an absolute URI, for which a transport
  connected a stream and on which the automatic protocol then shook hands: the stream is a
  TLS stream exactly when the scheme is \<open>https\<close> or \<open>wss\<close> and the transport has TLS; the
  connection is HTTP/2 exactly when that TLS session negotiated \<open>h2\<close>, so never on a stream
  without TLS; and the request goes out once, on that connection, in the form of its
  protocol: in origin form with a Host header on HTTP/1.1, and with its URI, but without
  Host and connection headers, on HTTP/2. The outcome is the one hyper gives.
\<close>

theorem client_wire_request:
  fixes E :: "('s, ('s1, 's2) http_connection \<times> ('u, 'h, 'x, 'b) request, 'f, 'e, 'a, 'w) service"
  assumes "map_request_laws E ME mk" and "header_laws A" and "uri_laws A"
    and "executor_law (http_connection_ops S1 S2) (send_request_future_poll p) g E"
    and "rq_method r \<noteq> CONNECT"
    and "uri_scheme A (rq_uri r) = Some sch" and "uri_authority A (rq_uri r) = Some auth"
    and "hv_from_str A (host_value A (rq_uri r) (authority_host A auth)) = Some v"
    and "run_call (auto_tls_ops A P T TT ce) k tr r w0 = (Ready (Inr io), tr', w1)"
    and "out_res (run_polls (alpn_handshake_poll (client_stream_tls_info ti) L H1 p1 spawn1 H2 p2 spawn2) (Suc m)
      (fst (alpn_call clone1 clone2 b io)) w1) = (Ready (Inr c), w2)"
    and "alpn_initial_protocol b = Http1"
  shows "(stream_is_tls io \<longleftrightarrow> (\<exists>tt. tr = Transport_Tls tt) \<and> sch \<in> {''https'', ''wss''})
    \<and> (http_connection_version c = Http2 \<longleftrightarrow>
        stream_is_tls io \<and> Option.bind (client_stream_tls_info ti io) (tls_alpn L) = Some ''h2'')
    \<and> (\<exists>r'. wire_request A (http_connection_version c) v r r' \<and>
        out_res (run_call (executor_ops A http_connection_version ME) (Suc n)
          (executor_stack mk dbg A http_connection_version e) (c, r) w) =
        map_prod (map_polled (map_err Connection_Error \<circ> g)) id
          (case c of
             Inner_H1 s \<Rightarrow> sent_on S1 p (Suc n) s r' w
           | Inner_H2 s \<Rightarrow> sent_on S2 p (Suc n) s r' w))"
proof -
  have "stream_is_tls io \<longleftrightarrow> (\<exists>tt. tr = Transport_Tls tt) \<and> sch \<in> {''https'', ''wss''}"
    using connected_stream [OF assms(9,3,7)] assms(6) by simp
  moreover have "http_connection_version c = Http2 \<longleftrightarrow>
      stream_is_tls io \<and> Option.bind (client_stream_tls_info ti io) (tls_alpn L) = Some ''h2''"
    using alpn_connected [OF assms(10,11)] plain_stream_no_alpn
    by (cases c) (auto simp: http_connection_version_def)
  moreover have "\<exists>r'. wire_request A (http_connection_version c) v r r' \<and>
        out_res (run_call (executor_ops A http_connection_version ME) (Suc n)
          (executor_stack mk dbg A http_connection_version e) (c, r) w) =
        map_prod (map_polled (map_err Connection_Error \<circ> g)) id
          (case c of
             Inner_H1 s \<Rightarrow> sent_on S1 p (Suc n) s r' w
           | Inner_H2 s \<Rightarrow> sent_on S2 p (Suc n) s r' w)"
  proof (cases c)
    case (Inner_H1 s)
    with checked_http1_sent [OF assms(1-8), of n dbg e s w] show ?thesis
      by (simp add: http_connection_version_def)
  next
    case (Inner_H2 s)
    with checked_http2_sent [OF assms(1,2,4,5), of v n dbg e s w] show ?thesis
      by (simp add: http_connection_version_def)
  qed
  ultimately show ?thesis by blast
qed

text \<open>
  An example: an \<open>https\<close> request over a transport whose TLS session negotiates \<open>h2\<close>. A
  sender's future is the request, and its result a response with that request as its parts.
\<close>

definition echo_sender :: "(unit, 'r, 'r, string, unit) sender_api" where
  "echo_sender =
     \<lparr>snd_send = (\<lambda>s r w. (r, s, w)), snd_poll_ready = (\<lambda>s w. (Ready (Inr ()), s, w)),
      snd_is_ready = (\<lambda>s w. True), snd_clone = id\<rparr>"

definition echo_response :: "('r, string + ('r, unit) response, unit) pollf" where
  "echo_response f w = (Ready (Inr \<lparr>rs_parts = f, rs_body = ()\<rparr>), f, w)"

definition secure_request :: "(plain_uri, (string \<times> string) list, unit, unit) request" where
  "secure_request =
     \<lparr>rq_method = GET,
      rq_uri = \<lparr>pu_scheme = Some ''https'', pu_authority = Some \<lparr>pa_host = ''a.org'', pa_port = None\<rparr>,
                pu_path = Some ''/x''\<rparr>,
      rq_version = HTTP_11, rq_headers = [(''connection'', ''close'')], rq_ext = (), rq_body = ()\<rparr>"

definition h2_session :: "string option tls_api" where
  "h2_session = \<lparr>tls_server_name = (\<lambda>_. None), tls_alpn = (\<lambda>a. a), tls_validated = (\<lambda>a. a)\<rparr>"

definition tls_connector ::
  "(unit, 'r, unit, string, string option, unit) service" where
  "tls_connector =
     \<lparr>poll_ready = (\<lambda>s w. (Ready (Inr ()), s, w)), call = (\<lambda>s r w. (Ret (), s, w)),
      poll_fut = (\<lambda>f w. (Ready (Inr (Some ''h2'')), f, w))\<rparr>"

definition unit_hyper_client :: "(unit, 'io, unit, unit) hyper_client" where
  "unit_hyper_client = \<lparr>hc_builder_new = (), hc_handshake = (\<lambda>b io. ()), hc_with_upgrades = id\<rparr>"

definition unit_handshake :: "(unit, string + unit \<times> unit, unit) pollf" where
  "unit_handshake f w = (Ready (Inr ((), ())), f, w)"

definition auto_builder :: "(unit, unit) alpn_builder" where
  "auto_builder = \<lparr>alpn_http1 = (), alpn_http2 = (), alpn_initial_protocol = Http1\<rparr>"

definition echo_connections ::
  "((unit, unit) http_connection, (plain_uri, (string \<times> string) list, unit, unit) request,
     (plain_uri, (string \<times> string) list, unit, unit) request send_request_future, string, unit) connection" where
  "echo_connections = http_connection_ops echo_sender echo_sender"

definition echo_request_executor where
  "echo_request_executor =
     (paired_executor (request_executor_ops echo_connections (send_request_future_poll echo_response) BoxError id)
      :: (_, _, _, string client_error, _, _) service)"

lemma client_wire_request_witness:
  "\<exists>r'. wire_request plain_api Http2 ''a.org'' secure_request r' \<and>
     out_res (run_call (executor_ops plain_api http_connection_version (pair_mapper echo_request_executor)) (Suc 0)
       (executor_stack Pair False plain_api http_connection_version Request_Executor)
       (Inner_H2 (), secure_request) ()) =
     (Ready (Inr \<lparr>rs_parts = r', rs_body = ()\<rparr>), ())"
proof -
  let ?g = "map_sum (\<lambda>e. Err_Connection (BoxError e)) (map_response_body id)"
  have law: "executor_law (http_connection_ops echo_sender echo_sender) (send_request_future_poll echo_response)
      ?g echo_request_executor"
    unfolding echo_request_executor_def echo_connections_def by (rule request_executor_law)
  have connected: "run_call (auto_tls_ops plain_api unit_tls tls_connector tls_connector id) (Suc 0)
      (Transport_Tls ()) secure_request () = (Ready (Inr \<lparr>cs_inner = OptTls_Tls (Some ''h2'')\<rparr>), Transport_Tls (), ())"
    unfolding auto_tls_run [THEN conjunct1]
    by (simp add: get_tls_domain_def get_host_def secure_request_def api_simps
        run_call_def tls_connector_def)
  have shaken: "out_res (run_polls (alpn_handshake_poll (client_stream_tls_info Some) h2_session
      unit_hyper_client unit_handshake (\<lambda>_ w. w) unit_hyper_client unit_handshake (\<lambda>_ w. w)) (Suc 0)
      (fst (alpn_call id id auto_builder \<lparr>cs_inner = OptTls_Tls (Some ''h2'')\<rparr>)) ()) =
      (Ready (Inr (Inner_H2 () :: (unit, unit) http_connection)), ())"
    unfolding out_res_def alpn_run
    by (simp add: auto_builder_def alpn_multiplex_ready_def client_stream_tls_info_def h2_session_def
        unit_handshake_def handshake_result_def)
  from client_wire_request [OF pair_mapper_laws plain_header_laws plain_uri_laws law, OF _ _ _ _ connected shaken,
      of "''https''" "\<lparr>pa_host = ''a.org'', pa_port = None\<rparr>" "''a.org''" 0 False Request_Executor "()"]
  show ?thesis
    by (auto simp: secure_request_def api_simps host_value_def get_non_default_port_def auto_builder_def
        http_connection_version_def sent_on_def echo_sender_def echo_response_def map_response_body_def)
qed

end
