(* ===== verification/Client_Api.thy ===== *)
theory Client_Api
  imports Client_Builder
begin

text \<open>
  The rest of the client's interface (\<open>src/client/mod.rs\<close>): its constructors, which go
  through the builder, its \<open>tower::Service\<close> implementation, and \<open>get\<close>, an async function
  over \<open>request\<close>.
\<close>

section \<open>Constructors\<close>

definition client_new_builder :: "(unit, unit, 'rp, 's \<Rightarrow> 's, 'cfg, 'pool) client_builder" where
  "client_new_builder = client_builder_new"

definition client_build_tcp_http where
  "client_build_tcp_http transport protocol standard R loaded pool =
     client_builder_default transport protocol standard (default_tls_config R loaded) pool"

text \<open>\<open>new_tcp_http\<close> and \<open>default\<close> build the default builder; its panics are theirs.\<close>

definition client_new_tcp_http where
  "client_new_tcp_http Y P mk dbg A version executor default_agent transport protocol standard R loaded pool h =
     (case client_builder_default transport protocol standard (default_tls_config R loaded) pool of
        Panic \<Rightarrow> Panic
      | Ret builder \<Rightarrow> client_build Y P mk dbg A version executor default_agent builder h)"

definition client_default where
  "client_default Y P mk dbg A version executor default_agent transport protocol standard R loaded pool h =
     (case client_builder_default transport protocol standard (default_tls_config R loaded) pool of
        Panic \<Rightarrow> Panic
      | Ret builder \<Rightarrow> client_build Y P mk dbg A version executor default_agent builder h)"

text \<open>
  Making a default client panics exactly when its TLS configuration does; the client it
  makes has a timeout of 30 seconds, follows redirects, and is the only handle on its cell.
\<close>

lemma client_default_made:
  assumes "store_ok h cs"
  shows "(case client_default Y P mk dbg A version executor agent transport protocol standard R loaded pool h of
      Panic \<Rightarrow> default_tls_config R loaded = Panic
    | Ret (c, h') \<Rightarrow>
        \<exists>cfg. default_tls_config R loaded = Ret cfg
          \<and> store_ok h' (c # cs)
          \<and> client_service h' c =
              Some (ly_new Y (ly_shared Y
                (Opt_Middleware (timeout_new
                  (Opt_Middleware (ly_redirect Y standard
                    (ly_user_agent Y agent (incoming_response_layer (ly_map_err Y
                      (ly_pool Y (Transport_Tls (tt_new P transport cfg)) protocol (Some pool)
                        (executor_stack mk dbg A version executor)))))))
                  30000000000 (\<lambda>_. Err_RequestTimeout)))))
          \<and> map (client_service h') cs = map (client_service h) cs)"
proof (cases "default_tls_config R loaded")
  case Panic
  then show ?thesis by (simp add: client_default_def client_builder_default_def)
next
  case (Ret cfg)
  let ?svc = "ly_new Y (ly_shared Y
                (Opt_Middleware (timeout_new
                  (Opt_Middleware (ly_redirect Y standard
                    (ly_user_agent Y agent (incoming_response_layer (ly_map_err Y
                      (ly_pool Y (Transport_Tls (tt_new P transport cfg)) protocol (Some pool)
                        (executor_stack mk dbg A version executor)))))))
                  30000000000 (\<lambda>_. Err_RequestTimeout))))"
  have "client_default Y P mk dbg A version executor agent transport protocol standard R loaded pool h =
      Ret (client_new_from_service ?svc h)"
    using Ret
    by (simp add: client_default_def client_builder_default_def client_build_def build_service_def
        client_user_agent_def client_middleware_def client_core_def option_layer_def timeout_layer_def
        auto_tls_with_optional_tls_def auto_tls_with_tls_def auto_tls_new_def duration_from_secs_def)
  moreover obtain c h' where c: "client_new_from_service ?svc h = (c, h')"
    by (cases "client_new_from_service ?svc h") auto
  ultimately show ?thesis
    using Ret client_new_ok [OF assms c] by simp
qed

section \<open>Requests\<close>

text \<open>\<open>call\<close> of the service is \<open>request\<close>.\<close>

definition client_call ::
  "('s \<Rightarrow> 's) \<Rightarrow> ('s \<Rightarrow> 'r \<Rightarrow> 'o) \<Rightarrow> client \<Rightarrow> 'r \<Rightarrow> 's arc_store \<Rightarrow> 'o option \<times> client \<times> 's arc_store" where
  "client_call clone oneshot self request h =
     (case arc_make_mut clone (cl_inner self) h of
        (a, h1) \<Rightarrow>
          (case arc_get a h1 of
             None \<Rightarrow> (None, self\<lparr>cl_inner := a\<rparr>, h1)
           | Some v \<Rightarrow>
               (case client_ref_request clone oneshot v request of
                  (fut, v') \<Rightarrow> (Some fut, self\<lparr>cl_inner := a\<rparr>, arc_set a v' h1))))"

lemma client_call_request: "client_call clone oneshot self r h = client_request clone oneshot self r h"
  by (simp add: client_call_def client_request_def)

text \<open>
  The request \<open>get\<close> sends: \<open>http\<close>'s request builder with its defaults, no headers and no
  extensions; a URI is always accepted, so the \<open>unwrap\<close> does not panic.
\<close>

definition get_request :: "'h \<Rightarrow> 'x \<Rightarrow> 'b \<Rightarrow> 'u \<Rightarrow> ('u, 'h, 'x, 'b) request" where
  "get_request no_headers no_ext empty_body uri =
     \<lparr>rq_method = GET, rq_uri = uri, rq_version = HTTP_11, rq_headers = no_headers, rq_ext = no_ext,
      rq_body = empty_body\<rparr>"

text \<open>
  The crate's helpers (\<open>src/lib.rs\<close>) that make request parts, a request without its body: a
  string that is no URI makes the builder fail, and the \<open>unwrap\<close> panic.
\<close>

definition str_into_request_parts ::
  "('u, 'au, 'h, 'v) http_api \<Rightarrow> 'h \<Rightarrow> 'x \<Rightarrow> string \<Rightarrow> ('u, 'h, 'x, unit) request outcome" where
  "str_into_request_parts A no_headers no_ext self =
     (case uri_from_str A self of
        None \<Rightarrow> Panic
      | Some uri \<Rightarrow> Ret (get_request no_headers no_ext () uri))"

definition uri_into_request_parts :: "'h \<Rightarrow> 'x \<Rightarrow> 'u \<Rightarrow> ('u, 'h, 'x, unit) request" where
  "uri_into_request_parts no_headers no_ext self = get_request no_headers no_ext () self"

definition parts_into_request_parts :: "('u, 'h, 'x, unit) request \<Rightarrow> ('u, 'h, 'x, unit) request" where
  "parts_into_request_parts self = self"

text \<open>
  The future of \<open>get\<close> borrows the client: the handle and the store are part of what its
  polls change. \<open>poll\<close> polls the one-shot future of the service.
\<close>

datatype ('u, 'o) get_future = Get_Start 'u | Get_Wait 'o | Get_Done

definition client_get :: "'u \<Rightarrow> ('u, 'o) get_future" where
  "client_get uri = Get_Start uri"

definition get_await ::
  "('o, 'e + 'a, 'w) pollf \<Rightarrow> ('e \<Rightarrow> box_error) \<Rightarrow> 'o \<Rightarrow> client \<times> 's arc_store \<times> 'w \<Rightarrow>
     (box_error + 'a) polled \<times> ('u, 'o) get_future \<times> client \<times> 's arc_store \<times> 'w" where
  "get_await poll into fut w =
     (case w of (c, h, w0) \<Rightarrow>
       (case poll fut w0 of
          (Ready (Inr response), fut', w1) \<Rightarrow> (Ready (Inr response), Get_Done, c, h, w1)
        | (Ready (Inl e), fut', w1) \<Rightarrow> (Ready (Inl (into e)), Get_Done, c, h, w1)
        | (Pending, fut', w1) \<Rightarrow> (Pending, Get_Wait fut', c, h, w1)
        | (Panicked, fut', w1) \<Rightarrow> (Panicked, Get_Done, c, h, w1)))"

definition get_poll ::
  "('s \<Rightarrow> 's) \<Rightarrow> ('s \<Rightarrow> ('u, 'h, 'x, 'b) request \<Rightarrow> 'o) \<Rightarrow> ('o, 'e + 'a, 'w) pollf \<Rightarrow> ('e \<Rightarrow> box_error) \<Rightarrow>
     'h \<Rightarrow> 'x \<Rightarrow> 'b \<Rightarrow> (('u, 'o) get_future, box_error + 'a, client \<times> 's arc_store \<times> 'w) pollf" where
  "get_poll clone oneshot poll into no_headers no_ext empty_body self w =
     (case self of
        Get_Start uri \<Rightarrow>
          (case w of (c, h, w0) \<Rightarrow>
            (case client_request clone oneshot c (get_request no_headers no_ext empty_body uri) h of
               (None, c', h') \<Rightarrow> (Panicked, Get_Done, c', h', w0)
             | (Some fut, c', h') \<Rightarrow> get_await poll into fut (c', h', w0)))
      | Get_Wait fut \<Rightarrow> get_await poll into fut w
      | Get_Done \<Rightarrow> (Panicked, Get_Done, w))"

lemma get_poll_simps:
  "get_poll clone oneshot poll into hs x b (Get_Wait fut) w = get_await poll into fut w"
  "client_request clone oneshot c (get_request hs x b uri) h = (Some fut, c', h') \<Longrightarrow>
     get_poll clone oneshot poll into hs x b (Get_Start uri) (c, h, w0) = get_await poll into fut (c', h', w0)"
  by (simp_all add: get_poll_def)

lemma get_wait_run:
  "out_res (run_polls (get_poll clone oneshot poll into hs x b) n (Get_Wait fut) (c, h, w)) =
     (case out_res (run_polls poll n fut w) of (r, w') \<Rightarrow> (map_polled (map_err into) r, c, h, w'))"
proof (induction n arbitrary: fut w)
  case 0
  then show ?case by simp
next
  case (Suc n)
  obtain r fut' w' where "poll fut w = (r, fut', w')" by (cases "poll fut w") auto
  with Suc.IH show ?case
    by (cases r) (auto simp: get_poll_simps get_await_def split: sum.split)
qed

text \<open>
  \<open>get\<close> in any consistent store sends one GET request for the URI, as HTTP/1.1 with no
  headers and an empty body, through the service of its own handle, and gives that
  request's outcome, an error boxed; the services of the other handles are untouched and
  the store stays consistent. It cannot panic unless the request does.
\<close>

theorem client_get_runs:
  assumes "store_ok h (c # cs)"
  shows "\<exists>s c' h'. client_service h c = Some s
    \<and> out_res (run_polls (get_poll clone oneshot poll into hs x b) (Suc n) (client_get uri) (c, h, w)) =
        (case out_res (run_polls poll (Suc n)
             (oneshot (own_service clone c cs s)
               \<lparr>rq_method = GET, rq_uri = uri, rq_version = HTTP_11, rq_headers = hs, rq_ext = x, rq_body = b\<rparr>) w) of
           (r, w') \<Rightarrow> (map_polled (map_err into) r, c', h', w'))
    \<and> store_ok h' (c' # cs)
    \<and> client_service h' c' = Some (clone (own_service clone c cs s))
    \<and> map (client_service h') cs = map (client_service h) cs"
proof -
  let ?r = "get_request hs x b uri"
  from client_request_run [OF assms, of clone oneshot ?r]
  obtain s c' h' where s: "client_service h c = Some s"
    and req: "client_request clone oneshot c ?r h = (Some (oneshot (own_service clone c cs s) ?r), c', h')"
    and rest: "store_ok h' (c' # cs)" "client_service h' c' = Some (clone (own_service clone c cs s))"
      "map (client_service h') cs = map (client_service h) cs" by blast
  have "run_polls (get_poll clone oneshot poll into hs x b) (Suc n) (Get_Start uri) (c, h, w) =
      run_polls (get_poll clone oneshot poll into hs x b) (Suc n)
        (Get_Wait (oneshot (own_service clone c cs s) ?r)) (c', h', w)"
    by (simp add: get_poll_simps(1) get_poll_simps(2) [OF req])
  then show ?thesis
    using s rest
    by (intro exI [of _ s] exI [of _ c'] exI [of _ h'])
      (simp add: client_get_def get_wait_run get_request_def del: run_polls.simps)
qed

text \<open>A \<open>get\<close> through one of two handles on a service whose requests fail.\<close>

lemma client_get_runs_witness:
  "\<exists>s c' h'. client_service
        (\<lparr>as_cells = [0 \<mapsto> (\<lparr>cr_service = 5\<rparr>, 2)], as_next = 1\<rparr> :: nat arc_store) \<lparr>cl_inner = 0\<rparr> = Some s
    \<and> out_res (run_polls (get_poll Suc (\<lambda>s r. (s, rq_uri r))
          (\<lambda>f w. (Ready (if fst f = 6 then Inl (snd f) else Inr ()), f, w :: unit)) BoxError () () ()) (Suc 0)
        (client_get ''/x'') (\<lparr>cl_inner = 0\<rparr>, \<lparr>as_cells = [0 \<mapsto> (\<lparr>cr_service = 5\<rparr>, 2)], as_next = 1\<rparr>, ())) =
      (Ready (Inl (BoxError ''/x'')), c', h', ())
    \<and> store_ok h' [c', \<lparr>cl_inner = 0\<rparr>] \<and> client_service h' \<lparr>cl_inner = 0\<rparr> = Some 5"
proof -
  let ?h = "\<lparr>as_cells = [0 \<mapsto> (\<lparr>cr_service = 5\<rparr>, 2)], as_next = 1\<rparr> :: nat arc_store"
  have "store_ok ?h [\<lparr>cl_inner = 0\<rparr>, \<lparr>cl_inner = 0\<rparr>]" by (simp add: store_ok_def)
  from client_get_runs [OF this, of Suc "\<lambda>s r. (s, rq_uri r)"
      "\<lambda>f w. (Ready (if fst f = 6 then Inl (snd f) else Inr ()), f, w :: unit)" BoxError "()" "()" "()" 0 "''/x''" "()"]
  show ?thesis by (auto simp: own_service_def client_service_def arc_get_def)
qed

end
