(* ===== verification/Client_Mock.thy ===== *)
theory Client_Mock
  imports Streams
begin

text \<open>
  The mock stream and protocol used to test pooling (\<open>src/client/conn/stream/mock.rs\<close> and
  \<open>src/client/conn/protocol/mock.rs\<close>). The global identifier counter and the shared
  \<open>Arc<AtomicBool>\<close> cells are the world of this component.
\<close>

section \<open>Identifiers\<close>

datatype stream_id = StreamID "16 word"

record mock_world =
  mw_ident :: "16 word"
  mw_open :: "nat \<Rightarrow> bool option"
  mw_next :: nat

text \<open>\<open>fetch_add\<close> on an \<open>AtomicU16\<close> wraps around.\<close>

definition stream_id_new :: "mock_world \<Rightarrow> stream_id \<times> mock_world" where
  "stream_id_new w = (StreamID (mw_ident w), w\<lparr>mw_ident := mw_ident w + 1\<rparr>)"

definition stream_id_display :: "(16 word \<Rightarrow> string) \<Rightarrow> stream_id \<Rightarrow> string" where
  "stream_id_display show_u16 self = (case self of StreamID n \<Rightarrow> ''stream-'' @ show_u16 n)"

definition stream_id_default :: "mock_world \<Rightarrow> stream_id \<times> mock_world" where
  "stream_id_default = stream_id_new"

text \<open>The address of every mock stream, and the information it gives: the default one.\<close>

datatype mock_address = MockAddress

definition mock_address_display :: "mock_address \<Rightarrow> string" where
  "mock_address_display self = ''mock://''"

fun stream_ids :: "nat \<Rightarrow> mock_world \<Rightarrow> stream_id list \<times> mock_world" where
  "stream_ids 0 w = ([], w)"
| "stream_ids (Suc n) w =
     (case stream_id_new w of (i, w1) \<Rightarrow> (case stream_ids n w1 of (is, w2) \<Rightarrow> (i # is, w2)))"

lemma stream_ids_eq:
  "fst (stream_ids n w) = map (\<lambda>i. StreamID (mw_ident w + of_nat i)) [0..<n]"
proof (induction n arbitrary: w)
  case 0
  then show ?case by simp
next
  case (Suc n)
  have "map (\<lambda>i. StreamID (mw_ident w + of_nat i)) [0..<Suc n] =
      StreamID (mw_ident w) # map (\<lambda>i. StreamID (mw_ident w + of_nat (Suc i))) [0..<n]"
    by (simp add: upt_conv_Cons map_Suc_upt [symmetric] comp_def del: upt_Suc)
  then show ?case
    using Suc.IH [of "w\<lparr>mw_ident := mw_ident w + 1\<rparr>"]
    by (simp add: stream_id_new_def split_beta add.assoc)
qed

lemma word16_of_nat_eq: "(of_nat i :: 16 word) = of_nat j \<longleftrightarrow> i mod 65536 = j mod 65536"
  by (simp add: word_of_nat_eq_iff take_bit_eq_mod)

text \<open>
  Stream identifiers are unique as long as at most 65536 of them are made; the next one
  repeats the first, wherever the counter stood.
\<close>

theorem stream_ids_distinct: "distinct (fst (stream_ids n w)) = (n \<le> 65536)"
proof
  assume d: "distinct (fst (stream_ids n w))"
  show "n \<le> 65536"
  proof (rule ccontr)
    assume "\<not> n \<le> 65536"
    then have "(0 :: nat) \<in> {0..<n}" "65536 \<in> {0..<n}" by auto
    moreover have "inj_on (\<lambda>i. StreamID (mw_ident w + of_nat i)) {0..<n}"
      using d by (simp add: stream_ids_eq distinct_map)
    moreover have "(of_nat 65536 :: 16 word) = 0"
      using word16_of_nat_eq [of 65536 0] by (simp del: of_nat_numeral)
    ultimately have "(0 :: nat) = 65536"
      by (intro inj_onD [where f = "\<lambda>i. StreamID (mw_ident w + of_nat i)" and A = "{0..<n}"])
        (simp_all del: of_nat_numeral)
    then show False by simp
  qed
next
  assume "n \<le> 65536"
  then have "inj_on (\<lambda>i. StreamID (mw_ident w + of_nat i)) {0..<n}"
    by (auto simp: inj_on_def word16_of_nat_eq)
  then show "distinct (fst (stream_ids n w))" by (simp add: stream_ids_eq distinct_map)
qed

section \<open>The mock stream\<close>

record mock_stream =
  ms_open :: nat
  ms_reuse :: bool
  ms_ident :: stream_id

definition mock_stream_new :: "bool \<Rightarrow> mock_world \<Rightarrow> mock_stream \<times> mock_world" where
  "mock_stream_new reuse w =
     (let a = mw_next w;
          w1 = w\<lparr>mw_open := (mw_open w)(a \<mapsto> True), mw_next := Suc a\<rparr>
      in case stream_id_new w1 of
           (ident, w2) \<Rightarrow> (\<lparr>ms_open = a, ms_reuse = reuse, ms_ident = ident\<rparr>, w2))"

definition mock_stream_single :: "mock_world \<Rightarrow> mock_stream \<times> mock_world" where
  "mock_stream_single = mock_stream_new False"

definition mock_stream_reusable :: "mock_world \<Rightarrow> mock_stream \<times> mock_world" where
  "mock_stream_reusable = mock_stream_new True"

definition mock_stream_id :: "mock_stream \<Rightarrow> stream_id" where
  "mock_stream_id self = ms_ident self"

definition mock_stream_close :: "mock_stream \<Rightarrow> mock_world \<Rightarrow> mock_world" where
  "mock_stream_close self w = w\<lparr>mw_open := (mw_open w)(ms_open self \<mapsto> False)\<rparr>"

text \<open>A cell that is not there (there is none for a stream that was made) reads as closed.\<close>

definition mock_stream_is_open :: "mock_stream \<Rightarrow> mock_world \<Rightarrow> bool" where
  "mock_stream_is_open self w = (mw_open w (ms_open self) = Some True)"

definition mock_stream_can_share :: "mock_stream \<Rightarrow> bool" where
  "mock_stream_can_share self = ms_reuse self"

definition mock_stream_info :: "'ci \<Rightarrow> mock_stream \<Rightarrow> 'ci" where
  "mock_stream_info default_info self = default_info"

section \<open>The mock protocol\<close>

record mock_sender =
  mk_id :: stream_id
  mk_stream :: mock_stream

definition mock_sender_single :: "mock_world \<Rightarrow> mock_sender \<times> mock_world" where
  "mock_sender_single w =
     (case stream_id_new w of
        (i, w1) \<Rightarrow> (case mock_stream_single w1 of (s, w2) \<Rightarrow> (\<lparr>mk_id = i, mk_stream = s\<rparr>, w2)))"

definition mock_sender_reusable :: "mock_world \<Rightarrow> mock_sender \<times> mock_world" where
  "mock_sender_reusable w =
     (case stream_id_new w of
        (i, w1) \<Rightarrow> (case mock_stream_reusable w1 of (s, w2) \<Rightarrow> (\<lparr>mk_id = i, mk_stream = s\<rparr>, w2)))"

definition mock_sender_id :: "mock_sender \<Rightarrow> stream_id" where
  "mock_sender_id self = mk_id self"

definition mock_sender_default :: "mock_world \<Rightarrow> mock_sender \<times> mock_world" where
  "mock_sender_default = mock_sender_reusable"

datatype mock_protocol_error = MockProtocolError

definition mock_sender_poll_ready ::
  "mock_sender \<Rightarrow> 'w \<Rightarrow> (mock_protocol_error + unit) polled \<times> mock_sender \<times> 'w" where
  "mock_sender_poll_ready self w = (Ready (Inr ()), self, w)"

definition mock_sender_close :: "mock_sender \<Rightarrow> mock_world \<Rightarrow> mock_world" where
  "mock_sender_close self w = mock_stream_close (mk_stream self) w"

definition mock_sender_is_open :: "mock_sender \<Rightarrow> mock_world \<Rightarrow> bool" where
  "mock_sender_is_open self w = mock_stream_is_open (mk_stream self) w"

definition mock_sender_can_share :: "mock_sender \<Rightarrow> bool" where
  "mock_sender_can_share self = mock_stream_can_share (mk_stream self)"

text \<open>A clone of the sender: the cell is shared.\<close>

definition mock_sender_reuse :: "mock_sender \<Rightarrow> mock_sender option" where
  "mock_sender_reuse self = Some self"

text \<open>A ready future with a response that echoes the body.\<close>

definition mock_sender_send_request :: "mock_sender \<Rightarrow> ('u, 'h, 'x, 'b) request \<Rightarrow> 'p \<Rightarrow> ('p, 'b) response" where
  "mock_sender_send_request self request default_parts = \<lparr>rs_parts = default_parts, rs_body = rq_body request\<rparr>"

record mock_protocol = mp_multiplex :: bool

definition mock_protocol_new :: "bool \<Rightarrow> mock_protocol" where
  "mock_protocol_new multiplex = \<lparr>mp_multiplex = multiplex\<rparr>"

definition mock_protocol_multiplex :: "mock_protocol \<Rightarrow> bool" where
  "mock_protocol_multiplex self = mp_multiplex self"

definition mock_protocol_multiplex_ready :: "mock_protocol \<Rightarrow> mock_stream \<Rightarrow> bool" where
  "mock_protocol_multiplex_ready self io = (mp_multiplex self \<and> mock_stream_can_share io)"

definition mock_protocol_call :: "mock_protocol \<Rightarrow> mock_stream \<Rightarrow> mock_world \<Rightarrow> mock_sender \<times> mock_world" where
  "mock_protocol_call self stream w =
     (case stream_id_new w of (i, w') \<Rightarrow> (\<lparr>mk_id = i, mk_stream = stream\<rparr>, w'))"

text \<open>
  Closing a mock connection closes every sender that was reused from it, and the stream
  it was made from, and nothing else. A connection that was just made is open.
\<close>

theorem mock_close_shared:
  assumes "mock_stream_new reuse w0 = (io, w1)" and "mock_protocol_call p io w1 = (sender, w2)"
    and "mock_sender_reuse sender = Some other"
  shows "mock_sender_is_open other w2
    \<and> \<not> mock_sender_is_open other (mock_sender_close sender w2)
    \<and> \<not> mock_sender_is_open sender (mock_sender_close other w2)
    \<and> \<not> mock_stream_is_open io (mock_sender_close other w2)
    \<and> (ms_open s = ms_open io \<or> mock_stream_is_open s (mock_sender_close sender w2) = mock_stream_is_open s w2)
    \<and> mock_sender_can_share other = reuse"
  using assms
  by (auto simp: mock_stream_new_def stream_id_new_def mock_protocol_call_def mock_sender_reuse_def
      mock_sender_is_open_def mock_stream_is_open_def mock_sender_close_def mock_stream_close_def
      mock_sender_can_share_def mock_stream_can_share_def Let_def)

lemma mock_close_shared_witness:
  "\<exists>sender w2. mock_sender_is_open sender w2 \<and> \<not> mock_sender_is_open sender (mock_sender_close sender w2)"
proof -
  let ?w0 = "\<lparr>mw_ident = 1, mw_open = (\<lambda>_. None), mw_next = 0\<rparr> :: mock_world"
  let ?io = "\<lparr>ms_open = 0, ms_reuse = True, ms_ident = StreamID 1\<rparr>"
  let ?w1 = "\<lparr>mw_ident = 2, mw_open = [0 \<mapsto> True], mw_next = 1\<rparr> :: mock_world"
  let ?w2 = "\<lparr>mw_ident = 3, mw_open = [0 \<mapsto> True], mw_next = 1\<rparr> :: mock_world"
  let ?s = "\<lparr>mk_id = StreamID 2, mk_stream = ?io\<rparr>"
  have "mock_stream_new True ?w0 = (?io, ?w1)"
    by (simp add: mock_stream_new_def stream_id_new_def)
  moreover have "mock_protocol_call (mock_protocol_new True) ?io ?w1 = (?s, ?w2)"
    by (simp add: mock_protocol_call_def stream_id_new_def)
  moreover have "mock_sender_reuse ?s = Some ?s" by (simp add: mock_sender_reuse_def)
  ultimately have "mock_sender_is_open ?s ?w2 \<and> \<not> mock_sender_is_open ?s (mock_sender_close ?s ?w2)"
    using mock_close_shared [of True ?w0 ?io ?w1 "mock_protocol_new True" ?s ?w2 ?s ?io] by blast
  then show ?thesis by blast
qed

section \<open>The mock TLS stream\<close>

record ('i, 'tls) mock_tls =
  mt_inner :: 'i
  mt_info :: 'tls

definition mock_tls_new :: "'tls \<Rightarrow> 'i \<Rightarrow> ('i, 'tls) mock_tls" where
  "mock_tls_new info inner = \<lparr>mt_inner = inner, mt_info = info\<rparr>"

definition mock_tls_deref :: "('i, 'tls) mock_tls \<Rightarrow> 'i" where
  "mock_tls_deref self = mt_inner self"

definition mock_tls_deref_mut :: "('i \<Rightarrow> 'i) \<Rightarrow> ('i, 'tls) mock_tls \<Rightarrow> ('i, 'tls) mock_tls" where
  "mock_tls_deref_mut f self = self\<lparr>mt_inner := f (mt_inner self)\<rparr>"

definition mock_tls_poll_handshake :: "('i, 'tls) mock_tls \<Rightarrow> 'w \<Rightarrow> (io_error + unit) polled \<times> ('i, 'tls) mock_tls \<times> 'w" where
  "mock_tls_poll_handshake self w = (Ready (Inr ()), self, w)"

definition mock_tls_info :: "('i \<Rightarrow> 'ci) \<Rightarrow> ('i, 'tls) mock_tls \<Rightarrow> 'ci" where
  "mock_tls_info info self = info (mt_inner self)"

definition mock_tls_tls_info :: "('i, 'tls) mock_tls \<Rightarrow> 'tls option" where
  "mock_tls_tls_info self = Some (mt_info self)"

definition mock_tls_ops :: "('i, 'w) io_ops \<Rightarrow> (('i, 'tls) mock_tls, 'w) io_ops" where
  "mock_tls_ops I =
     (let up = (\<lambda>self i. self\<lparr>mt_inner := i\<rparr>) in
      \<lparr>io_read = (\<lambda>self n w. lift_res (up self) (io_read I (mt_inner self) n w)),
       io_write = (\<lambda>self bs w. lift_res (up self) (io_write I (mt_inner self) bs w)),
       io_write_vectored =
         default_write_vectored (\<lambda>self bs w. lift_res (up self) (io_write I (mt_inner self) bs w)),
       io_flush = (\<lambda>self w. lift_res (up self) (io_flush I (mt_inner self) w)),
       io_shutdown = (\<lambda>self w. lift_res (up self) (io_shutdown I (mt_inner self) w)),
       io_is_write_vectored = (\<lambda>self. False)\<rparr>)"

lemma mock_tls_new_eta: "mock_tls_new info = (\<lambda>i. \<lparr>mt_inner = i, mt_info = info\<rparr>)"
  by (simp add: mock_tls_new_def fun_eq_iff)

interpretation mock_tls: io_forwarder "no_vectored I" "mock_tls_ops I" "mock_tls_new info" for I info
  by unfold_locales (simp_all add: mock_tls_ops_def default_write_vectored_def Let_def mock_tls_new_eta)

end
