(* ===== verification/Runtime.thy ===== *)
theory Runtime
  imports Prelude
begin

text \<open>
  The executors of \<open>src/bridge/rt.rs\<close>: unit structs that hand a future to tokio.
  \<open>tokio::spawn\<close> and \<open>tokio::task::spawn_local\<close> are effects on the world and parameters.
  Each executor implements chateau's and hyper's \<open>Executor\<close> trait.
\<close>

datatype tokio_executor = TokioExecutor

datatype tokio_current_thread_executor = TokioCurrentThreadExecutor

definition tokio_executor_new :: tokio_executor where
  "tokio_executor_new = TokioExecutor"

definition tokio_executor_execute :: "('f \<Rightarrow> 'w \<Rightarrow> 'w) \<Rightarrow> tokio_executor \<Rightarrow> 'f \<Rightarrow> 'w \<Rightarrow> 'w" where
  "tokio_executor_execute spawn self future w = spawn future w"

definition tokio_executor_hyper_execute :: "('f \<Rightarrow> 'w \<Rightarrow> 'w) \<Rightarrow> tokio_executor \<Rightarrow> 'f \<Rightarrow> 'w \<Rightarrow> 'w" where
  "tokio_executor_hyper_execute spawn self future w = spawn future w"

definition current_thread_new :: tokio_current_thread_executor where
  "current_thread_new = TokioCurrentThreadExecutor"

definition current_thread_execute ::
  "('f \<Rightarrow> 'w \<Rightarrow> 'w) \<Rightarrow> tokio_current_thread_executor \<Rightarrow> 'f \<Rightarrow> 'w \<Rightarrow> 'w" where
  "current_thread_execute spawn_local self future w = spawn_local future w"

definition current_thread_hyper_execute ::
  "('f \<Rightarrow> 'w \<Rightarrow> 'w) \<Rightarrow> tokio_current_thread_executor \<Rightarrow> 'f \<Rightarrow> 'w \<Rightarrow> 'w" where
  "current_thread_hyper_execute spawn_local self future w = spawn_local future w"

end
