(* ===== verification/Body.thy ===== *)
theory Body
  imports Prelude
begin

text \<open>
  The body type (\<open>src/body/mod.rs\<close>): in-memory bodies and wrapped ones behind one enum. The
  bodies of other crates (\<open>Full\<close>, hyper's \<open>Incoming\<close>, axum's \<open>Body\<close>) are dictionaries of
  operations; for \<open>Full\<close>, what its documentation promises is stated as laws.
\<close>

section \<open>The interface of a body\<close>

text \<open>
  \<open>http_body::Body\<close>: the next frame (none at the end), whether the end is known to be
  reached, and the bounds on the remaining length.
\<close>

record ('b, 'fr, 'e, 'w) body_ops =
  poll_frame :: "'b \<Rightarrow> 'w \<Rightarrow> ('e + 'fr) option polled \<times> 'b \<times> 'w"
  is_end_stream :: "'b \<Rightarrow> bool"
  size_hint :: "'b \<Rightarrow> nat \<times> nat option"

text \<open>The consumer: all frames of at most \<open>n\<close> polls, up to the first end, error or panic.\<close>

fun frames :: "('b, 'fr, 'e, 'w) body_ops \<Rightarrow> nat \<Rightarrow> 'b \<Rightarrow> 'w \<Rightarrow> 'fr list \<times> ('e option) polled \<times> 'b \<times> 'w" where
  "frames B 0 b w = ([], Pending, b, w)"
| "frames B (Suc n) b w =
     (case poll_frame B b w of
        (Pending, b', w') \<Rightarrow> frames B n b' w'
      | (Panicked, b', w') \<Rightarrow> ([], Panicked, b', w')
      | (Ready None, b', w') \<Rightarrow> ([], Ready None, b', w')
      | (Ready (Some (Inl e)), b', w') \<Rightarrow> ([], Ready (Some e), b', w')
      | (Ready (Some (Inr fr)), b', w') \<Rightarrow> (case frames B n b' w' of (frs, r) \<Rightarrow> (fr # frs, r)))"

text \<open>A body around a body: every operation is forwarded, errors are converted.\<close>

locale body_forwarder =
  fixes inner :: "('b, 'fr, 'e, 'w) body_ops"
    and outer :: "('c, 'fr, 'e2, 'w) body_ops"
    and wrap :: "'b \<Rightarrow> 'c" and inj :: "'e \<Rightarrow> 'e2"
  assumes fwd_frame:
      "poll_frame outer (wrap b) w =
         map_res (map_polled (map_option (map_err inj))) (lift_res wrap (poll_frame inner b w))"
    and fwd_end: "is_end_stream outer (wrap b) = is_end_stream inner b"
    and fwd_size: "size_hint outer (wrap b) = size_hint inner b"
begin

lemma frames_forwarded:
  "frames outer n (wrap b) w =
     (case frames inner n b w of
        (frs, r, b', w') \<Rightarrow> (frs, map_polled (map_option inj) r, wrap b', w'))"
proof (induction n arbitrary: b w)
  case 0
  then show ?case by simp
next
  case (Suc n)
  obtain r b' w' where "poll_frame inner b w = (r, b', w')" by (cases "poll_frame inner b w") auto
  then show ?case
    by (auto simp: fwd_frame Suc.IH split: polled.split option.split sum.split prod.splits)
qed

end

section \<open>Bodies\<close>

datatype ('f, 'i, 'a) inner_body = Inner_Empty | Inner_Full 'f | Inner_Incoming 'i | Inner_Axum 'a

record ('f, 'i, 'a) body = bd_inner :: "('f, 'i, 'a) inner_body"

text \<open>\<open>full_new\<close> is \<open>Full::new\<close> of the bytes.\<close>

definition body_empty :: "('f, 'i, 'a) body" where
  "body_empty = \<lparr>bd_inner = Inner_Empty\<rparr>"

definition body_default :: "('f, 'i, 'a) body" where
  "body_default = \<lparr>bd_inner = Inner_Empty\<rparr>"

definition body_full :: "(byte list \<Rightarrow> 'f) \<Rightarrow> byte list \<Rightarrow> ('f, 'i, 'a) body" where
  "body_full full_new data = \<lparr>bd_inner = Inner_Full (full_new data)\<rparr>"

definition inner_body_from_string :: "(byte list \<Rightarrow> 'f) \<Rightarrow> byte list \<Rightarrow> ('f, 'i, 'a) inner_body" where
  "inner_body_from_string full_new body =
     (if body = [] then Inner_Empty else Inner_Full (full_new body))"

definition body_from_string :: "(byte list \<Rightarrow> 'f) \<Rightarrow> byte list \<Rightarrow> ('f, 'i, 'a) body" where
  "body_from_string full_new body = \<lparr>bd_inner = inner_body_from_string full_new body\<rparr>"

definition body_from_bytes :: "(byte list \<Rightarrow> 'f) \<Rightarrow> byte list \<Rightarrow> ('f, 'i, 'a) body" where
  "body_from_bytes full_new body = \<lparr>bd_inner = Inner_Full (full_new body)\<rparr>"

definition body_from_full :: "'f \<Rightarrow> ('f, 'i, 'a) body" where
  "body_from_full body = \<lparr>bd_inner = Inner_Full body\<rparr>"

definition body_from_incoming :: "'i \<Rightarrow> ('f, 'i, 'a) body" where
  "body_from_incoming body = \<lparr>bd_inner = Inner_Incoming body\<rparr>"

definition body_from_axum :: "'a \<Rightarrow> ('f, 'i, 'a) body" where
  "body_from_axum body = \<lparr>bd_inner = Inner_Axum body\<rparr>"

definition body_from_str :: "(byte list \<Rightarrow> 'f) \<Rightarrow> byte list \<Rightarrow> ('f, 'i, 'a) body" where
  "body_from_str full_new body = \<lparr>bd_inner = Inner_Full (full_new body)\<rparr>"

definition body_from_vec :: "(byte list \<Rightarrow> 'f) \<Rightarrow> byte list \<Rightarrow> ('f, 'i, 'a) body" where
  "body_from_vec full_new body = \<lparr>bd_inner = Inner_Full (full_new body)\<rparr>"

definition body_from_empty :: "'m \<Rightarrow> ('f, 'i, 'a) body" where
  "body_from_empty b = \<lparr>bd_inner = Inner_Empty\<rparr>"

text \<open>Back into an axum body: \<open>axum_new\<close> is \<open>axum::body::Body::new\<close>.\<close>

definition body_into_axum :: "(('f, 'i, 'a) body \<Rightarrow> 'a) \<Rightarrow> ('f, 'i, 'a) body \<Rightarrow> 'a" where
  "body_into_axum axum_new body = axum_new body"

definition body_try_clone :: "('f \<Rightarrow> 'f) \<Rightarrow> ('f, 'i, 'a) body \<Rightarrow> ('f, 'i, 'a) body option" where
  "body_try_clone clone self =
     (case bd_inner self of
        Inner_Full body \<Rightarrow> Some \<lparr>bd_inner = Inner_Full (clone body)\<rparr>
      | Inner_Empty \<Rightarrow> Some \<lparr>bd_inner = Inner_Empty\<rparr>
      | Inner_Incoming _ \<Rightarrow> None
      | Inner_Axum _ \<Rightarrow> None)"

text \<open>The macro \<open>poll_frame!\<close>, for each of the wrapped bodies.\<close>

definition poll_frame_into ::
  "('e \<Rightarrow> 'e2) \<Rightarrow> ('b \<Rightarrow> 'c) \<Rightarrow> ('e + 'fr) option polled \<times> 'b \<times> 'w \<Rightarrow> ('e2 + 'fr) option polled \<times> 'c \<times> 'w" where
  "poll_frame_into into wrap x = map_res (map_polled (map_option (map_err into))) (lift_res wrap x)"

definition body_poll_frame ::
  "('f, 'fr, 'fe, 'w) body_ops \<Rightarrow> ('i, 'fr, 'ie, 'w) body_ops \<Rightarrow> ('a, 'fr, 'ae, 'w) body_ops \<Rightarrow>
     ('fe \<Rightarrow> 'e) \<Rightarrow> ('ie \<Rightarrow> 'e) \<Rightarrow> ('ae \<Rightarrow> 'e) \<Rightarrow> ('f, 'i, 'a) body \<Rightarrow> 'w \<Rightarrow>
     ('e + 'fr) option polled \<times> ('f, 'i, 'a) body \<times> 'w" where
  "body_poll_frame F I X intof intoi intox self w =
     (case bd_inner self of
        Inner_Empty \<Rightarrow> (Ready None, self, w)
      | Inner_Full body \<Rightarrow>
          poll_frame_into intof (\<lambda>b. self\<lparr>bd_inner := Inner_Full b\<rparr>) (poll_frame F body w)
      | Inner_Incoming body \<Rightarrow>
          poll_frame_into intoi (\<lambda>b. self\<lparr>bd_inner := Inner_Incoming b\<rparr>) (poll_frame I body w)
      | Inner_Axum body \<Rightarrow>
          poll_frame_into intox (\<lambda>b. self\<lparr>bd_inner := Inner_Axum b\<rparr>) (poll_frame X body w))"

definition body_is_end_stream ::
  "('f, 'fr, 'fe, 'w) body_ops \<Rightarrow> ('i, 'fr, 'ie, 'w) body_ops \<Rightarrow> ('a, 'fr, 'ae, 'w) body_ops \<Rightarrow>
     ('f, 'i, 'a) body \<Rightarrow> bool" where
  "body_is_end_stream F I X self =
     (case bd_inner self of
        Inner_Empty \<Rightarrow> True
      | Inner_Full body \<Rightarrow> is_end_stream F body
      | Inner_Incoming body \<Rightarrow> is_end_stream I body
      | Inner_Axum body \<Rightarrow> is_end_stream X body)"

definition body_size_hint ::
  "('f, 'fr, 'fe, 'w) body_ops \<Rightarrow> ('i, 'fr, 'ie, 'w) body_ops \<Rightarrow> ('a, 'fr, 'ae, 'w) body_ops \<Rightarrow>
     ('f, 'i, 'a) body \<Rightarrow> nat \<times> nat option" where
  "body_size_hint F I X self =
     (case bd_inner self of
        Inner_Empty \<Rightarrow> (0, Some 0)
      | Inner_Full body \<Rightarrow> size_hint F body
      | Inner_Incoming body \<Rightarrow> size_hint I body
      | Inner_Axum body \<Rightarrow> size_hint X body)"

definition body_ops_of ::
  "('f, 'fr, 'fe, 'w) body_ops \<Rightarrow> ('i, 'fr, 'ie, 'w) body_ops \<Rightarrow> ('a, 'fr, 'ae, 'w) body_ops \<Rightarrow>
     ('fe \<Rightarrow> 'e) \<Rightarrow> ('ie \<Rightarrow> 'e) \<Rightarrow> ('ae \<Rightarrow> 'e) \<Rightarrow> (('f, 'i, 'a) body, 'fr, 'e, 'w) body_ops" where
  "body_ops_of F I X intof intoi intox =
     \<lparr>poll_frame = body_poll_frame F I X intof intoi intox, is_end_stream = body_is_end_stream F I X,
      size_hint = body_size_hint F I X\<rparr>"

lemmas body_defs =
  body_ops_of_def body_poll_frame_def body_is_end_stream_def body_size_hint_def poll_frame_into_def

interpretation body_full: body_forwarder F "body_ops_of F I X intof intoi intox" "\<lambda>b. \<lparr>bd_inner = Inner_Full b\<rparr>" intof
  for F I X intof intoi intox
  by unfold_locales (simp_all add: body_defs)

interpretation body_incoming:
  body_forwarder I "body_ops_of F I X intof intoi intox" "\<lambda>b. \<lparr>bd_inner = Inner_Incoming b\<rparr>" intoi
  for F I X intof intoi intox
  by unfold_locales (simp_all add: body_defs)

interpretation body_axum:
  body_forwarder X "body_ops_of F I X intof intoi intox" "\<lambda>b. \<lparr>bd_inner = Inner_Axum b\<rparr>" intox
  for F I X intof intoi intox
  by unfold_locales (simp_all add: body_defs)

section \<open>In-memory bodies\<close>

text \<open>
  \<open>Full\<close>: one frame with all the data unless there is none, then the end; the remaining
  length is known exactly.
\<close>

definition full_laws :: "('f, 'fr, 'fe, 'w) body_ops \<Rightarrow> (byte list \<Rightarrow> 'f) \<Rightarrow> (byte list \<Rightarrow> 'fr) \<Rightarrow> bool" where
  "full_laws F full_new data_frame \<longleftrightarrow>
     (\<forall>d w. poll_frame F (full_new d) w =
        (Ready (if d = [] then None else Some (Inr (data_frame d))), full_new [], w)) \<and>
     (\<forall>d. is_end_stream F (full_new d) = (d = [])) \<and>
     (\<forall>d. size_hint F (full_new d) = (length d, Some (length d)))"

lemma full_frames:
  assumes "full_laws F full_new data_frame"
  shows "frames F (Suc (Suc n)) (full_new d) w =
    (if d = [] then [] else [data_frame d], Ready None, full_new [], w)"
  using assms by (simp add: full_laws_def)

lemma empty_frames:
  "frames (body_ops_of F I X intof intoi intox) (Suc n) \<lparr>bd_inner = Inner_Empty\<rparr> w =
     ([], Ready None, \<lparr>bd_inner = Inner_Empty\<rparr>, w)"
  by (simp add: body_defs)

text \<open>
  In-memory bodies. A body made of data, by \<open>full\<close>, from a string or from bytes, gives
  exactly that data: one frame if there is any, then the end, never an error and never
  pending; it reports the end before the first poll exactly when the data is empty, and its
  length exactly. An empty string is stored as the empty body, which cannot be told apart.
\<close>

theorem in_memory_body:
  assumes "full_laws F full_new data_frame"
    and "b \<in> {body_full full_new d, body_from_string full_new d, body_from_bytes full_new d,
              if d = [] then body_empty else body_full full_new d}"
  shows "(case frames (body_ops_of F I X intof intoi intox) (Suc (Suc n)) b w of
      (frs, r, b', w') \<Rightarrow> frs = (if d = [] then [] else [data_frame d]) \<and> r = Ready None \<and> w' = w)
    \<and> is_end_stream (body_ops_of F I X intof intoi intox) b = (d = [])
    \<and> size_hint (body_ops_of F I X intof intoi intox) b = (length d, Some (length d))"
proof -
  let ?B = "body_ops_of F I X intof intoi intox"
  have "b = \<lparr>bd_inner = Inner_Full (full_new d)\<rparr> \<or> d = [] \<and> b = \<lparr>bd_inner = Inner_Empty\<rparr>"
    using assms(2)
    by (auto simp: body_full_def body_from_string_def inner_body_from_string_def body_from_bytes_def body_empty_def
        split: if_splits)
  then show ?thesis
  proof
    assume b: "b = \<lparr>bd_inner = Inner_Full (full_new d)\<rparr>"
    have "frames ?B (Suc (Suc n)) b w =
        (if d = [] then [] else [data_frame d], Ready None, \<lparr>bd_inner = Inner_Full (full_new [])\<rparr>, w)"
      unfolding b body_full.frames_forwarded full_frames [OF assms(1)] by simp
    then show ?thesis
      using assms(1) by (simp add: b body_full.fwd_end body_full.fwd_size full_laws_def del: frames.simps)
  next
    assume b: "d = [] \<and> b = \<lparr>bd_inner = Inner_Empty\<rparr>"
    then have "frames ?B (Suc (Suc n)) b w = ([], Ready None, b, w)"
      using empty_frames [of F I X intof intoi intox "Suc n" w] by blast
    with b show ?thesis by (simp add: body_defs del: frames.simps)
  qed
qed

text \<open>An instance: a full body is its data, and a frame is a list of bytes.\<close>

definition plain_full :: "(byte list, byte list, unit, 'w) body_ops" where
  "plain_full =
     \<lparr>poll_frame = (\<lambda>d w. (Ready (if d = [] then None else Some (Inr d)), [], w)),
      is_end_stream = (\<lambda>d. d = []), size_hint = (\<lambda>d. (length d, Some (length d)))\<rparr>"

lemma plain_full_laws: "full_laws plain_full (\<lambda>d. d) (\<lambda>d. d)"
  by (simp add: full_laws_def plain_full_def)

definition plain_body_ops :: "((byte list, byte list, byte list) body, byte list, unit, unit) body_ops" where
  "plain_body_ops = body_ops_of plain_full plain_full plain_full id id id"

lemma in_memory_body_witness:
  "(case frames plain_body_ops (Suc (Suc 0)) (body_from_string (\<lambda>d. d) [72, 105]) () of
      (frs, r, b', w') \<Rightarrow> frs = [[72, 105]] \<and> r = Ready None)
    \<and> \<not> is_end_stream plain_body_ops (body_from_string (\<lambda>d. d) [72, 105])
    \<and> size_hint plain_body_ops (body_from_string (\<lambda>d. d) [72, 105]) = (2, Some 2)"
  using in_memory_body [where n = 0 and F = plain_full and I = plain_full and X = plain_full and intof = id
      and intoi = id and intox = id and w = "()" and d = "[72, 105]"
      and b = "body_from_string (\<lambda>d. d) [72, 105]", OF plain_full_laws, folded plain_body_ops_def]
  by (auto simp del: frames.simps)

lemma try_clone_in_memory:
  assumes "\<And>f. clone f = f"
  shows "body_try_clone clone b =
    (case bd_inner b of Inner_Incoming _ \<Rightarrow> None | Inner_Axum _ \<Rightarrow> None | _ \<Rightarrow> Some b)"
  using assms by (cases b) (simp add: body_try_clone_def split: inner_body.split)

section \<open>Boxed bodies\<close>

text \<open>
  \<open>as_boxed\<close>: the body is moved into a box with its error mapped; for the in-memory bodies
  the map is \<open>unreachable!()\<close>, a panic. \<open>empty_new\<close> is the unit body \<open>http_body_util::Empty\<close>.
\<close>

datatype ('f, 'm, 'i, 'a) boxed_body = Boxed_Full 'f | Boxed_Empty 'm | Boxed_Incoming 'i | Boxed_Axum 'a

definition body_as_boxed :: "'m \<Rightarrow> ('f, 'i, 'a) body \<Rightarrow> ('f, 'm, 'i, 'a) boxed_body" where
  "body_as_boxed empty_new self =
     (case bd_inner self of
        Inner_Full body \<Rightarrow> Boxed_Full body
      | Inner_Empty \<Rightarrow> Boxed_Empty empty_new
      | Inner_Incoming incoming \<Rightarrow> Boxed_Incoming incoming
      | Inner_Axum body \<Rightarrow> Boxed_Axum body)"

definition unreachable_err :: "('e + 'fr) option polled \<Rightarrow> ('e2 + 'fr) option polled" where
  "unreachable_err r =
     (case r of
        Ready (Some (Inl _)) \<Rightarrow> Panicked
      | Ready (Some (Inr fr)) \<Rightarrow> Ready (Some (Inr fr))
      | Ready None \<Rightarrow> Ready None
      | Pending \<Rightarrow> Pending
      | Panicked \<Rightarrow> Panicked)"

definition boxed_poll_frame ::
  "('f, 'fr, 'fe, 'w) body_ops \<Rightarrow> ('m, 'fr, 'me, 'w) body_ops \<Rightarrow> ('i, 'fr, 'ie, 'w) body_ops \<Rightarrow>
     ('a, 'fr, 'ae, 'w) body_ops \<Rightarrow> ('ie \<Rightarrow> 'e) \<Rightarrow> ('ae \<Rightarrow> 'e) \<Rightarrow> ('f, 'm, 'i, 'a) boxed_body \<Rightarrow> 'w \<Rightarrow>
     ('e + 'fr) option polled \<times> ('f, 'm, 'i, 'a) boxed_body \<times> 'w" where
  "boxed_poll_frame F M I X intoi intox self w =
     (case self of
        Boxed_Full body \<Rightarrow> map_res unreachable_err (lift_res Boxed_Full (poll_frame F body w))
      | Boxed_Empty body \<Rightarrow> map_res unreachable_err (lift_res Boxed_Empty (poll_frame M body w))
      | Boxed_Incoming body \<Rightarrow> poll_frame_into intoi Boxed_Incoming (poll_frame I body w)
      | Boxed_Axum body \<Rightarrow> poll_frame_into intox Boxed_Axum (poll_frame X body w))"

definition infallible :: "('b, 'fr, 'e, 'w) body_ops \<Rightarrow> bool" where
  "infallible B \<longleftrightarrow> (\<forall>b w e. fst (poll_frame B b w) \<noteq> Ready (Some (Inl e)))"

definition boxed_ops where
  "boxed_ops F M I X intoi intox =
     \<lparr>poll_frame = boxed_poll_frame F M I X intoi intox,
      is_end_stream = (\<lambda>self. case self of
        Boxed_Full b \<Rightarrow> is_end_stream F b | Boxed_Empty b \<Rightarrow> is_end_stream M b
      | Boxed_Incoming b \<Rightarrow> is_end_stream I b | Boxed_Axum b \<Rightarrow> is_end_stream X b),
      size_hint = (\<lambda>self. case self of
        Boxed_Full b \<Rightarrow> size_hint F b | Boxed_Empty b \<Rightarrow> size_hint M b
      | Boxed_Incoming b \<Rightarrow> size_hint I b | Boxed_Axum b \<Rightarrow> size_hint X b)\<rparr>"

definition empty_laws :: "('m, 'fr, 'me, 'w) body_ops \<Rightarrow> 'm \<Rightarrow> bool" where
  "empty_laws M m \<longleftrightarrow>
     (\<forall>w. poll_frame M m w = (Ready None, m, w)) \<and> is_end_stream M m \<and> size_hint M m = (0, Some 0)"

lemma unreachable_infallible:
  assumes "infallible B"
  shows "map_res unreachable_err (lift_res g (poll_frame B b w)) =
    map_res (map_polled (map_option (map_err into))) (lift_res g (poll_frame B b w))"
proof -
  obtain r b' w' where p: "poll_frame B b w = (r, b', w')" by (cases "poll_frame B b w") auto
  have "fst (poll_frame B b w) \<noteq> Ready (Some (Inl e))" for e using assms by (simp add: infallible_def)
  with p show ?thesis
    by (auto simp: unreachable_err_def split: polled.split option.split sum.split)
qed

lemma boxed_forwards:
  assumes "infallible F" and "empty_laws M m"
  shows "body_forwarder (body_ops_of F I X intof intoi intox) (boxed_ops F M I X intoi intox)
    (body_as_boxed m) id"
proof -
  have frame: "poll_frame (boxed_ops F M I X intoi intox) (body_as_boxed m b) w =
      map_res (map_polled (map_option (map_err id)))
        (lift_res (body_as_boxed m) (poll_frame (body_ops_of F I X intof intoi intox) b w))" for b w
  proof (cases "bd_inner b")
    case Inner_Empty
    then show ?thesis
      using assms(2) by (cases b)
        (simp add: boxed_ops_def boxed_poll_frame_def body_as_boxed_def body_defs empty_laws_def unreachable_err_def)
  next
    case (Inner_Full f)
    then show ?thesis
      by (cases b)
        (simp add: boxed_ops_def boxed_poll_frame_def body_as_boxed_def body_defs
          unreachable_infallible [where into = intof, OF assms(1)] map_lift_res lift_res_comp comp_def sum.map_id0
          option.map_id0)
  qed (cases b; simp add: boxed_ops_def boxed_poll_frame_def body_as_boxed_def body_defs map_lift_res
        lift_res_comp comp_def sum.map_id0 option.map_id0)+
  show ?thesis
    by (unfold_locales; (rule frame)?)
      (use assms(2) in \<open>auto simp: boxed_ops_def body_as_boxed_def body_defs empty_laws_def split: inner_body.split\<close>)
qed

text \<open>
  Boxing a body changes nothing: the boxed body gives the same frames and ends in the
  same way, and the \<open>unreachable!()\<close> in its error mapping is never reached, since an
  in-memory body has no errors.
\<close>

theorem as_boxed_same_frames:
  assumes "infallible F" and "empty_laws M m"
  shows "frames (boxed_ops F M I X intoi intox) n (body_as_boxed m b) w =
    (case frames (body_ops_of F I X intof intoi intox) n b w of
       (frs, r, b', w') \<Rightarrow> (frs, r, body_as_boxed m b', w'))"
  using body_forwarder.frames_forwarded [where n = n and b = b and w = w, OF boxed_forwards [OF assms]]
  by (simp add: option.map_id0)

lemma as_boxed_same_frames_witness:
  "fst (frames (boxed_ops plain_full plain_full plain_full plain_full id id) 2
      (body_as_boxed [] (body_full (\<lambda>d. d) [72, 105] :: (byte list, byte list, byte list) body)) ()) = [[72, 105]]"
proof -
  have m: "infallible (plain_full :: (byte list, byte list, unit, unit) body_ops)"
    by (simp add: infallible_def plain_full_def)
  have e: "empty_laws (plain_full :: (byte list, byte list, unit, unit) body_ops) []"
    by (simp add: empty_laws_def plain_full_def)
  show ?thesis
    using as_boxed_same_frames [where I = plain_full and X = plain_full and intof = id and intoi = id
        and intox = id and n = 2 and b = "body_full (\<lambda>d. d) [72, 105]" and w = "()", OF m e]
    by (simp add: numeral_2_eq_2 body_full_def body_defs plain_full_def split: prod.splits)
qed

end
