(* ===== verification/Joint_Path.thy ===== *)
theory Joint_Path
  imports Server_Path Client_Path
begin

text \<open>
  A client and a server of the crate connected to each other: the protocol the client chose
  and the protocol the server detects from the client's bytes. That hyper writes the
  connection preface or a request line first is a named law; that a read gives all the
  bytes it has room for, up to the length of the preface, is what the agreement needs.
\<close>

section \<open>Reads that fill their buffer\<close>

text \<open>A reader whose reads of \<open>n\<close> bytes give everything that is left, or \<open>n\<close> bytes of it.\<close>

definition reads_whole :: "nat \<Rightarrow> ('i, 'w) reader \<Rightarrow> ('i \<Rightarrow> 'w \<Rightarrow> byte list) \<Rightarrow> bool" where
  "reads_whole n rd rest \<longleftrightarrow>
     (\<forall>i w bs i' w'. rd i n w = (Ready (Inr bs), i', w') \<longrightarrow> bs = take n (rest i w))"

lemma reads_wholeD: "reads_whole n rd rest \<Longrightarrow> rd i n w = (Ready (Inr bs), i', w') \<Longrightarrow> bs = take n (rest i w)"
  by (simp add: reads_whole_def)

lemma served_reads_whole:
  "reads_whole n (io_read OT) rest \<Longrightarrow> reads_whole n (served_reads OT) (\<lambda>io. rest (ss_inner (tio_inner io)))"
  unfolding reads_whole_def
  by (auto simp: served_reads_def tokio_hyper_ops_def tokio_hyper_poll_read_def server_stream_ops_def Let_def
      lift_res_eq_iff split: prod.splits polled.splits sum.splits)

section \<open>What the server decides\<close>

text \<open>
  The decision as an invariant: a connection that has one has the one the first 24 bytes of
  the peer call for. A connection without one still has all of them to read.
\<close>

fun decided_inv ::
  "('i \<Rightarrow> 'w \<Rightarrow> byte list) \<Rightarrow> byte list \<Rightarrow> ('i, 'b1, 'b2, 'svc, 'c1, 'c2) connection_state \<Rightarrow> 'w \<Rightarrow> bool" where
  "decided_inv rest bytes (Conn_ReadVersion rv b svc) w \<longleftrightarrow>
     svc \<noteq> None \<and> (\<exists>io. rv_idle rv io \<and> rest io w = bytes)"
| "decided_inv rest bytes (Conn_Http1 c) w \<longleftrightarrow> take 24 bytes \<noteq> HTTP2_PREFIX"
| "decided_inv rest bytes (Conn_Http2 c) w \<longleftrightarrow> take 24 bytes = HTTP2_PREFIX"

lemma decided_inv_started:
  assumes "v = Auto_Http2 \<longleftrightarrow> take 24 bytes = HTTP2_PREFIX"
    and "upgradable_poll H1 H2 rd (start_connection H1 H2 b v rw svc) w = (r, s', w')"
  shows "decided_inv rest bytes s' w'"
  using assms by (cases v) (auto simp: start_connection_def map_res_eq_iff lift_res_eq_iff)

lemma decided_inv_poll:
  assumes law: "reads_from rd rest" and whole: "reads_whole 24 rd rest"
    and inv: "decided_inv rest bytes s w" and poll: "upgradable_poll H1 H2 rd s w = (r, s', w')"
  shows "decided_inv rest bytes s' w'"
proof (cases s)
  case (Conn_ReadVersion rv b so)
  with inv obtain io svc where idle: "rv_idle rv io" "rest io w = bytes" and so: "so = Some svc" by auto
  with poll Conn_ReadVersion have poll': "upgradable_poll H1 H2 rd (Conn_ReadVersion rv b (Some svc)) w = (r, s', w')"
    by simp
  from upgradable_poll_idle [OF idle(1) poll'] show ?thesis
  proof (elim disjE exE conjE)
    fix rv' io'
    assume "s' = Conn_ReadVersion rv' b (Some svc)" "rv_idle rv' io'" "io' = io" "w' = w"
    with idle show ?thesis by auto
  next
    fix rv' io' q
    assume "s' = Conn_ReadVersion rv' b (Some svc)" "rv_idle rv' io'"
      "rd io 24 w = (q, io', w')" "\<not> (\<exists>bs. q = Ready (Inr bs))"
    with idle reads_fromD_other [OF law] show ?thesis by auto
  next
    fix bs io1 w1
    assume rd: "rd io 24 w = (Ready (Inr bs), io1, w1)"
      and go: "let rw = rewind_new io1 (take 24 bs);
               v = (if take 24 bs = HTTP2_PREFIX then Auto_Http2 else Auto_Http1)
           in upgradable_poll H1 H2 rd (start_connection H1 H2 b v rw svc) w1 = (r, s', w')"
    have "take 24 bs = take 24 bytes" using reads_wholeD [OF whole rd] idle(2) by simp
    then show ?thesis by (intro decided_inv_started [OF _ go [unfolded Let_def]]) simp
  qed
qed (use inv poll in \<open>auto simp: map_res_eq_iff lift_res_eq_iff\<close>)

lemma decided_inv_shutdown:
  "decided_inv rest bytes s w \<Longrightarrow> decided_inv rest bytes (upgradable_graceful_shutdown H1 H2 s) w"
  by (cases s) (auto simp: upgradable_graceful_shutdown_def)

lemma decided_inv_env: "env_keeps_rest env rest \<Longrightarrow> env w w' \<Longrightarrow> decided_inv rest bytes s w \<Longrightarrow> decided_inv rest bytes s w'"
  by (cases s) (auto simp: env_keeps_rest_def)

lemma upgradable_reach_decided:
  assumes "reads_from rd rest" and "reads_whole 24 rd rest" and "env_keeps_rest env rest"
    and "upgradable_reach H1 H2 rd env (serve_connection_with_upgrades builder io svc) w0 s w"
  shows "decided_inv rest (rest io w0) s w"
  using assms(4)
proof (induction rule: upgradable_reach.induct)
  case reach_start
  show ?case by (auto simp: serve_connection_with_upgrades_def intro: exI [of _ io])
next
  case (reach_poll s w r s' w')
  show ?case by (rule decided_inv_poll [OF assms(1,2) reach_poll.IH reach_poll.hyps(2)])
next
  case (reach_shutdown s w)
  show ?case by (rule decided_inv_shutdown [OF reach_shutdown.IH])
next
  case (reach_env s w w')
  show ?case by (rule decided_inv_env [OF assms(3) reach_env.hyps(2) reach_env.IH])
qed

section \<open>The client's bytes\<close>

text \<open>
  What a connection of hyper writes first: HTTP/2 its preface, HTTP/1 a request line, whose
  method and target have no spaces.
\<close>

definition client_bytes :: "('s1, 's2) http_connection \<Rightarrow> byte list \<Rightarrow> bool" where
  "client_bytes c bytes \<longleftrightarrow>
     (case c of
        Inner_H1 _ \<Rightarrow> (\<exists>method target tail. bytes = map of_char (http1_request_line method target @ tail)
          \<and> CHR '' '' \<notin> set method \<and> CHR '' '' \<notin> set target)
      | Inner_H2 _ \<Rightarrow> (\<exists>tail. bytes = HTTP2_PREFIX @ tail))"

lemma client_bytes_preface: "client_bytes c bytes \<Longrightarrow> take 24 bytes = HTTP2_PREFIX \<longleftrightarrow> (\<exists>s. c = Inner_H2 s)"
proof (cases c)
  case (Inner_H1 s)
  moreover assume "client_bytes c bytes"
  ultimately obtain meth target tail where
    b: "bytes = map of_char (http1_request_line meth target @ tail)" and
    ns: "CHR '' '' \<notin> set meth" "CHR '' '' \<notin> set target" by (auto simp: client_bytes_def)
  have "take 24 bytes \<noteq> HTTP2_PREFIX"
  proof
    assume "take 24 bytes = HTTP2_PREFIX"
    then have "HTTP2_PREFIX @ drop 24 bytes = bytes" by (metis append_take_drop_id)
    with b show False using http1_line_not_preface [OF _ ns] by simp
  qed
  with Inner_H1 show ?thesis by simp
qed (auto simp: client_bytes_def length_HTTP2_PREFIX)


text \<open>
  An example: a session that negotiated \<open>h2\<close>, and a stream that gives what it has, as much as
  there is room for.
\<close>

definition whole_opt_tls :: "((byte list, byte list) opt_tls, 'w) io_ops" where
  "whole_opt_tls =
     \<lparr>io_read = (\<lambda>s n w. case s of
        OptTls_Tls t \<Rightarrow> (Ready (Inr (take n t)), OptTls_Tls (drop n t), w)
      | OptTls_NoTls i \<Rightarrow> (Ready (Inr (take n i)), OptTls_NoTls (drop n i), w)),
      io_write = (\<lambda>i bs w. (Ready (Inr (length bs)), i, w)),
      io_write_vectored = (\<lambda>i bss w. (Ready (Inr (length (concat bss))), i, w)),
      io_flush = (\<lambda>i w. (Ready (Inr ()), i, w)), io_shutdown = (\<lambda>i w. (Ready (Inr ()), i, w)),
      io_is_write_vectored = (\<lambda>i. False)\<rparr>"

definition whole_opt_rest :: "(byte list, byte list) opt_tls \<Rightarrow> 'w \<Rightarrow> byte list" where
  "whole_opt_rest s w = (case s of OptTls_Tls t \<Rightarrow> t | OptTls_NoTls i \<Rightarrow> i)"

lemma whole_opt_reads_from: "reads_from (io_read whole_opt_tls) whole_opt_rest"
  by (auto simp: reads_from_def whole_opt_tls_def whole_opt_rest_def split: opt_tls.splits)

lemma whole_opt_reads_whole: "reads_whole n (io_read whole_opt_tls) whole_opt_rest"
  by (auto simp: reads_whole_def whole_opt_tls_def whole_opt_rest_def split: opt_tls.splits)

definition preface_peer :: "(unit, byte list, byte list) server_stream" where
  "preface_peer = \<lparr>ss_info = (), ss_inner = OptTls_Tls (HTTP2_PREFIX @ [0, 0])\<rparr>"


end
