(* ===== verification/Rust_Text.thy ===== *)
theory Rust_Text
  imports Prelude
begin

text \<open>
  The operations on text that the example programs use from Rust's standard library, on
  strings of ASCII characters: decimal printing, \<open>trim\<close>, \<open>to_lowercase\<close>,
  \<open>splitn(2, ':')\<close>, and the bytes of a string.
\<close>

section \<open>Bytes of a string\<close>

definition text_bytes :: "string \<Rightarrow> byte list" where
  "text_bytes s = map of_char s"

lemma text_bytes_append [simp]: "text_bytes (s @ t) = text_bytes s @ text_bytes t"
  by (simp add: text_bytes_def)

lemma text_bytes_eq [simp]: "text_bytes s = text_bytes t \<longleftrightarrow> s = t"
  unfolding text_bytes_def by (rule inj_map_eq_map [OF of_char_byte_inj])

abbreviation newline :: string where
  "newline \<equiv> [CHR 0x0A]"

section \<open>Decimal numbers\<close>

fun show_nat :: "nat \<Rightarrow> string" where
  "show_nat n = (if n < 10 then [char_of (48 + n)] else show_nat (n div 10) @ [char_of (48 + n mod 10)])"

declare show_nat.simps [simp del]

text \<open>Reading a number back, one digit at a time.\<close>

definition read_nat :: "string \<Rightarrow> nat" where
  "read_nat s = foldl (\<lambda>n c. 10 * n + (of_char c - 48)) 0 s"

lemma read_show_nat: "read_nat (show_nat n) = n"
proof (induction n rule: show_nat.induct)
  case (1 n)
  show ?case
  proof (cases "n < 10")
    case True
    then show ?thesis by (simp add: show_nat.simps [of n] read_nat_def)
  next
    case False
    with 1 show ?thesis by (simp add: show_nat.simps [of n] read_nat_def)
  qed
qed

lemma show_nat_eq [simp]: "show_nat m = show_nat n \<longleftrightarrow> m = n"
  using read_show_nat by metis

text \<open>An \<open>i32\<close>, with a sign when it is negative.\<close>

definition show_i32 :: "32 word \<Rightarrow> string" where
  "show_i32 n = (if sint n < 0 then ''-'' @ show_nat (nat (- sint n)) else show_nat (nat (sint n)))"

section \<open>Words in the source\<close>

text \<open>\<open>+\<close> on an \<open>i32\<close>: a panic on overflow when overflow checks are compiled in, else it wraps.\<close>

definition add_i32 :: "bool \<Rightarrow> 32 word \<Rightarrow> 32 word \<Rightarrow> 32 word outcome" where
  "add_i32 dbg a b = (if dbg \<and> sint a + sint b \<notin> {- (2 ^ 31)..<2 ^ 31} then Panic else Ret (a + b))"

definition add_usize :: "bool \<Rightarrow> 64 word \<Rightarrow> 64 word \<Rightarrow> 64 word outcome" where
  "add_usize dbg a b = (if dbg \<and> 2 ^ 64 \<le> uint a + uint b then Panic else Ret (a + b))"

lemma sint_of_nat_i32: "n < 2147483648 \<Longrightarrow> sint (of_nat n :: 32 word) = int n"
proof -
  assume n: "n < 2147483648"
  have "sint (of_nat n :: 32 word) = signed_take_bit 31 (int n)" by transfer simp
  also have "\<dots> = int n" using n by (intro signed_take_bit_int_eq_self) simp_all
  finally show ?thesis .
qed

lemma add_i32_of_nat:
  assumes "dbg \<Longrightarrow> n \<le> 2147483647"
  shows "add_i32 dbg (of_nat n) 1 = (if dbg \<and> n = 2147483647 then Panic else Ret (of_nat (Suc n)))"
  using assms by (auto simp: add_i32_def sint_of_nat_i32 add.commute)

lemma show_i32_of_nat: "n < 2147483648 \<Longrightarrow> show_i32 (of_nat n) = show_nat n"
  by (simp add: show_i32_def sint_of_nat_i32)

section \<open>Trimming and splitting\<close>

definition is_whitespace :: "char \<Rightarrow> bool" where
  "is_whitespace c \<longleftrightarrow> of_char c \<in> {9, 10, 11, 12, 13, 32 :: nat}"

definition trim :: "string \<Rightarrow> string" where
  "trim s = rev (dropWhile is_whitespace (rev (dropWhile is_whitespace s)))"

definition to_lowercase :: "string \<Rightarrow> string" where
  "to_lowercase s = map (\<lambda>c. if of_char c \<in> {65..90 :: nat} then char_of (of_char c + 32 :: nat) else c) s"

text \<open>\<open>splitn(2, ':')\<close>: what is before the first colon, and what is after it, if there is one.\<close>

fun splitn2_colon :: "string \<Rightarrow> string \<times> string option" where
  "splitn2_colon [] = ([], None)"
| "splitn2_colon (c # s) =
     (if c = CHR '':'' then ([], Some s)
      else (case splitn2_colon s of (name, rest) \<Rightarrow> (c # name, rest)))"

lemma splitn2_colon_spec:
  "case splitn2_colon s of (name, rest) \<Rightarrow>
     CHR '':'' \<notin> set name \<and> s = name @ (case rest of None \<Rightarrow> [] | Some r \<Rightarrow> '':'' @ r)"
proof (induction s)
  case Nil
  then show ?case by simp
next
  case (Cons c s)
  obtain name rest where "splitn2_colon s = (name, rest)" by (cases "splitn2_colon s") auto
  with Cons.IH show ?case by auto
qed

lemma splitn2_colon_none: "splitn2_colon s = (name, None) \<Longrightarrow> CHR '':'' \<notin> set s \<and> name = s"
  using splitn2_colon_spec [of s] by simp

lemma splitn2_colon_some:
  "splitn2_colon s = (name, Some rest) \<Longrightarrow> CHR '':'' \<notin> set name \<and> s = name @ '':'' @ rest"
  using splitn2_colon_spec [of s] by simp

lemma splitn2_colon_no_colon: "snd (splitn2_colon s) = None \<longleftrightarrow> CHR '':'' \<notin> set s"
  using splitn2_colon_spec [of s] by (cases "splitn2_colon s"; cases "snd (splitn2_colon s)") auto

lemma splitn2_colon_join: "CHR '':'' \<notin> set name \<Longrightarrow> splitn2_colon (name @ '':'' @ rest) = (name, Some rest)"
  by (induction name) auto

end
