(* ===== verification/Uri_Text.thy ===== *)
theory Uri_Text
  imports Http_Types Rust_Text
begin

text \<open>
  An instance of the interface of the \<open>http\<close> crate whose URIs are parsed from text, for
  examples and for the unit tests of the repository. It reads the forms those use: a path, an
  authority, and a scheme followed by an authority and a path; an authority is a name and a
  port. User information and IPv6 literals are not read. It is not a model of that crate's
  parser: what the development relies on are the laws of \<open>Http_Types\<close>, which it satisfies.
\<close>

section \<open>Authorities\<close>

definition is_digit :: "char \<Rightarrow> bool" where
  "is_digit c \<longleftrightarrow> of_char c \<in> {48..57 :: nat}"

definition parse_port :: "string \<Rightarrow> (string \<times> 16 word) option" where
  "parse_port s =
     (if s \<noteq> [] \<and> list_all is_digit s \<and> read_nat s < 65536 then Some (s, of_nat (read_nat s)) else None)"

definition parse_authority :: "string \<Rightarrow> plain_authority option" where
  "parse_authority s =
     (case splitn2_colon s of
        (host, port) \<Rightarrow>
          if host = [] then None
          else (case port of
                  None \<Rightarrow> Some \<lparr>pa_host = host, pa_port = None\<rparr>
                | Some p \<Rightarrow> map_option (\<lambda>p. \<lparr>pa_host = host, pa_port = Some p\<rparr>) (parse_port p)))"

section \<open>URIs\<close>

text \<open>What is before and after the first \<open>://\<close>, if there is one.\<close>

fun split_scheme :: "string \<Rightarrow> (string \<times> string) option" where
  "split_scheme [] = None"
| "split_scheme (c # s) =
     (if take 3 (c # s) = ''://'' then Some ([], drop 3 (c # s))
      else map_option (map_prod (Cons c) id) (split_scheme s))"

text \<open>A path with its query; a fragment is not part of the URI.\<close>

definition parse_path :: "string \<Rightarrow> string" where
  "parse_path s = takeWhile (\<lambda>c. c \<noteq> CHR ''#'') s"

definition parse_uri :: "string \<Rightarrow> plain_uri option" where
  "parse_uri s =
     (if s = [] then None
      else if hd s = CHR ''/'' then
        Some \<lparr>pu_scheme = None, pu_authority = None, pu_path = Some (parse_path s)\<rparr>
      else case split_scheme s of
        None \<Rightarrow>
          map_option (\<lambda>a. \<lparr>pu_scheme = None, pu_authority = Some a, pu_path = None\<rparr>) (parse_authority s)
      | Some (scheme, rest) \<Rightarrow>
          let ends = (\<lambda>c. c \<in> {CHR ''/'', CHR ''?'', CHR ''#''});
              path = parse_path (dropWhile (\<lambda>c. \<not> ends c) rest)
          in map_option
               (\<lambda>a. \<lparr>pu_scheme = Some scheme, pu_authority = Some a,
                 pu_path = Some (if path = [] then ''/'' else path)\<rparr>)
               (parse_authority (takeWhile (\<lambda>c. \<not> ends c) rest)))"

text \<open>The text of a URI.\<close>

definition print_uri :: "plain_uri \<Rightarrow> string" where
  "print_uri u =
     (case pu_scheme u of None \<Rightarrow> [] | Some s \<Rightarrow> s @ ''://'')
     @ (case pu_authority u of None \<Rightarrow> [] | Some a \<Rightarrow> authority_str plain_api a)
     @ (case pu_path u of None \<Rightarrow> [] | Some p \<Rightarrow> p)"

section \<open>The instance\<close>

definition text_api :: "(plain_uri, plain_authority, (string \<times> string) list, string) http_api" where
  "text_api = plain_api\<lparr>uri_from_str := parse_uri, authority_from_str := parse_authority\<rparr>"

named_theorems text_simps \<open>the fields of the instance\<close>

lemma text_api_sel [text_simps]:
  "uri_scheme text_api = pu_scheme" "uri_authority text_api = pu_authority"
  "uri_host text_api u = map_option pa_host (pu_authority u)"
  "uri_port text_api u = Option.bind (pu_authority u) pa_port"
  "uri_path_and_query text_api = pu_path"
  "uri_from_parts text_api s a p = Some \<lparr>pu_scheme = s, pu_authority = a, pu_path = p\<rparr>"
  "uri_default text_api = \<lparr>pu_scheme = None, pu_authority = None, pu_path = Some ''/''\<rparr>"
  "uri_from_str text_api = parse_uri" "authority_from_str text_api = parse_authority"
  "authority_host text_api = pa_host"
  "authority_str text_api b = pa_host b @ (case pa_port b of None \<Rightarrow> [] | Some (s, n) \<Rightarrow> '':'' @ s)"
  "hdr_get text_api = map_of" "hdr_insert text_api h k v = (k, v) # h"
  "hdr_remove text_api h k = filter (\<lambda>kv. fst kv \<noteq> k) h"
  "hv_from_str text_api x = Some x" "hv_to_str text_api x = Some x"
  by (simp_all add: text_api_def api_simps)

lemma text_header_laws: "header_laws text_api"
  using plain_header_laws by (simp add: header_laws_def text_api_def)

lemma text_uri_laws: "uri_laws text_api"
  using plain_uri_laws by (simp add: uri_laws_def text_api_def)

text \<open>An authority that is well formed is printed to a text that parses back to it.\<close>

definition authority_wf :: "plain_authority \<Rightarrow> bool" where
  "authority_wf a \<longleftrightarrow>
     pa_host a \<noteq> [] \<and> CHR '':'' \<notin> set (pa_host a)
     \<and> (case pa_port a of None \<Rightarrow> True | Some (txt, p) \<Rightarrow> parse_port txt = Some (txt, p))"

lemma authority_text_roundtrip:
  "authority_wf a \<Longrightarrow> parse_authority (authority_str text_api a) = Some a"
  using splitn2_colon_join [of "pa_host a"] splitn2_colon_no_colon [of "pa_host a"]
    splitn2_colon_none [of "pa_host a"]
  by (cases a; cases "splitn2_colon (pa_host a)")
    (auto simp: authority_wf_def text_simps parse_authority_def split: option.splits)

lemma parsed_authority_wf: "parse_authority s = Some a \<Longrightarrow> authority_wf a \<and> authority_str text_api a = s"
  using splitn2_colon_spec [of s]
  by (auto simp: parse_authority_def authority_wf_def parse_port_def text_simps
      split: prod.splits option.splits if_splits)

end
