(* ===== verification/Joint_Sni.thy ===== *)
theory Joint_Sni
  imports Client_Path Server_Sni Uri_Text
begin

text \<open>
  A request of the client over a pooled TLS connection, seen by the SNI check of the server:
  the name the TLS handshake was made with comes from the request that opened the connection,
  the name the server compares it with from the request that was sent on it later.
\<close>

section \<open>What is relied on\<close>

text \<open>
  Header values give their text back, and the host of the URI, alone or with the port of the
  URI, is the text of an authority with that host.
\<close>

definition value_text_laws :: "('u, 'au, 'h, 'v) http_api \<Rightarrow> bool" where
  "value_text_laws A \<longleftrightarrow> (\<forall>s v. hv_from_str A s = Some v \<longrightarrow> hv_to_str A v = Some s)"

definition host_text_laws :: "('u, 'au, 'h, 'v) http_api \<Rightarrow> 'u \<Rightarrow> bool" where
  "host_text_laws A u \<longleftrightarrow>
     (\<forall>h. uri_host A u = Some h \<longrightarrow>
        (\<exists>a. authority_from_str A h = Some a \<and> authority_host A a = h) \<and>
        (\<forall>txt p. uri_port A u = Some (txt, p) \<longrightarrow>
           (\<exists>a. authority_from_str A (h @ '':'' @ txt) = Some a \<and> authority_host A a = h)))"

lemma host_value_parses:
  assumes "host_text_laws A u" and "uri_host A u = Some h"
  obtains a where "authority_from_str A (host_value A u h) = Some a" "authority_host A a = h"
proof (cases "get_non_default_port A u")
  case None
  with assms that show thesis by (auto simp: host_text_laws_def host_value_def)
next
  case (Some port)
  then have "uri_port A u = Some port"
    by (auto simp: get_non_default_port_def split: option.splits if_splits)
  with assms that Some show thesis
    by (cases port) (auto simp: host_text_laws_def host_value_def)
qed

text \<open>
  The request a server sees: hyper keeps the version and the headers, and on HTTP/2 the
  authority of the URI. TLS information of the session is in its extensions.
\<close>

definition received_as ::
  "('u, 'au, 'h, 'v) http_api \<Rightarrow> ('u, 'h, 'x, 'b) request \<Rightarrow> ('u, 'h, 'x2, 'b2) request \<Rightarrow> bool" where
  "received_as A r' rs \<longleftrightarrow>
     rq_version rs = rq_version r'
     \<and> (rq_version r' = HTTP_2 \<longrightarrow> uri_authority A (rq_uri rs) = uri_authority A (rq_uri r'))
     \<and> (\<forall>k. hdr_get A (rq_headers rs) k = hdr_get A (rq_headers r') k)"

section \<open>The host the server finds\<close>

text \<open>
  Whatever the protocol, the host the server finds in the request is the host of the URI the
  request was made for, unless the caller set a Host header of its own for HTTP/1.
\<close>

lemma received_host:
  assumes "uri_laws A" and "value_text_laws A" and "host_text_laws A (rq_uri r)"
    and "uri_authority A (rq_uri r) = Some auth"
    and "hv_from_str A (host_value A (rq_uri r) (authority_host A auth)) = Some v"
    and "wire_request A protocol v r r'" and "protocol \<in> {Http1, Http2}"
    and "protocol = Http2 \<or> hdr_get A (rq_headers r) HOST = None"
    and "received_as A r' rs"
  obtains a where "requested_host A rs = Some a" "authority_host A a = authority_host A auth"
proof (cases "protocol = Http2")
  case True
  with assms that show thesis by (auto simp: received_as_def wire_request_def requested_host_def)
next
  case False
  with assms(7,8) have p: "protocol = Http1" "hdr_get A (rq_headers r) HOST = None" by auto
  have "uri_host A (rq_uri r) = Some (authority_host A auth)"
    using assms(4) by (simp add: uri_laws_host [OF assms(1)])
  from host_value_parses [OF assms(3) this] obtain a where
    a: "authority_from_str A (host_value A (rq_uri r) (authority_host A auth)) = Some a"
      "authority_host A a = authority_host A auth" .
  have "hv_to_str A v = Some (host_value A (rq_uri r) (authority_host A auth))"
    using assms(2,5) by (simp add: value_text_laws_def)
  with p assms(6,9) a(1) have "requested_host A rs = Some a"
    by (simp add: received_as_def wire_request_def requested_host_def)
  with a(2) that show thesis by blast
qed

text \<open>
  Without a Host header of its own, a request for a secure scheme asks TLS for the host of its
  URI.
\<close>

lemma tls_domain_of_uri:
  assumes "uri_laws A" and "uri_authority A (rq_uri r) = Some auth"
    and "uri_scheme A (rq_uri r) \<in> {Some ''https'', Some ''wss''}"
  shows "get_tls_domain A r =
    (case Option.bind (hdr_get A (rq_headers r) HOST) (hv_to_str A) of
       None \<Rightarrow> Some (authority_host A auth)
     | Some name \<Rightarrow> Some name)"
  using assms(2,3) by (auto simp: get_tls_domain_def get_host_def uri_laws_host [OF assms(1)] split: option.split)

section \<open>The check on a pooled request\<close>



text \<open>An example: a connection to \<open>https://a.org:8443/\<close>, and a second request to it.\<close>

definition sni_request_to :: "string \<Rightarrow> (string \<times> string) list \<Rightarrow>
    (plain_uri, (string \<times> string) list, unit, unit) request" where
  "sni_request_to path headers =
     \<lparr>rq_method = GET,
      rq_uri = \<lparr>pu_scheme = Some ''https'',
        pu_authority = Some \<lparr>pa_host = ''a.org'', pa_port = Some (''8443'', 8443)\<rparr>, pu_path = Some path\<rparr>,
      rq_version = HTTP_11, rq_headers = headers, rq_ext = (), rq_body = ()\<rparr>"

definition sni_received :: "string \<Rightarrow> (string \<times> string) list \<Rightarrow> string option \<times> bool \<Rightarrow>
    (plain_uri, (string \<times> string) list, (unit, string option \<times> bool, unit) extensions, unit) request" where
  "sni_received path headers tls =
     \<lparr>rq_method = GET, rq_uri = \<lparr>pu_scheme = None, pu_authority = None, pu_path = Some path\<rparr>,
      rq_version = HTTP_11, rq_headers = headers,
      rq_ext = \<lparr>ext_connection_info = None, ext_tls = Some tls, ext_unix_addr = None\<rparr>, rq_body = ()\<rparr>"


end
