(* ===== verification/Tls_Config.thy ===== *)
theory Tls_Config
  imports Client_Builder
begin

text \<open>
  The crate root (\<open>src/lib.rs\<close>): the link between tracing spans, the debug wrapper of a
  \<open>Display\<close>, and the TLS configurations of its test fixtures; and the configuration of the
  TLS server example (\<open>examples/server/h2.rs\<close>). Files, PEM decoding and rustls are
  parameters.
\<close>

section \<open>The crate root\<close>

text \<open>
  \<open>polled_span\<close> records that the span follows from the current one of the dispatcher, if there
  is one; a span without an identifier is a panic of \<open>expect\<close>.
\<close>

definition polled_span ::
  "('w \<Rightarrow> 'id option) \<Rightarrow> ('id \<Rightarrow> 'id \<Rightarrow> 'w \<Rightarrow> 'w) \<Rightarrow> 'id option \<Rightarrow> 'w \<Rightarrow> unit outcome \<times> 'w" where
  "polled_span current_span record_follows_from span_id w =
     (case span_id of
        None \<Rightarrow> (Panic, w)
      | Some i \<Rightarrow>
          (case current_span w of
             Some current \<Rightarrow> (Ret (), record_follows_from i current w)
           | None \<Rightarrow> (Ret (), w)))"

definition debug_literal_fmt :: "('t \<Rightarrow> string) \<Rightarrow> 't \<Rightarrow> string" where
  "debug_literal_fmt display self = display self"

section \<open>Keys and certificates\<close>

text \<open>Reading a file, and decoding PEM: a label and the bytes.\<close>

record tls_files =
  tf_read :: "string \<Rightarrow> io_error + byte list"
  tf_pem :: "byte list \<Rightarrow> (string \<times> byte list) option"

datatype key_der = Pkcs8 "byte list" | Pkcs1 "byte list" | Sec1 "byte list"

definition private_key :: "string \<Rightarrow> byte list \<Rightarrow> key_der outcome" where
  "private_key label key =
     (if label = ''PRIVATE KEY'' then Ret (Pkcs8 key)
      else if label = ''RSA PRIVATE KEY'' then Ret (Pkcs1 key)
      else if label = ''EC PRIVATE KEY'' then Ret (Sec1 key)
      else Panic)"

text \<open>A server configuration of rustls: made without client authentication from one certificate.\<close>

record ('e, 'cfg) rustls_server_api =
  scfg_single_cert :: "byte list list \<Rightarrow> key_der \<Rightarrow> 'e + 'cfg"
  scfg_alpn :: "'cfg \<Rightarrow> string list"
  scfg_set_alpn :: "'cfg \<Rightarrow> string list \<Rightarrow> 'cfg"

text \<open>The configuration from the two PEM texts; every \<open>unwrap\<close> is a panic.\<close>

definition server_config_from ::
  "tls_files \<Rightarrow> ('e, 'cfg) rustls_server_api \<Rightarrow> byte list \<Rightarrow> byte list \<Rightarrow> 'cfg outcome" where
  "server_config_from F R cert_data key_data =
     (case (tf_pem F cert_data, tf_pem F key_data) of
        (Some (_, cert), Some (label, key)) \<Rightarrow>
          (case private_key label key of
             Panic \<Rightarrow> Panic
           | Ret k \<Rightarrow> (case scfg_single_cert R [cert] k of Inl _ \<Rightarrow> Panic | Inr cfg \<Rightarrow> Ret cfg))
      | _ \<Rightarrow> Panic)"

text \<open>The example's configuration, for a domain.\<close>

definition tls_config :: "tls_files \<Rightarrow> ('e, 'cfg) rustls_server_api \<Rightarrow> string \<Rightarrow> 'cfg outcome" where
  "tls_config F R domain =
     (case tf_read F (''examples/server/minica/'' @ domain @ ''/cert.pem'') of
        Inl _ \<Rightarrow> Panic
      | Inr cert_data \<Rightarrow>
          (case tf_pem F cert_data of
             None \<Rightarrow> Panic
           | Some _ \<Rightarrow>
               (case tf_read F (''examples/server/minica/'' @ domain @ ''/key.pem'') of
                  Inl _ \<Rightarrow> Panic
                | Inr key_data \<Rightarrow> server_config_from F R cert_data key_data)))"

text \<open>The fixtures: the files are part of the program, and HTTP/2 is offered before HTTP/1.1.\<close>

definition tls_server_config ::
  "tls_files \<Rightarrow> ('e, 'cfg) rustls_server_api \<Rightarrow> byte list \<Rightarrow> byte list \<Rightarrow> 'cfg outcome" where
  "tls_server_config F R cert_pem key_pem =
     map_outcome (\<lambda>cfg.
         let cfg = scfg_set_alpn R cfg (scfg_alpn R cfg @ [''h2''])
         in scfg_set_alpn R cfg (scfg_alpn R cfg @ [''http/1.1'']))
       (server_config_from F R cert_pem key_pem)"

definition tls_root_store :: "tls_files \<Rightarrow> (byte list, 'roots, 'e, 'cfg) rustls_api \<Rightarrow> byte list \<Rightarrow> 'roots outcome" where
  "tls_root_store F R minica_pem =
     (case tf_pem F minica_pem of
        None \<Rightarrow> Panic
      | Some (_, cert) \<Rightarrow> (case roots_add R (roots_empty R) cert of Inl _ \<Rightarrow> Panic | Inr roots \<Rightarrow> Ret roots))"

definition tls_client_config :: "tls_files \<Rightarrow> (byte list, 'roots, 'e, 'cfg) rustls_api \<Rightarrow> byte list \<Rightarrow> 'cfg outcome" where
  "tls_client_config F R minica_pem =
     map_outcome (\<lambda>roots.
         let cfg = cfg_build R roots;
             cfg = cfg_set_alpn R cfg (cfg_alpn R cfg @ [''h2''])
         in cfg_set_alpn R cfg (cfg_alpn R cfg @ [''http/1.1'']))
       (tls_root_store F R minica_pem)"

text \<open>
  The crypto provider of the tests, chosen by the features the crate is built with; an error
  of the installation is ignored.
\<close>

definition tls_install_default :: "bool \<Rightarrow> bool \<Rightarrow> ('w \<Rightarrow> 'w) \<Rightarrow> ('w \<Rightarrow> 'w) \<Rightarrow> 'w \<Rightarrow> unit outcome \<times> 'w" where
  "tls_install_default tls_ring tls_aws_lc install_ring install_aws_lc w =
     (let w1 = (if tls_ring then install_ring w else w);
          w2 = (if tls_aws_lc \<and> \<not> tls_ring then install_aws_lc w1 else w1)
      in if \<not> (tls_aws_lc \<or> tls_ring) then (Panic, w2) else (Ret (), w2))"

text \<open>Documented of rustls: a new configuration offers no protocol, and the list is a field.\<close>

definition server_alpn_laws :: "('e, 'cfg) rustls_server_api \<Rightarrow> bool" where
  "server_alpn_laws R \<longleftrightarrow>
     (\<forall>certs key cfg. scfg_single_cert R certs key = Inr cfg \<longrightarrow> scfg_alpn R cfg = [])
   \<and> (\<forall>cfg ps. scfg_alpn R (scfg_set_alpn R cfg ps) = ps)"

lemma server_config_from_alpn:
  assumes "server_alpn_laws R" and "server_config_from F R cert_data key_data = Ret cfg"
  shows "scfg_alpn R cfg = []"
  using assms
  by (auto simp: server_config_from_def server_alpn_laws_def split: option.splits prod.splits outcome.splits sum.splits)

text \<open>
  The fixtures on both sides offer the same protocols; the example's server offers none.
\<close>

lemma fixtures_alpn:
  assumes "server_alpn_laws R" and "alpn_laws C"
  shows "tls_server_config F R cert key = Ret cfg \<Longrightarrow> scfg_alpn R cfg = [''h2'', ''http/1.1'']"
    and "tls_client_config F C ca = Ret ccfg \<Longrightarrow> cfg_alpn C ccfg = [''h2'', ''http/1.1'']"
proof -
  have set: "scfg_alpn R (scfg_set_alpn R cfg ps) = ps" for cfg ps using assms(1) by (simp add: server_alpn_laws_def)
  show "tls_server_config F R cert key = Ret cfg \<Longrightarrow> scfg_alpn R cfg = [''h2'', ''http/1.1'']"
    using server_config_from_alpn [OF assms(1)]
    by (cases "server_config_from F R cert key") (auto simp: tls_server_config_def Let_def set)
  show "tls_client_config F C ca = Ret ccfg \<Longrightarrow> cfg_alpn C ccfg = [''h2'', ''http/1.1'']"
    using assms(2) by (cases "tls_root_store F C ca") (auto simp: tls_client_config_def Let_def alpn_laws_def)
qed

lemma tls_config_offers_none:
  assumes "server_alpn_laws R" and "tls_config F R domain = Ret cfg"
  shows "scfg_alpn R cfg = []"
  using assms(2) server_config_from_alpn [OF assms(1)]
  by (auto simp: tls_config_def split: sum.splits option.splits)

end
