(* ===== verification/Async_Block.thy ===== *)
theory Async_Block
  imports Prelude
begin

text \<open>
  Whole async blocks. The components of the crate are polled one step at a time; a program
  that uses the crate is a sequence of awaits, of which only the order counts. Such a block
  is a function from the world to what its run gives: a value or a panic, with the world
  after it, or \<open>None\<close> when the block never ends. Awaiting a future polls it until it is
  ready; the lemmas relate this to the bounded runs of the other theories.
\<close>

type_synonym ('a, 'w) block = "'w \<Rightarrow> ('a outcome \<times> 'w) option"

section \<open>Sequencing\<close>

definition block_return :: "'a \<Rightarrow> ('a, 'w) block" where
  "block_return x w = Some (Ret x, w)"

definition block_panic :: "('a, 'w) block" where
  "block_panic w = Some (Panic, w)"

definition block_bind :: "('a, 'w) block \<Rightarrow> ('a \<Rightarrow> ('b, 'w) block) \<Rightarrow> ('b, 'w) block" where
  "block_bind m k w =
     (case m w of
        None \<Rightarrow> None
      | Some (Panic, w') \<Rightarrow> Some (Panic, w')
      | Some (Ret x, w') \<Rightarrow> k x w')"

text \<open>The \<open>?\<close> operator, which converts the error, and \<open>unwrap\<close> or \<open>expect\<close>.\<close>

definition block_try ::
  "('e \<Rightarrow> 'e2) \<Rightarrow> ('e + 'a, 'w) block \<Rightarrow> ('a \<Rightarrow> ('e2 + 'b, 'w) block) \<Rightarrow> ('e2 + 'b, 'w) block" where
  "block_try into m k =
     block_bind m (\<lambda>r. case r of Inl e \<Rightarrow> block_return (Inl (into e)) | Inr x \<Rightarrow> k x)"

definition block_unwrap :: "('e + 'a, 'w) block \<Rightarrow> ('a \<Rightarrow> ('b, 'w) block) \<Rightarrow> ('b, 'w) block" where
  "block_unwrap m k = block_bind m (\<lambda>r. case r of Inl e \<Rightarrow> block_panic | Inr x \<Rightarrow> k x)"

text \<open>An effect on the world that gives nothing: spawning a task, dropping a value.\<close>

definition block_do :: "('w \<Rightarrow> 'w) \<Rightarrow> ('a, 'w) block \<Rightarrow> ('a, 'w) block" where
  "block_do f k w = k (f w)"

text \<open>A value that is computed without awaiting, and may panic.\<close>

definition block_of :: "'a outcome \<Rightarrow> ('a, 'w) block" where
  "block_of r w = Some (r, w)"

lemmas block_defs = block_return_def block_panic_def block_bind_def block_try_def block_unwrap_def
  block_do_def block_of_def

lemma block_bind_cases:
  "m w = None \<Longrightarrow> block_bind m k w = None"
  "m w = Some (Panic, w') \<Longrightarrow> block_bind m k w = Some (Panic, w')"
  "m w = Some (Ret x, w') \<Longrightarrow> block_bind m k w = k x w'"
  by (simp_all add: block_bind_def)

lemma block_try_cases:
  "m w = Some (Panic, w') \<Longrightarrow> block_try into m k w = Some (Panic, w')"
  "m w = Some (Ret (Inl e), w') \<Longrightarrow> block_try into m k w = Some (Ret (Inl (into e)), w')"
  "m w = Some (Ret (Inr x), w') \<Longrightarrow> block_try into m k w = k x w'"
  by (simp_all add: block_try_def block_bind_def block_return_def)

lemma block_unwrap_cases:
  "m w = Some (Panic, w') \<Longrightarrow> block_unwrap m k w = Some (Panic, w')"
  "m w = Some (Ret (Inl e), w') \<Longrightarrow> block_unwrap m k w = Some (Panic, w')"
  "m w = Some (Ret (Inr x), w') \<Longrightarrow> block_unwrap m k w = k x w'"
  by (simp_all add: block_unwrap_def block_bind_def block_panic_def)

lemma block_bind_return [simp]: "block_bind (block_return x) k = k x"
  by (simp add: fun_eq_iff block_bind_def block_return_def)

lemma block_bind_assoc: "block_bind (block_bind m k) l = block_bind m (\<lambda>x. block_bind (k x) l)"
  by (auto simp: fun_eq_iff block_bind_def split: option.split outcome.split prod.split)

text \<open>Sequencing is monotone, so that loops over blocks are partial functions.\<close>

lemma block_bind_mono [partial_function_mono]:
  fixes B :: "('z \<Rightarrow> 'c option) \<Rightarrow> ('a, 'w) block"
  assumes "\<And>v. monotone (fun_ord option_ord) option_ord (\<lambda>f. B f v)"
    and "\<And>x v. monotone (fun_ord option_ord) option_ord (\<lambda>f. C x f v)"
  shows "monotone (fun_ord option_ord) option_ord (\<lambda>f. block_bind (B f) (\<lambda>x. C x f) w)"
proof (rule monotoneI)
  fix f g :: "'z \<Rightarrow> 'c option"
  assume fg: "fun_ord option_ord f g"
  have le: "option_ord (B f v) (B g v)" "option_ord (C x f v) (C x g v)" for x v
    by (rule monotoneD [OF assms(1)], rule fg) (rule monotoneD [OF assms(2)], rule fg)
  have "block_bind (B f) (\<lambda>x. C x f) w = None \<or>
      block_bind (B f) (\<lambda>x. C x f) w = block_bind (B g) (\<lambda>x. C x g) w"
  proof (cases "B f w")
    case None
    then show ?thesis by (simp add: block_bind_def)
  next
    case (Some y)
    with le(1) [of w] have "B g w = Some y" by (simp add: flat_ord_def)
    with Some le(2) show ?thesis
      by (cases y; cases "fst y") (auto simp: block_bind_def flat_ord_def)
  qed
  then show "option_ord (block_bind (B f) (\<lambda>x. C x f) w) (block_bind (B g) (\<lambda>x. C x g) w)"
    by (simp add: flat_ord_def)
qed

lemma block_unwrap_mono [partial_function_mono]:
  assumes "\<And>v. monotone (fun_ord option_ord) option_ord (\<lambda>f. B f v)"
    and "\<And>x v. monotone (fun_ord option_ord) option_ord (\<lambda>f. C x f v)"
  shows "monotone (fun_ord option_ord) option_ord (\<lambda>f. block_unwrap (B f) (\<lambda>x. C x f) w)"
proof -
  have "monotone (fun_ord option_ord) option_ord
      (\<lambda>f. (case r of Inl e \<Rightarrow> block_panic | Inr x \<Rightarrow> C x f) v)" for r v
    by (cases r) (simp_all add: assms option.const_mono)
  then show ?thesis unfolding block_unwrap_def by (intro block_bind_mono assms)
qed

section \<open>Awaiting a future\<close>

text \<open>
  The future is polled until it is ready. Its state is given back, for the futures that only
  borrow the value they work on.
\<close>

partial_function (option) await_mut :: "('f, 'o, 'w) pollf \<Rightarrow> 'f \<Rightarrow> 'w \<Rightarrow> (('o \<times> 'f) outcome \<times> 'w) option" where
  "await_mut p f w =
     (case p f w of
        (Pending, f', w') \<Rightarrow> await_mut p f' w'
      | (Ready x, f', w') \<Rightarrow> Some (Ret (x, f'), w')
      | (Panicked, f', w') \<Rightarrow> Some (Panic, w'))"

definition await :: "('f, 'o, 'w) pollf \<Rightarrow> 'f \<Rightarrow> ('o, 'w) block" where
  "await p f = block_bind (await_mut p f) (\<lambda>(x, f'). block_return x)"

lemma await_mut_run:
  "run_polls p n f w = (Ready x, f', w') \<Longrightarrow> await_mut p f w = Some (Ret (x, f'), w')"
  "run_polls p n f w = (Panicked, f', w') \<Longrightarrow> await_mut p f w = Some (Panic, w')"
  by (induction n arbitrary: f w)
    (simp, (subst await_mut.simps, simp split: prod.splits polled.splits)+)

lemma await_mut_ready: "p f w = (Ready x, f', w') \<Longrightarrow> await_mut p f w = Some (Ret (x, f'), w')"
  by (rule await_mut_run(1) [where n = 1]) simp

definition await_ended :: "('f, 'o, 'w) pollf \<Rightarrow> 'f \<Rightarrow> 'w \<Rightarrow> ('o \<times> 'f) outcome \<times> 'w \<Rightarrow> bool" where
  "await_ended p f w y \<longleftrightarrow>
     (\<exists>n f'. run_polls p n f w =
        (case fst y of Ret (x, g) \<Rightarrow> Ready x | Panic \<Rightarrow> Panicked, case fst y of Ret (x, g) \<Rightarrow> g | Panic \<Rightarrow> f', snd y))"

lemma await_mut_sound:
  assumes "await_mut p f w = Some y"
  shows "await_ended p f w y"
proof (rule await_mut.raw_induct [OF _ assms])
  fix awt p f w y
  assume ih: "\<And>p f w y. awt p f w = Some y \<Longrightarrow> await_ended p f w y"
    and step: "(case p f w of
        (Pending, f', w') \<Rightarrow> awt p f' w'
      | (Ready x, f', w') \<Rightarrow> Some (Ret (x, f'), w')
      | (Panicked, f', w') \<Rightarrow> Some (Panic, w')) = Some y"
  obtain q f1 w1 where p: "p f w = (q, f1, w1)" by (cases "p f w") auto
  show "await_ended p f w y"
  proof (cases q)
    case Pending
    with step p have "await_ended p f1 w1 y" by (intro ih) simp
    then obtain n f' where "run_polls p n f1 w1 =
        (case fst y of Ret (x, g) \<Rightarrow> Ready x | Panic \<Rightarrow> Panicked, case fst y of Ret (x, g) \<Rightarrow> g | Panic \<Rightarrow> f', snd y)"
      unfolding await_ended_def by blast
    then have "run_polls p (Suc n) f w =
        (case fst y of Ret (x, g) \<Rightarrow> Ready x | Panic \<Rightarrow> Panicked, case fst y of Ret (x, g) \<Rightarrow> g | Panic \<Rightarrow> f', snd y)"
      using p Pending by simp
    then show ?thesis unfolding await_ended_def by blast
  next
    case (Ready x)
    with step p show ?thesis unfolding await_ended_def by (intro exI [of _ "Suc 0"]) auto
  next
    case Panicked
    with step p show ?thesis unfolding await_ended_def by (intro exI [of _ "Suc 0"]) auto
  qed
qed

text \<open>
  Awaiting gives a value exactly when some number of polls does, and never ends exactly when
  every number of polls leaves the future pending.
\<close>

lemma await_mut_ready_iff:
  "await_mut p f w = Some (Ret (x, f'), w') \<longleftrightarrow> (\<exists>n. run_polls p n f w = (Ready x, f', w'))"
proof
  assume "await_mut p f w = Some (Ret (x, f'), w')"
  from await_mut_sound [OF this] show "\<exists>n. run_polls p n f w = (Ready x, f', w')"
    by (simp add: await_ended_def)
qed (auto intro: await_mut_run)

lemma await_some_iff:
  "await p f w = Some (Ret x, w') \<longleftrightarrow> (\<exists>f'. await_mut p f w = Some (Ret (x, f'), w'))"
  "await p f w = None \<longleftrightarrow> await_mut p f w = None"
  by (auto simp: await_def block_bind_def block_return_def split: option.split outcome.splits prod.splits)

lemma await_ready_iff: "await p f w = Some (Ret x, w') \<longleftrightarrow> (\<exists>n f'. run_polls p n f w = (Ready x, f', w'))"
  unfolding await_some_iff await_mut_ready_iff by blast

lemma await_none_iff: "await p f w = None \<longleftrightarrow> (\<forall>n. fst (run_polls p n f w) = Pending)"
  unfolding await_some_iff
proof
  assume n: "await_mut p f w = None"
  show "\<forall>n. fst (run_polls p n f w) = Pending"
  proof
    fix n
    obtain r f' w' where r: "run_polls p n f w = (r, f', w')" by (cases "run_polls p n f w") auto
    with n show "fst (run_polls p n f w) = Pending" by (cases r) (auto dest: await_mut_run)
  qed
next
  assume pending: "\<forall>n. fst (run_polls p n f w) = Pending"
  have "await_mut p f w \<noteq> Some y" for y
  proof
    assume "await_mut p f w = Some y"
    from await_mut_sound [OF this] obtain n r f' where "run_polls p n f w = (r, f', snd y)" "r \<noteq> Pending"
      by (auto simp: await_ended_def split: outcome.splits prod.splits)
    with pending show False by (metis fst_conv)
  qed
  then show "await_mut p f w = None" by (cases "await_mut p f w") auto
qed

end
