(* ===== verification/Example_Local.thy ===== *)
theory Example_Local
  imports Async_Block Rust_Text Streams Server_Conn Body
begin

text \<open>
  The parts of the single-threaded example (\<open>examples/single_threaded.rs\<close>): a body, an
  executor, an acceptor, a transport and a byte stream that need not be sendable between
  threads, and the service that counts its requests in a cell shared by all connections.
  The stream satisfies the forwarding interface of the crate's own streams.
\<close>

section \<open>The body\<close>

text \<open>
  \<open>Body\<close>: its data, which the first poll takes. \<open>is_end_stream\<close> and \<open>size_hint\<close> are the
  defaults of \<open>http_body::Body\<close>. \<open>data_frame\<close> is \<open>Frame::data\<close>.
\<close>

record local_body = lb_data :: "byte list option"

definition local_body_from :: "string \<Rightarrow> local_body" where
  "local_body_from a = \<lparr>lb_data = Some (text_bytes a)\<rparr>"

definition local_body_poll_frame ::
  "(byte list \<Rightarrow> 'fr) \<Rightarrow> local_body \<Rightarrow> 'w \<Rightarrow> ('e + 'fr) option polled \<times> local_body \<times> 'w" where
  "local_body_poll_frame data_frame self w =
     (Ready (map_option (\<lambda>d. Inr (data_frame d)) (lb_data self)), self\<lparr>lb_data := None\<rparr>, w)"

definition local_body_ops :: "(byte list \<Rightarrow> 'fr) \<Rightarrow> (local_body, 'fr, 'e, 'w) body_ops" where
  "local_body_ops data_frame =
     \<lparr>poll_frame = local_body_poll_frame data_frame, is_end_stream = (\<lambda>b. False), size_hint = (\<lambda>b. (0, None))\<rparr>"

text \<open>One frame with all the data, even if there is none, then the end.\<close>

lemma local_body_frames:
  "frames (local_body_ops data_frame) (Suc (Suc n)) (local_body_from s) w =
     ([data_frame (text_bytes s)], Ready None, \<lparr>lb_data = None\<rparr>, w)"
  by (simp add: local_body_ops_def local_body_poll_frame_def local_body_from_def)

section \<open>The executor\<close>

datatype local_exec = LocalExec

definition local_exec_hyper_execute :: "('f \<Rightarrow> 'w \<Rightarrow> 'w) \<Rightarrow> local_exec \<Rightarrow> 'f \<Rightarrow> 'w \<Rightarrow> 'w" where
  "local_exec_hyper_execute spawn_local self fut w = spawn_local fut w"

definition local_exec_execute :: "('f \<Rightarrow> 'w \<Rightarrow> 'w) \<Rightarrow> local_exec \<Rightarrow> 'f \<Rightarrow> 'w \<Rightarrow> 'w" where
  "local_exec_execute spawn_local self fut w = spawn_local fut w"

section \<open>The byte stream\<close>

record 'i not_send_io = ns_stream :: 'i

definition not_send_new :: "'i \<Rightarrow> 'i not_send_io" where
  "not_send_new stream = \<lparr>ns_stream = stream\<rparr>"

definition not_send_info :: "('i \<Rightarrow> 'ci) \<Rightarrow> 'i not_send_io \<Rightarrow> 'ci" where
  "not_send_info info self = info (ns_stream self)"

definition not_send_poll_write ::
  "('i, 'w) io_ops \<Rightarrow> 'i not_send_io \<Rightarrow> byte list \<Rightarrow> 'w \<Rightarrow> (io_error + nat) polled \<times> 'i not_send_io \<times> 'w" where
  "not_send_poll_write T self buf w = lift_res (\<lambda>i. self\<lparr>ns_stream := i\<rparr>) (io_write T (ns_stream self) buf w)"

definition not_send_poll_flush ::
  "('i, 'w) io_ops \<Rightarrow> 'i not_send_io \<Rightarrow> 'w \<Rightarrow> (io_error + unit) polled \<times> 'i not_send_io \<times> 'w" where
  "not_send_poll_flush T self w = lift_res (\<lambda>i. self\<lparr>ns_stream := i\<rparr>) (io_flush T (ns_stream self) w)"

definition not_send_poll_shutdown ::
  "('i, 'w) io_ops \<Rightarrow> 'i not_send_io \<Rightarrow> 'w \<Rightarrow> (io_error + unit) polled \<times> 'i not_send_io \<times> 'w" where
  "not_send_poll_shutdown T self w = lift_res (\<lambda>i. self\<lparr>ns_stream := i\<rparr>) (io_shutdown T (ns_stream self) w)"

definition not_send_poll_read ::
  "('i, 'w) io_ops \<Rightarrow> 'i not_send_io \<Rightarrow> nat \<Rightarrow> 'w \<Rightarrow> (io_error + byte list) polled \<times> 'i not_send_io \<times> 'w" where
  "not_send_poll_read T self room w = lift_res (\<lambda>i. self\<lparr>ns_stream := i\<rparr>) (io_read T (ns_stream self) room w)"

text \<open>The stream has no vectored write of its own.\<close>

definition not_send_ops :: "('i, 'w) io_ops \<Rightarrow> ('i not_send_io, 'w) io_ops" where
  "not_send_ops T =
     \<lparr>io_read = not_send_poll_read T, io_write = not_send_poll_write T,
      io_write_vectored = default_write_vectored (not_send_poll_write T),
      io_flush = not_send_poll_flush T, io_shutdown = not_send_poll_shutdown T,
      io_is_write_vectored = (\<lambda>self. False)\<rparr>"

lemmas not_send_defs = not_send_ops_def not_send_new_def not_send_poll_write_def not_send_poll_flush_def
  not_send_poll_shutdown_def not_send_poll_read_def

interpretation not_send: io_forwarder "no_vectored T" "not_send_ops T" not_send_new for T
  by unfold_locales (auto simp: not_send_defs default_write_vectored_def lift_res_def split: prod.split)

text \<open>What hyper reads and writes: the stream behind \<open>TokioIo\<close>.\<close>

interpretation not_send_tokio:
  io_forwarder2 "no_vectored T" "not_send_ops T" "tokio_hyper_ops (not_send_ops T)" not_send_new tokio_io_new for T
  by unfold_locales

lemma not_send_session:
  "io_session (tokio_hyper_ops (not_send_ops T)) cs (tokio_io_new (not_send_new i)) w =
     (case io_session (no_vectored T) cs i w of (outs, i', w') \<Rightarrow> (outs, tokio_io_new (not_send_new i'), w'))"
  by (simp add: not_send_tokio.both.session_wrap lift_res_def split: prod.split)

section \<open>The acceptor and the transport\<close>

record 'l accept_not_send = ans_listener :: 'l

definition accept_not_send_new :: "'l \<Rightarrow> 'l accept_not_send" where
  "accept_not_send_new listener = \<lparr>ans_listener = listener\<rparr>"

definition accept_not_send_poll_accept ::
  "('l, io_error + 'i, 'w) pollf \<Rightarrow> ('l accept_not_send, io_error + 'i not_send_io, 'w) pollf" where
  "accept_not_send_poll_accept p self w =
     map_res (map_polled (map_ok not_send_new)) (lift_res (\<lambda>l. self\<lparr>ans_listener := l\<rparr>) (p (ans_listener self) w))"

interpretation accept_not_send:
  future_wrapper p "accept_not_send_poll_accept p" accept_not_send_new "map_ok not_send_new" for p
  by unfold_locales (simp add: accept_not_send_poll_accept_def accept_not_send_new_def lift_res_def split: prod.split)

text \<open>The future of the TCP transport is boxed, which changes nothing.\<close>

record 't transport_not_send = tns_tcp :: 't

definition transport_not_send_ops ::
  "('t, 'r, 'f, 'e, 'i, 'w) service \<Rightarrow> ('t transport_not_send, 'r, 'f, 'e, 'i, 'w) service" where
  "transport_not_send_ops T =
     \<lparr>poll_ready = (\<lambda>self w. lift_res (\<lambda>t. self\<lparr>tns_tcp := t\<rparr>) (poll_ready T (tns_tcp self) w)),
      call = (\<lambda>self req w. lift_res (\<lambda>t. self\<lparr>tns_tcp := t\<rparr>) (call T (tns_tcp self) req w)),
      poll_fut = poll_fut T\<rparr>"

lemma transport_not_send_run:
  "out_res (run_call (transport_not_send_ops T) n \<lparr>tns_tcp = t\<rparr> req w) = out_res (run_call T n t req w)"
  by (simp add: run_call_def transport_not_send_ops_def lift_res_def split: prod.split outcome.split)

section \<open>The counting service\<close>

text \<open>
  The cells that \<open>Rc<Cell<i32>>\<close> handles point to; cloning a handle copies the address. The
  world may hold more than the cells.
\<close>

record cell_world =
  cells :: "nat \<Rightarrow> 32 word option"
  next_cell :: nat

definition cell_new :: "32 word \<Rightarrow> 'm cell_world_scheme \<Rightarrow> nat \<times> 'm cell_world_scheme" where
  "cell_new v w = (next_cell w, w\<lparr>cells := (cells w)(next_cell w \<mapsto> v), next_cell := Suc (next_cell w)\<rparr>)"

text \<open>
  Both servers answer a request alike, up to the text in front of the number: the counter is
  increased when the request is called, and the async block that follows holds the number.
  A handle keeps its cell alive, so a missing cell is no case of the source. The future is
  polled once; it panics afterwards.
\<close>

datatype count_future = Count_Ready "32 word" | Count_Done

definition count_call ::
  "bool \<Rightarrow> nat \<Rightarrow> 'r \<Rightarrow> 'm cell_world_scheme \<Rightarrow> count_future outcome \<times> nat \<times> 'm cell_world_scheme" where
  "count_call dbg cnt req w =
     (case cells w cnt of
        None \<Rightarrow> (Panic, cnt, w)
      | Some prev \<Rightarrow>
          (case add_i32 dbg prev 1 of
             Panic \<Rightarrow> (Panic, cnt, w)
           | Ret value \<Rightarrow> (Ret (Count_Ready value), cnt, w\<lparr>cells := (cells w)(cnt \<mapsto> value)\<rparr>)))"

definition count_poll ::
  "string \<Rightarrow> 'p \<Rightarrow> (count_future, 'e + ('p, local_body) response, 'w) pollf" where
  "count_poll prefix parts self w =
     (case self of
        Count_Ready value \<Rightarrow>
          (Ready (Inr \<lparr>rs_parts = parts, rs_body = local_body_from (prefix @ show_i32 value)\<rparr>), Count_Done, w)
      | Count_Done \<Rightarrow> (Panicked, Count_Done, w))"

definition count_service ::
  "bool \<Rightarrow> string \<Rightarrow> 'p \<Rightarrow>
     (nat, 'r, count_future, 'e, ('p, local_body) response, 'm cell_world_scheme) service" where
  "count_service dbg prefix parts =
     \<lparr>poll_ready = (\<lambda>cnt w. (Ready (Inr ()), cnt, w)), call = count_call dbg, poll_fut = count_poll prefix parts\<rparr>"

text \<open>The texts in front of the number, in the HTTP/1 and the HTTP/2 server.\<close>

definition http1_prefix :: string where "http1_prefix = ''HTTP/1.1 Request #''"

definition http2_prefix :: string where "http2_prefix = ''HTTP/2 Request #''"

text \<open>
  Requests on any of the connections, in the order in which they are called: every
  connection's service holds a handle on the same cell.
\<close>

fun count_calls ::
  "bool \<Rightarrow> nat \<Rightarrow> 'r list \<Rightarrow> 'm cell_world_scheme \<Rightarrow> count_future outcome list \<times> 'm cell_world_scheme" where
  "count_calls dbg cnt [] w = ([], w)"
| "count_calls dbg cnt (req # reqs) w =
     (case count_call dbg cnt req w of
        (f, cnt', w') \<Rightarrow> (case count_calls dbg cnt' reqs w' of (fs, w'') \<Rightarrow> (f # fs, w'')))"

lemma count_call_number:
  assumes "cells w cnt = Some (of_nat k)" and "dbg \<Longrightarrow> k \<le> 2147483647"
  shows "count_call dbg cnt req w =
    (if dbg \<and> k = 2147483647 then (Panic, cnt, w)
     else (Ret (Count_Ready (of_nat (Suc k))), cnt, w\<lparr>cells := (cells w)(cnt \<mapsto> of_nat (Suc k))\<rparr>))"
  by (simp add: count_call_def assms add_i32_of_nat)

lemma count_calls_from:
  assumes "cells w cnt = Some (of_nat k)" and "dbg \<Longrightarrow> k \<le> 2147483647"
  shows "fst (count_calls dbg cnt reqs w) =
    map (\<lambda>i. if dbg \<and> 2147483647 \<le> k + i then Panic else Ret (Count_Ready (of_nat (Suc (k + i))))) [0..<length reqs]"
  using assms
proof (induction reqs arbitrary: w k)
  case Nil
  then show ?case by simp
next
  case (Cons r reqs)
  have upt: "map f [0..<Suc n] = f 0 # map (\<lambda>i. f (Suc i)) [0..<n]" for f :: "nat \<Rightarrow> 'z" and n
    by (simp add: upt_conv_Cons map_Suc_upt [symmetric] comp_def del: upt_Suc)
  note number = count_call_number [where req = r, OF Cons.prems]
  show ?case
  proof (cases "dbg \<and> k = 2147483647")
    case True
    then have "count_call dbg cnt r w = (Panic, cnt, w)" using number by simp
    with Cons.IH [OF Cons.prems] True show ?thesis by (simp add: split_beta upt del: upt_Suc)
  next
    case False
    let ?w = "w\<lparr>cells := (cells w)(cnt \<mapsto> of_nat (Suc k))\<rparr>"
    have "count_call dbg cnt r w = (Ret (Count_Ready (of_nat (Suc k))), cnt, ?w)" using number False by simp
    moreover have "fst (count_calls dbg cnt reqs ?w) = map (\<lambda>i. if dbg \<and> 2147483647 \<le> Suc k + i then Panic
        else Ret (Count_Ready (of_nat (Suc (Suc k + i))))) [0..<length reqs]"
      using False Cons.prems by (intro Cons.IH) auto
    moreover have "\<not> (dbg \<and> 2147483647 \<le> k)" using False Cons.prems(2) by auto
    ultimately show ?thesis by (simp add: split_beta upt del: upt_Suc of_nat_Suc)
  qed
qed


lemma request_numbers_distinct:
  assumes "length reqs \<le> 2147483647"
  shows "distinct (fst (count_calls dbg (fst (cell_new 0 w)) reqs (snd (cell_new 0 w))))"
proof -
  have "inj_on (\<lambda>i. of_nat (Suc i) :: 32 word) {0..<length reqs}"
  proof (rule inj_onI)
    fix i j
    assume "i \<in> {0..<length reqs}" "j \<in> {0..<length reqs}" "(of_nat (Suc i) :: 32 word) = of_nat (Suc j)"
    then have "sint (of_nat (Suc i) :: 32 word) = sint (of_nat (Suc j) :: 32 word)" by simp
    moreover have "Suc i < 2147483648" "Suc j < 2147483648"
      using assms \<open>i \<in> _\<close> \<open>j \<in> _\<close> by simp_all
    ultimately show "i = j" by (simp add: sint_of_nat_i32 del: of_nat_Suc)
  qed
  moreover have "fst (count_calls dbg (fst (cell_new 0 w)) reqs (snd (cell_new 0 w))) =
      map (\<lambda>i. Ret (Count_Ready (of_nat (Suc i)))) [0..<length reqs]"
    using assms count_calls_from [of "snd (cell_new 0 w)" "fst (cell_new 0 w)" 0 dbg reqs]
    by (auto simp: cell_new_def)
  ultimately show ?thesis by (simp add: distinct_map inj_on_def)
qed

end
