(* ===== verification/Example_Io.thy ===== *)
theory Example_Io
  imports Async_Block Rust_Text Body
begin

text \<open>
  What the example programs (\<open>examples/\<close>) do with a response body: four loops over its
  frames, which differ in what they do with data and with errors. Tokio's standard output
  is a parameter. Each loop is related to what the body delivers, whenever it arrives and
  however it is cut into frames.
\<close>

section \<open>Standard output\<close>

record 'w stdout_api =
  so_write_all :: "byte list \<Rightarrow> (io_error + unit, 'w) block"
  so_flush :: "(io_error + unit, 'w) block"

text \<open>
  A run is observed by what standard output was given, in the order in which it was given,
  and by the rest that counts. When the terminal shows it is up to tokio, which writes from
  another thread. Standard output takes everything it is given.
\<close>

type_synonym ('k, 'w) observer = "'w \<Rightarrow> byte list \<times> 'k"

definition stdout_laws :: "'w stdout_api \<Rightarrow> ('k, 'w) observer \<Rightarrow> bool" where
  "stdout_laws out obs \<longleftrightarrow>
     (\<forall>bs w. \<exists>w'. so_write_all out bs w = Some (Ret (Inr ()), w') \<and> obs w' = (fst (obs w) @ bs, snd (obs w)))
   \<and> (\<forall>w. \<exists>w'. so_flush out w = Some (Ret (Inr ()), w') \<and> obs w' = obs w)"

lemma stdout_write:
  assumes "stdout_laws out obs" and "obs w = (printed, rest)"
  obtains w' where "so_write_all out bs w = Some (Ret (Inr ()), w')" "obs w' = (printed @ bs, rest)"
  using assms unfolding stdout_laws_def by (metis fst_conv snd_conv)

lemma stdout_flush:
  assumes "stdout_laws out obs"
  obtains w' where "so_flush out w = Some (Ret (Inr ()), w')" "obs w' = obs w"
  using assms unfolding stdout_laws_def by blast

section \<open>Bodies\<close>

text \<open>
  A received body that gives the bytes, in any number of frames and at any time, and then
  ends, or fails with an error; frames that are not data may come in between.
\<close>

inductive body_delivers ::
  "('b, 'fr, 'e, 'w) body_ops \<Rightarrow> ('fr \<Rightarrow> byte list option) \<Rightarrow> ('w \<Rightarrow> 'k) \<Rightarrow> 'b \<Rightarrow> byte list \<Rightarrow> 'e option \<Rightarrow> bool"
  for B data_ref obs where
  delivers_end:
    "(\<And>w. \<exists>b' w'. await_mut (poll_frame B) b w = Some (Ret (None, b'), w') \<and> obs w' = obs w) \<Longrightarrow>
     body_delivers B data_ref obs b [] None"
| delivers_error:
    "(\<And>w. \<exists>b' w'. await_mut (poll_frame B) b w = Some (Ret (Some (Inl e), b'), w') \<and> obs w' = obs w) \<Longrightarrow>
     body_delivers B data_ref obs b [] (Some e)"
| delivers_data:
    "(\<And>w. \<exists>w'. await_mut (poll_frame B) b w = Some (Ret (Some (Inr fr), b'), w') \<and> obs w' = obs w) \<Longrightarrow>
     data_ref fr = Some bs \<Longrightarrow> body_delivers B data_ref obs b' rest fin \<Longrightarrow>
     body_delivers B data_ref obs b (bs @ rest) fin"
| delivers_other:
    "(\<And>w. \<exists>w'. await_mut (poll_frame B) b w = Some (Ret (Some (Inr fr), b'), w') \<and> obs w' = obs w) \<Longrightarrow>
     data_ref fr = None \<Longrightarrow> body_delivers B data_ref obs b' bs fin \<Longrightarrow>
     body_delivers B data_ref obs b bs fin"

text \<open>One frame of a loop, for a body that is known to deliver.\<close>

lemma frame_step:
  assumes "\<And>w. \<exists>w'. await_mut (poll_frame B) b w = Some (Ret (x, b'), w') \<and> obs w' = obs w"
    and "obs w = (printed, rest)"
  obtains w' where "await_mut (poll_frame B) b w = Some (Ret (x, b'), w')" "obs w' = (printed, rest)"
  using assms by metis

lemma last_step:
  assumes "\<And>w. \<exists>b' w'. await_mut (poll_frame B) b w = Some (Ret (x, b'), w') \<and> obs w' = obs w"
    and "obs w = (printed, rest)"
  obtains b' w' where "await_mut (poll_frame B) b w = Some (Ret (x, b'), w')" "obs w' = (printed, rest)"
  using assms by metis

section \<open>The loops\<close>

text \<open>
  \<open>while let Some(item) = body.frame().await\<close>: the body of the loop gets each item, a frame
  or an error, and either leaves the loop with a result or goes on with what it accumulated;
  the end of the body finishes.
\<close>

partial_function (option) frames_loop ::
  "('b, 'fr, 'e, 'w) body_ops \<Rightarrow> ('e + 'fr \<Rightarrow> 'acc \<Rightarrow> ('r + 'acc, 'w) block) \<Rightarrow> ('acc \<Rightarrow> 'r) \<Rightarrow> 'acc \<Rightarrow> 'b \<Rightarrow> 'w \<Rightarrow>
     ('r outcome \<times> 'w) option" where
  "frames_loop B step finish acc body w =
     block_bind (await_mut (poll_frame B) body) (\<lambda>p w1. case p of (next, body') \<Rightarrow>
       (case next of
          None \<Rightarrow> block_return (finish acc) w1
        | Some item \<Rightarrow>
            block_bind (step item acc) (\<lambda>r w2. case r of
               Inl result \<Rightarrow> block_return result w2
             | Inr acc' \<Rightarrow> frames_loop B step finish acc' body' w2) w1)) w"

text \<open>
  What the loops have in common: data is added to the accumulator, and written if the loop
  writes, as long as it fits; other frames change nothing; an error leaves the loop.
\<close>

locale frames_consumer =
  fixes step :: "'e + 'fr \<Rightarrow> 'acc \<Rightarrow> ('r + 'acc, 'w) block"
    and finish :: "'acc \<Rightarrow> 'r" and fail :: "'acc \<Rightarrow> 'e \<Rightarrow> 'r"
    and add :: "'acc \<Rightarrow> byte list \<Rightarrow> 'acc" and fits :: "'acc \<Rightarrow> byte list \<Rightarrow> bool" and writes :: bool
    and data_ref :: "'fr \<Rightarrow> byte list option" and out :: "'w stdout_api" and obs :: "('k, 'w) observer"
  assumes step_data:
      "stdout_laws out obs \<Longrightarrow> data_ref fr = Some bs \<Longrightarrow> fits acc (bs @ rest) \<Longrightarrow> obs w = (printed, k) \<Longrightarrow>
         \<exists>w'. step (Inr fr) acc w = Some (Ret (Inr (add acc bs)), w')
           \<and> obs w' = (printed @ (if writes then bs else []), k)"
    and step_other: "data_ref fr = None \<Longrightarrow> step (Inr fr) acc w = Some (Ret (Inr acc), w)"
    and step_error: "step (Inl e) acc w = Some (Ret (Inl (fail acc e)), w)"
    and add_nil: "add acc [] = acc"
    and add_append: "add (add acc bs) rest = add acc (bs @ rest)"
    and fits_rest: "fits acc (bs @ rest) \<Longrightarrow> fits (add acc bs) rest"
begin

lemma loop_delivers:
  assumes "body_delivers B data_ref obs b bs fin" and "stdout_laws out obs"
    and "fits acc bs" and "obs w = (printed, k)"
  shows "\<exists>w'. frames_loop B step finish acc b w =
      Some (Ret (case fin of None \<Rightarrow> finish (add acc bs) | Some e \<Rightarrow> fail (add acc bs) e), w')
    \<and> obs w' = (printed @ (if writes then bs else []), k)"
  using assms(1,3,4)
proof (induction arbitrary: acc w printed rule: body_delivers.induct)
  case (delivers_end b)
  from last_step [of B b None obs, OF delivers_end(1,3)] obtain b' w' where
    "await_mut (poll_frame B) b w = Some (Ret (None, b'), w')" "obs w' = (printed, k)" .
  then show ?case by (subst frames_loop.simps) (simp add: block_bind_def block_return_def add_nil)
next
  case (delivers_error b e)
  from last_step [of B b "Some (Inl e)" obs, OF delivers_error(1,3)] obtain b' w' where
    "await_mut (poll_frame B) b w = Some (Ret (Some (Inl e), b'), w')" "obs w' = (printed, k)" .
  then show ?case by (subst frames_loop.simps) (simp add: block_bind_def block_return_def add_nil step_error)
next
  case (delivers_data b fr b' bs rest fin)
  from frame_step [of B b "Some (Inr fr)" b' obs, OF delivers_data(1) delivers_data.prems(2)] obtain w1 where
    w1: "await_mut (poll_frame B) b w = Some (Ret (Some (Inr fr), b'), w1)" "obs w1 = (printed, k)" .
  from step_data [OF assms(2) delivers_data(2) delivers_data.prems(1) w1(2)] obtain w2 where
    w2: "step (Inr fr) acc w1 = Some (Ret (Inr (add acc bs)), w2)"
      "obs w2 = (printed @ (if writes then bs else []), k)" by blast
  from delivers_data.IH [OF fits_rest [OF delivers_data.prems(1)] w2(2), unfolded add_append] w1 w2(1) show ?case
    by (subst frames_loop.simps) (cases writes; simp add: block_bind_def)
next
  case (delivers_other b fr b' bs fin)
  from frame_step [of B b "Some (Inr fr)" b' obs, OF delivers_other(1) delivers_other.prems(2)] obtain w1 where
    w1: "await_mut (poll_frame B) b w = Some (Ret (Some (Inr fr), b'), w1)" "obs w1 = (printed, k)" .
  from delivers_other.IH [OF delivers_other.prems(1) w1(2)] w1(1) show ?case
    by (subst frames_loop.simps) (simp add: block_bind_def step_other [OF delivers_other(2)])
qed

end

text \<open>
  The single-threaded example: an error of the body ends the loop, data is written, and
  writing must not fail.
\<close>

definition print_step ::
  "('fr \<Rightarrow> byte list option) \<Rightarrow> 'w stdout_api \<Rightarrow> 'e + 'fr \<Rightarrow> unit \<Rightarrow> (('e + unit) + unit, 'w) block" where
  "print_step data_ref out item u =
     (case item of
        Inl e \<Rightarrow> block_return (Inl (Inl e))
      | Inr frame \<Rightarrow>
          (case data_ref frame of
             None \<Rightarrow> block_return (Inr ())
           | Some chunk \<Rightarrow> block_unwrap (so_write_all out chunk) (\<lambda>_. block_return (Inr ()))))"

definition print_frames ::
  "('b, 'fr, 'e, 'w) body_ops \<Rightarrow> ('fr \<Rightarrow> byte list option) \<Rightarrow> 'w stdout_api \<Rightarrow> 'b \<Rightarrow> ('e + unit, 'w) block" where
  "print_frames B data_ref out body = frames_loop B (print_step data_ref out) (\<lambda>u. Inr ()) () body"

interpretation print: frames_consumer "print_step data_ref out" "\<lambda>u. Inr ()" "\<lambda>u e. Inl e" "\<lambda>u bs. ()" "\<lambda>u bs. True" True
  data_ref out obs for data_ref out obs
proof unfold_locales
  fix fr bs rest w printed k and acc :: unit
  assume laws: "stdout_laws out obs" and data: "data_ref fr = Some bs" and o: "obs w = (printed, k)"
  obtain w' where "so_write_all out bs w = Some (Ret (Inr ()), w')" "obs w' = (printed @ bs, k)"
    by (rule stdout_write [OF laws o])
  then show "\<exists>w'. print_step data_ref out (Inr fr) acc w = Some (Ret (Inr ()), w')
      \<and> obs w' = (printed @ (if True then bs else []), k)"
    by (simp add: print_step_def data block_defs)
qed (simp_all add: print_step_def block_return_def)

lemma print_frames_delivers:
  assumes "stdout_laws out obs" and "body_delivers B dref obs b bs fin" and "obs w = (printed, rest)"
  shows "\<exists>w'. print_frames B dref out b w = Some (Ret (case fin of None \<Rightarrow> Inr () | Some e \<Rightarrow> Inl e), w')
    \<and> obs w' = (printed @ bs, rest)"
  using print.loop_delivers [OF assms(2,1) TrueI assms(3)] by (simp add: print_frames_def)

text \<open>
  The \<open>httpbin\<close> and \<open>profile\<close> clients: an error of the body, or of writing, is returned,
  boxed.
\<close>

definition copy_step ::
  "('e \<Rightarrow> 'x) \<Rightarrow> (io_error \<Rightarrow> 'x) \<Rightarrow> ('fr \<Rightarrow> byte list option) \<Rightarrow> 'w stdout_api \<Rightarrow> 'e + 'fr \<Rightarrow> unit \<Rightarrow>
     (('x + unit) + unit, 'w) block" where
  "copy_step into_body into_io data_ref out item u =
     (case item of
        Inl e \<Rightarrow> block_return (Inl (Inl (into_body e)))
      | Inr frame \<Rightarrow>
          (case data_ref frame of
             None \<Rightarrow> block_return (Inr ())
           | Some chunk \<Rightarrow>
               block_bind (so_write_all out chunk) (\<lambda>r. case r of
                  Inl e \<Rightarrow> block_return (Inl (Inl (into_io e)))
                | Inr _ \<Rightarrow> block_return (Inr ()))))"

definition copy_frames ::
  "('e \<Rightarrow> 'x) \<Rightarrow> (io_error \<Rightarrow> 'x) \<Rightarrow> ('b, 'fr, 'e, 'w) body_ops \<Rightarrow> ('fr \<Rightarrow> byte list option) \<Rightarrow> 'w stdout_api \<Rightarrow>
     'b \<Rightarrow> ('x + unit, 'w) block" where
  "copy_frames into_body into_io B data_ref out body =
     frames_loop B (copy_step into_body into_io data_ref out) (\<lambda>u. Inr ()) () body"

interpretation copy: frames_consumer "copy_step into_body into_io data_ref out" "\<lambda>u. Inr ()" "\<lambda>u e. Inl (into_body e)"
  "\<lambda>u bs. ()" "\<lambda>u bs. True" True data_ref out obs for into_body into_io data_ref out obs
proof unfold_locales
  fix fr bs rest w printed k and acc :: unit
  assume laws: "stdout_laws out obs" and data: "data_ref fr = Some bs" and o: "obs w = (printed, k)"
  obtain w' where "so_write_all out bs w = Some (Ret (Inr ()), w')" "obs w' = (printed @ bs, k)"
    by (rule stdout_write [OF laws o])
  then show "\<exists>w'. copy_step into_body into_io data_ref out (Inr fr) acc w = Some (Ret (Inr ()), w')
      \<and> obs w' = (printed @ (if True then bs else []), k)"
    by (simp add: copy_step_def data block_defs)
qed (simp_all add: copy_step_def block_return_def)

text \<open>
  The \<open>hurl\<close> client counts the bytes it writes, in a \<open>usize\<close> of 64 bits; the loop ends at
  the end of the body and, without a word, at its first error. The \<open>google\<close> client counts
  without writing. \<open>dbg\<close> says whether overflow checks are compiled in.
\<close>

definition hurl_step ::
  "bool \<Rightarrow> ('fr \<Rightarrow> byte list option) \<Rightarrow> 'w stdout_api \<Rightarrow> 'e + 'fr \<Rightarrow> 64 word \<Rightarrow> (64 word + 64 word, 'w) block" where
  "hurl_step dbg data_ref out item count =
     (case item of
        Inl e \<Rightarrow> block_return (Inl count)
      | Inr frame \<Rightarrow>
          (case data_ref frame of
             None \<Rightarrow> block_return (Inr count)
           | Some data \<Rightarrow>
               block_bind (block_of (add_usize dbg count (of_nat (length data)))) (\<lambda>count'.
               block_unwrap (so_write_all out data) (\<lambda>_. block_return (Inr count')))))"

definition hurl_frames ::
  "bool \<Rightarrow> ('b, 'fr, 'e, 'w) body_ops \<Rightarrow> ('fr \<Rightarrow> byte list option) \<Rightarrow> 'w stdout_api \<Rightarrow> 64 word \<Rightarrow> 'b \<Rightarrow>
     (64 word, 'w) block" where
  "hurl_frames dbg B data_ref out count body = frames_loop B (hurl_step dbg data_ref out) (\<lambda>count. count) count body"

definition google_step ::
  "bool \<Rightarrow> ('fr \<Rightarrow> byte list option) \<Rightarrow> 'e + 'fr \<Rightarrow> 64 word \<Rightarrow> (64 word + 64 word, 'w) block" where
  "google_step dbg data_ref item count =
     (case item of
        Inl e \<Rightarrow> block_return (Inl count)
      | Inr frame \<Rightarrow>
          (case data_ref frame of
             None \<Rightarrow> block_return (Inr count)
           | Some data \<Rightarrow>
               block_bind (block_of (add_usize dbg count (of_nat (length data)))) (\<lambda>count'.
               block_return (Inr count'))))"

definition google_frames ::
  "bool \<Rightarrow> ('b, 'fr, 'e, 'w) body_ops \<Rightarrow> ('fr \<Rightarrow> byte list option) \<Rightarrow> 64 word \<Rightarrow> 'b \<Rightarrow> (64 word, 'w) block" where
  "google_frames dbg B data_ref count body = frames_loop B (google_step dbg data_ref) (\<lambda>count. count) count body"

text \<open>What fits: a total that stays below \<open>2 ^ 64\<close>.\<close>

definition add_length :: "64 word \<Rightarrow> byte list \<Rightarrow> 64 word" where
  "add_length count bs = count + of_nat (length bs)"

definition below_usize :: "64 word \<Rightarrow> byte list \<Rightarrow> bool" where
  "below_usize count bs \<longleftrightarrow> unat count + length bs < 18446744073709551616"

lemma add_length_simps: "add_length count [] = count" "add_length (add_length count bs) rest = add_length count (bs @ rest)"
  by (simp_all add: add_length_def algebra_simps)

lemma below_usize_add:
  assumes "below_usize count (bs @ rest)"
  shows "add_usize dbg count (of_nat (length bs)) = Ret (add_length count bs)"
    and "below_usize (add_length count bs) rest"
proof -
  have small: "unat count + length bs < 18446744073709551616" and all: "unat count + length bs + length rest < 18446744073709551616"
    using assms by (simp_all add: below_usize_def)
  then have len: "unat (of_nat (length bs) :: 64 word) = length bs"
    by (simp add: unat_of_nat take_bit_nat_eq_self_iff)
  have "uint count + uint (of_nat (length bs) :: 64 word) = int (unat count + length bs)"
    unfolding uint_nat len by simp
  moreover have "(2 :: int) ^ 64 = 18446744073709551616" by simp
  moreover from this have "\<not> 2 ^ 64 \<le> int (unat count + length bs)" using small by linarith
  ultimately show "add_usize dbg count (of_nat (length bs)) = Ret (add_length count bs)"
    by (simp only: add_usize_def add_length_def simp_thms if_False)
  from small len have "unat (add_length count bs) = unat count + length bs"
    by (simp add: add_length_def unat_word_ariths)
  with all show "below_usize (add_length count bs) rest" by (simp add: below_usize_def)
qed

interpretation hurl: frames_consumer "hurl_step dbg data_ref out" "\<lambda>count. count" "\<lambda>count e. count" add_length below_usize
  True data_ref out obs for dbg data_ref out obs
proof unfold_locales
  fix fr bs rest w printed k and acc :: "64 word"
  assume laws: "stdout_laws out obs" and data: "data_ref fr = Some bs" and o: "obs w = (printed, k)"
    and fits: "below_usize acc (bs @ rest)"
  obtain w' where "so_write_all out bs w = Some (Ret (Inr ()), w')" "obs w' = (printed @ bs, k)"
    by (rule stdout_write [OF laws o])
  then show "\<exists>w'. hurl_step dbg data_ref out (Inr fr) acc w = Some (Ret (Inr (add_length acc bs)), w')
      \<and> obs w' = (printed @ (if True then bs else []), k)"
    by (simp add: hurl_step_def data block_defs below_usize_add(1) [OF fits])
qed (simp_all add: hurl_step_def block_return_def add_length_simps below_usize_add(2))

interpretation google: frames_consumer "google_step dbg data_ref" "\<lambda>count. count" "\<lambda>count e. count" add_length below_usize
  False data_ref out obs for dbg data_ref out obs
proof unfold_locales
  fix fr bs rest w printed k and acc :: "64 word"
  assume data: "data_ref fr = Some bs" and o: "obs w = (printed, k)" and fits: "below_usize acc (bs @ rest)"
  show "\<exists>w'. google_step dbg data_ref (Inr fr) acc w = Some (Ret (Inr (add_length acc bs)), w')
      \<and> obs w' = (printed @ (if False then bs else []), k)"
    using o by (simp add: google_step_def data block_defs below_usize_add(1) [OF fits])
qed (simp_all add: google_step_def block_return_def add_length_simps below_usize_add(2))

end
