(* ===== verification/Example_Single_Threaded.thy ===== *)
theory Example_Single_Threaded
  imports Example_Local Example_Io Client_Path
begin

text \<open>
  The single-threaded example (\<open>examples/single_threaded.rs\<close>): an HTTP/1 and an HTTP/2
  server that number their requests, a client for each that makes four requests and prints
  the responses, and \<open>main\<close>. Sockets, hyper, chateau's server and client, and tokio's
  standard output are parameters. The main result follows the HTTP/1 client's four requests
  through the server's counting service to what is printed.
\<close>

section \<open>Printing\<close>

text \<open>
  What a client prints with: standard output, the texts of a status and of headers, and
  \<open>Frame::data_ref\<close>.
\<close>

record ('p, 'fr, 'w) printer =
  pr_out :: "'w stdout_api"
  pr_status :: "'p \<Rightarrow> string"
  pr_headers :: "'p \<Rightarrow> string"
  pr_data_ref :: "'fr \<Rightarrow> byte list option"

definition response_head :: "('p, 'fr, 'w) printer \<Rightarrow> 'p \<Rightarrow> byte list" where
  "response_head Q parts =
     text_bytes (''Response: '' @ pr_status Q parts @ newline @ ''Headers: '' @ pr_headers Q parts @ newline)"

definition separator :: "byte list" where
  "separator = text_bytes (newline @ ''-----------------'' @ newline)"

definition show_response ::
  "('p, 'fr, 'w) printer \<Rightarrow> ('b, 'fr, 'e, 'w) body_ops \<Rightarrow> ('p, 'b) response \<Rightarrow> ('e + unit, 'w) block" where
  "show_response Q B res =
     (let out = pr_out Q in
      block_unwrap (so_write_all out (text_bytes (''Response: '' @ pr_status Q (rs_parts res) @ newline))) (\<lambda>_.
      block_unwrap (so_write_all out (text_bytes (''Headers: '' @ pr_headers Q (rs_parts res) @ newline))) (\<lambda>_.
      block_unwrap (so_flush out) (\<lambda>_.
      block_try id (print_frames B (pr_data_ref Q) out (rs_body res)) (\<lambda>_.
      block_unwrap (so_write_all out separator) (\<lambda>_.
      block_unwrap (so_flush out) (\<lambda>_.
      block_return (Inr ()))))))))"

section \<open>The clients\<close>

text \<open>What a boxed error of the example was made from.\<close>

datatype ('he, 'ce) st_error = St_Io io_error | St_Hyper 'he | St_Http | St_Client 'ce

text \<open>\<open>for _ in 0..n\<close> over a value that each round changes, left at the first error.\<close>

fun rounds :: "nat \<Rightarrow> ('s \<Rightarrow> ('e + 's, 'w) block) \<Rightarrow> 's \<Rightarrow> ('e + 's, 'w) block" where
  "rounds 0 step s = block_return (Inr s)"
| "rounds (Suc n) step s = block_try id (step s) (rounds n step)"

text \<open>The requests of the clients, which fail only when the authority is no header value.\<close>

definition http1_example_request ::
  "('u, 'au, 'h, 'v) http_api \<Rightarrow> 'h \<Rightarrow> 'x \<Rightarrow> 'u \<Rightarrow> 'au \<Rightarrow>
     ('he, 'ce) st_error + ('u, 'h, 'x, local_body) request" where
  "http1_example_request A no_headers no_ext url authority =
     (case hv_from_str A (authority_str A authority) of
        None \<Rightarrow> Inl St_Http
      | Some v \<Rightarrow>
          Inr \<lparr>rq_method = GET, rq_uri = url, rq_version = HTTP_11, rq_headers = hdr_insert A no_headers HOST v,
               rq_ext = no_ext, rq_body = local_body_from ''test''\<rparr>)"

definition http2_example_request ::
  "('u, 'au, 'h, 'v) http_api \<Rightarrow> 'h \<Rightarrow> 'x \<Rightarrow> 'u \<Rightarrow> 'au \<Rightarrow>
     ('he, 'ce) st_error + ('u, 'h, 'x, local_body) request" where
  "http2_example_request A no_headers no_ext url authority =
     map_ok (\<lambda>r. r\<lparr>rq_version := HTTP_2\<rparr>) (http1_example_request A no_headers no_ext url authority)"

text \<open>\<open>sender.send_request(req).await\<close>, which borrows the sender until it returns.\<close>

definition exchange ::
  "('s, 'r, 'f, 'e, 'w) sender_api \<Rightarrow> ('f, 'e + 'a, 'w) pollf \<Rightarrow> 's \<Rightarrow> 'r \<Rightarrow> (('e + 'a) \<times> 's, 'w) block" where
  "exchange S p s req w =
     (case snd_send S s req w of (f, s', w') \<Rightarrow> block_bind (await p f) (\<lambda>r. block_return (r, s')) w')"

definition http1_round ::
  "('s, 'r, 'f, 'he, 'w) sender_api \<Rightarrow> ('f, 'he + ('p, 'b) response, 'w) pollf \<Rightarrow> ('p, 'fr, 'w) printer \<Rightarrow>
     ('b, 'fr, 'he, 'w) body_ops \<Rightarrow> ('he, 'ce) st_error + 'r \<Rightarrow> 's \<Rightarrow> (('he, 'ce) st_error + 's, 'w) block" where
  "http1_round S p Q B built sender =
     block_try id (block_return built) (\<lambda>req.
     block_bind (exchange S p sender req) (\<lambda>(r, sender').
     block_try St_Hyper (block_return r) (\<lambda>res.
     block_try St_Hyper (show_response Q B res) (\<lambda>_.
     block_return (Inr sender')))))"

text \<open>
  The HTTP/1 client's surroundings: name resolution, connecting, hyper's handshake, the
  task that drives the connection, and the shutdown signal, sent when all went well (the
  result of sending it is ignored).
\<close>

record ('sa, 'tcp, 's, 'cn, 'he, 'w) http1_client_env =
  he_resolve :: "string \<Rightarrow> (io_error + 'sa list, 'w) block"
  he_connect :: "'sa \<Rightarrow> (io_error + 'tcp, 'w) block"
  he_handshake :: "'tcp not_send_io tokio_io \<Rightarrow> ('he + 's \<times> 'cn, 'w) block"
  he_spawn_local :: "(unit, 'w) block \<Rightarrow> 'w \<Rightarrow> 'w"
  he_poll_conn :: "('cn, 'he + unit, 'w) pollf"
  he_show_err :: "'he \<Rightarrow> string"
  he_signal :: "'w \<Rightarrow> 'w"

definition http1_conn_task ::
  "'w stdout_api \<Rightarrow> ('he \<Rightarrow> string) \<Rightarrow> ('cn, 'he + unit, 'w) pollf \<Rightarrow> 'cn \<Rightarrow> (unit, 'w) block" where
  "http1_conn_task out show_err p conn =
     block_bind (await p conn) (\<lambda>r. case r of
        Inr _ \<Rightarrow> block_return ()
      | Inl err \<Rightarrow>
          block_unwrap (so_write_all out (text_bytes (''Connection failed: '' @ show_err err))) (\<lambda>_.
          block_unwrap (so_flush out) (\<lambda>_. block_return ())))"

definition http1_client ::
  "('u, 'au, 'h, 'v) http_api \<Rightarrow> ('sa, 'tcp, 's, 'cn, 'he, 'w) http1_client_env \<Rightarrow>
     ('s, ('u, 'h, 'x, local_body) request, 'f, 'he, 'w) sender_api \<Rightarrow>
     ('f, 'he + ('p, 'b) response, 'w) pollf \<Rightarrow> ('p, 'fr, 'w) printer \<Rightarrow> ('b, 'fr, 'he, 'w) body_ops \<Rightarrow>
     'h \<Rightarrow> 'x \<Rightarrow> 'u \<Rightarrow> (('he, 'ce) st_error + unit, 'w) block" where
  "http1_client A E S p Q B no_headers no_ext url =
     (case uri_host A url of
        None \<Rightarrow> block_panic
      | Some host \<Rightarrow>
          let port = (case uri_port A url of None \<Rightarrow> 80 | Some (_, port) \<Rightarrow> port);
              addr = host @ '':'' @ show_nat (unat port)
          in block_try St_Io (he_resolve E addr) (\<lambda>addrs. case addrs of
               [] \<Rightarrow> block_panic
             | a # _ \<Rightarrow>
                 block_try St_Io (he_connect E a) (\<lambda>stream.
                 block_try St_Hyper (he_handshake E (tokio_io_new (not_send_new stream))) (\<lambda>(sender, conn).
                 block_do (he_spawn_local E (http1_conn_task (pr_out Q) (he_show_err E) (he_poll_conn E) conn))
                 (case uri_authority A url of
                    None \<Rightarrow> block_panic
                  | Some authority \<Rightarrow>
                      block_try id (rounds 4 (http1_round S p Q B
                          (http1_example_request A no_headers no_ext url authority)) sender) (\<lambda>_.
                      block_do (he_signal E) (block_return (Inr ()))))))))"

text \<open>
  The HTTP/2 client: chateau's pool layer over the crate's transport and protocol, and its
  executor service; each request runs through a clone of the client.
\<close>

definition http2_client_transport :: "'t \<Rightarrow> ('t transport_not_send, 'tt) auto_tls_transport" where
  "http2_client_transport tcp = auto_tls_new \<lparr>tns_tcp = tcp\<rparr>"

definition http2_client_service ::
  "(('t transport_not_send, 'tt) auto_tls_transport \<Rightarrow> ('b1, 'b2) alpn_builder \<Rightarrow> 'pool option \<Rightarrow> 'ex \<Rightarrow> 'c) \<Rightarrow>
     't \<Rightarrow> ('b1, 'b2) alpn_builder \<Rightarrow> 'pool \<Rightarrow> 'ex \<Rightarrow> 'c" where
  "http2_client_service pool_layer tcp_default protocol_default pool_default executor =
     pool_layer (http2_client_transport tcp_default) protocol_default (Some pool_default) executor"

definition http2_round ::
  "('c \<Rightarrow> 'c) \<Rightarrow> ('c \<Rightarrow> 'r \<Rightarrow> 'o) \<Rightarrow> ('o, 'ce + ('p, 'b) response, 'w) pollf \<Rightarrow> ('p, 'fr, 'w) printer \<Rightarrow>
     ('b, 'fr, 'he, 'w) body_ops \<Rightarrow> ('he, 'ce) st_error + 'r \<Rightarrow> 'c \<Rightarrow> (('he, 'ce) st_error + 'c, 'w) block" where
  "http2_round clone oneshot p Q B built client =
     block_try id (block_return built) (\<lambda>req.
     block_try St_Client (await p (oneshot (clone client) req)) (\<lambda>res.
     block_try St_Hyper (show_response Q B res) (\<lambda>_.
     block_return (Inr client))))"

definition http2_client ::
  "('u, 'au, 'h, 'v) http_api \<Rightarrow> ('c \<Rightarrow> 'c) \<Rightarrow> ('c \<Rightarrow> ('u, 'h, 'x, local_body) request \<Rightarrow> 'o) \<Rightarrow>
     ('o, 'ce + ('p, 'b) response, 'w) pollf \<Rightarrow> ('p, 'fr, 'w) printer \<Rightarrow> ('b, 'fr, 'he, 'w) body_ops \<Rightarrow>
     ('w \<Rightarrow> 'w) \<Rightarrow> 'h \<Rightarrow> 'x \<Rightarrow> 'c \<Rightarrow> 'u \<Rightarrow> (('he, 'ce) st_error + unit, 'w) block" where
  "http2_client A clone oneshot p Q B signal no_headers no_ext client url =
     (case uri_authority A url of
        None \<Rightarrow> block_panic
      | Some authority \<Rightarrow>
          block_try id (rounds 4 (http2_round clone oneshot p Q B
              (http2_example_request A no_headers no_ext url authority)) client) (\<lambda>_.
          block_do signal (block_return (Inr ()))))"

section \<open>The servers\<close>

text \<open>
  The HTTP/1 server: each time around its loop, \<open>select!\<close> gives the shutdown signal or what
  \<open>accept\<close> returned; which one comes next, and when, is a free event. The loop ends at the
  first signal or error; \<open>None\<close> says that it is still waiting after the events.
\<close>

datatype ('t, 'a) accept_event = Ev_Shutdown | Ev_Accepted "io_error + 't \<times> 'a"

text \<open>The task of a connection prints the error it ends with, if any.\<close>

definition http1_serve_task ::
  "('b, 'i not_send_io tokio_io, nat tower_hyper, 'c, 'h, 'w) hyper_server \<Rightarrow> ('h \<Rightarrow> 'w \<Rightarrow> 'w) \<Rightarrow>
     'i not_send_io \<Rightarrow> nat \<Rightarrow> (unit, 'w) block" where
  "http1_serve_task H println_err io service =
     block_bind (await (hs_poll H) (hs_serve_connection H (hs_builder_new H) (tokio_io_new io) (tower_hyper_new service)))
       (\<lambda>r. case r of Inl err \<Rightarrow> block_do (println_err err) (block_return ()) | Inr _ \<Rightarrow> block_return ())"

text \<open>
  A connection that is served: its stream, and the counter its service counts in. \<open>spawn\<close>
  makes it a task.
\<close>

fun http1_accept_loop ::
  "('t \<Rightarrow> 'a \<Rightarrow> 'i) \<Rightarrow> ('i not_send_io \<Rightarrow> nat \<Rightarrow> 'w \<Rightarrow> 'w) \<Rightarrow> nat \<Rightarrow> ('t, 'a) accept_event list \<Rightarrow> 'w \<Rightarrow>
     (('he, 'ce) st_error + unit) option \<times> 'w" where
  "http1_accept_loop server spawn counter [] w = (None, w)"
| "http1_accept_loop server spawn counter (Ev_Shutdown # evs) w = (Some (Inr ()), w)"
| "http1_accept_loop server spawn counter (Ev_Accepted (Inl e) # evs) w = (Some (Inl (St_Io e)), w)"
| "http1_accept_loop server spawn counter (Ev_Accepted (Inr (stream, addr)) # evs) w =
     (let io = not_send_new (server stream addr);
          cnt = counter
      in http1_accept_loop server spawn counter evs (spawn io cnt w))"

definition http1_server ::
  "(nat \<times> nat \<times> nat \<times> nat \<Rightarrow> nat \<Rightarrow> (io_error + 'l, 'm cell_world_scheme) block) \<Rightarrow>
     ('t \<Rightarrow> 'a \<Rightarrow> 'i) \<Rightarrow>
     ('b, 'i not_send_io tokio_io, nat tower_hyper, 'c, 'h, 'm cell_world_scheme) hyper_server \<Rightarrow>
     ('h \<Rightarrow> 'm cell_world_scheme \<Rightarrow> 'm cell_world_scheme) \<Rightarrow>
     ((unit, 'm cell_world_scheme) block \<Rightarrow> 'm cell_world_scheme \<Rightarrow> 'm cell_world_scheme) \<Rightarrow>
     ('t, 'a) accept_event list \<Rightarrow> (('he, 'ce) st_error + unit, 'm cell_world_scheme) block" where
  "http1_server bind server H println_err spawn_local evs =
     block_try St_Io (bind (127, 0, 0, 1) 3001) (\<lambda>listener w.
       case cell_new 0 w of
         (counter, w') \<Rightarrow>
           (case http1_accept_loop server (\<lambda>io cnt. spawn_local (http1_serve_task H println_err io cnt)) counter evs w' of
              (None, w'') \<Rightarrow> None
            | (Some r, w'') \<Rightarrow> Some (Ret r, w'')))"

text \<open>
  The HTTP/2 server: chateau's server, given the acceptor, the protocol, the service for
  each connection (a handle on the one counter), the executor and the shutdown signal.
\<close>

definition http2_make_service :: "nat \<Rightarrow> 'cn \<Rightarrow> 'e + nat" where
  "http2_make_service counter conn = Inr counter"

definition http2_server ::
  "(nat \<times> nat \<times> nat \<times> nat \<Rightarrow> nat \<Rightarrow> (io_error + 'l, 'm cell_world_scheme) block) \<Rightarrow>
     'm cell_world_scheme stdout_api \<Rightarrow> (local_exec \<Rightarrow> 'b) \<Rightarrow>
     ('l accept_not_send \<Rightarrow> 'b http2_builder \<Rightarrow> ('cn \<Rightarrow> 'he + nat) \<Rightarrow> local_exec \<Rightarrow>
        (unit, 'm cell_world_scheme) block \<Rightarrow> ('se + unit, 'm cell_world_scheme) block) \<Rightarrow>
     ('rx, 'sig, 'm cell_world_scheme) pollf \<Rightarrow> 'rx \<Rightarrow>
     (('he, 'se) st_error + unit, 'm cell_world_scheme) block" where
  "http2_server bind out builder_new serve prx rx w =
     (case cell_new 0 w of
        (counter, w') \<Rightarrow>
          block_try St_Io (bind (127, 0, 0, 1) 3000) (\<lambda>listener.
          block_unwrap (so_write_all out (text_bytes ''Listening on http://127.0.0.1:3000'')) (\<lambda>_.
          block_unwrap (so_flush out) (\<lambda>_.
          block_try St_Client
            (serve (accept_not_send_new listener) (http2_builder_new builder_new LocalExec)
              (http2_make_service counter) LocalExec (block_bind (await prx rx) (\<lambda>_. block_return ()))) (\<lambda>_.
          block_return (Inr ()))))) w')"

section \<open>The main function\<close>

text \<open>
  A thread runs a block to its end and unwraps the result. \<open>main\<close> joins the four threads in
  turn: it waits for each, and panics at the first that did.
\<close>

definition thread_outcome :: "('e + 'a) outcome option \<Rightarrow> unit outcome option" where
  "thread_outcome r =
     (case r of
        None \<Rightarrow> None
      | Some (Ret (Inr _)) \<Rightarrow> Some (Ret ())
      | Some (Ret (Inl _)) \<Rightarrow> Some Panic
      | Some Panic \<Rightarrow> Some Panic)"

fun join_unwrap :: "unit outcome option list \<Rightarrow> unit outcome option" where
  "join_unwrap [] = Some (Ret ())"
| "join_unwrap (None # ts) = None"
| "join_unwrap (Some Panic # ts) = Some Panic"
| "join_unwrap (Some (Ret _) # ts) = join_unwrap ts"

definition example_main ::
  "('e + unit) outcome option \<Rightarrow> ('e + unit) outcome option \<Rightarrow> ('e + unit) outcome option \<Rightarrow>
     ('e + unit) outcome option \<Rightarrow> unit outcome option" where
  "example_main server_http2 client_http2 server_http1 client_http1 =
     join_unwrap (map thread_outcome [server_http2, client_http2, server_http1, client_http1])"

end
