(* ===== verification/Example_Run.thy ===== *)
theory Example_Run
  imports Example_Single_Threaded
begin

text \<open>
  What the single-threaded example does when it runs: what its HTTP/1 server accepts, the
  HTTP/1 client's requests through the server's counting service to what is printed, when
  the shutdown signal is sent, and the protocol its HTTP/2 client connects with.
\<close>

section \<open>The HTTP/1 server\<close>

fun accepted :: "('t, 'a) accept_event list \<Rightarrow> ('t \<times> 'a) list \<times> ('t, 'a) accept_event list" where
  "accepted (Ev_Accepted (Inr c) # evs) = (case accepted evs of (cs, rest) \<Rightarrow> (c # cs, rest))"
| "accepted evs = ([], evs)"

text \<open>
  The accept loop, for every sequence of events. Each connection accepted before the first
  shutdown signal or accept error is spawned, once and in order, with a service that counts
  in the server's one counter; nothing after that event is looked at. The server returns
  without an error at a signal, with the error of \<open>accept\<close> at an error, and waits otherwise.
\<close>

theorem http1_server_accepts:
  "http1_accept_loop server spawn counter evs w =
     (case accepted evs of (cs, rest) \<Rightarrow>
        (case rest of
           [] \<Rightarrow> None
         | Ev_Shutdown # _ \<Rightarrow> Some (Inr ())
         | Ev_Accepted (Inl e) # _ \<Rightarrow> Some (Inl (St_Io e))
         | Ev_Accepted (Inr _) # _ \<Rightarrow> None,
         fold (\<lambda>(stream, addr). spawn (not_send_new (server stream addr)) counter) cs w))"
  by (induction server spawn counter evs w rule: http1_accept_loop.induct)
    (auto simp: Let_def split: prod.splits)

section \<open>When the shutdown signal is sent\<close>

text \<open>
  The HTTP/1 client sends the shutdown signal exactly when all four requests went well, once
  and as its last action: on every other path (an error anywhere, a panic, a wait that never
  ends) it does what it would do if there were no signal.
\<close>

theorem http1_client_signals:
  "http1_client A E S p Q B hs x url w =
     (case http1_client A (E\<lparr>he_signal := id\<rparr>) S p Q B hs x url w of
        Some (Ret (Inr u), w') \<Rightarrow> Some (Ret (Inr u), he_signal E w')
      | r \<Rightarrow> r)"
  by (auto simp: http1_client_def block_defs Let_def split: option.split outcome.split sum.split prod.split list.split)

section \<open>Four requests to the counting server\<close>

lemma show_response_shown:
  assumes "stdout_laws (pr_out Q) obs" and "body_delivers B (pr_data_ref Q) obs (rs_body res) bs None"
    and "obs w = (printed, rest)"
  shows "\<exists>w'. show_response Q B res w = Some (Ret (Inr ()), w')
    \<and> obs w' = (printed @ response_head Q (rs_parts res) @ bs @ separator, rest)"
proof -
  let ?out = "pr_out Q"
  let ?l1 = "text_bytes (''Response: '' @ pr_status Q (rs_parts res) @ newline)"
  let ?l2 = "text_bytes (''Headers: '' @ pr_headers Q (rs_parts res) @ newline)"
  obtain w1 where w1: "so_write_all ?out ?l1 w = Some (Ret (Inr ()), w1)" "obs w1 = (printed @ ?l1, rest)"
    by (rule stdout_write [OF assms(1,3), of ?l1])
  obtain w2 where w2: "so_write_all ?out ?l2 w1 = Some (Ret (Inr ()), w2)" "obs w2 = ((printed @ ?l1) @ ?l2, rest)"
    by (rule stdout_write [OF assms(1) w1(2), of ?l2])
  obtain w3 where w3: "so_flush ?out w2 = Some (Ret (Inr ()), w3)" "obs w3 = obs w2"
    by (rule stdout_flush [OF assms(1)])
  obtain w4 where w4: "print_frames B (pr_data_ref Q) ?out (rs_body res) w3 = Some (Ret (Inr ()), w4)"
      "obs w4 = (((printed @ ?l1) @ ?l2) @ bs, rest)"
    using print_frames_delivers [OF assms(1,2), of w3 "(printed @ ?l1) @ ?l2" rest] w3(2) w2(2) by auto
  obtain w5 where w5: "so_write_all ?out separator w4 = Some (Ret (Inr ()), w5)"
      "obs w5 = ((((printed @ ?l1) @ ?l2) @ bs) @ separator, rest)"
    by (rule stdout_write [OF assms(1) w4(2)])
  obtain w6 where w6: "so_flush ?out w5 = Some (Ret (Inr ()), w6)" "obs w6 = obs w5"
    by (rule stdout_flush [OF assms(1)])
  have "show_response Q B res w = Some (Ret (Inr ()), w6)"
    by (simp only: show_response_def Let_def block_unwrap_def block_try_def block_bind_def block_return_def
        w1(1) w2(1) w3(1) w4(1) w5(1) w6(1) option.case prod.case outcome.case sum.case)
  moreover have "obs w6 = (printed @ response_head Q (rs_parts res) @ bs @ separator, rest)"
    by (simp only: w6(2) w5(2) response_head_def text_bytes_append append_assoc)
  ultimately show ?thesis by blast
qed

text \<open>
  The peer at the other end of hyper's connection is the counting service: a request that is
  sent is called on it once, in the state it is in, and the response that arrives has a body
  with the bytes of the one the service gave. What the connection does to the status and the
  headers is left open.
\<close>

definition sent_bytes :: "local_body \<Rightarrow> byte list" where
  "sent_bytes b = concat (fst (frames (local_body_ops id :: (local_body, byte list, unit, unit) body_ops) 2 b ()))"

definition counting_peer ::
  "('s, 'r, 'f, 'he, 'w) sender_api \<Rightarrow> ('f, 'he + ('p, 'b) response, 'w) pollf \<Rightarrow> ('b, 'fr, 'he, 'w) body_ops \<Rightarrow>
     ('fr \<Rightarrow> byte list option) \<Rightarrow> ('m cell_world_scheme \<times> bool, 'w) observer \<Rightarrow> bool \<Rightarrow> string \<Rightarrow> 'q \<Rightarrow> nat \<Rightarrow> bool" where
  "counting_peer S p B dref obs dbg prefix parts cnt \<longleftrightarrow>
     (\<forall>s req w printed server told resp server'.
        obs w = (printed, server, told) \<and>
        out_res (run_call (count_service dbg prefix parts :: (nat, 'r, count_future, unit, ('q, local_body) response, _) service)
          1 cnt req server) = (Ready (Inr resp), server') \<longrightarrow>
        (\<exists>res s' w'. exchange S p s req w = Some (Ret (Inr res, s'), w')
          \<and> obs w' = (printed, server', told)
          \<and> body_delivers B dref obs (rs_body res) (sent_bytes (rs_body resp)) None))"

lemma counting_peerD:
  assumes "counting_peer S p B dref obs dbg prefix parts cnt" and "obs w = (printed, server, told)"
    and "out_res (run_call (count_service dbg prefix parts :: (nat, 'r, count_future, unit, ('q, local_body) response, _) service)
      1 cnt req server) = (Ready (Inr resp), server')"
  obtains res s' w' where "exchange S p s req w = Some (Ret (Inr res, s'), w')"
    "obs w' = (printed, server', told)" "body_delivers B dref obs (rs_body res) (sent_bytes (rs_body resp)) None"
  using assms unfolding counting_peer_def by blast

lemma sent_bytes_from [simp]: "sent_bytes (local_body_from s) = text_bytes s"
  by (simp add: sent_bytes_def numeral_2_eq_2 local_body_frames del: frames.simps)

lemma count_run:
  assumes "cells server cnt = Some (of_nat k)" and "k < 2147483647"
  shows "out_res (run_call (count_service dbg prefix parts) 1 cnt req server) =
    (Ready (Inr \<lparr>rs_parts = parts, rs_body = local_body_from (prefix @ show_nat (Suc k))\<rparr>),
      server\<lparr>cells := (cells server)(cnt \<mapsto> of_nat (Suc k))\<rparr>)"
proof -
  have "count_call dbg cnt req server =
      (Ret (Count_Ready (of_nat (Suc k))), cnt, server\<lparr>cells := (cells server)(cnt \<mapsto> of_nat (Suc k))\<rparr>)"
    using assms by (simp add: count_call_number)
  moreover have "show_i32 (of_nat (Suc k)) = show_nat (Suc k)"
    using assms(2) by (intro show_i32_of_nat) simp
  ultimately show ?thesis
    by (simp add: run_call_def count_service_def count_poll_def del: of_nat_Suc)
qed

text \<open>One round: the text of the next number, between the head of the response and the line.\<close>

lemma http1_round_counts:
  assumes "stdout_laws (pr_out Q) obs"
    and "counting_peer S p B (pr_data_ref Q) obs dbg prefix parts cnt"
    and "obs w = (printed, server, told)" and "cells server cnt = Some (of_nat k)" and "k < 2147483647"
  shows "\<exists>q s' w'. http1_round S p Q B (Inr req) s w = Some (Ret (Inr s'), w')
    \<and> obs w' = (printed @ response_head Q q @ text_bytes (prefix @ show_nat (Suc k)) @ separator,
        server\<lparr>cells := (cells server)(cnt \<mapsto> of_nat (Suc k))\<rparr>, told)"
proof -
  let ?server = "server\<lparr>cells := (cells server)(cnt \<mapsto> of_nat (Suc k))\<rparr>"
  obtain res s' w1 where x: "exchange S p s req w = Some (Ret (Inr res, s'), w1)" "obs w1 = (printed, ?server, told)"
    and b: "body_delivers B (pr_data_ref Q) obs (rs_body res) (text_bytes (prefix @ show_nat (Suc k))) None"
    by (rule counting_peerD [OF assms(2,3) count_run [OF assms(4,5)], of s req]) simp
  from show_response_shown [OF assms(1) b x(2)] obtain w2 where
    "show_response Q B res w1 = Some (Ret (Inr ()), w2)"
    "obs w2 = (printed @ response_head Q (rs_parts res) @ text_bytes (prefix @ show_nat (Suc k)) @ separator, ?server, told)"
    by blast
  with x(1) show ?thesis
    by (intro exI [of _ "rs_parts res"] exI [of _ s'] exI [of _ w2]) (simp add: http1_round_def block_defs)
qed

fun numbered_output :: "('p, 'fr, 'w) printer \<Rightarrow> string \<Rightarrow> nat \<Rightarrow> 'p list \<Rightarrow> byte list" where
  "numbered_output Q prefix k [] = []"
| "numbered_output Q prefix k (q # qs) =
     response_head Q q @ text_bytes (prefix @ show_nat (Suc k)) @ separator @ numbered_output Q prefix (Suc k) qs"

lemma http1_rounds_count:
  assumes "stdout_laws (pr_out Q) obs"
    and "counting_peer S p B (pr_data_ref Q) obs dbg prefix parts cnt"
    and "obs w = (printed, server, told)" and "cells server cnt = Some (of_nat k)" and "k + n \<le> 2147483647"
    and R: "R = http1_round S p Q B (Inr req)"
  shows "\<exists>qs s' w' server'. rounds n R s w = Some (Ret (Inr s'), w')
    \<and> length qs = n \<and> cells server' cnt = Some (of_nat (k + n))
    \<and> obs w' = (printed @ numbered_output Q prefix k qs, server', told)"
  using assms(3-5)
proof (induction n arbitrary: s w printed server k)
  case 0
  then show ?case by (simp add: block_return_def)
next
  case (Suc n)
  let ?server = "server\<lparr>cells := (cells server)(cnt \<mapsto> of_nat (Suc k))\<rparr>"
  have k: "k < 2147483647" using Suc.prems(3) by simp
  obtain q s1 w1 where r: "R s w = Some (Ret (Inr s1), w1)"
    and o: "obs w1 = (printed @ response_head Q q @ text_bytes (prefix @ show_nat (Suc k)) @ separator, ?server, told)"
    using http1_round_counts [OF assms(1,2) Suc.prems(1,2) k] unfolding R by blast
  have "cells ?server cnt = Some (of_nat (Suc k))" "Suc k + n \<le> 2147483647" using Suc.prems(3) by simp_all
  from Suc.IH [OF o this, of s1] obtain qs s' w' server' where
    "rounds n R s1 w1 = Some (Ret (Inr s'), w')" "length qs = n"
    "cells server' cnt = Some (of_nat (Suc k + n))"
    "obs w' = ((printed @ response_head Q q @ text_bytes (prefix @ show_nat (Suc k)) @ separator) @
       numbered_output Q prefix (Suc k) qs, server', told)" by blast
  with r show ?case
    by (intro exI [of _ "q # qs"] exI [of _ s'] exI [of _ w'] exI [of _ server']) (simp add: block_defs)
qed

text \<open>
  The client's surroundings when all is well: the URL has a host and an authority that is a
  header value, names resolve, connections and handshakes succeed, and none of this is seen
  by the server or on standard output. The signal is received.
\<close>

definition http1_env_laws ::
  "('u, 'au, 'h, 'v) http_api \<Rightarrow> ('sa, 'tcp, 's, 'cn, 'he, 'w) http1_client_env \<Rightarrow> ('m cell_world_scheme \<times> bool, 'w) observer \<Rightarrow> 'u \<Rightarrow> bool" where
  "http1_env_laws A E obs url \<longleftrightarrow>
     (\<exists>host auth v. uri_host A url = Some host \<and> uri_authority A url = Some auth
        \<and> hv_from_str A (authority_str A auth) = Some v)
   \<and> (\<forall>addr w. \<exists>a as w'. he_resolve E addr w = Some (Ret (Inr (a # as)), w') \<and> obs w' = obs w)
   \<and> (\<forall>a w. \<exists>stream w'. he_connect E a w = Some (Ret (Inr stream), w') \<and> obs w' = obs w)
   \<and> (\<forall>io w. \<exists>sender conn w'. he_handshake E io w = Some (Ret (Inr (sender, conn)), w') \<and> obs w' = obs w)
   \<and> (\<forall>task w. obs (he_spawn_local E task w) = obs w)
   \<and> (\<forall>w. obs (he_signal E w) = (case obs w of (printed, server, told) \<Rightarrow> (printed, server, True)))"


text \<open>
  An instance: the client and the server in one world, a request answered by the service at
  the moment it is sent.
\<close>

type_synonym joint_world = "byte list \<times> cell_world \<times> bool"

definition joint_stdout :: "joint_world stdout_api" where
  "joint_stdout =
     \<lparr>so_write_all = (\<lambda>bs (printed, rest). Some (Ret (Inr ()), (printed @ bs, rest))),
      so_flush = (\<lambda>w. Some (Ret (Inr ()), w))\<rparr>"

definition joint_printer :: "(unit, byte list, joint_world) printer" where
  "joint_printer = \<lparr>pr_out = joint_stdout, pr_status = (\<lambda>_. ''200 OK''), pr_headers = (\<lambda>_. ''{}''), pr_data_ref = Some\<rparr>"

definition joint_sender ::
  "(unit, 'r, (unit + (unit, local_body) response) polled, unit, joint_world) sender_api" where
  "joint_sender =
     \<lparr>snd_send = (\<lambda>s req (printed, server, told).
        case out_res (run_call (count_service True http1_prefix ()) 1 0 req server) of
          (res, server') \<Rightarrow> (res, s, (printed, server', told))),
      snd_poll_ready = (\<lambda>s w. (Ready (Inr ()), s, w)), snd_is_ready = (\<lambda>s w. True), snd_clone = id\<rparr>"

definition joint_poll ::
  "((unit + (unit, local_body) response) polled, unit + (unit, local_body) response, joint_world) pollf" where
  "joint_poll f w = (f, f, w)"

definition joint_env :: "(unit, unit, unit, unit, unit, joint_world) http1_client_env" where
  "joint_env =
     \<lparr>he_resolve = (\<lambda>addr. block_return (Inr [()])), he_connect = (\<lambda>a. block_return (Inr ())),
      he_handshake = (\<lambda>io. block_return (Inr ((), ()))), he_spawn_local = (\<lambda>task w. w),
      he_poll_conn = (\<lambda>c w. (Ready (Inr ()), c, w)), he_show_err = (\<lambda>e. []),
      he_signal = (\<lambda>(printed, server, told). (printed, server, True))\<rparr>"

definition joint_url :: plain_uri where
  "joint_url = \<lparr>pu_scheme = Some ''http'', pu_authority = Some \<lparr>pa_host = ''localhost'', pa_port = Some (''3001'', 3001)\<rparr>,
     pu_path = Some ''/''\<rparr>"

lemma joint_stdout_laws: "stdout_laws joint_stdout id"
  by (auto simp: stdout_laws_def joint_stdout_def)

lemma local_body_delivers:
  fixes obs :: "'w \<Rightarrow> 'k"
  defines "B \<equiv> local_body_ops id :: (local_body, byte list, 'e, 'w) body_ops"
  shows "body_delivers B Some obs b (case lb_data b of None \<Rightarrow> [] | Some d \<Rightarrow> d) None"
proof -
  have poll: "await_mut (poll_frame B) b w =
      Some (Ret (map_option (\<lambda>d. Inr d) (lb_data b), b\<lparr>lb_data := None\<rparr>), w)" for b w
    by (rule await_mut_ready) (simp add: B_def local_body_ops_def local_body_poll_frame_def)
  have "body_delivers B Some obs b [] None" if "lb_data b = None" for b
    by (rule delivers_end) (simp add: poll that)
  moreover have "body_delivers B Some obs b (d @ []) None"
    if d: "lb_data b = Some d" and e: "body_delivers B Some obs (b\<lparr>lb_data := None\<rparr>) [] None" for d
    by (rule delivers_data [OF _ _ e]) (simp_all add: poll d)
  ultimately show ?thesis by (auto split: option.split)
qed

lemma sent_bytes_data: "sent_bytes b = (case lb_data b of None \<Rightarrow> [] | Some d \<Rightarrow> d)"
  by (simp add: sent_bytes_def numeral_2_eq_2 local_body_ops_def local_body_poll_frame_def split: option.split)

lemma joint_peer: "counting_peer joint_sender joint_poll (local_body_ops id) Some id True http1_prefix () 0"
  unfolding counting_peer_def
proof (intro allI impI, elim conjE)
  fix s req and w :: joint_world and printed server told resp server'
  assume w: "id w = (printed, server, told)"
    and r: "out_res (run_call (count_service True http1_prefix () ::
      (nat, 'a, count_future, unit, (unit, local_body) response, _) service) 1 0 req server) =
      (Ready (Inr resp), server')"
  have "exchange joint_sender joint_poll s req w = Some (Ret (Inr resp, s), (printed, server', told))"
    using w r
    by (simp add: exchange_def joint_sender_def await_def block_bind_def block_return_def
        await_mut_ready [of joint_poll] joint_poll_def)
  then show "\<exists>res s' w'. exchange joint_sender joint_poll s req w = Some (Ret (Inr res, s'), w')
      \<and> id w' = (printed, server', told) \<and> body_delivers (local_body_ops id) Some id (rs_body res) (sent_bytes (rs_body resp)) None"
    by (intro exI [of _ resp] exI) (simp add: sent_bytes_data local_body_delivers)
qed

lemma joint_env_laws: "http1_env_laws plain_api joint_env id joint_url"
  by (auto simp: http1_env_laws_def joint_env_def joint_url_def block_return_def api_simps)


section \<open>The HTTP/2 client\<close>

text \<open>
  C37: The protocol the HTTP/2 client speaks. Its transport has no TLS and its protocol is the
  default automatic one, which starts with HTTP/1 and changes to HTTP/2 only when TLS
  negotiated it. So every connection it makes is an HTTP/1 connection, and a request it
  builds for HTTP/2 is sent as an HTTP/1.1 request: the version of the request decides
  nothing. The server it is meant for serves HTTP/2 only.
\<close>

theorem http2_client_speaks_http1:
  fixes E :: "('s, ('s1, 's2) http_connection \<times> ('u, 'h, 'x, local_body) request, 'f, 'e, 'a, 'w) service"
  assumes "http2_example_request A hs x url auth = Inr r"
    and "run_call (auto_tls_ops A P (transport_not_send_ops T) TT ce) k (http2_client_transport tcp) r w0 =
      (Ready (Inr io), tr', w1)"
    and "out_res (run_polls (alpn_handshake_poll (client_stream_tls_info ti) L H1 p1 spawn1 H2 p2 spawn2) (Suc m)
      (fst (alpn_call clone1 clone2 (alpn_builder_default H1 http2_new executor) io)) w1) = (Ready (Inr c), w2)"
    and "executor_law (http_connection_ops S1 S2) (send_request_future_poll p) g E"
  shows "rq_version r = HTTP_2 \<and> (\<exists>s. c = Inner_H1 s
    \<and> out_res (run_call E (Suc n) e (c, r) w) =
        map_prod (map_polled g) id (sent_on S1 p (Suc n) s (r\<lparr>rq_version := HTTP_11\<rparr>) w))"
proof -
  have "\<not> stream_is_tls io"
    using assms(2) unfolding auto_tls_run [THEN conjunct1] http2_client_transport_def auto_tls_new_def
    by (auto simp: stream_is_tls_def map_res_eq_iff lift_res_eq_iff eq_commute [of "Ready _"] Inr_eq_map_sum)
  then have "Option.bind (client_stream_tls_info ti io) (tls_alpn L) \<noteq> Some ''h2''"
    using plain_stream_no_alpn by blast
  with alpn_connected [OF assms(3)] obtain s where "c = Inner_H1 s"
    by (cases c) (auto simp: alpn_builder_default_def)
  moreover have "rq_version r = HTTP_2"
    using assms(1) by (auto simp: http2_example_request_def Inr_eq_map_sum eq_commute [of "map_ok _ _"])
  ultimately show ?thesis using executor_sends [OF assms(4)] by simp
qed

text \<open>An example: a transport that connects at once, and senders that echo the request.\<close>

definition h2_example_request :: "(plain_uri, (string \<times> string) list, unit, local_body) request" where
  "h2_example_request =
     \<lparr>rq_method = GET, rq_uri = joint_url, rq_version = HTTP_2, rq_headers = [(HOST, ''localhost:3001'')], rq_ext = (),
      rq_body = local_body_from ''test''\<rparr>"

definition paired_tls :: "('t, 'cfg, 't \<times> 'cfg) tls_transport_api" where
  "paired_tls =
     \<lparr>tt_new = Pair, tt_transport = fst, tt_set_transport = (\<lambda>(t, c) t'. (t', c)), tt_config = snd\<rparr>"

lemma http2_client_speaks_http1_witness:
  "out_res (run_call
      (paired_executor (request_executor_ops (http_connection_ops echo_sender echo_sender)
         (send_request_future_poll echo_response) BoxError id) :: (_, _, _, string client_error, _, _) service) (Suc 0)
      Request_Executor (Inner_H1 (), h2_example_request) ()) =
    (Ready (Inr \<lparr>rs_parts = h2_example_request\<lparr>rq_version := HTTP_11\<rparr>, rs_body = ()\<rparr>), ())"
proof -
  let ?io = "\<lparr>cs_inner = OptTls_NoTls (Some ''h2'')\<rparr> :: (string option, string option) client_stream"
  have built: "http2_example_request plain_api [] () joint_url \<lparr>pa_host = ''localhost'', pa_port = Some (''3001'', 3001)\<rparr> =
      (Inr h2_example_request :: (unit, unit) st_error + _)"
    by (simp add: http2_example_request_def http1_example_request_def api_simps h2_example_request_def)
  have connected: "run_call (auto_tls_ops plain_api (paired_tls :: (_, unit, _) tls_transport_api)
        (transport_not_send_ops tls_connector)
        \<lparr>poll_ready = (\<lambda>s w. (Ready (Inr ()), s, w)), call = (\<lambda>s r w. (Ret (), s, w)), poll_fut = poll_fut tls_connector\<rparr> id)
      (Suc 0) (http2_client_transport ()) h2_example_request () = (Ready (Inr ?io), http2_client_transport (), ())"
    unfolding auto_tls_run [THEN conjunct1]
    by (simp add: http2_client_transport_def auto_tls_new_def run_call_def transport_not_send_ops_def tls_connector_def)
  have shaken: "out_res (run_polls (alpn_handshake_poll (client_stream_tls_info Some) h2_session
      unit_hyper_client unit_handshake (\<lambda>_ w. w) unit_hyper_client unit_handshake (\<lambda>_ w. w)) (Suc 0)
      (fst (alpn_call id id (alpn_builder_default unit_hyper_client id ()) ?io)) ()) =
      (Ready (Inr (Inner_H1 () :: (unit, unit) http_connection)), ())"
    unfolding out_res_def alpn_run
    by (simp add: alpn_builder_default_def alpn_multiplex_ready_def client_stream_tls_info_def h2_session_def
        unit_handshake_def handshake_result_def)
  have law: "executor_law (http_connection_ops echo_sender echo_sender) (send_request_future_poll echo_response)
      (map_sum (\<lambda>e. Err_Connection (BoxError e)) (map_response_body id))
      (paired_executor (request_executor_ops (http_connection_ops echo_sender echo_sender)
         (send_request_future_poll echo_response) BoxError id) :: (_, _, _, string client_error, _, _) service)"
    by (rule request_executor_law)
  from http2_client_speaks_http1 [OF built connected shaken law, of 0 Request_Executor "()"]
  show ?thesis
    by (simp add: sent_on_def echo_sender_def echo_response_def map_response_body_def)
qed

end
