(* ===== verification/Example_Cli.thy ===== *)
theory Example_Cli
  imports Example_Io Client_Path Client_Api
begin

text \<open>
  The command line clients (\<open>examples/client/httpbin.rs\<close>, \<open>hurl.rs\<close>, \<open>profile.rs\<close> and
  \<open>google.rs\<close>) and the configuration of the TLS server (\<open>examples/server/h2.rs\<close>): how a
  request is built from the arguments, with every way in which an argument is refused, and
  what is done with the response. Clap's parsed arguments are a record; sockets, the
  telemetry and standard output are parameters.
\<close>

section \<open>Arguments\<close>

text \<open>The parsed arguments of all four programs; \<open>clap\<close> guarantees \<open>1 \<le> ca_repeat\<close>.\<close>

record cli_args =
  ca_uri :: string
  ca_method :: string
  ca_body :: "string option"
  ca_headers :: "string list"
  ca_timeout :: nat
  ca_repeat :: nat
  ca_http1 :: bool
  ca_http2 :: bool
  ca_tls :: "string option"

text \<open>What a boxed error was made from: an argument, or what came after.\<close>

datatype arg_error = Bad_Method | Bad_Uri | Bad_Uri_Parts | Bad_Header_Name | Bad_Header_Value

datatype ('ce, 'be) cli_error = Cli_Args arg_error | Cli_Client 'ce | Cli_Body 'be | Cli_Io io_error

text \<open>
  What the programs use of the http crate beside \<open>http_api\<close>: methods and their names, paths,
  header names, appending to a header map, and the entries of a header map in order.
\<close>

record ('h, 'v) http_parsing =
  method_from_str :: "string \<Rightarrow> http_method option"
  method_str :: "http_method \<Rightarrow> string"
  path_from_str :: "string \<Rightarrow> string option"
  name_from_str :: "string \<Rightarrow> string option"
  hdr_append :: "'h \<Rightarrow> string \<Rightarrow> 'v \<Rightarrow> 'h"
  hdr_iter :: "'h \<Rightarrow> (string \<times> 'v) list"

section \<open>Headers\<close>

text \<open>
  One \<open>--header\<close> argument: \<open>splitn(2, ':')\<close>, the name before the value. A name that does not
  parse is an error; a missing value is a panic of \<open>unwrap\<close>.
\<close>

definition parse_header ::
  "('u, 'au, 'h, 'v) http_api \<Rightarrow> ('h, 'v) http_parsing \<Rightarrow> string \<Rightarrow>
     (arg_error + string \<times> 'v) outcome" where
  "parse_header A X header =
     (case splitn2_colon header of (first, second) \<Rightarrow>
        (case name_from_str X (trim first) of
           None \<Rightarrow> Ret (Inl Bad_Header_Name)
         | Some name \<Rightarrow>
             (case second of
                None \<Rightarrow> Panic
              | Some value \<Rightarrow>
                  (case hv_from_str A (trim value) of
                     None \<Rightarrow> Ret (Inl Bad_Header_Value)
                   | Some v \<Rightarrow> Ret (Inr (name, v))))))"

fun append_headers ::
  "('u, 'au, 'h, 'v) http_api \<Rightarrow> ('h, 'v) http_parsing \<Rightarrow> 'h \<Rightarrow> string list \<Rightarrow>
     (arg_error + 'h) outcome" where
  "append_headers A X hdrs [] = Ret (Inr hdrs)"
| "append_headers A X hdrs (header # headers) =
     (case parse_header A X header of
        Panic \<Rightarrow> Panic
      | Ret (Inl e) \<Rightarrow> Ret (Inl e)
      | Ret (Inr (name, value)) \<Rightarrow> append_headers A X (hdr_append X hdrs name value) headers)"

text \<open>The user agent first, then the arguments.\<close>

definition cli_headers ::
  "('u, 'au, 'h, 'v) http_api \<Rightarrow> ('h, 'v) http_parsing \<Rightarrow> string \<Rightarrow> 'h \<Rightarrow> string list \<Rightarrow>
     (arg_error + 'h) outcome" where
  "cli_headers A X agent hdrs headers =
     (case hv_from_str A agent of
        None \<Rightarrow> Ret (Inl Bad_Header_Value)
      | Some v \<Rightarrow> append_headers A X (hdr_append X hdrs ''user-agent'' v) headers)"

section \<open>The request of httpbin and profile\<close>

definition method_uri ::
  "('u, 'au, 'h, 'v) http_api \<Rightarrow> ('h, 'v) http_parsing \<Rightarrow> 'u \<Rightarrow> http_method \<Rightarrow> arg_error + 'u" where
  "method_uri A X uri meth =
     (case path_from_str X (''/'' @ to_lowercase (method_str X meth)) of
        None \<Rightarrow> Inl Bad_Uri
      | Some path \<Rightarrow>
          (case uri_from_parts A (uri_scheme A uri) (uri_authority A uri) (Some path) of
             None \<Rightarrow> Inl Bad_Uri_Parts
           | Some u \<Rightarrow> Inr u))"

definition cli_body :: "(byte list \<Rightarrow> 'f) \<Rightarrow> string option \<Rightarrow> ('f, 'i, 'a) body" where
  "cli_body full_new arg =
     (case arg of Some body \<Rightarrow> body_from_string full_new (text_bytes body) | None \<Rightarrow> body_empty)"

text \<open>
  \<open>build_request\<close> of \<open>profile.rs\<close>; \<open>main\<close> of \<open>httpbin.rs\<close> has the same lines. With the
  method and the URI already parsed, the request builder cannot fail.
\<close>

definition build_request ::
  "('u, 'au, 'h, 'v) http_api \<Rightarrow> ('h, 'v) http_parsing \<Rightarrow> (byte list \<Rightarrow> 'f) \<Rightarrow> 'h \<Rightarrow> 'x \<Rightarrow> cli_args \<Rightarrow> 'u \<Rightarrow>
     (arg_error + ('u, 'h, 'x, ('f, 'i, 'a) body) request) outcome" where
  "build_request A X full_new no_headers no_ext args uri =
     (case method_from_str X (ca_method args) of
        None \<Rightarrow> Ret (Inl Bad_Method)
      | Some meth \<Rightarrow>
          (case method_uri A X uri meth of
             Inl e \<Rightarrow> Ret (Inl e)
           | Inr uri \<Rightarrow>
               (let req = \<lparr>rq_method = meth, rq_uri = uri, rq_version = HTTP_11, rq_headers = no_headers,
                           rq_ext = no_ext, rq_body = cli_body full_new (ca_body args)\<rparr>;
                    req = (if ca_http2 args then req\<lparr>rq_version := HTTP_2\<rparr> else req)
                in map_outcome (map_ok (\<lambda>hdrs. req\<lparr>rq_headers := hdrs\<rparr>))
                     (cli_headers A X ''hyperdriver/0.12.8'' (rq_headers req) (ca_headers args)))))"

text \<open>The header arguments that are accepted, that are refused with an error, and that panic.\<close>

definition header_accepted where
  "header_accepted A X header name v \<longleftrightarrow>
     (\<exists>n value. splitn2_colon header = (n, Some value) \<and> name_from_str X (trim n) = Some name
        \<and> hv_from_str A (trim value) = Some v)"

definition header_without_colon where
  "header_without_colon X header \<longleftrightarrow> CHR '':'' \<notin> set header \<and> name_from_str X (trim header) \<noteq> None"

lemma parse_header_cases:
  "parse_header A X header = Ret (Inr (name, v)) \<longleftrightarrow> header_accepted A X header name v"
  "parse_header A X header = Panic \<longleftrightarrow> header_without_colon X header"
proof -
  obtain n rest where s: "splitn2_colon header = (n, rest)" by (cases "splitn2_colon header") auto
  show "parse_header A X header = Ret (Inr (name, v)) \<longleftrightarrow> header_accepted A X header name v"
    by (auto simp: parse_header_def header_accepted_def s split: option.splits)
  show "parse_header A X header = Panic \<longleftrightarrow> header_without_colon X header"
    using splitn2_colon_none [of header n] splitn2_colon_no_colon [of header]
    by (cases rest) (auto simp: parse_header_def header_without_colon_def s split: option.splits)
qed

lemma parse_header_accepted: "header_accepted A X header name v \<Longrightarrow> parse_header A X header = Ret (Inr (name, v))"
  by (simp add: parse_header_cases)

lemma parse_header_panics: "header_without_colon X header \<Longrightarrow> parse_header A X header = Panic"
  by (simp add: parse_header_cases)

lemma append_headers_accepted:
  assumes "list_all2 (\<lambda>header (name, v). header_accepted A X header name v) headers pairs"
  shows "append_headers A X hdrs (headers @ more_headers) =
    append_headers A X (foldl (\<lambda>h (name, v). hdr_append X h name v) hdrs pairs) more_headers"
  using assms
proof (induction arbitrary: hdrs rule: list_all2_induct)
  case Nil
  then show ?case by simp
next
  case (Cons header headers pair pairs)
  obtain name v where pair: "pair = (name, v)" by (cases pair)
  have "header_accepted A X header name v" using Cons(1) by (simp add: pair)
  with Cons.IH show ?case by (simp add: pair parse_header_accepted)
qed

lemma append_headers_all:
  assumes "list_all2 (\<lambda>header (name, v). header_accepted A X header name v) headers pairs"
  shows "append_headers A X hdrs headers = Ret (Inr (foldl (\<lambda>h (name, v). hdr_append X h name v) hdrs pairs))"
  using append_headers_accepted [OF assms, of hdrs "[]"] by simp

text \<open>The headers panic exactly at the first argument that is not accepted, when it has no colon.\<close>

definition header_ok where
  "header_ok A X header \<longleftrightarrow> (\<exists>name v. header_accepted A X header name v)"

lemma append_headers_panics:
  "append_headers A X hdrs headers = Panic \<longleftrightarrow>
     (\<exists>pre header post. headers = pre @ header # post \<and> header_without_colon X header
        \<and> (\<forall>h\<in>set pre. header_ok A X h))"
proof (induction headers arbitrary: hdrs)
  case Nil
  then show ?case by simp
next
  case (Cons h headers)
  show ?case
  proof (cases "header_ok A X h")
    case True
    then obtain name v where ok: "header_accepted A X h name v" by (auto simp: header_ok_def)
    have "\<not> header_without_colon X h"
      using ok by (auto simp: header_accepted_def header_without_colon_def dest: splitn2_colon_some)
    with True Cons.IH show ?thesis
      unfolding first_such_Cons by (simp add: parse_header_accepted [OF ok])
  next
    case False
    then show ?thesis
      unfolding first_such_Cons using parse_header_cases [of A X h]
      by (auto simp: header_ok_def split: outcome.split sum.split)
  qed
qed

text \<open>
  Building a request from the arguments. When the method, the URI made from it and every
  header are accepted, the request has that method, the given URI with the path \<open>/\<close> and the
  method's name in lower case, the body of the arguments, HTTP/2 or HTTP/1.1 as asked for,
  and the user agent followed by the headers in the order given, repeated names kept, each
  name and value trimmed.
\<close>

theorem build_request_accepts:
  assumes "method_from_str X (ca_method args) = Some meth"
    and "path_from_str X (''/'' @ to_lowercase (method_str X meth)) = Some path"
    and "uri_from_parts A (uri_scheme A uri) (uri_authority A uri) (Some path) = Some u"
    and "hv_from_str A ''hyperdriver/0.12.8'' = Some agent"
    and "list_all2 (\<lambda>header (name, v). header_accepted A X header name v) (ca_headers args) pairs"
  shows "build_request A X full_new no_headers no_ext args uri =
    Ret (Inr \<lparr>rq_method = meth, rq_uri = u, rq_version = (if ca_http2 args then HTTP_2 else HTTP_11),
      rq_headers = foldl (\<lambda>h (name, v). hdr_append X h name v) no_headers ((''user-agent'', agent) # pairs),
      rq_ext = no_ext, rq_body = cli_body full_new (ca_body args)\<rparr>)"
  unfolding build_request_def assms(1) option.case method_uri_def assms(2,3) sum.case Let_def cli_headers_def assms(4)
  by (simp add: append_headers_all [OF assms(5)])

text \<open>An instance, and two headers given as arguments, the same name twice.\<close>

definition plain_parsing :: "((string \<times> string) list, string) http_parsing" where
  "plain_parsing =
     \<lparr>method_from_str = (\<lambda>s. if s = ''GET'' then Some GET else None), method_str = (\<lambda>m. ''GET''),
      path_from_str = Some, name_from_str = (\<lambda>s. if s = [] then None else Some (to_lowercase s)),
      hdr_append = (\<lambda>h k v. h @ [(k, v)]), hdr_iter = id\<rparr>"

definition get_args :: "string list \<Rightarrow> cli_args" where
  "get_args headers = \<lparr>ca_uri = ''https://a.org'', ca_method = ''GET'', ca_body = None, ca_headers = headers, ca_timeout = 30,
     ca_repeat = 3, ca_http1 = False, ca_http2 = True, ca_tls = None\<rparr>"

definition plain_base :: plain_uri where
  "plain_base = \<lparr>pu_scheme = Some ''https'', pu_authority = Some \<lparr>pa_host = ''a.org'', pa_port = None\<rparr>, pu_path = None\<rparr>"

lemma build_request_accepts_witness:
  "build_request plain_api plain_parsing id [] () (get_args [''X-A: 1'', ''x-a:b:c '']) plain_base =
    Ret (Inr \<lparr>rq_method = GET, rq_uri = plain_base\<lparr>pu_path := Some ''/get''\<rparr>, rq_version = HTTP_2,
      rq_headers = [(''user-agent'', ''hyperdriver/0.12.8''), (''x-a'', ''1''), (''x-a'', ''b:c'')], rq_ext = (),
      rq_body = (body_empty :: (byte list, unit, unit) body)\<rparr>)"
proof -
  have "header_accepted plain_api plain_parsing ''X-A: 1'' ''x-a'' ''1''"
    "header_accepted plain_api plain_parsing ''x-a:b:c '' ''x-a'' ''b:c''"
    unfolding header_accepted_def
    by (rule exI [of _ "''X-A''"], rule exI [of _ "'' 1''"], code_simp)
      (rule exI [of _ "''x-a''"], rule exI [of _ "''b:c ''"], code_simp)
  then have "list_all2 (\<lambda>header (name, v). header_accepted plain_api plain_parsing header name v)
      (ca_headers (get_args [''X-A: 1'', ''x-a:b:c ''])) [(''x-a'', ''1''), (''x-a'', ''b:c'')]"
    by (simp add: get_args_def)
  moreover have "''/'' @ to_lowercase (method_str plain_parsing GET) = ''/get''" by code_simp
  ultimately show ?thesis
    by (subst build_request_accepts [where meth = GET and path = "''/get''" and agent = "''hyperdriver/0.12.8''"
          and u = "plain_base\<lparr>pu_path := Some ''/get''\<rparr>" and pairs = "[(''x-a'', ''1''), (''x-a'', ''b:c'')]"])
      (simp_all add: plain_parsing_def get_args_def plain_api_def plain_base_def cli_body_def)
qed

text \<open>
  C38: When building a request panics: exactly when the method, the URI and the user agent are
  accepted and the first header argument that is not accepted has no colon although it is a
  header name. Every other refusal is an error.
\<close>

theorem build_request_panics:
  "build_request A X full_new no_headers no_ext args uri = Panic \<longleftrightarrow>
     (\<exists>meth u agent. method_from_str X (ca_method args) = Some meth
        \<and> method_uri A X uri meth = Inr u
        \<and> hv_from_str A ''hyperdriver/0.12.8'' = Some agent)
   \<and> (\<exists>pre header post. ca_headers args = pre @ header # post \<and> header_without_colon X header
        \<and> (\<forall>h\<in>set pre. header_ok A X h))"
  by (auto simp: build_request_def cli_headers_def append_headers_panics Let_def split: option.splits sum.splits)

lemma build_request_panics_witness:
  "build_request plain_api plain_parsing id [] () (get_args [''X-A: 1'', ''X-B'']) plain_base =
    (Panic :: (arg_error + (_, _, _, (byte list, unit, unit) body) request) outcome)"
proof -
  have "header_accepted plain_api plain_parsing ''X-A: 1'' ''x-a'' ''1''"
    unfolding header_accepted_def by (rule exI [of _ "''X-A''"], rule exI [of _ "'' 1''"], code_simp)
  then have ok: "header_ok plain_api plain_parsing ''X-A: 1''" by (auto simp: header_ok_def)
  have bad: "header_without_colon plain_parsing ''X-B''" unfolding header_without_colon_def by code_simp
  show ?thesis
    unfolding build_request_panics
    by (intro conjI exI [of _ "[''X-A: 1'']"] exI [of _ "''X-B''"] exI [of _ "[]"] exI [of _ "GET"])
      (use ok bad in \<open>simp_all add: plain_parsing_def get_args_def method_uri_def plain_api_def\<close>)
qed

end
