(* ===== verification/Example_Clients.thy ===== *)
theory Example_Clients
  imports Example_Cli Tls_Config
begin

text \<open>
  The main functions of the command line clients: \<open>httpbin\<close>, \<open>profile\<close>, \<open>google\<close> and
  \<open>hurl\<close> build a client of the crate, send their requests through it, and print what comes
  back. The polling of the boxed service, the files, and what is printed with are parameters.
\<close>

section \<open>Printing and sending\<close>

record ('p, 'h, 'v, 'u, 'fr, 'w) cli_output =
  co_println :: "string \<Rightarrow> (unit, 'w) block"
  co_stdout :: "'w stdout_api"
  co_uri :: "'u \<Rightarrow> string"
  co_version :: "http_version \<Rightarrow> string"
  co_status :: "'p \<Rightarrow> string"
  co_rs_version :: "'p \<Rightarrow> http_version"
  co_rs_headers :: "'p \<Rightarrow> 'h"
  co_value :: "'v \<Rightarrow> string option"
  co_data_ref :: "'fr \<Rightarrow> byte list option"

text \<open>The headers whose values are text.\<close>

fun print_headers ::
  "('p, 'h, 'v, 'u, 'fr, 'w) cli_output \<Rightarrow> (string \<times> 'v) list \<Rightarrow> (unit, 'w) block" where
  "print_headers Q [] = block_return ()"
| "print_headers Q ((name, v) # hs) =
     block_bind
       (case co_value Q v of Some value \<Rightarrow> co_println Q (''  '' @ name @ '': '' @ value) | None \<Rightarrow> block_return ())
       (\<lambda>_. print_headers Q hs)"

definition print_request ::
  "('p, 'h, 'v, 'u, 'fr, 'w) cli_output \<Rightarrow> ('h, 'v) http_parsing \<Rightarrow> ('u, 'h, 'x, 'b) request \<Rightarrow> (unit, 'w) block" where
  "print_request Q X req =
     block_bind (co_println Q (''Request: '' @ method_str X (rq_method req) @ '' '' @ co_uri Q (rq_uri req)
         @ '' '' @ co_version Q (rq_version req)))
       (\<lambda>_. print_headers Q (hdr_iter X (rq_headers req)))"

definition print_response ::
  "('p, 'h, 'v, 'u, 'fr, 'w) cli_output \<Rightarrow> ('h, 'v) http_parsing \<Rightarrow> string \<Rightarrow> ('p, 'b) response \<Rightarrow> (unit, 'w) block" where
  "print_response Q X which res =
     block_bind (co_println Q (which @ ''Response: '' @ co_status Q (rs_parts res) @ '' - ''
         @ co_version Q (co_rs_version Q (rs_parts res))))
       (\<lambda>_. print_headers Q (hdr_iter X (co_rs_headers Q (rs_parts res))))"

text \<open>
  \<open>client.request(req).await\<close>, with the handle and the store the call leaves. A store that
  is consistent has a cell for every handle, so the first branch does not occur.
\<close>

definition request_await ::
  "('s \<Rightarrow> 's) \<Rightarrow> ('s \<Rightarrow> 'r \<Rightarrow> 'o) \<Rightarrow> ('o, 'e + 'a, 'w) pollf \<Rightarrow> client \<Rightarrow> 's arc_store \<Rightarrow> 'r \<Rightarrow>
     (('e + 'a) \<times> client \<times> 's arc_store, 'w) block" where
  "request_await clone oneshot p client h req =
     (case client_request clone oneshot client req h of
        (None, client', h') \<Rightarrow> block_panic
      | (Some fut, client', h') \<Rightarrow> block_bind (await p fut) (\<lambda>r. block_return (r, client', h')))"

text \<open>\<open>client.get(uri).await\<close>: the future borrows the client, so its world contains it.\<close>

definition get_block ::
  "('s \<Rightarrow> 's) \<Rightarrow> ('s \<Rightarrow> ('u, 'h, 'x, 'b) request \<Rightarrow> 'o) \<Rightarrow> ('o, 'e + 'a, 'w) pollf \<Rightarrow> ('e \<Rightarrow> box_error) \<Rightarrow>
     'h \<Rightarrow> 'x \<Rightarrow> 'b \<Rightarrow> client \<Rightarrow> 's arc_store \<Rightarrow> 'u \<Rightarrow>
     ((box_error + 'a) \<times> client \<times> 's arc_store, 'w) block" where
  "get_block clone oneshot p into no_headers no_ext empty_body client h uri w =
     (case await (get_poll clone oneshot p into no_headers no_ext empty_body) (client_get uri) (client, h, w) of
        None \<Rightarrow> None
      | Some (Ret r, (client', h', w')) \<Rightarrow> Some (Ret (r, client', h'), w')
      | Some (Panic, (client', h', w')) \<Rightarrow> Some (Panic, w'))"

lemma request_await_run:
  assumes "store_ok h (c # cs)"
  shows "\<exists>s c' h'. client_service h c = Some s \<and> store_ok h' (c' # cs)
    \<and> map (client_service h') cs = map (client_service h) cs
    \<and> (\<forall>w. request_await clone oneshot p c h r w =
        block_bind (await p (oneshot (own_service clone c cs s) r)) (\<lambda>x. block_return (x, c', h')) w)"
proof -
  obtain s c' h' where *: "client_service h c = Some s"
    "client_request clone oneshot c r h = (Some (oneshot (own_service clone c cs s) r), c', h')"
    "store_ok h' (c' # cs)" "map (client_service h') cs = map (client_service h) cs"
    using client_request_run [OF assms, of clone oneshot r] by blast
  then show ?thesis
    by (intro exI [of _ s] exI [of _ c'] exI [of _ h']) (simp add: request_await_def)
qed

text \<open>What the printing relies on: \<open>println!\<close> writes the line and a newline.\<close>

definition output_laws ::
  "('p, 'h, 'v, 'u, 'fr, 'w) cli_output \<Rightarrow> ('k, 'w) observer \<Rightarrow> bool" where
  "output_laws Q obs \<longleftrightarrow> stdout_laws (co_stdout Q) obs
     \<and> (\<forall>s w. \<exists>w'. co_println Q s w = Some (Ret (), w')
          \<and> obs w' = (fst (obs w) @ text_bytes (s @ newline), snd (obs w)))"

lemma println_run:
  assumes "output_laws Q obs" and "obs w = (printed, k)"
  obtains w' where "co_println Q s w = Some (Ret (), w')" "obs w' = (printed @ text_bytes (s @ newline), k)"
proof -
  from assms(1) obtain w' where "co_println Q s w = Some (Ret (), w')"
    "obs w' = (fst (obs w) @ text_bytes (s @ newline), snd (obs w))"
    unfolding output_laws_def by blast
  with assms(2) show thesis by (intro that) simp_all
qed

lemma print_headers_run:
  assumes "output_laws Q obs" and "obs w = (printed, k)"
  shows "\<exists>w' more_text. print_headers Q hs w = Some (Ret (), w') \<and> obs w' = (printed @ more_text, k)"
  using assms(2)
proof (induction hs arbitrary: w printed)
  case Nil
  then show ?case by (simp add: block_return_def)
next
  case (Cons hd hs)
  obtain name v where hd: "hd = (name, v)" by (cases hd)
  show ?case
  proof (cases "co_value Q v")
    case None
    with Cons show ?thesis by (simp add: hd)
  next
    case (Some val)
    from println_run [OF assms(1) Cons.prems, of "''  '' @ name @ '': '' @ val"] obtain w' where
      w': "co_println Q (''  '' @ name @ '': '' @ val) w = Some (Ret (), w')"
        "obs w' = (printed @ text_bytes ((''  '' @ name @ '': '' @ val) @ newline), k)" .
    from Cons.IH [OF w'(2)] show ?thesis
      unfolding hd print_headers.simps Some option.case
        block_bind_cases(3) [where m = "co_println Q (''  '' @ name @ '': '' @ val)", OF w'(1)]
      by (simp only: append_assoc) blast
  qed
qed

lemma line_and_headers_run:
  assumes "output_laws Q obs" and "obs w = (printed, k)"
  shows "\<exists>w' more_text. block_bind (co_println Q s) (\<lambda>_. print_headers Q hs) w = Some (Ret (), w')
    \<and> obs w' = (printed @ more_text, k)"
proof -
  from println_run [OF assms] obtain w' where
    w': "co_println Q s w = Some (Ret (), w')" "obs w' = (printed @ text_bytes (s @ newline), k)" .
  from print_headers_run [OF assms(1) w'(2), of hs] show ?thesis
    unfolding block_bind_cases(3) [where m = "co_println Q s", OF w'(1)] by (simp only: append_assoc) blast
qed

section \<open>httpbin\<close>

definition httpbin_client where
  "httpbin_client build tcp_http args h =
     (case tcp_http of
        Panic \<Rightarrow> Panic
      | Ret builder \<Rightarrow> build (with_timeout (duration_from_secs (ca_timeout args)) builder) h)"

definition httpbin_uri :: string where
  "httpbin_uri = ''https://www.httpbin.org/''"

definition httpbin_main where
  "httpbin_main A X Q B full_new clone oneshot p no_headers no_ext made args =
     block_bind (block_of made) (\<lambda>(client, h).
     block_try Cli_Args
       (block_return (case uri_from_str A httpbin_uri of None \<Rightarrow> Inl Bad_Uri | Some uri \<Rightarrow> Inr uri)) (\<lambda>uri.
     block_try Cli_Args (block_of (build_request A X full_new no_headers no_ext args uri)) (\<lambda>req.
     block_bind (print_request Q X req) (\<lambda>_.
     block_bind (request_await clone oneshot p client h req) (\<lambda>(r, client, h).
     block_try Cli_Client (block_return r) (\<lambda>res.
     block_bind (print_response Q X [] res) (\<lambda>_.
     copy_frames Cli_Body Cli_Io B (co_data_ref Q) (co_stdout Q) (rs_body res))))))))"

section \<open>hurl\<close>

text \<open>The version asked for, from the flags and the scheme.\<close>

definition hurl_version :: "('u, 'au, 'h, 'v) http_api \<Rightarrow> cli_args \<Rightarrow> 'u \<Rightarrow> http_version" where
  "hurl_version A args uri =
     (if ca_http1 args then HTTP_11
      else if ca_http2 args then HTTP_2
      else (case uri_scheme A uri of
              Some scheme \<Rightarrow> if scheme = ''https'' then HTTP_2 else HTTP_11
            | None \<Rightarrow> HTTP_11))"

text \<open>The root certificate of \<open>--tls\<close>; every failure is a panic of \<open>unwrap\<close>.\<close>

definition hurl_tls_config ::
  "tls_files \<Rightarrow> (byte list, 'roots, 'e, 'cfg) rustls_api \<Rightarrow> string \<Rightarrow> 'cfg outcome" where
  "hurl_tls_config F R tls_root =
     (case tf_read F tls_root of
        Inl _ \<Rightarrow> Panic
      | Inr pem \<Rightarrow>
          (case tf_pem F pem of
             None \<Rightarrow> Panic
           | Some (label, cert) \<Rightarrow>
               (case roots_add R (roots_empty R) cert of
                  Inl _ \<Rightarrow> Panic
                | Inr roots \<Rightarrow> Ret (cfg_set_alpn R (cfg_build R roots) [''h2'', ''http/1.1'']))))"

definition hurl_builder ::
  "('res \<Rightarrow> 'tc \<Rightarrow> 't) \<Rightarrow> 'res \<Rightarrow> 'tc \<Rightarrow> 'p \<Rightarrow> 'cfg option \<Rightarrow>
     ('t, 'p, 'rp, 's \<Rightarrow> 's, 'cfg, 'pool) client_builder" where
  "hurl_builder tcp_new resolver tcp_config alpn_default tls =
     (let client = with_auto_http alpn_default (with_tcp tcp_new resolver tcp_config client_builder_new)
      in case tls of None \<Rightarrow> client | Some config \<Rightarrow> with_tls config client)"

definition hurl_tls ::
  "('p, 'h, 'v, 'u, 'fr, 'w) cli_output \<Rightarrow> tls_files \<Rightarrow> (byte list, 'roots, 'e, 'cfg) rustls_api \<Rightarrow> cli_args \<Rightarrow>
     ('cfg option, 'w) block" where
  "hurl_tls Q F R args =
     (case ca_tls args of
        None \<Rightarrow> block_return None
      | Some tls_root \<Rightarrow>
          block_bind (co_println Q (''Using TLS root: '' @ tls_root)) (\<lambda>_.
          block_of (map_outcome Some (hurl_tls_config F R tls_root))))"

definition hurl_send where
  "hurl_send Q dbg B clone oneshot p show_err no_ext client h uri version meth headers =
     (let req = \<lparr>rq_method = meth, rq_uri = uri, rq_version = version, rq_headers = headers, rq_ext = no_ext,
                 rq_body = body_empty\<rparr>
      in block_bind (request_await clone oneshot p client h req) (\<lambda>(r, client, h). case r of
           Inl err \<Rightarrow> co_println Q (''Error: '' @ show_err err)
         | Inr res \<Rightarrow>
             block_bind (hurl_frames dbg B (co_data_ref Q) (co_stdout Q) 0 (rs_body res)) (\<lambda>n.
             co_println Q (''Response: '' @ co_status Q (rs_parts res) @ '' - ''
               @ co_version Q (co_rs_version Q (rs_parts res)) @ '' '' @ show_nat (unat n)))))"

definition hurl_main where
  "hurl_main A X Q F R dbg B clone oneshot p show_err build tcp_new resolver tcp_config alpn_default
     no_headers no_ext args h =
     block_bind (hurl_tls Q F R args) (\<lambda>tls.
     block_try Cli_Args (block_return (case method_from_str X (ca_method args) of
         None \<Rightarrow> Inl Bad_Method | Some meth \<Rightarrow> Inr meth)) (\<lambda>meth.
     block_bind (block_of (build (hurl_builder tcp_new resolver tcp_config alpn_default tls) h)) (\<lambda>(client, h).
     block_try Cli_Args (block_return (case uri_from_str A (ca_uri args) of
         None \<Rightarrow> Inl Bad_Uri | Some uri \<Rightarrow> Inr uri)) (\<lambda>uri.
     block_try Cli_Args (block_of (cli_headers A X ''hurl hyperdriver/0.12.8'' no_headers (ca_headers args))) (\<lambda>hdrs.
     block_bind (case client_clone client h of (client', h') \<Rightarrow>
         hurl_send Q dbg B clone oneshot p show_err no_ext client' h' uri (hurl_version A args uri) meth hdrs) (\<lambda>_.
     block_return (Inr ())))))))"

section \<open>google\<close>

text \<open>\<open>drop_rs\<close> is the effect of dropping a response before its body was read.\<close>

definition google_uri :: string where
  "google_uri = ''https://www.google.com''"

definition google_main where
  "google_main A X Q dbg B clone oneshot p into drop_rs no_headers no_ext made =
     block_bind (block_of made) (\<lambda>(client, h).
     block_try Cli_Args
       (block_return (case uri_from_str A google_uri of None \<Rightarrow> Inl Bad_Uri | Some uri \<Rightarrow> Inr uri)) (\<lambda>uri.
     block_bind (get_block clone oneshot p into no_headers no_ext body_empty client h uri) (\<lambda>(r, client, h).
     block_try Cli_Client (block_return r) (\<lambda>res.
     block_bind (print_response Q X ''1st '' res) (\<lambda>_.
     block_bind (get_block clone oneshot p into no_headers no_ext body_empty client h uri) (\<lambda>(r, client, h).
     block_try Cli_Client (block_return r) (\<lambda>r2.
     block_bind (co_println Q (''2nd Response: '' @ co_status Q (rs_parts r2))) (\<lambda>_.
     block_bind (google_frames dbg B (co_data_ref Q) 0 (rs_body res)) (\<lambda>n.
     block_bind (co_println Q (''Recieved '' @ show_nat (unat n) @ '' body bytes'')) (\<lambda>_.
     block_do (drop_rs r2) (
     block_bind (get_block clone oneshot p into no_headers no_ext body_empty client h uri) (\<lambda>(r, client, h).
     block_try Cli_Client (block_return r) (\<lambda>r3.
     block_bind (co_println Q (''3rd Response: '' @ co_status Q (rs_parts r3))) (\<lambda>_.
     block_return (Inr ())))))))))))))))"

section \<open>profile\<close>

text \<open>
  All requests are made, each through the one client, before the first is awaited. The
  futures are kept in the order in which they were made.
\<close>

fun send_all where
  "send_all 0 build clone oneshot client h futs = block_return (Inr futs)"
| "send_all (Suc n) build clone oneshot client h futs =
     block_try Cli_Args (block_of build) (\<lambda>req.
       (case client_request clone oneshot client req h of
          (None, client', h') \<Rightarrow> block_panic
        | (Some fut, client', h') \<Rightarrow> send_all n build clone oneshot client' h' (futs @ [fut])))"

text \<open>
  \<open>while let Some(item) = fut.try_next().await?\<close> over the \<open>FuturesUnordered\<close>, which is a
  parameter: \<open>next\<close> gives the result of one of the futures and the rest, or nothing when
  there are none left. The first error leaves the loop.
\<close>

partial_function (option) try_drain ::
  "('fs \<Rightarrow> (('e + 'a) option \<times> 'fs, 'w) block) \<Rightarrow> 'a option \<Rightarrow> 'fs \<Rightarrow> 'w \<Rightarrow>
     (('e + 'a option) outcome \<times> 'w) option" where
  "try_drain next res futs w =
     block_bind (next futs) (\<lambda>p w1. case p of (item, futs') \<Rightarrow>
       (case item of
          None \<Rightarrow> block_return (Inr res) w1
        | Some (Inl e) \<Rightarrow> block_return (Inl e) w1
        | Some (Inr a) \<Rightarrow> try_drain next (Some a) futs' w1)) w"

definition profile_finish where
  "profile_finish X Q B next futs =
     block_try Cli_Client (try_drain next None futs) (\<lambda>last. case last of
        None \<Rightarrow> block_panic
      | Some res \<Rightarrow>
          block_bind (print_response Q X [] res) (\<lambda>_.
          copy_frames Cli_Body Cli_Io B (co_data_ref Q) (co_stdout Q) (rs_body res)))"

definition demonstrate_requests where
  "demonstrate_requests A X Q B full_new clone oneshot next no_headers no_ext made args =
     block_try Cli_Args
       (block_return (case uri_from_str A httpbin_uri of None \<Rightarrow> Inl Bad_Uri | Some uri \<Rightarrow> Inr uri)) (\<lambda>uri.
     let build = build_request A X full_new no_headers no_ext args uri in
     block_try Cli_Args (block_of build) (\<lambda>req.
     block_bind (print_request Q X req) (\<lambda>_.
     block_bind (block_of made) (\<lambda>(client, h).
     block_try id (send_all (ca_repeat args) build clone oneshot client h []) (\<lambda>futs.
     profile_finish X Q B next futs)))))"

text \<open>\<open>main\<close>: tracing is set up first; the wait at the end lets the telemetry be sent.\<close>

definition profile_main where
  "profile_main init_tracing sleep demonstrate =
     block_try id init_tracing (\<lambda>_.
     block_try id demonstrate (\<lambda>_.
     block_bind (sleep (duration_from_secs 1)) (\<lambda>_.
     block_return (Inr ()))))"

end
