(* ===== verification/Example_Cli_Run.thy ===== *)
theory Example_Cli_Run
  imports Example_Clients
begin

text \<open>
  What the command line clients do, end to end: what \<open>hurl\<close> prints, when it uses TLS, and
  that \<open>profile\<close> always ends with an answer or an error.
\<close>

section \<open>hurl\<close>

text \<open>
  C34: When \<open>hurl\<close> uses TLS. Its client always builds, with the given transport; a stream that
  it connects for a request is a TLS stream exactly when a root certificate was given with
  \<open>--tls\<close> and the scheme asks for TLS. Without \<open>--tls\<close> every \<open>https\<close> request is sent in
  the clear.
\<close>

theorem hurl_tls_needs_flag:
  fixes b :: "('t, 'p, 'rp, 's \<Rightarrow> 's, 'cfg, 'pool) client_builder"
  assumes "hurl_tls Q F R args w = Some (Ret tls, w1)"
    and "b = hurl_builder tcp_new resolver tcp_config alpn_default tls"
    and "tr = auto_tls_with_optional_tls P (auto_tls_new (tcp_new resolver tcp_config)) tls"
    and "run_call (auto_tls_ops A P T TT ce) n tr r w2 = (Ready (Inr io), tr', w3)"
    and "uri_laws A" and "uri_authority A (rq_uri r) = Some auth"
  shows "build_service Y P mk dbg A' version executor agent b =
      Ret (client_middleware Y b (client_core Y mk dbg A' version executor tr agent b))
    \<and> (stream_is_tls io \<longleftrightarrow> ca_tls args \<noteq> None \<and> uri_scheme A (rq_uri r) \<in> {Some ''https'', Some ''wss''})"
proof -
  have some: "map_outcome Some o' = Ret tls \<Longrightarrow> tls \<noteq> None" for o'
    by (cases o') auto
  have tls: "tls = None \<longleftrightarrow> ca_tls args = None"
    using assms(1) some by (cases "ca_tls args")
      (auto simp: hurl_tls_def block_defs split: option.splits outcome.splits prod.splits)
  have b: "cb_user_agent b = None" "cb_transport b = tcp_new resolver tcp_config" "cb_tls b = tls"
    unfolding assms(2) hurl_builder_def Let_def with_auto_http_def with_tcp_def client_builder_new_def with_tls_def
    by (cases tls; simp)+
  have "(\<exists>tt. tr = Transport_Tls tt) \<longleftrightarrow> tls \<noteq> None"
    by (cases tls) (simp_all add: assms(3) auto_tls_with_optional_tls_def auto_tls_with_tls_def auto_tls_new_def)
  with connected_stream [OF assms(4-6)] tls show ?thesis
    by (simp add: build_service_def client_user_agent_def b assms(3))
qed

text \<open>
  C36: What \<open>hurl\<close> prints. When the response arrives, standard output is given every byte its body
  delivers, in order, then one line with the status, the version and the exact number of
  bytes, as long as that number fits a \<open>usize\<close>. This holds whether the body ends or fails:
  an error of the body is not reported.
\<close>

theorem hurl_prints:
  fixes h :: "'s arc_store"
  assumes "store_ok h (c # cs)" and "client_service h c = Some s" and "output_laws Q obs"
    and "await p (oneshot (own_service clone c cs s)
        \<lparr>rq_method = meth, rq_uri = uri, rq_version = version, rq_headers = headers, rq_ext = no_ext,
         rq_body = (body_empty :: ('f, 'i, 'a) body)\<rparr>) w = Some (Ret (Inr res), w1)"
    and "obs w1 = (printed, k)" and "body_delivers B (co_data_ref Q) obs (rs_body res) bs fin"
    and "length bs < 18446744073709551616"
  shows "\<exists>w2. hurl_send Q dbg B clone oneshot p show_err no_ext c h uri version meth headers w = Some (Ret (), w2)
    \<and> obs w2 = (printed @ bs @ text_bytes (''Response: '' @ co_status Q (rs_parts res) @ '' - ''
        @ co_version Q (co_rs_version Q (rs_parts res)) @ '' '' @ show_nat (length bs) @ newline), k)"
proof -
  let ?req = "\<lparr>rq_method = meth, rq_uri = uri, rq_version = version, rq_headers = headers, rq_ext = no_ext,
         rq_body = (body_empty :: ('f, 'i, 'a) body)\<rparr>"
  obtain s' c' h' where "client_service h c = Some s'" and
    req: "\<And>w. request_await clone oneshot p c h ?req w =
        block_bind (await p (oneshot (own_service clone c cs s') ?req)) (\<lambda>x. block_return (x, c', h')) w"
    using request_await_run [OF assms(1), of clone oneshot p ?req] by blast
  then have s': "s' = s" using assms(2) by simp
  have sent: "request_await clone oneshot p c h ?req w = Some (Ret (Inr res, c', h'), w1)"
    unfolding req s' block_bind_def assms(4) by (simp add: block_return_def)
  have laws: "stdout_laws (co_stdout Q) obs" using assms(3) by (simp add: output_laws_def)
  have fits: "below_usize 0 bs" using assms(7) by (simp add: below_usize_def)
  have "\<exists>w2. hurl_frames dbg B (co_data_ref Q) (co_stdout Q) 0 (rs_body res) w1 = Some (Ret (add_length 0 bs), w2)
      \<and> obs w2 = (printed @ bs, k)"
    using hurl.loop_delivers [OF assms(6) laws fits assms(5), of dbg] by (cases fin) (simp_all add: hurl_frames_def)
  then obtain w2 where
    w2: "hurl_frames dbg B (co_data_ref Q) (co_stdout Q) 0 (rs_body res) w1 = Some (Ret (add_length 0 bs), w2)"
      "obs w2 = (printed @ bs, k)" by blast
  have n: "unat (add_length 0 bs) = length bs"
    using assms(7) by (simp add: add_length_def unat_of_nat take_bit_nat_eq_self_iff)
  let ?line = "''Response: '' @ co_status Q (rs_parts res) @ '' - '' @ co_version Q (co_rs_version Q (rs_parts res))
      @ '' '' @ show_nat (length bs)"
  from println_run [OF assms(3) w2(2), of ?line] obtain w3 where
    w3: "co_println Q ?line w2 = Some (Ret (), w3)" "obs w3 = ((printed @ bs) @ text_bytes (?line @ newline), k)" .
  have "hurl_send Q dbg B clone oneshot p show_err no_ext c h uri version meth headers w = Some (Ret (), w3)"
    unfolding hurl_send_def Let_def block_bind_cases(3) [where m = "request_await clone oneshot p c h ?req", OF sent]
    by (simp only: prod.case sum.case n w3(1)
        block_bind_cases(3) [where m = "hurl_frames dbg B (co_data_ref Q) (co_stdout Q) 0 (rs_body res)", OF w2(1)])
  with w3(2) show ?thesis by (simp only: append_assoc) blast
qed

text \<open>
  Instances: a world that is what was printed, a body that is its bytes, and a service that
  answers with its number.
\<close>

definition text_output :: "(string, (string \<times> string) list, string, plain_uri, byte list, byte list) cli_output" where
  "text_output =
     \<lparr>co_println = (\<lambda>s w. Some (Ret (), w @ text_bytes (s @ newline))),
      co_stdout = \<lparr>so_write_all = (\<lambda>bs w. Some (Ret (Inr ()), w @ bs)), so_flush = (\<lambda>w. Some (Ret (Inr ()), w))\<rparr>,
      co_uri = (\<lambda>u. []), co_version = (\<lambda>v. ''HTTP/1.1''), co_status = id, co_rs_version = (\<lambda>p. HTTP_11),
      co_rs_headers = (\<lambda>p. []), co_value = Some, co_data_ref = Some\<rparr>"

definition printed_so_far :: "byte list \<Rightarrow> byte list \<times> unit" where
  "printed_so_far w = (w, ())"

lemma text_output_sel [simp]:
  "co_status text_output s = s" "co_version text_output v = ''HTTP/1.1''" "co_data_ref text_output = Some"
  by (simp_all add: text_output_def)

lemma text_output_laws: "output_laws text_output printed_so_far"
  by (simp add: output_laws_def stdout_laws_def text_output_def printed_so_far_def)

lemma plain_full_delivers: "body_delivers (plain_full :: (byte list, byte list, unit, 'w) body_ops) Some obs d d None"
proof -
  have none: "body_delivers plain_full Some obs [] [] None"
    by (rule delivers_end) (simp add: plain_full_def await_mut_ready)
  have "body_delivers plain_full Some obs d (d @ []) None" if "d \<noteq> []"
    by (rule delivers_data [OF _ _ none]) (simp_all add: plain_full_def await_mut_ready that)
  with none show ?thesis by (cases "d = []") auto
qed

definition no_args :: cli_args where
  "no_args = \<lparr>ca_uri = ''https://a.org'', ca_method = ''GET'', ca_body = None, ca_headers = [], ca_timeout = 30,
     ca_repeat = 3, ca_http1 = False, ca_http2 = False, ca_tls = None\<rparr>"

lemma hurl_tls_needs_flag_witness:
  "\<exists>io. fst (run_call (auto_tls_ops plain_api unit_tls tls_connector tls_connector id) (Suc 0)
      (auto_tls_with_optional_tls unit_tls (auto_tls_new ()) (None :: unit option)) secure_request ()) = Ready (Inr io)
    \<and> \<not> stream_is_tls io \<and> uri_scheme plain_api (rq_uri secure_request) = Some ''https''"
proof -
  have run: "run_call (auto_tls_ops plain_api unit_tls tls_connector tls_connector id) (Suc 0)
      (auto_tls_with_optional_tls unit_tls (auto_tls_new ()) (None :: unit option)) secure_request () =
      (Ready (Inr \<lparr>cs_inner = OptTls_NoTls (Some ''h2'')\<rparr>), Transport_Plain (), ())"
    unfolding auto_tls_with_optional_tls_def option.case auto_tls_new_def auto_tls_run [THEN conjunct1]
    by (simp add: run_call_def tls_connector_def)
  have "hurl_tls text_output F (R :: (byte list, unit, unit, unit) rustls_api) no_args [] = Some (Ret None, [])" for F R
    by (simp add: hurl_tls_def no_args_def block_return_def)
  from hurl_tls_needs_flag [where tls = "None :: unit option" and tcp_new = "\<lambda>_ _. ()" and resolver = "()"
      and tcp_config = "()" and auth = "\<lparr>pa_host = ''a.org'', pa_port = None\<rparr>", OF this refl refl run plain_uri_laws, THEN conjunct2]
  have "\<not> stream_is_tls (\<lparr>cs_inner = OptTls_NoTls (Some ''h2'')\<rparr> :: (string option, string option) client_stream)"
    by (simp add: secure_request_def api_simps no_args_def)
  with run show ?thesis by (simp add: secure_request_def api_simps)
qed

definition hello_poll :: "('f, string + (string, byte list) response, byte list) pollf" where
  "hello_poll f w = (Ready (Inr \<lparr>rs_parts = ''200 OK'', rs_body = text_bytes ''hello ''\<rparr>), f, w)"

type_synonym plain_request = "(plain_uri, (string \<times> string) list, unit, (byte list, unit, unit) body) request"

definition just_send :: "unit \<Rightarrow> plain_request \<Rightarrow> unit" where
  "just_send s r = ()"

lemma hurl_prints_witness:
  "hurl_send text_output True plain_full id just_send hello_poll id ()
      \<lparr>cl_inner = 0\<rparr> (\<lparr>as_cells = [0 \<mapsto> (\<lparr>cr_service = ()\<rparr>, 1)], as_next = 1\<rparr> :: unit arc_store)
      (rq_uri secure_request) HTTP_11 GET [] [] =
    Some (Ret (), text_bytes ''hello '' @ text_bytes (''Response: 200 OK - HTTP/1.1 6'' @ newline))"
proof -
  let ?h = "\<lparr>as_cells = [0 \<mapsto> (\<lparr>cr_service = ()\<rparr>, 1)], as_next = 1\<rparr> :: unit arc_store"
  have ok: "store_ok ?h [\<lparr>cl_inner = 0\<rparr>]" by (simp add: store_ok_def)
  have s: "client_service ?h \<lparr>cl_inner = 0\<rparr> = Some ()" by (simp add: client_service_def arc_get_def)
  have n: "show_nat 6 = ''6''" by code_simp
  have sent: "await hello_poll f [] = Some (Ret (Inr \<lparr>rs_parts = ''200 OK'', rs_body = text_bytes ''hello ''\<rparr>), [])" for f
    by (simp add: await_def block_bind_def block_return_def await_mut_ready hello_poll_def)
  have body: "body_delivers plain_full (co_data_ref text_output) printed_so_far
      (rs_body \<lparr>rs_parts = ''200 OK'', rs_body = text_bytes ''hello ''\<rparr>) (text_bytes ''hello '') None"
    using plain_full_delivers by simp
  have len: "length (text_bytes ''hello '') = 6" by (simp add: text_bytes_def)
  from hurl_prints [where clone = id and oneshot = just_send, OF ok s text_output_laws sent _ body,
      where printed = "[]" and k = "()" and dbg = True and show_err = id and headers = "[]" and no_ext = "()"
      and uri = "rq_uri secure_request" and version = HTTP_11 and meth = GET]
  obtain w2 where
    "hurl_send text_output True plain_full id just_send hello_poll id () \<lparr>cl_inner = 0\<rparr> ?h (rq_uri secure_request) HTTP_11 GET [] [] =
      Some (Ret (), w2)"
    "printed_so_far w2 = ([] @ text_bytes ''hello '' @ text_bytes (''Response: '' @ ''200 OK'' @ '' - '' @ ''HTTP/1.1'' @ '' ''
        @ ''6'' @ newline), ())"
    unfolding len n by (auto simp: printed_so_far_def)
  then show ?thesis by (simp add: printed_so_far_def)
qed

section \<open>profile\<close>

text \<open>
  \<open>FuturesUnordered\<close>, as documented: nothing when it is empty, else the result of one of its
  futures, which is removed. That every future completes is part of the hypothesis.
\<close>

definition unordered_law :: "('o list \<Rightarrow> ('r option \<times> 'o list, 'w) block) \<Rightarrow> bool" where
  "unordered_law next \<longleftrightarrow>
     (\<forall>w. next [] w = Some (Ret (None, []), w))
   \<and> (\<forall>fs w. fs \<noteq> [] \<longrightarrow> (\<exists>f r w'. f \<in> set fs \<and> next fs w = Some (Ret (Some r, remove1 f fs), w')))"

lemma unordered_next:
  assumes "unordered_law nxt" and "fs \<noteq> []"
  obtains f r w' where "f \<in> set fs" "nxt fs w = Some (Ret (Some r, remove1 f fs), w')"
  using assms unfolding unordered_law_def by blast

lemma try_drain_ends:
  fixes nxt :: "'o list \<Rightarrow> (('e + 'a) option \<times> 'o list, 'w) block"
  assumes "unordered_law nxt"
  shows "\<exists>r w'. try_drain nxt res fs w = Some (Ret r, w') \<and> (fs \<noteq> [] \<or> res \<noteq> None \<longrightarrow> r \<noteq> Inr None)"
proof (induction "length fs" arbitrary: fs res w)
  case 0
  then show ?case
    using assms by (subst try_drain.simps) (simp add: unordered_law_def block_bind_def block_return_def)
next
  case (Suc n)
  then have "fs \<noteq> []" by auto
  from unordered_next [OF assms this, of w] obtain f item w1 where
    nxt: "f \<in> set fs" "nxt fs w = Some (Ret (Some item, remove1 f fs), w1)" .
  with Suc have n: "n = length (remove1 f fs)" by (simp add: length_remove1)
  show ?case
  proof (cases item)
    case (Inl e)
    with nxt(2) show ?thesis by (subst try_drain.simps) (simp add: block_bind_def block_return_def)
  next
    case (Inr a)
    from nxt(2) Inr have "try_drain nxt res fs w = try_drain nxt (Some a) (remove1 f fs) w1"
      by (subst try_drain.simps) (simp add: block_bind_def)
    with Suc(1) [OF n, of "Some a" w1] show ?thesis by auto
  qed
qed

lemma send_all_run:
  assumes "store_ok h (c # cs)" and "build = Ret (Inr req)"
  shows "\<exists>futs'. send_all n build clone oneshot c h futs w = Some (Ret (Inr futs'), w)
    \<and> length futs' = length futs + n"
  using assms(1)
proof (induction n arbitrary: c h futs)
  case 0
  then show ?case by (simp add: block_return_def)
next
  case (Suc n)
  obtain fut c' h' where "client_request clone oneshot c req h = (Some fut, c', h')" "store_ok h' (c' # cs)"
    using client_request_run [OF Suc.prems, of clone oneshot req] by blast
  with Suc.IH [of h' c' "futs @ [fut]"] show ?case
    by (simp add: assms(2) block_try_def block_bind_def block_of_def)
qed

text \<open>What copying a body gives when it ends with this error, or with none.\<close>

definition copied :: "'be option \<Rightarrow> ('ce, 'be) cli_error + unit" where
  "copied fin = (case fin of None \<Rightarrow> Inr () | Some e \<Rightarrow> Inl (Cli_Body e))"

lemma copy_frames_run:
  assumes "output_laws Q obs" and "body_delivers B (co_data_ref Q) obs b bs fin"
  shows "\<exists>w'. copy_frames Cli_Body Cli_Io B (co_data_ref Q) (co_stdout Q) b w =
    Some (Ret (copied fin), w')"
proof -
  obtain printed k where "obs w = (printed, k)" by (cases "obs w")
  moreover have "stdout_laws (co_stdout Q) obs" using assms(1) by (simp add: output_laws_def)
  ultimately show ?thesis
    using copy.loop_delivers [OF assms(2) _ TrueI, of "co_stdout Q" w printed k Cli_Body Cli_Io]
    by (auto simp: copy_frames_def copied_def)
qed

text \<open>An answer: the response was shown, or the client or its body failed.\<close>

definition answered :: "('ce, 'be) cli_error + unit \<Rightarrow> bool" where
  "answered r = (case r of Inr _ \<Rightarrow> True | Inl (Cli_Client _) \<Rightarrow> True | Inl (Cli_Body _) \<Rightarrow> True | Inl _ \<Rightarrow> False)"

lemma profile_finish_run:
  fixes nxt :: "'o list \<Rightarrow> (('ce + ('p, 'b) response) option \<times> 'o list, 'w) block"
    and B :: "('b, 'fr, 'be, 'w) body_ops"
  assumes "unordered_law nxt" and "futs \<noteq> []" and "output_laws Q obs"
    and "\<And>res. \<exists>bs fin. body_delivers B (co_data_ref Q) obs (rs_body (res :: ('p, 'b) response)) bs fin"
  shows "\<exists>r w'. profile_finish X Q B nxt futs w = Some (Ret r, w') \<and> answered r"
proof -
  obtain r w1 where r: "try_drain nxt None futs w = Some (Ret r, w1)" "r \<noteq> Inr None"
    using try_drain_ends [OF assms(1), of None futs w] assms(2) by auto
  show ?thesis
  proof (cases r)
    case (Inl e)
    with r(1) show ?thesis
      by (simp add: profile_finish_def block_try_cases(2) answered_def)
  next
    case (Inr last)
    with r(2) obtain res where last: "last = Some res" by (cases last) auto
    obtain bs fin where body: "body_delivers B (co_data_ref Q) obs (rs_body res) bs fin" using assms(4) by blast
    obtain printed k where o: "obs w1 = (printed, k)" by (cases "obs w1")
    obtain w2 where w2: "print_response Q X [] res w1 = Some (Ret (), w2)"
      using line_and_headers_run [OF assms(3) o] unfolding print_response_def by blast
    obtain w3 where w3: "copy_frames Cli_Body Cli_Io B (co_data_ref Q) (co_stdout Q) (rs_body res) w2 =
        Some (Ret (copied fin :: ('ce, 'be) cli_error + unit), w3)"
      using copy_frames_run [OF assms(3) body] by blast
    have "profile_finish X Q B nxt futs w = copy_frames Cli_Body Cli_Io B (co_data_ref Q) (co_stdout Q) (rs_body res) w2"
      using r(1) w2 by (simp add: profile_finish_def block_try_cases(3) Inr last block_bind_cases(3))
    with w3 show ?thesis by (cases fin) (simp_all add: answered_def copied_def)
  qed
qed


text \<open>Three requests that are answered in the order in which they were made.\<close>

definition in_order :: "('o list \<Rightarrow> ((string + (string, byte list) response) option \<times> 'o list, byte list) block)" where
  "in_order fs w =
     (case fs of
        [] \<Rightarrow> Some (Ret (None, []), w)
      | f # fs \<Rightarrow> Some (Ret (Some (Inr \<lparr>rs_parts = ''200 OK'', rs_body = text_bytes ''hello ''\<rparr>), fs), w))"

lemma in_order_law: "unordered_law in_order"
  by (auto simp: unordered_law_def in_order_def neq_Nil_conv split: list.split)


end
