(* ===== verification/Example_Tls_Server.thy ===== *)
theory Example_Tls_Server
  imports Example_Clients Server_Builder
begin

text \<open>
  The TLS echo server (\<open>examples/server/h2.rs\<close>): its service, the server it sets up with
  the crate's extension methods, and \<open>main\<close>; and which protocol a client of the crate
  speaks to it. chateau's server, the sockets, signals and tasks are parameters.
\<close>

section \<open>The service\<close>

text \<open>\<open>collect\<close> reads a body to its end and gives its bytes; the \<open>unwrap\<close> panics on its error.\<close>

definition echo_call where
  "echo_call Q X collect full_new ok_parts req =
     block_bind (co_println Q (method_str X (rq_method req) @ '' '' @ co_uri Q (rq_uri req))) (\<lambda>_.
     block_bind (print_headers Q (hdr_iter X (rq_headers req))) (\<lambda>_.
     block_unwrap (collect (rq_body req)) (\<lambda>data.
     block_return (Inr \<lparr>rs_parts = ok_parts, rs_body = body_from_bytes full_new data\<rparr>))))"

section \<open>The server\<close>

definition tls_echo_server where
  "tls_echo_server with_acceptor set_tls with_shared_service map_info map_tls_info set_protocol with_tokio
     http2_new executor builder incoming config svc =
     with_tokio
       (server_with_http2 set_protocol http2_new executor
         (server_with_tls_connection_info map_tls_info
           (server_with_connection_info map_info
             (with_shared_service
               (set_tls (server_with_incoming with_acceptor acceptor_core_from_tcp builder incoming) config)
               svc))))"

text \<open>
  \<open>main\<close>. The server runs in a task of its own, whose end is awaited last: its panic, and its
  error, are a panic of \<open>main\<close>. The other task waits for ctrl-c and then sends the shutdown
  signal; the server waits for that signal.
\<close>

definition ctrl_c_task where
  "ctrl_c_task Q ctrl_c eprintln send =
     block_bind ctrl_c (\<lambda>_.
     block_bind eprintln (\<lambda>_.
     block_bind (co_println Q ''ctrl-c received, shutting down'') (\<lambda>_.
     block_unwrap send (\<lambda>_. block_return ()))))"

definition tls_echo_main where
  "tls_echo_main Q F R bind local_addr show_addr setup serve spawn task prx rx =
     block_unwrap (bind (127, 0, 0, 1) 0) (\<lambda>incoming.
     block_unwrap (block_return (local_addr incoming)) (\<lambda>addr.
     block_bind (block_of (tls_config F R ''localhost'')) (\<lambda>config.
     block_bind (co_println Q (''Server listening on '' @ show_addr addr)) (\<lambda>_.
     block_do (spawn task)
     (block_unwrap (serve (setup incoming config) (block_bind (await prx rx) (\<lambda>_. block_return ()))) (\<lambda>_.
      block_return ()))))))"

text \<open>
  What the setup gives: in this order, the acceptor over the listener, TLS, the shared
  service wrapped first in the connection information and then in the TLS information, and
  HTTP/2 as the only protocol.
\<close>

lemma tls_echo_server_stack:
  "tls_echo_server (\<lambda>b a. (a, b)) (\<lambda>s c. (c, s)) (\<lambda>s v. (v, s)) (\<lambda>(v, s) f. (f v, s)) (\<lambda>(v, s) f. (f v, s))
     (\<lambda>(v, s) p. (p, v, s)) id http2_new executor builder incoming config svc =
   (http2_builder_from (http2_new executor), make_tls_info_new (make_info_new svc), config,
    acceptor_from acceptor_core_from_tcp incoming, builder)"
  by (simp add: tls_echo_server_def server_with_http2_def server_with_tls_connection_info_def
      server_with_connection_info_def server_with_incoming_def)

text \<open>
  The server echoes: the bytes a request body delivers, in whatever frames, are the body of
  the response; a body that fails is a panic of the request's task.
\<close>

definition collect_law where
  "collect_law collect B data_ref obs \<longleftrightarrow>
     (\<forall>b bs fin w. body_delivers B data_ref obs b bs fin \<longrightarrow>
        (\<exists>w'. collect b w = Some (Ret (case fin of None \<Rightarrow> Inr bs | Some e \<Rightarrow> Inl e), w') \<and> obs w' = obs w))"

lemma echo_call_run:
  assumes "output_laws Q obs" and "collect_law collect B (co_data_ref Q) obs"
    and "body_delivers B (co_data_ref Q) obs (rq_body req) bs fin"
  shows "\<exists>w'. echo_call Q X collect full_new ok_parts req w =
    Some (case fin of
        None \<Rightarrow> Ret (Inr \<lparr>rs_parts = ok_parts, rs_body = body_from_bytes full_new bs\<rparr>)
      | Some e \<Rightarrow> Panic, w')"
proof -
  obtain printed k where o: "obs w = (printed, k)" by (cases "obs w")
  let ?line = "method_str X (rq_method req) @ '' '' @ co_uri Q (rq_uri req)"
  from println_run [OF assms(1) o, of ?line] obtain w1 where
    w1: "co_println Q ?line w = Some (Ret (), w1)" "obs w1 = (printed @ text_bytes (?line @ newline), k)" .
  obtain w2 where w2: "print_headers Q (hdr_iter X (rq_headers req)) w1 = Some (Ret (), w2)"
    using print_headers_run [OF assms(1) w1(2)] by blast
  from assms(2,3) obtain w3 where
    w3: "collect (rq_body req) w2 = Some (Ret (case fin of None \<Rightarrow> Inr bs | Some e \<Rightarrow> Inl e), w3)"
    unfolding collect_law_def by blast
  show ?thesis
    unfolding echo_call_def block_bind_cases(3) [where m = "co_println Q ?line", OF w1(1)]
    using w2 w3 by (cases fin) (simp_all add: block_unwrap_def block_bind_def block_return_def block_panic_def)
qed

section \<open>The protocol its clients speak\<close>

text \<open>
  C40: ALPN chooses a protocol that the server offers, or none; the example's server offers none.
  So a client of the crate with the default automatic protocol, which starts with HTTP/1,
  always makes an HTTP/1 connection to it, although the server serves HTTP/2 only.
\<close>

theorem tls_echo_client_speaks_http1:
  assumes "server_alpn_laws R" and "tls_config F R domain = Ret cfg"
    and "\<And>s p. ti io = Some s \<Longrightarrow> tls_alpn L s = Some p \<Longrightarrow> p \<in> set (scfg_alpn R cfg)"
    and "out_res (run_polls (alpn_handshake_poll ti L H1 p1 spawn1 H2 p2 spawn2) (Suc n)
      (fst (alpn_call clone1 clone2 (alpn_builder_default H1 http2_new executor) io)) w) = (Ready (Inr c), w')"
  shows "\<exists>s. c = Inner_H1 s"
proof -
  have "Option.bind (ti io) (tls_alpn L) \<noteq> Some ''h2''"
    using assms(3) tls_config_offers_none [OF assms(1,2)] by (cases "ti io") auto
  with alpn_connected [OF assms(4)] show ?thesis
    by (cases c) (auto simp: alpn_builder_default_def)
qed

text \<open>An instance: files that are accepted, and a session without a negotiated protocol.\<close>

definition plain_files :: tls_files where
  "plain_files = \<lparr>tf_read = (\<lambda>_. Inr []), tf_pem = (\<lambda>_. Some (''PRIVATE KEY'', []))\<rparr>"

definition plain_server_tls :: "(unit, string list) rustls_server_api" where
  "plain_server_tls =
     \<lparr>scfg_single_cert = (\<lambda>_ _. Inr []), scfg_alpn = id, scfg_set_alpn = (\<lambda>_ ps. ps)\<rparr>"

lemma tls_echo_client_speaks_http1_witness:
  "tls_config plain_files plain_server_tls ''localhost'' = Ret []
   \<and> out_res (run_polls (alpn_handshake_poll Some h2_session
        (unit_hyper_client :: (unit, string option tokio_io, unit, unit) hyper_client) unit_handshake (\<lambda>_ w. w)
        (unit_hyper_client :: (unit, string option tokio_io, unit, unit) hyper_client) unit_handshake (\<lambda>_ w. w)) (Suc 0)
      (fst (alpn_call id id (alpn_builder_default (unit_hyper_client :: (unit, string option tokio_io, unit, unit) hyper_client) (\<lambda>_. ()) ()) (None :: string option))) ()) =
     (Ready (Inr (Inner_H1 () :: (unit, unit) http_connection)), ())"
proof -
  have cfg: "tls_config plain_files plain_server_tls ''localhost'' = Ret []"
    by (simp add: tls_config_def plain_files_def server_config_from_def private_key_def plain_server_tls_def)
  have shaken: "\<exists>c. out_res (run_polls (alpn_handshake_poll Some h2_session
        (unit_hyper_client :: (unit, string option tokio_io, unit, unit) hyper_client) unit_handshake (\<lambda>_ w. w)
        (unit_hyper_client :: (unit, string option tokio_io, unit, unit) hyper_client) unit_handshake (\<lambda>_ w. w)) (Suc 0)
      (fst (alpn_call id id (alpn_builder_default (unit_hyper_client :: (unit, string option tokio_io, unit, unit) hyper_client) (\<lambda>_. ()) ()) (None :: string option))) ()) =
     (Ready (Inr (c :: (unit, unit) http_connection)), ())"
    unfolding out_res_def alpn_run
    by (simp add: alpn_builder_default_def alpn_multiplex_ready_def h2_session_def unit_handshake_def handshake_result_def)
  then obtain c :: "(unit, unit) http_connection" where c: "out_res (run_polls (alpn_handshake_poll Some h2_session
        (unit_hyper_client :: (unit, string option tokio_io, unit, unit) hyper_client) unit_handshake (\<lambda>_ w. w)
        (unit_hyper_client :: (unit, string option tokio_io, unit, unit) hyper_client) unit_handshake (\<lambda>_ w. w)) (Suc 0)
      (fst (alpn_call id id (alpn_builder_default (unit_hyper_client :: (unit, string option tokio_io, unit, unit) hyper_client) (\<lambda>_. ()) ()) (None :: string option))) ()) =
     (Ready (Inr c), ())" by blast
  have "server_alpn_laws plain_server_tls" by (simp add: server_alpn_laws_def plain_server_tls_def)
  from tls_echo_client_speaks_http1 [OF this cfg _ c] have "\<exists>s. c = Inner_H1 s" by (auto simp: h2_session_def)
  with cfg c show ?thesis by auto
qed

end
