(* ===== verification/Unit_Tests.thy ===== *)
theory Unit_Tests
  imports Uri_Text Http_Checks Server_Sni Client_Handle Client_Mock Server_Info Body
begin

text \<open>
  The unit tests that stand beside the code of the request path, translated and run on the
  model: the request targets of \<open>src/service/http.rs\<close>, the Host header of
  \<open>src/service/host.rs\<close>, the SNI check of \<open>src/server/conn/tls/sni.rs\<close>, protocol identifiers
  of \<open>src/info/mod.rs\<close>, the pool key of \<open>src/client/mod.rs\<close> and the bodies of
  \<open>src/body/mod.rs\<close>. A test is a definition, true when no assertion of its body fails and no
  \<open>unwrap\<close> panics; a lemma states that it passes. The tests compare the model with what the
  authors of the program expect of it at concrete inputs. URIs are read by \<open>text_api\<close>.
\<close>

section \<open>Helpers\<close>

text \<open>\<open>"...".parse().unwrap()\<close>, and the comparison of a URI with a text.\<close>

definition with_uri :: "string \<Rightarrow> (plain_uri \<Rightarrow> bool) \<Rightarrow> bool" where
  "with_uri s test = (case uri_from_str text_api s of None \<Rightarrow> False | Some uri \<Rightarrow> test uri)"

definition uri_eq_text :: "plain_uri \<Rightarrow> string \<Rightarrow> bool" where
  "uri_eq_text uri s \<longleftrightarrow> uri_from_str text_api s = Some uri"

definition returns :: "'a outcome \<Rightarrow> ('a \<Rightarrow> bool) \<Rightarrow> bool" where
  "returns r test = (case r of Panic \<Rightarrow> False | Ret x \<Rightarrow> test x)"

text \<open>\<open>http::Request::new(())\<close>: a GET request for \<open>/\<close> with HTTP/1.1 and no headers.\<close>

definition request_new :: "'x \<Rightarrow> (plain_uri, (string \<times> string) list, 'x, unit) request" where
  "request_new ext =
     \<lparr>rq_method = GET, rq_uri = uri_default text_api, rq_version = HTTP_11, rq_headers = [],
      rq_ext = ext, rq_body = ()\<rparr>"

lemmas test_eval =
  with_uri_def uri_eq_text_def returns_def request_new_def text_simps parse_uri_def parse_path_def
  parse_authority_def parse_port_def is_digit_def read_nat_def

section \<open>Request targets\<close>

definition test_origin_form :: "bool \<Rightarrow> bool" where
  "test_origin_form dbg \<longleftrightarrow>
     with_uri ''http://example.com''
       (\<lambda>uri. returns (origin_form dbg text_api uri) (\<lambda>uri. uri_eq_text uri ''/''))
   \<and> with_uri ''/some/path/here''
       (\<lambda>uri. returns (origin_form dbg text_api uri) (\<lambda>uri. uri_eq_text uri ''/some/path/here''))
   \<and> with_uri ''http://example.com:8080/some/path?query#fragment''
       (\<lambda>uri. returns (origin_form dbg text_api uri) (\<lambda>uri. uri_eq_text uri ''/some/path?query''))
   \<and> with_uri ''/''
       (\<lambda>uri. returns (origin_form dbg text_api uri) (\<lambda>uri. uri_eq_text uri ''/''))"

definition keeps_absolute :: "bool \<Rightarrow> string \<Rightarrow> bool" where
  "keeps_absolute dbg s \<longleftrightarrow>
     with_uri s (\<lambda>uri. returns (absolute_form dbg text_api uri) (\<lambda>uri. uri_eq_text uri s))"

definition test_absolute_form :: "bool \<Rightarrow> bool" where
  "test_absolute_form dbg \<longleftrightarrow>
     keeps_absolute dbg ''http://example.com''
   \<and> keeps_absolute dbg ''http://example.com:8080''
   \<and> keeps_absolute dbg ''https://example.com/some/path?query''
   \<and> keeps_absolute dbg ''https://example.com:8443''
   \<and> keeps_absolute dbg ''http://example.com:443''
   \<and> keeps_absolute dbg ''https://example.com:80''"

lemma test_origin_form_passes: "test_origin_form dbg"
  by (simp add: test_origin_form_def origin_form_def uri_is_slash_def test_eval)

lemma test_absolute_form_passes: "test_absolute_form dbg"
  by (simp add: test_absolute_form_def keeps_absolute_def absolute_form_def test_eval)

section \<open>The Host header\<close>

definition host_header_of :: "string \<Rightarrow> string \<Rightarrow> bool" where
  "host_header_of uri_text expected \<longleftrightarrow>
     with_uri uri_text (\<lambda>uri.
       returns (set_host_header text_api (request_new ()\<lparr>rq_uri := uri\<rparr>))
         (\<lambda>request. hdr_get text_api (rq_headers request) HOST = Some expected))"

definition test_set_host_header :: bool where
  "test_set_host_header \<longleftrightarrow>
     host_header_of ''http://example.com'' ''example.com''
   \<and> host_header_of ''http://example.com:8080'' ''example.com:8080''
   \<and> host_header_of ''https://example.com'' ''example.com''
   \<and> host_header_of ''https://example.com:8443'' ''example.com:8443''"

definition test_is_schema_secure :: bool where
  "test_is_schema_secure \<longleftrightarrow>
     with_uri ''http://example.com'' (\<lambda>uri. \<not> is_schema_secure text_api uri)
   \<and> with_uri ''https://example.com'' (is_schema_secure text_api)
   \<and> with_uri ''ws://example.com'' (\<lambda>uri. \<not> is_schema_secure text_api uri)
   \<and> with_uri ''wss://example.com'' (is_schema_secure text_api)"

definition test_get_non_default_port :: bool where
  "test_get_non_default_port \<longleftrightarrow>
     with_uri ''http://example.com'' (\<lambda>uri. map_option snd (get_non_default_port text_api uri) = None)
   \<and> with_uri ''http://example.com:8080'' (\<lambda>uri. map_option snd (get_non_default_port text_api uri) = Some 8080)
   \<and> with_uri ''https://example.com'' (\<lambda>uri. map_option snd (get_non_default_port text_api uri) = None)
   \<and> with_uri ''https://example.com:8443'' (\<lambda>uri. map_option snd (get_non_default_port text_api uri) = Some 8443)"

lemma test_set_host_header_passes: test_set_host_header
  by (simp add: test_set_host_header_def host_header_of_def set_host_header_def get_non_default_port_def
      is_schema_secure_def test_eval)

lemma test_is_schema_secure_passes: test_is_schema_secure
  by (simp add: test_is_schema_secure_def is_schema_secure_def test_eval)

lemma test_get_non_default_port_passes: test_get_non_default_port
  by (simp add: test_get_non_default_port_def get_non_default_port_def is_schema_secure_def test_eval)

section \<open>The SNI check\<close>

text \<open>A request with the headers and, if it came over TLS, the server name of the handshake.\<close>

definition sni_test_request :: "(string \<times> string) list \<Rightarrow> string option option \<Rightarrow>
    (plain_uri, (string \<times> string) list, (unit, string option \<times> bool, unit) extensions, unit) request" where
  "sni_test_request headers server_name =
     (let tls = map_option (\<lambda>name. (name, False)) server_name
      in (request_new (no_extensions\<lparr>ext_tls := tls\<rparr>))\<lparr>rq_headers := headers\<rparr>)"

definition test_handle_no_sni :: bool where
  "test_handle_no_sni \<longleftrightarrow>
     fst (sni_handle text_api name_tls (sni_test_request [(HOST, ''example.com'')] (Some None)))
       = Some (MissingSNI ''example.com'')"

definition test_handle_no_host :: bool where
  "test_handle_no_host \<longleftrightarrow>
     fst (sni_handle text_api name_tls (sni_test_request [] (Some (Some ''example.com'')))) = None"

definition test_handle_mismatched_sni :: bool where
  "test_handle_mismatched_sni \<longleftrightarrow>
     fst (sni_handle text_api name_tls
       (sni_test_request [(HOST, ''example.com'')] (Some (Some ''example.org''))))
       = Some (InvalidSNI ''example.com'' ''example.org'')"

definition test_handle_matching_sni :: bool where
  "test_handle_matching_sni \<longleftrightarrow>
     fst (sni_handle text_api name_tls
       (sni_test_request [(HOST, ''example.com'')] (Some (Some ''example.com'')))) = None"

definition test_handle_http2_matches_authority :: bool where
  "test_handle_http2_matches_authority \<longleftrightarrow>
     with_uri ''https://example.com'' (\<lambda>uri.
       fst (sni_handle text_api name_tls
         ((sni_test_request [] (Some (Some ''example.com'')))\<lparr>rq_uri := uri\<rparr>)) = None)"

definition test_handle_missing_tls_info :: bool where
  "test_handle_missing_tls_info \<longleftrightarrow>
     fst (sni_handle text_api name_tls (sni_test_request [(HOST, ''example.com'')] None)) = None"

lemmas sni_test_eval = sni_test_request_def no_extensions_def sni_handle_def requested_host_def name_tls_def test_eval

lemma sni_tests_pass:
  "test_handle_no_sni" "test_handle_no_host" "test_handle_mismatched_sni" "test_handle_matching_sni"
  "test_handle_http2_matches_authority" "test_handle_missing_tls_info"
  by (simp_all add: test_handle_no_sni_def test_handle_no_host_def test_handle_mismatched_sni_def
      test_handle_matching_sni_def test_handle_http2_matches_authority_def test_handle_missing_tls_info_def
      sni_test_eval)

text \<open>
  The fifth test does not reach the HTTP/2 branch: the request builder makes an HTTP/1.1
  request, which has no Host header. It passes for any server name.
\<close>

lemma http2_test_on_any_name:
  "authority_from_str text_api name \<noteq> None \<Longrightarrow>
     with_uri ''https://example.com'' (\<lambda>uri.
       fst (sni_handle text_api name_tls ((sni_test_request [] (Some (Some name)))\<lparr>rq_uri := uri\<rparr>)) = None)"
  by (auto simp: sni_test_request_def no_extensions_def sni_handle_def requested_host_def name_tls_def
      with_uri_def request_new_def text_simps parse_uri_def parse_path_def
      parse_authority_def [of "''example.com''"])

section \<open>Protocol identifiers\<close>

text \<open>The debug format of \<open>http::Version\<close>.\<close>

fun version_debug :: "http_version \<Rightarrow> string" where
  "version_debug HTTP_09 = ''HTTP/0.9''"
| "version_debug HTTP_10 = ''HTTP/1.0''"
| "version_debug HTTP_11 = ''HTTP/1.1''"
| "version_debug HTTP_2 = ''HTTP/2.0''"
| "version_debug HTTP_3 = ''HTTP/3.0''"

definition test_protocol_display :: bool where
  "test_protocol_display \<longleftrightarrow>
     info_protocol_display version_debug (info_protocol_http HTTP_11) = ''HTTP/1.1''
   \<and> info_protocol_display version_debug (info_protocol_http HTTP_2) = ''HTTP/2.0''
   \<and> info_protocol_display version_debug (info_protocol_http HTTP_3) = ''HTTP/3.0''
   \<and> info_protocol_display version_debug (info_protocol_http HTTP_10) = ''HTTP/1.0''
   \<and> info_protocol_display version_debug info_protocol_grpc = ''gRPC''
   \<and> info_protocol_display version_debug info_protocol_web_socket = ''WebSocket''"

definition test_parse_protocol :: bool where
  "test_parse_protocol \<longleftrightarrow>
     info_protocol_from_str ''http/1.1'' = info_protocol_http HTTP_11
   \<and> info_protocol_from_str ''h2'' = info_protocol_http HTTP_2
   \<and> info_protocol_from_str ''h3'' = info_protocol_http HTTP_3
   \<and> info_protocol_from_str ''http/1.0'' = info_protocol_http HTTP_10
   \<and> info_protocol_from_str ''gRPC'' = info_protocol_grpc
   \<and> info_protocol_from_str ''WebSocket'' = info_protocol_web_socket
   \<and> info_protocol_from_str ''foo'' = Proto_Other ''foo''"

lemma test_protocol_display_passes: test_protocol_display
  by (simp add: test_protocol_display_def info_protocol_http_def info_protocol_grpc_def info_protocol_web_socket_def)

lemma test_parse_protocol_passes: test_parse_protocol
  by (simp add: test_parse_protocol_def info_protocol_from_str_def info_protocol_http_def
      info_protocol_grpc_def info_protocol_web_socket_def)

section \<open>The pool key\<close>

text \<open>\<open>Authority::from_static\<close>, and the two parts of a key.\<close>

definition with_authority :: "string \<Rightarrow> (plain_authority \<Rightarrow> bool) \<Rightarrow> bool" where
  "with_authority s test = (case authority_from_str text_api s of None \<Rightarrow> False | Some a \<Rightarrow> test a)"

definition key_is :: "'au uri_key \<Rightarrow> string \<Rightarrow> 'au \<Rightarrow> bool" where
  "key_is key scheme authority \<longleftrightarrow>
     (case key of UriKey s a \<Rightarrow> s = scheme \<and> a = Some authority)"

definition test_key_from_uri :: "(plain_uri \<Rightarrow> string) \<Rightarrow> bool" where
  "test_key_from_uri uri_display \<longleftrightarrow>
     with_uri ''http://localhost:8080'' (\<lambda>uri.
       returns (uri_key_try_from text_api uri_display id uri) (\<lambda>key.
         case key of
           Inl e \<Rightarrow> False
         | Inr key \<Rightarrow> with_authority ''localhost:8080'' (key_is key ''http'')))"

definition test_key_display :: bool where
  "test_key_display \<longleftrightarrow>
     with_authority ''localhost:8080'' (\<lambda>a.
       uri_key_display text_api (UriKey ''http'' (Some a)) = ''http://localhost:8080'')"

definition test_key_from_tuple :: bool where
  "test_key_from_tuple \<longleftrightarrow>
     with_authority ''localhost:8080'' (\<lambda>a. key_is (uri_key_from (''http'', a)) ''http'' a)"

lemmas key_test_eval = with_authority_def key_is_def test_eval

lemma test_key_from_uri_passes: "test_key_from_uri uri_display"
  by (simp add: test_key_from_uri_def uri_key_try_from_def key_test_eval)

lemma test_key_display_passes: test_key_display
  by (simp add: test_key_display_def uri_key_display_def key_test_eval)

lemma test_key_from_tuple_passes: test_key_from_tuple
  by (simp add: test_key_from_tuple_def uri_key_from_def key_test_eval)

section \<open>Bodies\<close>

text \<open>A body with the lower and the upper bound of its size, and whether it is at its end.\<close>

definition body_is :: "(byte list, byte list, byte list) body \<Rightarrow> nat \<Rightarrow> bool \<Rightarrow> bool" where
  "body_is body n ended \<longleftrightarrow>
     fst (size_hint plain_body_ops body) = n \<and> snd (size_hint plain_body_ops body) = Some n
     \<and> is_end_stream plain_body_ops body = ended"

definition check_body_from_string :: bool where
  "check_body_from_string \<longleftrightarrow> body_is (body_from_string id (text_bytes ''Hello, World!'')) 13 False"

definition check_body_from_empty_string :: bool where
  "check_body_from_empty_string \<longleftrightarrow> body_is (body_from_string id (text_bytes [])) 0 True"

definition check_body_from_vec :: bool where
  "check_body_from_vec \<longleftrightarrow> body_is (body_from_vec id (text_bytes ''Hello, World!'')) 13 False"

definition check_body_empty :: bool where
  "check_body_empty \<longleftrightarrow> body_is body_empty 0 True"

definition check_body_from_bytes :: bool where
  "check_body_from_bytes \<longleftrightarrow> body_is (body_from_bytes id (text_bytes ''Hello, World!'')) 13 False"

definition check_body_from_empty_bytes :: bool where
  "check_body_from_empty_bytes \<longleftrightarrow> body_is (body_from_bytes id []) 0 True"

lemma body_tests_pass:
  check_body_from_string check_body_from_empty_string check_body_from_vec check_body_empty
  check_body_from_bytes check_body_from_empty_bytes
  by (simp_all add: check_body_from_string_def check_body_from_empty_string_def check_body_from_vec_def
      check_body_empty_def check_body_from_bytes_def check_body_from_empty_bytes_def body_is_def
      body_from_string_def inner_body_from_string_def body_from_vec_def body_empty_def body_from_bytes_def
      body_defs plain_body_ops_def plain_full_def text_bytes_def)

section \<open>The mock stream\<close>

text \<open>
  The information of a stream is the pair of its addresses. The last assertion of the test is on the \<open>Debug\<close> text of the stream and not modelled.\<close>

definition test_verify_stream :: "mock_world \<Rightarrow> bool" where
  "test_verify_stream w \<longleftrightarrow>
     (let (conn, w) = mock_stream_new False w;
          shared = mock_stream_can_share conn;
          (conn, w) = mock_stream_new False w;
          w = mock_stream_close conn w
      in \<not> shared \<and> snd (mock_stream_info (MockAddress, MockAddress) conn) = MockAddress)"

lemma test_verify_stream_passes: "test_verify_stream w"
  by (simp add: test_verify_stream_def mock_stream_new_def mock_stream_can_share_def mock_stream_info_def
      stream_id_new_def Let_def)

section \<open>Connection information\<close>

text \<open>
  The service of the test asserts that a request carries the connection information, with
  the duplex address as its remote address. \<open>tower::make::Shared\<close>, which makes a clone of the
  service for every stream, is an instance of a make-service; a stream is the pair of its
  addresses.
\<close>

definition asserting_service ::
  "(unit, ('u, 'h, (unit \<times> unit, 'tls, 'ua) extensions, 'b) request, unit, unit, unit, unit) service" where
  "asserting_service =
     \<lparr>poll_ready = (\<lambda>self w. (Ready (Inr ()), self, w)),
      call = (\<lambda>self req w.
        case ext_connection_info (rq_ext req) of
          None \<Rightarrow> (Panic, self, w)
        | Some info \<Rightarrow> if snd info = () then (Ret (), self, w) else (Panic, self, w)),
      poll_fut = (\<lambda>f w. (Ready (Inr ()), f, w))\<rparr>"

definition shared_make :: "('s, 'io, 's, unit, 's, unit) service" where
  "shared_make =
     \<lparr>poll_ready = (\<lambda>self w. (Ready (Inr ()), self, w)), call = (\<lambda>self io w. (Ret self, self, w)),
      poll_fut = (\<lambda>f w. (Ready (Inr f), f, w))\<rparr>"

definition test_connection_info_from_service :: bool where
  "test_connection_info_from_service \<longleftrightarrow>
     (let conn = ((), ());
          req = request_new (no_extensions :: (unit \<times> unit, unit, unit) extensions)
      in case run_call (make_info_ops id id shared_make) 1 (make_info_layer ()) conn () of
           (Ready (Inr svc), make_service, w) \<Rightarrow>
             (case run_call (connection_with_info_ops id id asserting_service) 1 svc req w of
                (Ready (Inr response), svc, w) \<Rightarrow> True
              | _ \<Rightarrow> False)
         | _ \<Rightarrow> False)"

lemma test_connection_info_from_service_passes: test_connection_info_from_service
  by (simp add: test_connection_info_from_service_def run_call_def make_info_ops_def make_info_call_def
      make_info_layer_def make_info_new_def make_info_future_new_def make_info_future_poll_def shared_make_def
      connection_with_info_ops_def connection_with_info_call_def insert_connection_info_def asserting_service_def
      request_new_def Let_def)

end
