(* ===== verification/Unit_Tests_Async.thy ===== *)
theory Unit_Tests_Async
  imports Happy_Eyeballs Server_Auto Rust_Text
begin

text \<open>
  The unit tests of the asynchronous parts, translated and run on the model: the race of
  \<open>src/happy_eyeballs.rs\<close> and the version detection of \<open>src/server/conn/auto.rs\<close>. To run the
  race, its step relation is given as a function that follows a list of events.
\<close>

section \<open>Following a schedule of the race\<close>

fun he_next :: "('f \<Rightarrow> 'e + 't) \<Rightarrow> instant \<Rightarrow> ('f, 't, 'e) he_config \<Rightarrow> 'f he_event \<Rightarrow> ('f, 't, 'e) he_config option" where
  "he_next out now (self, At_Start) ev = (if ev = Ev_Start then Some (process_start now self) else None)"
| "he_next out now (self, In_Queue f) ev =
     (case ev of
        Ev_Start \<Rightarrow> None
      | Ev_Next nxt \<Rightarrow> if next_task self nxt then Some (queue_resume out now (Wake_Next nxt) f self) else None
      | Ev_Delay \<Rightarrow>
          if es_delay self \<noteq> None \<and> es_tasks self \<noteq> {#} then Some (queue_resume out now Wake_Delay f self) else None
      | Ev_Timeout \<Rightarrow>
          if es_timeout self \<noteq> None \<and> es_tasks self \<noteq> {#} then Some (finish_timeout now self) else None)"
| "he_next out now (self, In_Drain) ev =
     (case ev of
        Ev_Start \<Rightarrow> None
      | Ev_Next nxt \<Rightarrow> if next_task self nxt then Some (drain_resume out now nxt self) else None
      | Ev_Delay \<Rightarrow> None
      | Ev_Timeout \<Rightarrow>
          if es_timeout self \<noteq> None \<and> es_tasks self \<noteq> {#} then Some (finish_timeout now self) else None)"
| "he_next out now (self, Done r) ev = None"
| "he_next out now (self, Panicking) ev = None"

text \<open>The function gives the steps of the relation, no more and no less.\<close>

lemma he_next_step: "he_next out now c ev = Some c' \<Longrightarrow> he_step out c ev c'"
  by (induction out now c ev rule: he_next.induct)
    (auto intro: he_step.intros split: he_event.splits if_splits)

lemma he_step_next: "he_step out c ev c' \<Longrightarrow> \<exists>now. he_next out now c ev = Some c'"
  by (induction rule: he_step.induct) auto

text \<open>Following the events as long as they are possible; \<open>now\<close> is the time of every step.\<close>

fun he_follow :: "('f \<Rightarrow> 'e + 't) \<Rightarrow> instant \<Rightarrow> ('f, 't, 'e) he_config \<Rightarrow> 'f he_event list \<Rightarrow> ('f, 't, 'e) he_config" where
  "he_follow out now c [] = c"
| "he_follow out now c (ev # evs) =
     (case he_next out now c ev of None \<Rightarrow> c | Some c' \<Rightarrow> he_follow out now c' evs)"

lemma he_follow_run: "he_run out c0 evs0 c \<Longrightarrow> \<exists>evs'. he_run out c0 evs' (he_follow out now c evs)"
proof (induction evs arbitrary: c evs0)
  case Nil
  then show ?case by auto
next
  case (Cons ev evs)
  show ?case
  proof (cases "he_next out now c ev")
    case None
    with Cons.prems show ?thesis by auto
  next
    case (Some c')
    with Cons.IH [OF he_run_snoc [OF Cons.prems he_next_step]] show ?thesis by simp
  qed
qed

section \<open>The tests of the race\<close>

text \<open>
  A future that is ready is given by its output. Ready futures complete in the order they
  were started, before any timer; when no future completes, the timeout elapses.
\<close>

definition ready_events :: "'f list \<Rightarrow> 'f he_event list" where
  "ready_events fs = Ev_Start # map (\<lambda>f. Ev_Next (Some f)) fs @ [Ev_Next None]"

definition pending_events :: "'f he_event list" where
  "pending_events = [Ev_Start, Ev_Timeout]"

definition awaited :: "('f \<Rightarrow> 'e + 't) \<Rightarrow> ('f, 'e) eyeball_set \<Rightarrow> 'f he_event list \<Rightarrow> ('t, 'e) he_result option" where
  "awaited out eyeballs events =
     (case snd (he_follow out 0 (eyeball_set_into_future eyeballs) events) of Done r \<Rightarrow> Some r | _ \<Rightarrow> None)"

definition test_one_future_success :: bool where
  "test_one_future_success \<longleftrightarrow>
     (let future = Inr 5 :: string + nat;
          eyeballs = eyeball_set_push future (eyeball_set_new (Some 0) (Some 0) None)
      in \<not> eyeball_set_is_empty eyeballs \<and> awaited id eyeballs (ready_events [future]) = Some (Inr 5))"

definition test_one_future_error :: bool where
  "test_one_future_error \<longleftrightarrow>
     (let future = Inl ''error'' :: string + unit;
          eyeballs = eyeball_set_push future (eyeball_set_new (Some 0) (Some 0) None)
      in awaited id eyeballs (ready_events [future]) = Some (Inl (HE_Error ''error'')))"

definition test_one_future_timeout :: "(unit \<Rightarrow> string + unit) \<Rightarrow> bool" where
  "test_one_future_timeout out \<longleftrightarrow>
     (let eyeballs = eyeball_set_push () (eyeball_set_new (Some 0) (Some 0) None)
      in case awaited out eyeballs pending_events of
           Some (Inl (HE_Timeout d)) \<Rightarrow> True
         | _ \<Rightarrow> False)"

definition test_empty_set :: bool where
  "test_empty_set \<longleftrightarrow>
     (let eyeballs = eyeball_set_new (Some 0) (Some 0) None :: (string + unit, string) eyeball_set
      in eyeball_set_is_empty eyeballs \<and> awaited id eyeballs (ready_events []) = Some (Inl NoProgress))"

definition test_multiple_futures_success :: bool where
  "test_multiple_futures_success \<longleftrightarrow>
     (let futures = [Inl ''error'', Inr 5, Inr 10] :: (string + nat) list;
          eyeballs = eyeball_set_extend futures (eyeball_set_new (Some 0) (Some 0) None)
      in awaited id eyeballs (ready_events futures) = Some (Inr 5))"

definition test_multiple_futures_until_finished :: bool where
  "test_multiple_futures_until_finished \<longleftrightarrow>
     (let future1 = Inl ''error''; future2 = Inr 5; future3 = (Inr 10 :: string + nat);
          eyeballs = eyeball_set_new (Some 0) (Some 0) None;
          eyeballs = eyeball_set_push future1 eyeballs;
          eyeballs = eyeball_set_push future2 eyeballs;
          eyeballs = eyeball_set_push future3 eyeballs
      in eyeball_set_len eyeballs = 3
         \<and> awaited id eyeballs (ready_events [future1, future2, future3]) = Some (Inr 5))"

definition three_errors :: "(string + nat) list" where
  "three_errors = [Inl ''error 1'', Inl ''error 2'', Inl ''error 3'']"

definition test_multiple_futures_error :: bool where
  "test_multiple_futures_error \<longleftrightarrow>
     (let eyeballs = eyeball_set_extend three_errors (eyeball_set_new (Some 0) (Some 0) None)
      in awaited id eyeballs (ready_events three_errors) = Some (Inl (HE_Error ''error 1'')))"

definition test_no_timeout :: bool where
  "test_no_timeout \<longleftrightarrow>
     (let eyeballs = eyeball_set_extend three_errors (eyeball_set_new None None None)
      in awaited id eyeballs (ready_events three_errors) = Some (Inl (HE_Error ''error 1'')))"

lemmas race_eval =
  Let_def awaited_def ready_events_def pending_events_def eyeball_set_into_future_def
  eyeball_set_push_def eyeball_set_extend_def eyeball_set_new_def process_start_def queue_head_def
  drain_resume_def join_next_def join_next_start_def next_task_def finish_timeout_def three_errors_def
  eyeball_set_len_def

lemma race_tests_pass:
  test_one_future_success test_one_future_error "test_one_future_timeout out" test_empty_set
  test_multiple_futures_success test_multiple_futures_until_finished test_multiple_futures_error
  test_no_timeout
  by (simp_all add: test_one_future_success_def test_one_future_error_def test_one_future_timeout_def
      test_empty_set_def test_multiple_futures_success_def test_multiple_futures_until_finished_def
      test_multiple_futures_error_def test_no_timeout_def race_eval)

text \<open>What a test awaits is the end of a run of the race.\<close>

lemma awaited_runs:
  assumes "awaited out eyeballs events = Some r"
  shows "\<exists>evs self. he_run out (eyeball_set_into_future eyeballs) evs (self, Done r)"
proof -
  obtain self p where f: "he_follow out 0 (eyeball_set_into_future eyeballs) events = (self, p)"
    by (cases "he_follow out 0 (eyeball_set_into_future eyeballs) events") auto
  with assms have "p = Done r" by (auto simp: awaited_def split: he_point.splits)
  with he_follow_run [OF he_run_nil, of out "eyeball_set_into_future eyeballs" 0 events] f
  show ?thesis by auto
qed

section \<open>The tests of the version detection\<close>

text \<open>
  \<open>tokio::io::duplex\<close>: what the peer has written and flushed is one chunk, and after it has
  shut down the stream is at its end. \<open>read_to_end\<close> reads until a read gives nothing.
\<close>

fun read_to_end :: "('i, 'w) reader \<Rightarrow> nat \<Rightarrow> 'i \<Rightarrow> 'w \<Rightarrow> (io_error + byte list) polled" where
  "read_to_end rd 0 i w = Pending"
| "read_to_end rd (Suc n) i w =
     (case rd i 32 w of
        (Ready (Inr bs), i', w') \<Rightarrow>
          if bs = [] then Ready (Inr []) else map_polled (map_ok ((@) bs)) (read_to_end rd n i' w')
      | (r, i', w') \<Rightarrow> r)"

definition version_read :: "byte list \<Rightarrow> (auto_protocol \<times> byte list option list tokio_io rewind) option" where
  "version_read sent =
     (case run_polls (read_version_poll (io_read (tokio_hyper_ops chunk_ops))) 1
         (read_version_new (tokio_io_new [Some sent])) () of
        (Ready (Inr r), rv, w) \<Rightarrow> Some r
      | _ \<Rightarrow> None)"

definition get_line :: "byte list" where
  "get_line = text_bytes (''GET / HTTP/1.1'' @ crlf @ crlf)"

definition version_test :: "byte list \<Rightarrow> auto_protocol \<Rightarrow> bool" where
  "version_test sent expected \<longleftrightarrow>
     (case version_read sent of
        None \<Rightarrow> False
      | Some (version, rw) \<Rightarrow>
          version = expected
          \<and> (case rewind_into_parts rw of
               (io, prefix) \<Rightarrow> prefix = Some sent
                 \<and> read_to_end chunk_read 2 (tokio_io_deref io) () = Ready (Inr [])))"

definition test_read_version_h2 :: bool where
  "test_read_version_h2 \<longleftrightarrow> version_test HTTP2_PREFIX Auto_Http2"

definition test_read_version_h1 :: bool where
  "test_read_version_h1 \<longleftrightarrow> version_test get_line Auto_Http1"

definition test_rewind_returns_full_data :: bool where
  "test_rewind_returns_full_data \<longleftrightarrow>
     (case version_read get_line of
        None \<Rightarrow> False
      | Some (version, rw) \<Rightarrow>
          version = Auto_Http1
          \<and> read_to_end (io_read (tokio_async_ops (rewind_ops (tokio_hyper_ops chunk_ops)))) 2
              (tokio_io_new rw) () = Ready (Inr get_line))"

text \<open>The detection on what a peer sent at once.\<close>

lemma version_read_eq:
  "version_read sent =
     Some (if take 24 sent = HTTP2_PREFIX then Auto_Http2 else Auto_Http1,
       rewind_new (tokio_io_new (if 24 < length sent then [Some (drop 24 sent)] else [])) (take 24 sent))"
proof -
  have "io_read (tokio_hyper_ops chunk_ops) (tokio_io_new [Some sent]) 24 () =
      (Ready (Inr (take 24 sent)), tokio_io_new (if 24 < length sent then [Some (drop 24 sent)] else []), ())"
    by (simp add: tokio_hyper_ops_def tokio_hyper_poll_read_def tokio_io_new_def)
  note poll = read_version_poll_waiting [where rd = "io_read (tokio_hyper_ops chunk_ops)", OF rv_waiting_new this]
  have "\<exists>rv'. read_version_poll (io_read (tokio_hyper_ops chunk_ops)) (read_version_new (tokio_io_new [Some sent])) () =
    (Ready (Inr (if take 24 sent = HTTP2_PREFIX then Auto_Http2 else Auto_Http1,
       rewind_new (tokio_io_new (if 24 < length sent then [Some (drop 24 sent)] else [])) (take 24 sent))), rv', ())"
    by (rule poll) simp
  then show ?thesis by (auto simp: version_read_def)
qed

lemma get_line_facts: "length get_line = 18" "take 24 get_line \<noteq> HTTP2_PREFIX"
  using length_HTTP2_PREFIX by (auto simp: get_line_def text_bytes_def crlf_def simp del: length_HTTP2_PREFIX
      dest: arg_cong [where f = length])

lemma version_tests_pass: test_read_version_h2 test_read_version_h1 test_rewind_returns_full_data
proof -
  show test_read_version_h2
    by (simp add: test_read_version_h2_def version_test_def version_read_eq rewind_into_parts_def rewind_new_def
        tokio_io_new_def tokio_io_deref_def numeral_2_eq_2)
  show test_read_version_h1
    using get_line_facts
    by (simp add: test_read_version_h1_def version_test_def version_read_eq rewind_into_parts_def rewind_new_def
        tokio_io_new_def tokio_io_deref_def numeral_2_eq_2)
  show test_rewind_returns_full_data
    using get_line_facts
    by (auto simp: test_rewind_returns_full_data_def version_read_eq rewind_new_def tokio_io_new_def
        tokio_async_ops_def tokio_async_poll_read_def rewind_ops_def rewind_poll_read_def
        tokio_hyper_ops_def tokio_hyper_poll_read_def numeral_2_eq_2 Let_def)
qed

end
