(* ===== verification/Unit_Tests_Client.thy ===== *)
theory Unit_Tests_Client
  imports Unit_Tests Client_Path Server_Auto
begin

text \<open>
  The unit tests of the client protocols, translated and run on the model: the automatic
  protocol of \<open>src/client/conn/protocol/auto.rs\<close>, over the mock TLS stream, and the HTTP/2
  protocol of \<open>src/client/conn/protocol/mod.rs\<close>. They look at the first line the connection
  writes, so they need an instance of hyper that writes one: HTTP/1 the request line, HTTP/2
  the preface, onto a stream that is the text written so far.
\<close>

section \<open>Hyper on a text\<close>

definition line_of :: "(plain_uri, (string \<times> string) list, 'x, 'b) request \<Rightarrow> string" where
  "line_of r =
     (case rq_method r of CONNECT \<Rightarrow> ''CONNECT'' | GET \<Rightarrow> ''GET'' | Method m \<Rightarrow> m)
     @ '' '' @ print_uri (rq_uri r) @ '' '' @ version_debug (rq_version r) @ crlf"

definition line_sender ::
  "(unit, (plain_uri, (string \<times> string) list, 'x, 'b) request, unit, string, string) sender_api" where
  "line_sender =
     \<lparr>snd_send = (\<lambda>s r w. ((), s, w @ line_of r)), snd_poll_ready = (\<lambda>s w. (Ready (Inr ()), s, w)),
      snd_is_ready = (\<lambda>s w. True), snd_clone = id\<rparr>"

definition shake_h1 :: "(unit, string + unit \<times> unit, string) pollf" where
  "shake_h1 f w = (Ready (Inr ((), ())), f, w)"

definition shake_h2 :: "(unit, string + unit \<times> unit, string) pollf" where
  "shake_h2 f w =
     (Ready (Inr ((), ())), f, w @ ''PRI * HTTP/2.0'' @ crlf @ crlf @ ''SM'' @ crlf @ crlf)"

definition read_line :: "string \<Rightarrow> string" where
  "read_line w =
     (let rest = dropWhile (\<lambda>c. c \<noteq> CHR 0x0A) w
      in takeWhile (\<lambda>c. c \<noteq> CHR 0x0A) w @ take 1 rest)"

section \<open>The tests\<close>

text \<open>\<open>tls_info(alpn_h2)\<close>: what the session of the mock stream negotiated.\<close>

definition test_tls_info :: "bool \<Rightarrow> string option" where
  "test_tls_info alpn_h2 = (if alpn_h2 then Some ''h2'' else None)"

text \<open>
  The body the tests share: the connection becomes ready, is open, has the version and the
  sharing that is expected, and after a request for \<open>http://localhost/\<close> the peer reads the
  line that is expected.
\<close>

definition connection_test ::
  "('c, (plain_uri, (string \<times> string) list, unit, unit) request, 'f, 'e, string) connection \<Rightarrow> 'c \<Rightarrow> string \<Rightarrow>
     http_protocol \<Rightarrow> bool \<Rightarrow> http_version \<Rightarrow> string \<Rightarrow> bool" where
  "connection_test C conn w version share request_version line \<longleftrightarrow>
     (case cn_poll_ready C conn w of
        (Ready (Inr u), conn, w) \<Rightarrow>
          cn_is_open C conn w \<and> cn_version C conn = version \<and> cn_can_share C conn = share
          \<and> (cn_reuse C conn \<noteq> None) = share
          \<and> with_uri ''http://localhost/'' (\<lambda>uri.
              case cn_send_request C conn ((request_new ())\<lparr>rq_uri := uri, rq_version := request_version\<rparr>) w of
                (fut, conn, w) \<Rightarrow> read_line w = line)
      | _ \<Rightarrow> False)"

text \<open>A connection of the automatic protocol with its default settings.\<close>

definition auto_connect :: "bool \<Rightarrow> ((unit, unit) http_connection \<times> string) option" where
  "auto_connect alpn_h2 =
     (let H = (unit_hyper_client :: (unit, (unit, string option) mock_tls tokio_io, unit, unit) hyper_client)
      in case run_polls (alpn_handshake_poll mock_tls_tls_info h2_session H shake_h1 (\<lambda>_ w. w) H shake_h2 (\<lambda>_ w. w)) 1
          (fst (alpn_call id id (alpn_builder_default H (\<lambda>_. ()) ())
            (mock_tls_new (test_tls_info alpn_h2) ()))) [] of
           (Ready (Inr conn), fut, w) \<Rightarrow> Some (conn, w)
         | _ \<Rightarrow> None)"

definition test_http_connector_request_h1 :: bool where
  "test_http_connector_request_h1 \<longleftrightarrow>
     (case auto_connect False of
        None \<Rightarrow> False
      | Some (conn, w) \<Rightarrow>
          connection_test (http_connection_ops line_sender line_sender) conn w Http1 False HTTP_11
            (''GET http://localhost/ HTTP/1.1'' @ crlf))"

definition test_http_connector_alpn_h2 :: bool where
  "test_http_connector_alpn_h2 \<longleftrightarrow>
     (case auto_connect True of
        None \<Rightarrow> False
      | Some (conn, w) \<Rightarrow>
          connection_test (http_connection_ops line_sender line_sender) conn w Http2 True HTTP_2
            (''PRI * HTTP/2.0'' @ crlf))"

text \<open>The HTTP/2 protocol on its own, on a plain stream.\<close>

definition test_http_connector_request_h2 :: bool where
  "test_http_connector_request_h2 \<longleftrightarrow>
     (case run_polls (client_http2_future_poll (unit_hyper_client :: (unit, unit tokio_io, unit, unit) hyper_client)
          shake_h2 (\<lambda>_ w. w)) 1
          (fst (client_http2_call id (client_http2_builder_new (\<lambda>_. ()) ()) ())) [] of
        (Ready (Inr conn), fut, w) \<Rightarrow>
          connection_test (http2_conn_ops line_sender) conn w Http2 True HTTP_2 (''PRI * HTTP/2.0'' @ crlf)
      | _ \<Rightarrow> False)"

section \<open>They pass\<close>

lemma auto_connect_eq:
  "auto_connect alpn_h2 =
     Some (if alpn_h2 then (Inner_H2 (), ''PRI * HTTP/2.0'' @ crlf @ crlf @ ''SM'' @ crlf @ crlf)
           else (Inner_H1 (), []))"
  by (simp add: auto_connect_def alpn_call_def alpn_builder_default_def alpn_handshake_poll_def
      alpn_handshake_h1_def alpn_handshake_h2_def handshake_poll_def handshake_await_def shake_h1_def shake_h2_def
      mock_tls_tls_info_def mock_tls_new_def test_tls_info_def h2_session_def unit_hyper_client_def
      http_connection_h1_def http_connection_h2_def Let_def)

lemma auto_connector_tests_pass: test_http_connector_request_h1 test_http_connector_alpn_h2
  by (simp_all add: test_http_connector_request_h1_def test_http_connector_alpn_h2_def auto_connect_eq
      connection_test_def http_connection_ops_def http_connection_poll_ready_def http_connection_send_request_def
      http_connection_version_def line_sender_def line_of_def read_line_def crlf_def print_uri_def api_simps test_eval)

lemma http2_connector_test_passes: test_http_connector_request_h2
  by (simp add: test_http_connector_request_h2_def client_http2_call_def client_http2_builder_new_def
      client_http2_future_poll_def http_protocol_future_poll_def handshake_poll_def handshake_await_def shake_h2_def
      unit_hyper_client_def http2_conn_new_def connection_test_def http2_conn_ops_def line_sender_def line_of_def
      read_line_def crlf_def print_uri_def api_simps test_eval)

end
