(* ===== verification/Spec2Isabelle.thy ===== *)
theory Spec2Isabelle
  imports Server_Builder Server_Path Http_Checks Server_Sni Happy_Eyeballs Client_Conn Client_Dns Client_Path
    Client_Api Client_Mock Service_Files Runtime Body
    Joint_Path Joint_Sni Tls_Config Example_Run Example_Cli_Run Example_Tls_Server
    Unit_Tests Unit_Tests_Async Unit_Tests_Client
begin

text \<open>
  A model of hyperdriver (\<open>src/\<close> of the crate), a Rust library that builds HTTP clients and
  servers from hyper, tokio and tower, and of the properties that make its own code correct.

  \<^bold>\<open>The program.\<close> A server accepts streams (\<open>server/conn/acceptor.rs\<close>), detects from the
  first bytes whether the client speaks HTTP/1 or HTTP/2 (\<open>server/conn/auto.rs\<close>), gives the
  bytes it read back through a rewinding reader (\<open>rewind.rs\<close>), and serves the connection with
  hyper through two bridges, one for I/O (\<open>bridge/io.rs\<close>) and one for services
  (\<open>bridge/service.rs\<close>). Middleware attaches information on the connection and on TLS to
  requests (\<open>server/conn/info.rs\<close>) and checks the TLS server name (\<open>server/conn/tls/sni.rs\<close>).
  A client resolves a name (\<open>client/conn/dns.rs\<close>), races connections to its addresses
  (\<open>happy_eyeballs.rs\<close>), decides on TLS (\<open>client/conn/tls.rs\<close>), picks a protocol
  (\<open>client/conn/protocol/\<close>), files the connection under a key in a pool (\<open>client/mod.rs\<close>)
  and sends requests that were made fit for the protocol (\<open>service/host.rs\<close>,
  \<open>service/http.rs\<close>). \<open>client/builder.rs\<close> puts these together. \<open>service/\<close> holds the
  middleware both sides use.

  \<^bold>\<open>Conventions.\<close> A type with a \<open>poll\<close> method is a function from its state and a world to a
  result, the next state and the next world; a result is \<open>Ready\<close>, \<open>Pending\<close> or
  \<open>Panicked\<close>, so \<open>unwrap\<close>, \<open>expect\<close>, \<open>panic!\<close> and \<open>debug_assert!\<close> are branches of the
  model. \<open>Result\<close> is a sum with the error on the left. The world stands for everything
  outside the value: sockets, clocks, spawned tasks. A tower service is a dictionary of its
  three operations (\<open>poll_ready\<close>, \<open>call\<close> and the \<open>poll\<close> of its future), a stream one of its
  I/O operations, and a middleware a function on such dictionaries. A future is run by
  polling it a given number of times (\<open>run_polls\<close>); theorems on futures hold for every
  number of polls, so they say that the result arrives at the same poll as that of the
  future underneath, not only that it is right if it arrives. An async block is cut at its
  awaits; the reference for one that awaits a future and goes on is \<open>run_then\<close>, in which what
  follows gets the polls that are left, the current one included. Code that is not in the crate
  (hyper, tokio, tower, tower-http, http, chateau) is a parameter, and what is relied on is a
  named law (\<open>uri_laws\<close>, \<open>header_laws\<close>, \<open>sleep_laws\<close>, \<open>full_laws\<close>, \<open>tls_transport_laws\<close>, ...)
  with an instance that the witnesses use.

  \<^bold>\<open>Interfaces.\<close> Every wrapper of the crate forwards to what it wraps, up to a map of the
  state and of the outcome. The theory \<open>Wrappers\<close> states this once, as locales for futures
  (\<open>future_wrapper\<close>, and \<open>future_await\<close> for a future that goes on with another one), services (\<open>service_wrapper\<close> and its extensions) and streams
  (\<open>io_forwarder\<close>), and proves inside them that whole runs and whole I/O sessions are
  forwarded; each component interprets the locale on its own definitions, and its properties
  rest on the facts of the interpretation.

  \<^bold>\<open>Theories.\<close>
  \<^item> \<open>Prelude\<close>: polled results, outcomes, services, runs of futures, the I/O dictionary,
    and the maps that lift a result into a larger state.
  \<^item> \<open>Wrappers\<close>: the interface locales above.
  \<^item> \<open>Http_Types\<close>: \<open>info/mod.rs\<close>, and requests, responses and the http crate as a dictionary.
  \<^item> \<open>Byte_Io\<close>: \<open>bridge/io.rs\<close> and \<open>rewind.rs\<close>. The rewinding reader refines the stream that
    first gives the prefix; the two directions of the bridge are inverse.
  \<^item> \<open>Service_Layers\<close>: \<open>bridge/service.rs\<close> and \<open>option.rs\<close>, \<open>error.rs\<close>, \<open>timeout.rs\<close> and
    \<open>incoming.rs\<close> of \<open>service/\<close>.
  \<^item> \<open>Server_Conn\<close>, \<open>Server_Auto\<close>: \<open>server/conn/mod.rs\<close>, \<open>auto.rs\<close> and \<open>connecting.rs\<close>. The
    bytes read for detection are the bytes replayed; the decision is a function of them; the
    state machine of a connection never serves one with lost bytes and never panics. The
    reading loop is total by a measure: the preface has 24 bytes, of which each round reads
    at least one.
  \<^item> \<open>Server_Info\<close>, \<open>Server_Sni\<close>: \<open>server/conn/info.rs\<close> and \<open>server/conn/tls/sni.rs\<close>.
  \<^item> \<open>Server_Path\<close>: what crosses the server's components: the bytes of a connection from the
    accepted stream to hyper, of which those of an HTTP/1 peer are never taken for HTTP/2, and
    a request from the TLS handshake through the SNI check to the handler.
  \<^item> \<open>Http_Checks\<close>: \<open>service/host.rs\<close> and \<open>service/http.rs\<close>, with the executor stack of
    \<open>client/builder.rs\<close>: what a request looks like when it reaches an HTTP/1 or HTTP/2
    connection.
  \<^item> \<open>Happy_Eyeballs\<close>: \<open>happy_eyeballs.rs\<close> as a step relation between its suspension points.
    Which future completes next, and when, is a free event. Every run is bounded by a
    measure; the result is the first success in completion order, or the first error.
  \<^item> \<open>Streams\<close>: \<open>stream/core.rs\<close>, \<open>server/conn/stream.rs\<close>, \<open>server/conn/acceptor.rs\<close> and
    \<open>client/conn/stream/mod.rs\<close>.
  \<^item> \<open>Client_Conn\<close>: \<open>client/conn/connection.rs\<close> and \<open>client/conn/protocol/\<close>.
  \<^item> \<open>Client_Transport\<close>: \<open>client/conn/tls.rs\<close>. \<open>Client_Dns\<close>: \<open>client/conn/dns.rs\<close> and
    \<open>client/conn/transport/unix.rs\<close>.
  \<^item> \<open>Client_Handle\<close>: \<open>client/mod.rs\<close>: the pool key, and the client as a copy-on-write handle
    over an explicit store of \<open>Arc\<close> cells. \<open>Client_Builder\<close>: \<open>client/error.rs\<close>,
    \<open>client/builder.rs\<close> and the default TLS configuration. \<open>Client_Api\<close>: the constructors of
    the client, its service implementation and \<open>get\<close>.
  \<^item> \<open>Service_Files\<close>: \<open>client.rs\<close>, \<open>shared.rs\<close>, \<open>make.rs\<close> and \<open>serviceref.rs\<close> of \<open>service/\<close>,
    which no module of the crate names; the executor and the shared service meet the laws
    that the client path asks of chateau's.
  \<^item> \<open>Client_Path\<close>: a request of the client across its transport, its protocol, the checks
    and its connection, to what hyper is given to send.
  \<^item> \<open>Body\<close>: \<open>body/mod.rs\<close>. \<open>Client_Mock\<close>: the mock stream and protocol.
    \<open>Server_Builder\<close>: \<open>server/builder.rs\<close>. \<open>Runtime\<close>: \<open>bridge/rt.rs\<close>.
  \<^item> \<open>Joint_Path\<close>: a client and a server connected to each other choose the same protocol.
    \<open>Joint_Sni\<close>: which requests on a pooled TLS connection pass the server's SNI check.
  \<^item> \<open>Uri_Text\<close>: an instance of the http crate's dictionary that reads URIs from text.
    \<open>Unit_Tests\<close>, \<open>Unit_Tests_Async\<close>, \<open>Unit_Tests_Client\<close>: the unit tests that stand beside the
    code, as definitions that evaluate on the model, with the lemma that each passes. For the
    race, the step relation is given as a function that follows a schedule.
  \<^item> \<open>Tls_Config\<close>: \<open>lib.rs\<close>, with the TLS configurations of its test fixtures, and that of the
    TLS server example.
  \<^item> \<open>Async_Block\<close>, \<open>Rust_Text\<close>: whole async blocks, sequenced and awaited, and Rust's
    operations on text; both serve the examples.
  \<^item> \<open>Example_Io\<close>: the loops over a response body in the programs under \<open>examples/\<close>, as
    interpretations of one locale. \<open>Example_Local\<close>, \<open>Example_Single_Threaded\<close>, \<open>Example_Run\<close>:
    \<open>examples/single_threaded.rs\<close>, the client's four requests followed to the server's counter
    and back to what is printed. \<open>Example_Cli\<close>, \<open>Example_Clients\<close>, \<open>Example_Cli_Run\<close>: the
    command line clients of \<open>examples/client/\<close>, from their arguments to what they print.
    \<open>Example_Tls_Server\<close>: \<open>examples/server/h2.rs\<close>.
  \<^item> This theory: the path of a request through a server, from hyper to the user's handler.

  \<^bold>\<open>Async blocks.\<close> A program that awaits one thing after the other is a function from the world
  to what its run gives, or \<open>None\<close> when it never ends (\<open>Async_Block\<close>). Awaiting a future is
  the partial function that polls it until it is ready; it gives a value exactly when some
  number of polls does. A loop that may not end is a partial function too, and the theorems
  on such programs say that they return, for bodies and requests that end.

  \<^bold>\<open>Not modelled.\<close> The sockets, the trust store, spawning and the rest of tokio and rustls,
  which are parameters; logging, the set-up of tracing and telemetry, the parsing of command
  lines, and \<open>Debug\<close> output; the integration tests, and the unit tests of sockets, of TLS
  handshakes and of chateau's own types. Pinning, wakers and memory are not represented: a poll
  sees the world, and when to poll again is up to the run. Durations and instants are natural
  numbers. Uris, headers and authorities are abstract, behind the dictionary \<open>http_api\<close>; text
  is ASCII.

  \<^bold>\<open>Plan.\<close> First the server's detection and rewinding, the happy eyeballs algorithm and the
  request checks, then the middleware, the streams and the client's connection and transport,
  then the handle, the builder and the bodies, then the paths through server and client, then
  both connected to each other and the programs that use the crate. Still open: the
  connection pool between the transport and the executor of a client, which is chateau's.
\<close>

section \<open>The path of a request through a server\<close>

text \<open>
  The service a connection hands to hyper, for a handler \<open>S\<close>: the body adapter around the
  connection information.
\<close>

definition served_ops ::
  "('s \<Rightarrow> 's) \<Rightarrow> ('ci \<Rightarrow> 'i) \<Rightarrow> ('b1 \<Rightarrow> 'b2) \<Rightarrow>
     ('s, ('u, 'h, ('i, 'tls, 'ua) extensions, 'b2) request, 'f, 'e, 'a, 'w) service \<Rightarrow>
     (('s, 'ci) connection_with_info incoming_request,
      ('u, 'h, ('i, 'tls, 'ua) extensions, 'b1) request, 'f, 'e, 'a, 'w) service" where
  "served_ops clone erase conv S = incoming_request_service conv (connection_with_info_ops clone erase S)"

lemma connection_with_info_run:
  "out_res (run_call (connection_with_info_ops clone erase S) n \<lparr>cwi_inner = s, cwi_info = Some i\<rparr> r w) =
     out_res (run_call S n s (insert_connection_info (erase i) r) w)"
  by (simp add: run_call_def connection_with_info_ops_def connection_with_info_call_def Let_def
      split: prod.split outcome.split)

lemma connection_with_info_oneshot:
  "oneshot_run (connection_with_info_ops clone erase S) n \<lparr>cwi_inner = s, cwi_info = Some i\<rparr> r w =
     oneshot_run S n s (insert_connection_info (erase i) r) w"
  unfolding oneshot_run_def
  by (subst run_then_map [where p = "poll_ready S" and h = id and
        wrap = "\<lambda>s. \<lparr>cwi_inner = s, cwi_info = Some i\<rparr>"])
    (simp add: connection_with_info_ops_def,
      auto simp: connection_with_info_run intro!: run_then_cong split: sum.split)

text \<open>
  C17: A request through a served connection, end to end. Every request that hyper hands to
  the adapted service of a connection, not only the first, reaches a clone of the user's
  handler once that clone is ready, exactly once, with the connection's information in its
  extensions and with its body converted; the outcome hyper sees is the handler's, or the
  error of its readiness, at the same poll.
\<close>

theorem server_request_path:
  assumes "oneshot_law (served_ops clone erase conv S) oneshot p"
  shows "out_res (run_polls (tower_hyper_future_poll p) n
      (tower_hyper_call (incoming_request_clone (connection_with_info_clone clone)) oneshot
        (adapted \<lparr>cwi_inner = s, cwi_info = Some i\<rparr>) req) w) =
    oneshot_run S n (clone s) (insert_connection_info (erase i) (map_request_body conv req)) w"
proof -
  let ?svc = "incoming_request_layer \<lparr>cwi_inner = clone s, cwi_info = Some i\<rparr>"
  have "tower_hyper_call (incoming_request_clone (connection_with_info_clone clone)) oneshot
      (adapted \<lparr>cwi_inner = s, cwi_info = Some i\<rparr>) req = \<lparr>thf_future = oneshot ?svc req\<rparr>"
    by (simp add: tower_hyper_call_def adapted_def tower_hyper_new_def incoming_request_new_def
        incoming_request_clone_def connection_with_info_clone_def incoming_request_layer_def)
  moreover have "out_res (run_polls p n (oneshot ?svc req) w) =
      oneshot_run (served_ops clone erase conv S) n ?svc req w"
    using assms by (simp add: oneshot_law_def)
  moreover have "oneshot_run (served_ops clone erase conv S) n ?svc req w =
      oneshot_run S n (clone s) (insert_connection_info (erase i) (map_request_body conv req)) w"
    by (simp add: served_ops_def incoming_request.oneshot_map connection_with_info_oneshot
        sum.map_id0 polled.map_id0 prod.map_id0)
  ultimately show ?thesis
    by (simp add: tower_hyper_fut.run_wrap polled.map_id0 prod.map_id0)
qed

text \<open>
  A future that waits for the service and calls it in the poll in which it is ready: an
  instance of the law.
\<close>

datatype ('s, 'r, 'f) one_shot = Os_Start 's 'r | Os_Fut 'f | Os_Done

definition one_shot_called ::
  "('s, 'r, 'f, 'e, 'a, 'w) service \<Rightarrow> 'r \<Rightarrow> 'e + unit \<Rightarrow> 's \<Rightarrow> 'w \<Rightarrow>
     ('e + 'a) polled \<times> ('s, 'r, 'f) one_shot \<times> 'w" where
  "one_shot_called S r res s w =
     (case res of
        Inl e \<Rightarrow> (Ready (Inl e), Os_Done, w)
      | Inr u \<Rightarrow>
          (case call S s r w of
             (Panic, s', w') \<Rightarrow> (Panicked, Os_Done, w')
           | (Ret f, s', w') \<Rightarrow> lift_res Os_Fut (poll_fut S f w')))"

definition one_shot_poll ::
  "('s, 'r, 'f, 'e, 'a, 'w) service \<Rightarrow> (('s, 'r, 'f) one_shot, 'e + 'a, 'w) pollf" where
  "one_shot_poll S self w =
     (case self of
        Os_Start s r \<Rightarrow>
          (case poll_ready S s w of
             (Pending, s', w') \<Rightarrow> (Pending, Os_Start s' r, w')
           | (Panicked, s', w') \<Rightarrow> (Panicked, Os_Done, w')
           | (Ready res, s', w') \<Rightarrow> one_shot_called S r res s' w')
      | Os_Fut f \<Rightarrow> lift_res Os_Fut (poll_fut S f w)
      | Os_Done \<Rightarrow> (Panicked, Os_Done, w))"

interpretation one_shot: future_wrapper "poll_fut S" "one_shot_poll S" Os_Fut id for S
  by unfold_locales (simp add: one_shot_poll_def)

interpretation one_shot_ready:
  future_await "poll_ready S" "one_shot_poll S" "\<lambda>s. Os_Start s r" "one_shot_called S r" for S r
  by unfold_locales (simp_all add: one_shot_poll_def)

lemma one_shot_called_run:
  "out_res (continue_polls (one_shot_poll S) m (one_shot_called S r (Inr u) s w)) =
     out_res (run_call S (Suc m) s r w)"
proof -
  obtain c s' w' where c: "call S s r w = (c, s', w')" by (cases "call S s r w") auto
  show ?thesis
  proof (cases c)
    case Panic
    with c show ?thesis by (simp add: one_shot_called_def run_call_def)
  next
    case (Ret f)
    obtain q f' w'' where "poll_fut S f w' = (q, f', w'')" by (cases "poll_fut S f w'") auto
    with c Ret show ?thesis
      by (cases q)
        (auto simp: one_shot_called_def run_call_def one_shot.run_wrap polled.map_id0 out_res_def split: prod.split)
  qed
qed

lemma one_shot_law: "oneshot_law S Os_Start (one_shot_poll S)"
proof -
  have "out_res (continue_polls (one_shot_poll S) (m - 1) (one_shot_called S r res s w)) =
      (case res of Inl e \<Rightarrow> (Ready (Inl e), w) | Inr u \<Rightarrow> out_res (run_call S m s r w))"
    if "0 < m" for m res s r w
    using that one_shot_called_run [of S "m - 1" r _ s w]
    by (cases res) (auto simp: one_shot_called_def)
  then show ?thesis
    by (auto simp: oneshot_law_def oneshot_run_def one_shot_ready.run_await intro!: run_then_cong)
qed

lemma server_request_path_witness:
  "out_res (run_polls (tower_hyper_future_poll (one_shot_poll (served_ops id id length echo_service))) 1
      (tower_hyper_call (incoming_request_clone (connection_with_info_clone id)) Os_Start
        (adapted \<lparr>cwi_inner = (), cwi_info = Some ''peer''\<rparr>)
        \<lparr>rq_method = GET, rq_uri = ''/'', rq_version = HTTP_11, rq_headers = (), rq_ext = no_extensions,
         rq_body = ''abc''\<rparr>) ()) =
    (Ready (Inr (\<lparr>rq_method = GET, rq_uri = ''/'', rq_version = HTTP_11, rq_headers = (),
         rq_ext = (no_extensions :: (string, unit, unit) extensions)\<lparr>ext_connection_info := Some ''peer''\<rparr>,
         rq_body = 3\<rparr>)), ())"
  unfolding server_request_path [OF one_shot_law]
  by (simp add: oneshot_run_def run_call_def echo_service_def insert_connection_info_def map_request_body_def
      eval_nat_numeral)

end
